(* ===== verification/Prelude.thy ===== *)
theory Prelude
  imports Main "HOL-Library.List_Lexorder" "HOL-Library.Char_ord" "HOL-Library.AList"
begin

text \<open>
  Shared vocabulary of the development.

  \<^item> The error monad: a Python function that may raise is a HOL function into
    \<open>'e + 'a\<close>; \<open>Inl\<close> is the exception, \<open>Inr\<close> the returned value. \<open>bindE\<close>
    sequences two such computations, \<open>guardE\<close> and \<open>raise_if\<close> are the
    \<open>if ...: raise ...\<close> statements, \<open>mapE\<close> and \<open>foldE\<close> the loops that stop at
    the first exception.
  \<^item> Python dictionaries: association lists in insertion order, with
    \<^const>\<open>AList.update\<close> as item assignment.
  \<^item> The collections \<open>res_iff\<close> (inversion of successful runs) and \<open>wf_intros\<close>
    (well-formedness of built values), which the component theories extend.
\<close>

named_theorems res_iff \<open>characterisations of computations that return a value\<close>
named_theorems wf_intros \<open>introduction rules for well-formedness predicates\<close>


section \<open>Computations that may raise\<close>

definition bindE :: "'e + 'a \<Rightarrow> ('a \<Rightarrow> 'e + 'b) \<Rightarrow> 'e + 'b" where
  "bindE m f = (case m of Inl e \<Rightarrow> Inl e | Inr x \<Rightarrow> f x)"

definition guardE :: "bool \<Rightarrow> 'e \<Rightarrow> 'e + unit" where
  "guardE ok e = (if ok then Inr () else Inl e)"

definition raise_if :: "bool \<Rightarrow> 'e \<Rightarrow> 'e + unit" where
  "raise_if bad e = (if bad then Inl e else Inr ())"

fun mapE :: "('a \<Rightarrow> 'e + 'b) \<Rightarrow> 'a list \<Rightarrow> 'e + 'b list" where
  "mapE f [] = Inr []"
| "mapE f (x # xs) = bindE (f x) (\<lambda>y. bindE (mapE f xs) (\<lambda>ys. Inr (y # ys)))"

fun foldE :: "('a \<Rightarrow> 's \<Rightarrow> 'e + 's) \<Rightarrow> 'a list \<Rightarrow> 's \<Rightarrow> 'e + 's" where
  "foldE f [] s = Inr s"
| "foldE f (x # xs) s = bindE (f x s) (foldE f xs)"

lemma bindE_simps [simp]:
  "bindE (Inl e) f = Inl e"
  "bindE (Inr x) f = f x"
  by (simp_all add: bindE_def)

lemma bindE_eq_Inr [res_iff]: "bindE m f = Inr y \<longleftrightarrow> (\<exists>x. m = Inr x \<and> f x = Inr y)"
  by (cases m) simp_all

lemma bindE_InrE: "bindE m f = Inr y \<Longrightarrow> (\<And>x. m = Inr x \<Longrightarrow> f x = Inr y \<Longrightarrow> P) \<Longrightarrow> P"
  by (auto simp: bindE_eq_Inr)

lemma bindE_InrI: "m = Inr x \<Longrightarrow> f x = Inr y \<Longrightarrow> bindE m f = Inr y"
  by simp

lemma bindE_eq_Inl [res_iff]:
  "bindE m f = Inl e \<longleftrightarrow> m = Inl e \<or> (\<exists>x. m = Inr x \<and> f x = Inl e)"
  by (cases m) simp_all

lemma bindE_assoc: "bindE (bindE m f) g = bindE m (\<lambda>x. bindE (f x) g)"
  by (cases m) simp_all

lemma guardE_iff [simp]:
  "guardE ok e = Inr u \<longleftrightarrow> ok"
  "guardE ok e = Inl e' \<longleftrightarrow> \<not> ok \<and> e' = e"
  by (auto simp: guardE_def)

lemma guardE_simps [simp]: "guardE True e = Inr ()" "guardE False e = Inl e"
  by (simp_all add: guardE_def)

lemma raise_if_iff [simp]:
  "raise_if bad e = Inr u \<longleftrightarrow> \<not> bad"
  "raise_if bad e = Inl e' \<longleftrightarrow> bad \<and> e' = e"
  by (auto simp: raise_if_def)

lemma raise_if_simps [simp]: "raise_if True e = Inl e" "raise_if False e = Inr ()"
  by (simp_all add: raise_if_def)

lemma if_Inl_eq_Inr [res_iff]: "(if b then Inl e else m) = Inr x \<longleftrightarrow> \<not> b \<and> m = Inr x"
  by simp

lemma mapE_eq_Inr [res_iff]: "mapE f xs = Inr ys \<longleftrightarrow> list_all2 (\<lambda>x y. f x = Inr y) xs ys"
proof (induction xs arbitrary: ys)
  case Nil
  then show ?case by (cases ys) simp_all
next
  case (Cons x xs)
  then show ?case by (cases ys) (auto simp: res_iff)
qed

lemma mapE_cong [fundef_cong]:
  "xs = ys \<Longrightarrow> (\<And>x. x \<in> set ys \<Longrightarrow> f x = g x) \<Longrightarrow> mapE f xs = mapE g ys"
  by (induction ys arbitrary: xs) auto

lemma mapE_length: "mapE f xs = Inr ys \<Longrightarrow> length ys = length xs"
  by (simp add: res_iff list_all2_lengthD)

lemma foldE_append [simp]: "foldE f (xs @ ys) s = bindE (foldE f xs s) (foldE f ys)"
proof (induction xs arbitrary: s)
  case Nil
  then show ?case by simp
next
  case (Cons x xs)
  then show ?case by (cases "f x s") simp_all
qed

text \<open>
  The loop rule: a property of the accumulator that every successful body keeps
  holds of the final accumulator.
\<close>

lemma foldE_invariant:
  assumes "foldE f xs s = Inr s'" and "P s"
    and "\<And>x t t'. x \<in> set xs \<Longrightarrow> P t \<Longrightarrow> f x t = Inr t' \<Longrightarrow> P t'"
  shows "P s'"
  using assms
proof (induction xs arbitrary: s)
  case Nil
  then show ?case by simp
next
  case (Cons x xs)
  from Cons.prems(1) obtain t where t: "f x s = Inr t" and rest: "foldE f xs t = Inr s'"
    by (auto simp: res_iff)
  have "P t" using Cons.prems(3) [of x s t] Cons.prems(2) t by simp
  moreover have "y \<in> set xs \<Longrightarrow> P u \<Longrightarrow> f y u = Inr u' \<Longrightarrow> P u'" for y u u'
    using Cons.prems(3) [of y u u'] by simp
  ultimately show ?case by (rule Cons.IH [OF rest])
qed


section \<open>Python dictionaries\<close>

type_synonym 'v dict = "(string \<times> 'v) list"

definition keys :: "'v dict \<Rightarrow> string list" where
  "keys d = map fst d"

definition dput :: "string \<Rightarrow> 'v \<Rightarrow> 'v dict \<Rightarrow> 'v dict" where
  "dput k v d = AList.update k v d"

definition dict_wf :: "'v dict \<Rightarrow> bool" where
  "dict_wf d \<longleftrightarrow> distinct (map fst d)"

text \<open>\<open>dict(pairs)\<close>: a later pair overwrites an earlier one, in the earlier one's place.\<close>

definition dict_of_pairs :: "(string \<times> 'v) list \<Rightarrow> 'v dict" where
  "dict_of_pairs ps = foldl (\<lambda>d (k, v). dput k v d) [] ps"

lemma dput_simps [simp]:
  "dput k v [] = [(k, v)]"
  "dput k v ((k', w) # d) = (if k' = k then (k, v) # d else (k', w) # dput k v d)"
  by (simp_all add: dput_def)

lemma map_of_dput [simp]: "map_of (dput k v d) = (map_of d)(k \<mapsto> v)"
  by (simp add: dput_def update_conv')

lemma dput_fresh: "k \<notin> fst ` set d \<Longrightarrow> dput k v d = d @ [(k, v)]"
  by (induction d) auto

lemma dict_wf_dput [wf_intros]: "dict_wf d \<Longrightarrow> dict_wf (dput k v d)"
  by (simp add: dict_wf_def dput_def distinct_update)

lemma fst_set_dput [simp]: "fst ` set (dput k v d) = insert k (fst ` set d)"
  by (simp add: dput_def dom_update)

lemma foldl_dput_append:
  "distinct (map fst (d @ ps)) \<Longrightarrow> foldl (\<lambda>d (k, v). dput k v d) d ps = d @ ps"
proof (induction ps arbitrary: d)
  case Nil
  then show ?case by simp
next
  case (Cons p ps)
  obtain k v where p: "p = (k, v)" by (cases p)
  have "k \<notin> fst ` set d" using Cons.prems by (auto simp: p)
  moreover have "distinct (map fst ((d @ [(k, v)]) @ ps))" using Cons.prems by (auto simp: p)
  ultimately show ?case using Cons.IH [of "d @ [(k, v)]"] by (simp add: p dput_fresh)
qed

lemma dict_of_pairs_wf: "dict_wf ps \<Longrightarrow> dict_of_pairs ps = ps"
  using foldl_dput_append [of "[]" ps] by (simp add: dict_of_pairs_def dict_wf_def)

lemma dict_wf_dict_of_pairs [wf_intros]: "dict_wf (dict_of_pairs ps)"
proof -
  have "dict_wf d \<Longrightarrow> dict_wf (foldl (\<lambda>d (k, v). dput k v d) d ps)" for d :: "'a dict"
    by (induction ps arbitrary: d) (auto simp: wf_intros)
  then show ?thesis by (simp add: dict_of_pairs_def dict_wf_def)
qed

lemma dict_wf_simps [simp]:
  "dict_wf []"
  "dict_wf ((k, v) # d) \<longleftrightarrow> k \<notin> fst ` set d \<and> dict_wf d"
  by (simp_all add: dict_wf_def)

lemma map_of_dict_wf: "dict_wf d \<Longrightarrow> map_of d k = Some v \<longleftrightarrow> (k, v) \<in> set d"
  by (simp add: dict_wf_def)


section \<open>Lists\<close>

lemma takeWhile_append_stop:
  "list_all P xs \<Longrightarrow> ys = [] \<or> \<not> P (hd ys) \<Longrightarrow> takeWhile P (xs @ ys) = xs"
  by (induction xs) (cases ys, auto)+

lemma dropWhile_append_stop:
  "list_all P xs \<Longrightarrow> ys = [] \<or> \<not> P (hd ys) \<Longrightarrow> dropWhile P (xs @ ys) = ys"
  by (induction xs) (cases ys, auto)+

lemma list_all2_map_fst:
  "list_all2 (\<lambda>x y. f x = g y) xs ys \<Longrightarrow> map f xs = map g ys"
  by (induction rule: list_all2_induct) auto



section \<open>Contracts\<close>

text \<open>
  Two contracts several components share. A \<open>codec\<close> reads what it printed back as the normal
  form of the value; an \<open>inductive_invariant\<close> holds at the start and is kept by every step.
\<close>

locale codec =
  fixes enc :: "'a \<Rightarrow> 'b" and dec :: "'b \<Rightarrow> 'a option" and ok :: "'a \<Rightarrow> bool" and norm :: "'a \<Rightarrow> 'a"
  assumes dec_enc: "ok x \<Longrightarrow> dec (enc x) = Some (norm x)"
begin

lemma enc_norm_inject: "ok x \<Longrightarrow> ok y \<Longrightarrow> enc x = enc y \<Longrightarrow> norm x = norm y"
  by (metis dec_enc option.inject)

lemma enc_inject: "(\<And>x. ok x \<Longrightarrow> norm x = x) \<Longrightarrow> ok x \<Longrightarrow> ok y \<Longrightarrow> enc x = enc y \<longleftrightarrow> x = y"
  by (metis enc_norm_inject)

lemma dec_map_enc: "list_all ok xs \<Longrightarrow> map (dec \<circ> enc) xs = map (Some \<circ> norm) xs"
  by (induction xs) (simp_all add: dec_enc)

end

locale inductive_invariant =
  fixes start :: "'s \<Rightarrow> bool" and step :: "'s \<Rightarrow> 's \<Rightarrow> bool" and inv :: "'s \<Rightarrow> bool"
  assumes start_inv: "start s \<Longrightarrow> inv s" and step_inv: "inv s \<Longrightarrow> step s s' \<Longrightarrow> inv s'"
begin

lemma steps_inv: "step\<^sup>*\<^sup>* s s' \<Longrightarrow> inv s \<Longrightarrow> inv s'"
  by (induction rule: rtranclp_induct) (auto intro: step_inv)

lemma reachable_inv: "start s \<Longrightarrow> step\<^sup>*\<^sup>* s s' \<Longrightarrow> inv s'"
  using steps_inv start_inv by blast

end

end
