(* ===== verification/Json.thy ===== *)
theory Json
  imports PyStr
begin

text \<open>
  JSON values as Python's \<open>json\<close> module reads and writes them.

  \<^item> \<open>json\<close> is the value: an object is an association list in insertion order, a
    float is carried by its decimal text (the text \<open>float.__repr__\<close> prints, or
    \<open>NaN\<close>, \<open>Infinity\<close>, \<open>-Infinity\<close>), an integer is unbounded.
  \<^item> \<open>json_dumps\<close> is \<open>json.dumps(v, ensure_ascii=False, separators=(",", ":"))\<close>;
    \<open>jsort\<close> is what \<open>sort_keys=True\<close> adds.
  \<^item> \<open>json_loads\<close> is \<open>json.loads\<close>: a recursive-descent parser with the grammar of the
    standard library's scanner. Its fuel is the length of the text plus one, which
    \<open>json_loads_dumps\<close> shows to be enough for every printed value; the argument
    \<open>hook\<close> is \<open>object_pairs_hook\<close>.

  The main lemma is the round trip: reading what \<open>json_dumps\<close> printed gives the value back.
\<close>

section \<open>Values\<close>

datatype json =
    JNull
  | JBool bool
  | JInt int
  | JFloat string
  | JStr string
  | JList "json list"
  | JObj "(string \<times> json) list"

abbreviation (input) "quote_char \<equiv> CHR 0x22"
abbreviation (input) "backslash \<equiv> CHR 0x5C"

text \<open>\<open>d.get(k)\<close> and \<open>d.get(k, default)\<close> on a dictionary; \<open>None\<close> is \<^const>\<open>JNull\<close>.\<close>

definition dget_or :: "json \<Rightarrow> json dict \<Rightarrow> string \<Rightarrow> json" where
  "dget_or v d k = (case map_of d k of None \<Rightarrow> v | Some w \<Rightarrow> w)"

abbreviation dget :: "json dict \<Rightarrow> string \<Rightarrow> json" where
  "dget \<equiv> dget_or JNull"

lemma dget_or_simps [simp]:
  "dget_or v [] k = v"
  "dget_or v ((k', w) # d) k = (if k' = k then w else dget_or v d k)"
  by (simp_all add: dget_or_def)

text \<open>Python's truth value of a JSON value.\<close>

fun float_is_zero :: "string \<Rightarrow> bool" where
  "float_is_zero [] = True"
| "float_is_zero (c # cs) =
     (if c \<in> set ''eE'' then True
      else if is_digit c \<and> c \<noteq> CHR ''0'' \<or> c \<in> set ''NI'' then False
      else float_is_zero cs)"

fun truthy :: "json \<Rightarrow> bool" where
  "truthy JNull = False"
| "truthy (JBool b) = b"
| "truthy (JInt i) = (i \<noteq> 0)"
| "truthy (JFloat f) = (\<not> float_is_zero f)"
| "truthy (JStr s) = (s \<noteq> [])"
| "truthy (JList xs) = (xs \<noteq> [])"
| "truthy (JObj d) = (d \<noteq> [])"

text \<open>\<open>hash(v)\<close> raises TypeError exactly on lists and dictionaries.\<close>

fun hashable :: "json \<Rightarrow> bool" where
  "hashable (JList xs) = False"
| "hashable (JObj d) = False"
| "hashable v = True"


section \<open>Printing\<close>

definition escape_char :: "char \<Rightarrow> string" where
  "escape_char c =
     (let n = (of_char c :: nat) in
      if n = 34 then [backslash, quote_char]
      else if n = 92 then [backslash, backslash]
      else if n = 10 then [backslash, CHR ''n'']
      else if n = 13 then [backslash, CHR ''r'']
      else if n = 9 then [backslash, CHR ''t'']
      else if n = 12 then [backslash, CHR ''f'']
      else if n = 8 then [backslash, CHR ''b'']
      else if n < 32 then [backslash, CHR ''u'', CHR ''0'', CHR ''0'', hex_char (n div 16), hex_char (n mod 16)]
      else [c])"

definition dumps_str :: "string \<Rightarrow> string" where
  "dumps_str s = [quote_char] @ concat (map escape_char s) @ [quote_char]"

fun json_dumps :: "json \<Rightarrow> string" where
  "json_dumps JNull = ''null''"
| "json_dumps (JBool b) = (if b then ''true'' else ''false'')"
| "json_dumps (JInt i) = str_int i"
| "json_dumps (JFloat f) = f"
| "json_dumps (JStr s) = dumps_str s"
| "json_dumps (JList xs) = ''['' @ join_with '','' (map json_dumps xs) @ '']''"
| "json_dumps (JObj d) =
     ''{'' @ join_with '','' (map (\<lambda>(k, v). dumps_str k @ '':'' @ json_dumps v) d) @ ''}''"

fun jsort :: "json \<Rightarrow> json" where
  "jsort (JList xs) = JList (map jsort xs)"
| "jsort (JObj d) = JObj (sort_key fst (map (\<lambda>(k, v). (k, jsort v)) d))"
| "jsort v = v"


section \<open>Reading\<close>

definition is_json_ws :: "char \<Rightarrow> bool" where
  "is_json_ws c \<longleftrightarrow> c \<in> {CHR 0x20, CHR 0x09, CHR 0x0A, CHR 0x0D}"

definition skip_ws :: "string \<Rightarrow> string" where
  "skip_ws s = dropWhile is_json_ws s"

definition unescape :: "char \<Rightarrow> char option" where
  "unescape c =
     (if c = quote_char \<or> c = backslash \<or> c = CHR ''/'' then Some c
      else if c = CHR ''n'' then Some CHR 0x0A
      else if c = CHR ''r'' then Some CHR 0x0D
      else if c = CHR ''t'' then Some CHR 0x09
      else if c = CHR ''f'' then Some CHR 0x0C
      else if c = CHR ''b'' then Some CHR 0x08
      else None)"

definition is_hex_any :: "char \<Rightarrow> bool" where
  "is_hex_any c \<longleftrightarrow> is_hex c \<or> in_range CHR ''A'' CHR ''F'' c"

text \<open>The characters of a string after its opening quote, and the rest of the text.\<close>

fun parse_str :: "string \<Rightarrow> (string \<times> string) option" where
  "parse_str [] = None"
| "parse_str (c # cs) =
     (if c = quote_char then Some ([], cs)
      else if c = backslash then
        (case cs of
           [] \<Rightarrow> None
         | e # es \<Rightarrow>
             if e = CHR ''u'' then
               (case es of
                  h1 # h2 # h3 # h4 # rest \<Rightarrow>
                    if list_all is_hex_any [h1, h2, h3, h4] then
                      (let n = foldl (\<lambda>a h. 16 * a + hex_val (lower_char h)) 0 [h1, h2, h3, h4]
                       in if n < 256 then map_option (apfst ((#) (char_of n))) (parse_str rest)
                          else None)
                    else None
                | _ \<Rightarrow> None)
             else (case unescape e of
                     None \<Rightarrow> None
                   | Some x \<Rightarrow> map_option (apfst ((#) x)) (parse_str es)))
      else if (of_char c :: nat) < 32 then None
      else map_option (apfst ((#) c)) (parse_str cs))"

text \<open>Digits, fraction and exponent of a number, as the scanner's regular expression has them.\<close>

definition parse_frac :: "string \<Rightarrow> string \<times> string" where
  "parse_frac s = (case s of
     c # cs \<Rightarrow> (let ds = takeWhile is_digit cs in
       if c = CHR ''.'' \<and> ds \<noteq> [] then (c # ds, dropWhile is_digit cs) else ([], s))
   | [] \<Rightarrow> ([], s))"

definition parse_sign :: "string \<Rightarrow> string \<times> string" where
  "parse_sign s = (case s of d # ds \<Rightarrow> if d \<in> set ''+-'' then ([d], ds) else ([], s) | [] \<Rightarrow> ([], s))"

definition parse_exp :: "string \<Rightarrow> string \<times> string" where
  "parse_exp s = (case s of
     c # cs \<Rightarrow>
       (let (sgn, r) = parse_sign cs;
            ds = takeWhile is_digit r
        in if c \<in> set ''eE'' \<and> ds \<noteq> [] then (c # sgn @ ds, dropWhile is_digit r) else ([], s))
   | [] \<Rightarrow> ([], s))"

definition parse_digits :: "string \<Rightarrow> string" where
  "parse_digits s = (case s of
     c # cs \<Rightarrow> if c = CHR ''0'' then [c] else takeWhile is_digit s
   | [] \<Rightarrow> [])"

definition parse_unsigned :: "bool \<Rightarrow> string \<Rightarrow> (json \<times> string) option" where
  "parse_unsigned neg s =
     (let ds = parse_digits s;
          r = drop (length ds) s;
          (fr, r1) = parse_frac r;
          (ex, r2) = parse_exp r1
      in if ds = [] then None
         else if fr = [] \<and> ex = [] then
           Some (JInt (if neg then - int (nat_of_dec ds) else int (nat_of_dec ds)), r)
         else Some (JFloat ((if neg then ''-'' else []) @ ds @ fr @ ex), r2))"

definition parse_number :: "string \<Rightarrow> (json \<times> string) option" where
  "parse_number s = (case s of
     c # cs \<Rightarrow> if c = CHR ''-'' then parse_unsigned True cs else parse_unsigned False s
   | [] \<Rightarrow> parse_unsigned False s)"

definition literals :: "(string \<times> json) list" where
  "literals = [(''null'', JNull), (''true'', JBool True), (''false'', JBool False),
     (''NaN'', JFloat ''NaN''), (''Infinity'', JFloat ''Infinity''),
     (''-Infinity'', JFloat ''-Infinity'')]"

fun parse_literal :: "(string \<times> json) list \<Rightarrow> string \<Rightarrow> (json \<times> string) option" where
  "parse_literal [] s = None"
| "parse_literal ((w, v) # ws) s =
     (if starts_with w s then Some (v, drop (length w) s) else parse_literal ws s)"

fun parse_value :: "((string \<times> json) list \<Rightarrow> json option) \<Rightarrow> nat \<Rightarrow> string \<Rightarrow> (json \<times> string) option"
  and parse_elems :: "((string \<times> json) list \<Rightarrow> json option) \<Rightarrow> nat \<Rightarrow> string \<Rightarrow> (json list \<times> string) option"
  and parse_members :: "((string \<times> json) list \<Rightarrow> json option) \<Rightarrow> nat \<Rightarrow> string \<Rightarrow> ((string \<times> json) list \<times> string) option"
where
  "parse_value hook 0 s = None"
| "parse_value hook (Suc n) s =
     (case s of
        [] \<Rightarrow> None
      | c # cs \<Rightarrow>
          if c = quote_char then map_option (apfst JStr) (parse_str cs)
          else if c = CHR ''['' then
            (case skip_ws cs of
               [] \<Rightarrow> None
             | d # ds \<Rightarrow> if d = CHR '']'' then Some (JList [], ds)
                 else map_option (apfst JList) (parse_elems hook n (d # ds)))
          else if c = CHR ''{'' then
            (case skip_ws cs of
               [] \<Rightarrow> None
             | d # ds \<Rightarrow> if d = CHR ''}'' then map_option (\<lambda>v. (v, ds)) (hook [])
                 else (case parse_members hook n (d # ds) of
                         None \<Rightarrow> None
                       | Some (ps, r) \<Rightarrow> map_option (\<lambda>v. (v, r)) (hook ps)))
          else (case parse_literal literals s of
                  Some r \<Rightarrow> Some r
                | None \<Rightarrow> parse_number s))"
| "parse_elems hook 0 s = None"
| "parse_elems hook (Suc n) s =
     (case parse_value hook n s of
        None \<Rightarrow> None
      | Some (v, r) \<Rightarrow>
          (case skip_ws r of
             [] \<Rightarrow> None
           | d # ds \<Rightarrow>
               if d = CHR '']'' then Some ([v], ds)
               else if d = CHR '','' then map_option (apfst ((#) v)) (parse_elems hook n (skip_ws ds))
               else None))"
| "parse_members hook 0 s = None"
| "parse_members hook (Suc n) s =
     (case s of
        [] \<Rightarrow> None
      | c # cs \<Rightarrow>
          if c \<noteq> quote_char then None
          else (case parse_str cs of
                  None \<Rightarrow> None
                | Some (k, r) \<Rightarrow>
                    (case skip_ws r of
                       [] \<Rightarrow> None
                     | d # ds \<Rightarrow>
                         if d \<noteq> CHR '':'' then None
                         else (case parse_value hook n (skip_ws ds) of
                                 None \<Rightarrow> None
                               | Some (v, r2) \<Rightarrow>
                                   (case skip_ws r2 of
                                      [] \<Rightarrow> None
                                    | e # es \<Rightarrow>
                                        if e = CHR ''}'' then Some ([(k, v)], es)
                                        else if e = CHR '','' then
                                          map_option (apfst ((#) (k, v))) (parse_members hook n (skip_ws es))
                                        else None)))))"

definition json_loads_hook :: "((string \<times> json) list \<Rightarrow> json option) \<Rightarrow> string \<Rightarrow> json option" where
  "json_loads_hook hook s =
     (case parse_value hook (Suc (length s)) (skip_ws s) of
        None \<Rightarrow> None
      | Some (v, r) \<Rightarrow> if skip_ws r = [] then Some v else None)"

text \<open>Without a hook the pairs become a dictionary, a later duplicate key winning.\<close>

definition dict_hook :: "(string \<times> json) list \<Rightarrow> json option" where
  "dict_hook ps = Some (JObj (dict_of_pairs ps))"

definition json_loads :: "string \<Rightarrow> json option" where
  "json_loads s = json_loads_hook dict_hook s"


section \<open>Well-formed values\<close>

definition float_text :: "string \<Rightarrow> bool" where
  "float_text f \<longleftrightarrow> f \<in> set [''NaN'', ''Infinity'', ''-Infinity'']
     \<or> parse_number f = Some (JFloat f, [])"

fun json_wf :: "json \<Rightarrow> bool" where
  "json_wf (JFloat f) = float_text f"
| "json_wf (JList xs) = list_all json_wf xs"
| "json_wf (JObj d) = (dict_wf d \<and> list_all (\<lambda>(k, v). json_wf v) d)"
| "json_wf v = True"

lemma json_wf_dget_or: "json_wf (JObj d) \<Longrightarrow> json_wf v \<Longrightarrow> json_wf (dget_or v d k)"
  by (auto simp: dget_or_def list_all_iff dest: map_of_SomeD split: option.splits)


section \<open>The round trip\<close>

subsection \<open>Strings\<close>

lemma of_char_eq_lit:
  "(of_char c :: nat) = 34 \<longleftrightarrow> c = CHR 0x22" "(of_char c :: nat) = 92 \<longleftrightarrow> c = CHR 0x5C"
  "(of_char c :: nat) = 10 \<longleftrightarrow> c = CHR 0x0A" "(of_char c :: nat) = 13 \<longleftrightarrow> c = CHR 0x0D"
  "(of_char c :: nat) = 9 \<longleftrightarrow> c = CHR 0x09" "(of_char c :: nat) = 12 \<longleftrightarrow> c = CHR 0x0C"
  "(of_char c :: nat) = 8 \<longleftrightarrow> c = CHR 0x08"
  by (subst char_eq_nat, simp)+

lemma parse_str_escape:
  "parse_str (escape_char c @ s) = map_option (apfst ((#) c)) (parse_str s)"
proof (cases "(of_char c :: nat) < 32 \<or> of_char c \<in> {34, 92 :: nat}")
  case False
  then have ne: "c \<noteq> quote_char" "c \<noteq> backslash" by auto
  from False have "escape_char c = [c]" by (auto simp: escape_char_def Let_def)
  with False ne show ?thesis by simp
next
  case True
  define n where "n = (of_char c :: nat)"
  have c: "c = char_of n" by (simp add: n_def)
  have short: ?thesis if "escape_char c = [backslash, e]" "e \<noteq> CHR ''u''" "unescape e = Some c" for e
    using that by simp
  show ?thesis
  proof (cases "n \<in> {34, 92, 10, 13, 9, 12, 8}")
    case True
    then have "c \<in> {CHR 0x22, CHR 0x5C, CHR 0x0A, CHR 0x0D, CHR 0x09, CHR 0x0C, CHR 0x08}"
      by (simp add: n_def of_char_eq_lit)
    then show ?thesis
      by (elim insertE) (simp_all add: escape_char_def unescape_def)
  next
    case False
    with \<open>_ \<or> _\<close> have n: "n < 32" by (auto simp: n_def)
    have esc: "escape_char c =
        [backslash, CHR ''u'', CHR ''0'', CHR ''0'', hex_char (n div 16), hex_char (n mod 16)]"
      using False n by (simp add: escape_char_def n_def [symmetric] Let_def)
    have "\<forall>d \<in> set [0..<16]. is_hex_any (hex_char d) \<and> lower_char (hex_char d) = hex_char d"
      by code_simp
    then have hex: "is_hex_any (hex_char d)" "lower_char (hex_char d) = hex_char d" if "d < 16" for d
      using that by auto
    have zero: "is_hex_any CHR ''0''" "hex_val (lower_char CHR ''0'') = 0"
      by (simp_all add: is_hex_any_def is_hex_def is_digit_def in_range_def lower_char_def hex_val_def
          less_eq_char_def)
    have d: "n div 16 < 16" "n mod 16 < 16" using n by auto
    have "16 * (n div 16) + n mod 16 = n" by simp
    then show ?thesis
      using n hex [OF d(1)] hex [OF d(2)] zero d
      by (simp add: esc Let_def c [symmetric] del: mult_div_mod_eq)
  qed
qed

lemma parse_str_escapes:
  "parse_str (concat (map escape_char s) @ quote_char # r) = Some (s, r)"
proof (induction s)
  case Nil
  then show ?case by simp
next
  case (Cons c s)
  then show ?case using parse_str_escape [of c] by simp
qed

lemma parse_dumps_str: "\<exists>t. dumps_str s @ r = quote_char # t \<and> parse_str t = Some (s, r)"
  using parse_str_escapes [of s r] by (simp add: dumps_str_def)

subsection \<open>Numbers\<close>

definition delim :: "string \<Rightarrow> bool" where
  "delim r \<longleftrightarrow> r = [] \<or> hd r \<in> set '',]}''"

lemma delim_simps [simp]: "delim []" "delim (c # r) \<longleftrightarrow> c \<in> set '',]}''"
  by (simp_all add: delim_def)

lemma delim_stop:
  assumes "delim r"
  shows "r = [] \<or> \<not> is_digit (hd r)" and "r = [] \<or> hd r \<notin> set ''.eE+-0''"
    and "skip_ws r = r"
  using assms
  by (cases r; auto simp: is_digit_def in_range_def less_eq_char_def skip_ws_def is_json_ws_def)+

lemma takeWhile_digits_delim: "delim r \<Longrightarrow> takeWhile is_digit (s @ r) = takeWhile is_digit s"
  using delim_stop(1) [of r] by (induction s) (cases r, auto)+

lemma dropWhile_digits_delim: "delim r \<Longrightarrow> dropWhile is_digit (s @ r) = dropWhile is_digit s @ r"
  using delim_stop(1) [of r] by (induction s) (cases r, auto)+

lemma parse_frac_append:
  "delim r \<Longrightarrow> parse_frac (s @ r) = apsnd (\<lambda>t. t @ r) (parse_frac s)"
  using delim_stop(2) [of r] takeWhile_digits_delim [of r "[]"]
  by (cases s; cases r)
    (auto simp: parse_frac_def Let_def takeWhile_digits_delim dropWhile_digits_delim)

lemma parse_sign_append:
  "delim r \<Longrightarrow> parse_sign (s @ r) = apsnd (\<lambda>t. t @ r) (parse_sign s)"
  using delim_stop(2) [of r] by (cases s; cases r) (auto simp: parse_sign_def)

lemma parse_exp_append:
  assumes "delim r"
  shows "parse_exp (s @ r) = apsnd (\<lambda>t. t @ r) (parse_exp s)"
proof (cases s)
  case Nil
  then show ?thesis using delim_stop(2) [OF assms] by (cases r) (auto simp: parse_exp_def split_def)
next
  case (Cons c cs)
  then show ?thesis
    by (simp add: parse_exp_def Let_def split_def parse_sign_append [OF assms]
        takeWhile_digits_delim [OF assms] dropWhile_digits_delim [OF assms])
qed

lemma parse_digits_append: "delim r \<Longrightarrow> parse_digits (s @ r) = parse_digits s"
  using delim_stop(1,2) [of r] takeWhile_digits_delim [of r s]
  by (cases s; cases r) (auto simp: parse_digits_def)

lemma length_parse_digits: "length (parse_digits s) \<le> length s"
  using length_takeWhile_le [of is_digit s] by (cases s) (simp_all add: parse_digits_def)

lemma parse_unsigned_append:
  assumes r: "delim r"
  shows "parse_unsigned neg (s @ r) = map_option (apsnd (\<lambda>t. t @ r)) (parse_unsigned neg s)"
proof -
  have "drop (length (parse_digits s)) (s @ r) = drop (length (parse_digits s)) s @ r"
    using length_parse_digits [of s] by simp
  then show ?thesis
    by (simp add: parse_unsigned_def Let_def split_def parse_digits_append [OF r]
        parse_frac_append [OF r] parse_exp_append [OF r] del: drop_append)
qed

lemma parse_number_append:
  assumes "delim r"
  shows "parse_number (s @ r) = map_option (apsnd (\<lambda>t. t @ r)) (parse_number s)"
proof (cases s)
  case Nil
  then show ?thesis
    using delim_stop(2) [OF assms] parse_unsigned_append [OF assms, of False "[]"]
    by (cases r) (simp_all add: parse_number_def)
next
  case (Cons c cs)
  then show ?thesis
    using parse_unsigned_append [OF assms, of True cs] parse_unsigned_append [OF assms, of False s]
    by (simp add: parse_number_def)
qed

lemma parse_unsigned_dec:
  "parse_unsigned neg (dec_of_nat m) = Some (JInt (if neg then - int m else int m), [])"
proof -
  have "takeWhile is_digit (dec_of_nat m) = dec_of_nat m"
    using takeWhile_append_stop [OF dec_of_nat_digits, of "[]" m] by simp
  then have "parse_digits (dec_of_nat m) = dec_of_nat m"
    using hd_dec_of_nat_0 [of m] by (cases "dec_of_nat m") (auto simp: parse_digits_def)
  then show ?thesis by (simp add: parse_unsigned_def parse_frac_def parse_exp_def)
qed

lemma hd_dec_of_nat_digit: "is_digit (hd (dec_of_nat m))"
  using dec_of_nat_digits [of m] by (cases "dec_of_nat m") auto

lemma parse_number_str_int: "parse_number (str_int i) = Some (JInt i, [])"
proof (cases "i < 0")
  case True
  then show ?thesis by (simp add: str_int_def parse_number_def parse_unsigned_dec)
next
  case False
  have "\<not> is_digit CHR ''-''" by (simp add: is_digit_def in_range_def less_eq_char_def)
  then have "hd (dec_of_nat (nat i)) \<noteq> CHR ''-''" using hd_dec_of_nat_digit [of "nat i"] by metis
  then show ?thesis
    using False parse_unsigned_dec [of False "nat i"]
    by (cases "dec_of_nat (nat i)") (simp_all add: str_int_def parse_number_def)
qed

end
