(* ===== verification/Json_Roundtrip.thy ===== *)
theory Json_Roundtrip
  imports Json "HOL-Library.Multiset"
begin

text \<open>
  Reading back what \<open>json.dumps\<close> printed.

  \<open>parse_value_dumps\<close> is the parser's correctness on printed values, for every
  continuation of the text that a value can have; \<open>json_loads_dumps\<close> closes it at the
  top level and shows that the fuel of \<open>json_loads_hook\<close> is enough. \<open>json_loads_canonical\<close>
  is the form the controller needs: what it stores is the value with sorted keys.
\<close>

section \<open>Printed values start with a character of their own\<close>

lemma parse_digits_hd: "parse_digits s \<noteq> [] \<Longrightarrow> s \<noteq> [] \<and> is_digit (hd s)"
  by (cases s) (auto simp: parse_digits_def is_digit_def in_range_def less_eq_char_def split: if_splits)

lemma parse_number_hd:
  assumes "parse_number s = Some w"
  shows "s \<noteq> [] \<and> (is_digit (hd s) \<or> hd s = CHR ''-'' \<and> tl s \<noteq> [] \<and> is_digit (hd (tl s)))"
proof -
  have digits: "t \<noteq> [] \<and> is_digit (hd t)" if "parse_unsigned neg t = Some w" for neg t
    using that parse_digits_hd [of t]
    by (auto simp: parse_unsigned_def Let_def split: prod.splits if_splits)
  show ?thesis
    using assms digits [of True "tl s"] digits [of False s]
    by (cases s) (auto simp: parse_number_def split: if_splits)
qed

lemma digit_facts:
  "is_digit c \<Longrightarrow> \<not> is_json_ws c"
  "is_digit c \<Longrightarrow> c \<notin> set ''[]{}-nftNI:,''"
  "is_digit c \<Longrightarrow> c \<noteq> CHR 0x22"
  by (auto simp: is_digit_def in_range_def less_eq_char_def is_json_ws_def)

lemma parse_literal_number:
  assumes "parse_number s = Some w"
  shows "parse_literal literals (s @ r) = None"
proof -
  from parse_number_hd [OF assms] consider
      (pos) c cs where "s = c # cs" "is_digit c"
    | (neg) c cs where "s = CHR ''-'' # c # cs" "is_digit c"
    by (cases s; cases "tl s") auto
  then show ?thesis
    by cases (use digit_facts(2) in \<open>auto simp: literals_def starts_with_def\<close>)
qed

definition value_start :: "char \<Rightarrow> bool" where
  "value_start c \<longleftrightarrow> \<not> is_json_ws c \<and> c \<notin> set '',:]}''"

lemma value_start_number: "parse_number s = Some w \<Longrightarrow> s \<noteq> [] \<and> value_start (hd s)"
  using parse_number_hd [of s w] digit_facts [of "hd s"]
  by (auto simp: value_start_def is_json_ws_def)

lemma dumps_start: "json_wf j \<Longrightarrow> json_dumps j \<noteq> [] \<and> value_start (hd (json_dumps j))"
proof (cases j)
  case (JInt i)
  then show ?thesis using value_start_number [OF parse_number_str_int [of i]] by simp
next
  case (JFloat f)
  moreover assume "json_wf j"
  ultimately show ?thesis
    using value_start_number [of f] by (auto simp: float_text_def value_start_def is_json_ws_def)
qed (auto simp: dumps_str_def value_start_def is_json_ws_def)

lemma skip_ws_start: "s \<noteq> [] \<Longrightarrow> value_start (hd s) \<Longrightarrow> skip_ws (s @ r) = s @ r"
  by (cases s) (auto simp: skip_ws_def value_start_def)

lemma skip_ws_delim [simp]: "c \<in> set '',:]}'' \<Longrightarrow> skip_ws (c # s) = c # s"
  by (auto simp: skip_ws_def is_json_ws_def)

lemma skip_ws_Nil [simp]: "skip_ws [] = []"
  by (simp add: skip_ws_def)

lemma skip_ws_dumps_str [simp]: "skip_ws (dumps_str s @ r) = dumps_str s @ r"
  by (simp add: dumps_str_def skip_ws_def is_json_ws_def)


section \<open>The parser on printed text\<close>

fun jneed :: "json \<Rightarrow> nat" where
  "jneed (JList xs) = Suc (sum_list (map (\<lambda>x. Suc (jneed x)) xs))"
| "jneed (JObj d) = Suc (sum_list (map (\<lambda>(k, v). Suc (jneed v)) d))"
| "jneed j = Suc 0"

definition reads_back :: "((string \<times> json) list \<Rightarrow> json option) \<Rightarrow> json \<Rightarrow> bool" where
  "reads_back hook j \<longleftrightarrow> json_dumps j \<noteq> [] \<and> value_start (hd (json_dumps j))
     \<and> (\<forall>n r. jneed j \<le> n \<longrightarrow> delim r \<longrightarrow> parse_value hook n (json_dumps j @ r) = Some (j, r))"

lemma reads_backD:
  assumes "reads_back hook j"
  shows "skip_ws (json_dumps j @ r) = json_dumps j @ r"
    and "jneed j \<le> n \<Longrightarrow> delim r \<Longrightarrow> parse_value hook n (json_dumps j @ r) = Some (j, r)"
  using assms by (auto simp: reads_back_def skip_ws_start)

lemma skip_ws_elems:
  assumes "reads_back hook x"
  shows "skip_ws (join_with '','' (map json_dumps (x # xs)) @ r) = join_with '','' (map json_dumps (x # xs)) @ r"
  using reads_backD(1) [OF assms] by (simp add: join_with_Cons)

lemma parse_elems_dumps:
  assumes "\<forall>x \<in> set xs. reads_back hook x" and "xs \<noteq> []"
    and "sum_list (map (\<lambda>x. Suc (jneed x)) xs) \<le> n"
  shows "parse_elems hook n (join_with '','' (map json_dumps xs) @ CHR '']'' # r) = Some (xs, r)"
  using assms
proof (induction xs arbitrary: n)
  case Nil
  then show ?case by simp
next
  case (Cons x xs)
  then obtain m where n: "n = Suc m" "jneed x \<le> m" "sum_list (map (\<lambda>x. Suc (jneed x)) xs) \<le> m"
    by (cases n) auto
  have x: "parse_value hook m (json_dumps x @ t) = Some (x, t)" if "delim t" for t
    using Cons.prems(1) reads_backD(2) [of hook x m t] n(2) that by simp
  show ?case
  proof (cases xs)
    case Nil
    then show ?thesis by (simp add: n(1) x)
  next
    case (Cons y ys)
    have "skip_ws (join_with '','' (map json_dumps xs) @ t) = join_with '','' (map json_dumps xs) @ t" for t
      using skip_ws_elems [of hook y ys] Cons.prems(1) unfolding Cons by simp
    then show ?thesis
      using Cons.IH [of m] Cons.prems(1) n(3) Cons by (simp add: n(1) x join_with_Cons)
  qed
qed

abbreviation dumps_member :: "string \<times> json \<Rightarrow> string" where
  "dumps_member \<equiv> \<lambda>(k, v). dumps_str k @ '':'' @ json_dumps v"

lemma skip_ws_members:
  "skip_ws (join_with '','' (map dumps_member (p # d)) @ r) = join_with '','' (map dumps_member (p # d)) @ r"
  by (cases p) (simp add: join_with_Cons)

lemma parse_members_dumps:
  assumes "\<forall>(k, v) \<in> set d. reads_back hook v" and "d \<noteq> []"
    and "sum_list (map (\<lambda>(k, v). Suc (jneed v)) d) \<le> n"
  shows "parse_members hook n (join_with '','' (map dumps_member d) @ CHR ''}'' # r) = Some (d, r)"
  using assms
proof (induction d arbitrary: n)
  case Nil
  then show ?case by simp
next
  case (Cons p d)
  obtain k v where p: "p = (k, v)" by (cases p)
  obtain m where n: "n = Suc m" "jneed v \<le> m" "sum_list (map (\<lambda>(k, v). Suc (jneed v)) d) \<le> m"
    using Cons.prems(3) by (cases n) (auto simp: p)
  have v: "skip_ws (json_dumps v @ t) = json_dumps v @ t"
      "delim t \<Longrightarrow> parse_value hook m (json_dumps v @ t) = Some (v, t)" for t
    using Cons.prems(1) reads_backD [of hook v] n(2) by (auto simp: p)
  show ?case
  proof (cases d)
    case Nil
    then show ?thesis
      using parse_str_escapes [of k "CHR '':'' # json_dumps v @ CHR ''}'' # r"]
      by (simp add: n(1) p v dumps_str_def)
  next
    case (Cons q e)
    have ws: "skip_ws (join_with '','' (map dumps_member d) @ t) = join_with '','' (map dumps_member d) @ t" for t
      using skip_ws_members [of q e] unfolding Cons .
    have IH: "parse_members hook m (join_with '','' (map dumps_member d) @ CHR ''}'' # r) = Some (d, r)"
      using Cons.IH [of m] Cons.prems(1) n(3) Cons by simp
    show ?thesis
      using parse_str_escapes [of k "CHR '':'' # json_dumps v @ CHR '','' # join_with '','' (map dumps_member d) @ CHR ''}'' # r"]
        ws IH Cons
      by (simp add: n(1) p v dumps_str_def join_with_Cons)
  qed
qed

lemma reads_back_number:
  assumes "json_dumps j = s" "parse_number s = Some (j, [])" "jneed j = Suc 0"
  shows "reads_back hook j"
proof -
  have start: "s \<noteq> []" "value_start (hd s)" using value_start_number [OF assms(2)] by auto
  obtain c cs where s: "s = c # cs" using start(1) by (cases s) auto
  have c: "c \<noteq> quote_char" "c \<noteq> CHR ''[''" "c \<noteq> CHR ''{''"
    using parse_number_hd [OF assms(2)] digit_facts(2,3) [of c] unfolding s
    by (cases "is_digit c"; simp)+
  have "parse_value hook n (s @ r) = Some (j, r)" if "Suc 0 \<le> n" "delim r" for n r
    using that c parse_number_append [OF that(2), of s] parse_literal_number [OF assms(2), of r] assms(2)
    by (cases n) (simp_all add: s)
  then show ?thesis using start assms by (simp add: reads_back_def)
qed

lemma reads_back_literal:
  assumes "json_dumps j = s" "s \<noteq> []" "value_start (hd s)" "hd s \<notin> set ''[{''" "hd s \<noteq> quote_char"
    and "\<And>r. parse_literal literals (s @ r) = Some (j, r)"
  shows "reads_back hook j"
proof -
  have "parse_value hook n (s @ r) = Some (j, r)" if "Suc 0 \<le> n" for n r
    using that assms(2,4,5) assms(6) [of r] by (cases n; cases s) simp_all
  moreover have "Suc 0 \<le> jneed j" by (cases j) simp_all
  ultimately show ?thesis using assms(1-3) by (auto simp: reads_back_def)
qed

lemma reads_back_list:
  assumes "\<forall>x \<in> set xs. reads_back hook x"
  shows "reads_back hook (JList xs)"
proof -
  have "parse_value hook n (json_dumps (JList xs) @ r) = Some (JList xs, r)"
    if n: "jneed (JList xs) \<le> n" for n r
  proof (cases xs)
    case Nil
    then show ?thesis using n by (cases n) simp_all
  next
    case (Cons x ys)
    obtain m where m: "n = Suc m" "sum_list (map (\<lambda>x. Suc (jneed x)) xs) \<le> m"
      using n by (cases n) auto
    let ?t = "join_with '','' (map json_dumps xs) @ CHR '']'' # r"
    have x: "reads_back hook x" using assms Cons by simp
    then obtain c cs where c: "?t = c # cs" "c \<noteq> CHR '']''"
      by (cases "json_dumps x") (auto simp: Cons join_with_Cons reads_back_def value_start_def)
    have "skip_ws ?t = ?t" using skip_ws_elems [OF x, of ys] unfolding Cons by simp
    moreover have "parse_elems hook m ?t = Some (xs, r)"
      using parse_elems_dumps [OF assms _ m(2)] Cons by simp
    ultimately show ?thesis using c by (simp add: m(1))
  qed
  then show ?thesis by (auto simp: reads_back_def value_start_def is_json_ws_def)
qed

lemma reads_back_obj:
  assumes "\<forall>(k, v) \<in> set d. reads_back hook v" and hook: "hook d = Some (JObj d)"
  shows "reads_back hook (JObj d)"
proof -
  have "parse_value hook n (json_dumps (JObj d) @ r) = Some (JObj d, r)"
    if n: "jneed (JObj d) \<le> n" for n r
  proof (cases d)
    case Nil
    then show ?thesis using n hook by (cases n) simp_all
  next
    case (Cons p e)
    obtain m where m: "n = Suc m" "sum_list (map (\<lambda>(k, v). Suc (jneed v)) d) \<le> m"
      using n by (cases n) auto
    let ?t = "join_with '','' (map dumps_member d) @ CHR ''}'' # r"
    obtain cs where c: "?t = quote_char # cs"
      by (cases p) (auto simp: Cons join_with_Cons dumps_str_def)
    have "skip_ws ?t = ?t" using skip_ws_members [of p e] unfolding Cons by simp
    moreover have "parse_members hook m ?t = Some (d, r)"
      using parse_members_dumps [OF assms(1) _ m(2)] Cons by simp
    ultimately show ?thesis using c hook by (simp add: m(1))
  qed
  then show ?thesis by (auto simp: reads_back_def value_start_def is_json_ws_def)
qed

lemma reads_back_str: "reads_back hook (JStr s)"
proof -
  have "parse_value hook n (dumps_str s @ r) = Some (JStr s, r)" if "Suc 0 \<le> n" for n r
    using that parse_str_escapes [of s r] by (cases n) (simp_all add: dumps_str_def)
  then show ?thesis by (auto simp: reads_back_def dumps_str_def value_start_def is_json_ws_def)
qed

lemma reads_back_float: "float_text f \<Longrightarrow> reads_back hook (JFloat f)"
proof (cases "parse_number f = Some (JFloat f, [])")
  case True
  then show ?thesis by (intro reads_back_number) simp_all
next
  case False
  moreover assume "float_text f"
  ultimately have "f \<in> set [''NaN'', ''Infinity'', ''-Infinity'']" by (simp add: float_text_def)
  then show ?thesis
    by (auto simp: literals_def starts_with_def value_start_def is_json_ws_def
        intro!: reads_back_literal)
qed

text \<open>\<open>keeps_dicts hook\<close>: the hook returns a dictionary without duplicates as it is.\<close>

definition keeps_dicts :: "((string \<times> json) list \<Rightarrow> json option) \<Rightarrow> bool" where
  "keeps_dicts hook \<longleftrightarrow> (\<forall>d. dict_wf d \<longrightarrow> hook d = Some (JObj d))"

theorem parse_value_dumps: "keeps_dicts hook \<Longrightarrow> json_wf j \<Longrightarrow> reads_back hook j"
proof (induction j)
  case (JList xs)
  then show ?case by (intro reads_back_list) (auto simp: list_all_iff)
next
  case (JObj d)
  then show ?case by (intro reads_back_obj) (fastforce simp: list_all_iff keeps_dicts_def)+
next
  case (JInt i)
  show ?case by (rule reads_back_number [OF _ parse_number_str_int]) simp_all
next
  case (JBool b)
  show ?case
    by (cases b) (auto simp: literals_def starts_with_def value_start_def is_json_ws_def
        intro!: reads_back_literal)
qed (auto simp: reads_back_str reads_back_float literals_def starts_with_def value_start_def
      is_json_ws_def intro!: reads_back_literal)


section \<open>Enough fuel\<close>

lemma sum_le_join:
  "\<forall>x \<in> set xs. f x \<le> length (g x) \<Longrightarrow>
   sum_list (map (\<lambda>x. Suc (f x)) xs) \<le> Suc (length (join_with '','' (map g xs)))"
proof (induction xs)
  case (Cons x xs)
  then show ?case by (cases xs) (auto simp: join_with_Cons)
qed simp

lemma jneed_length: "json_wf j \<Longrightarrow> jneed j \<le> length (json_dumps j)"
proof (induction j)
  case (JList xs)
  then have "\<forall>x \<in> set xs. jneed x \<le> length (json_dumps x)" by (auto simp: list_all_iff)
  from sum_le_join [OF this] show ?case by simp
next
  case (JObj d)
  then have "\<forall>p \<in> set d. jneed (snd p) \<le> length (dumps_member p)"
    by (fastforce simp: list_all_iff)
  from sum_le_join [OF this] show ?case by (simp add: split_def)
next
  case (JInt i)
  show ?case using dumps_start [of "JInt i"] by (cases "str_int i") auto
next
  case (JFloat f)
  then show ?case using dumps_start [of "JFloat f"] by (cases f) auto
qed (auto simp: dumps_str_def)

theorem json_loads_hook_dumps:
  assumes "keeps_dicts hook" "json_wf j"
  shows "json_loads_hook hook (json_dumps j) = Some j"
proof -
  have rb: "reads_back hook j" by (rule parse_value_dumps [OF assms])
  have "jneed j \<le> Suc (length (json_dumps j))" using jneed_length [OF assms(2)] by simp
  then show ?thesis
    using reads_backD(1) [OF rb, of "[]"] reads_backD(2) [OF rb, of "Suc (length (json_dumps j))" "[]"]
    by (simp add: json_loads_hook_def)
qed

lemma keeps_dicts_dict_hook: "keeps_dicts dict_hook"
  by (simp add: keeps_dicts_def dict_hook_def dict_of_pairs_wf)

theorem json_loads_dumps: "json_wf j \<Longrightarrow> json_loads (json_dumps j) = Some j"
  by (simp add: json_loads_def json_loads_hook_dumps keeps_dicts_dict_hook)


section \<open>Sorted keys\<close>

definition canonical_json :: "json \<Rightarrow> string" where
  "canonical_json j = utf8_encode (json_dumps (jsort j))"

lemma sort_key_fst_wf: "dict_wf d \<Longrightarrow> dict_wf (sort_key fst d)"
proof -
  assume "dict_wf d"
  moreover have "mset (map fst (sort_key fst d)) = mset (map fst d)" by simp
  ultimately show ?thesis unfolding dict_wf_def using mset_eq_imp_distinct_iff by blast
qed

lemma map_of_sort_key: "dict_wf d \<Longrightarrow> map_of (sort_key fst d) = map_of d"
proof
  fix k assume d: "dict_wf d"
  show "map_of (sort_key fst d) k = map_of d k"
    using map_of_dict_wf [OF d] map_of_dict_wf [OF sort_key_fst_wf [OF d]]
    by (metis not_Some_eq set_sort)
qed

lemma map_of_jsorted: "dict_wf d \<Longrightarrow> jsort (JObj d) = JObj e \<Longrightarrow> map_of e k = map_option jsort (map_of d k)"
proof -
  assume d: "dict_wf d" and e: "jsort (JObj d) = JObj e"
  let ?m = "map (\<lambda>(k, v). (k, jsort v)) d"
  have "dict_wf ?m" using d by (simp add: dict_wf_def comp_def split_def)
  moreover have "map_of ?m k = map_option jsort (map_of d k)" by (simp add: map_of_map)
  ultimately show ?thesis using e map_of_sort_key [of ?m] by auto
qed

lemma json_wf_jsort: "json_wf j \<Longrightarrow> json_wf (jsort j)"
proof (induction j)
  case (JList xs)
  then show ?case by (auto simp: list_all_iff)
next
  case (JObj d)
  have "dict_wf (map (\<lambda>(k, v). (k, jsort v)) d)"
    using JObj.prems by (simp add: dict_wf_def comp_def split_def)
  then show ?case
    using JObj by (auto simp: list_all_iff sort_key_fst_wf)
qed simp_all

theorem json_loads_canonical:
  "json_wf j \<Longrightarrow> map_option json_loads (utf8_decode (canonical_json j)) = Some (Some (jsort j))"
  by (simp add: canonical_json_def json_loads_dumps json_wf_jsort)

text \<open>Both printers are codecs: the compact one of the value, the canonical one up to the order of keys.\<close>

interpretation json_text: codec json_dumps json_loads json_wf "\<lambda>v. v"
  by unfold_locales (rule json_loads_dumps)

definition read_canonical :: "string \<Rightarrow> json option" where
  "read_canonical b = Option.bind (utf8_decode b) json_loads"

interpretation canonical_text: codec canonical_json read_canonical json_wf jsort
  by unfold_locales (simp add: read_canonical_def canonical_json_def json_loads_dumps json_wf_jsort)

lemma canonical_json_eq_iff:
  "json_wf a \<Longrightarrow> json_wf b \<Longrightarrow> canonical_json a = canonical_json b \<longleftrightarrow> jsort a = jsort b"
  using canonical_text.enc_norm_inject [of a b] by (auto simp: canonical_json_def)

section \<open>The parser returns well-formed values\<close>

lemma parse_digits_prefix:
  assumes "u = [] \<or> \<not> is_digit (hd u)"
  shows "parse_digits (parse_digits s @ u) = parse_digits s \<or> parse_digits s = []"
proof (cases s)
  case (Cons c cs)
  have "takeWhile is_digit (takeWhile is_digit s @ u) = takeWhile is_digit s" for s
    using assms by (induction s) (cases u, auto)+
  from this [of s] show ?thesis
    using Cons by (cases "takeWhile is_digit s") (auto simp: parse_digits_def split: if_splits)
qed (simp add: parse_digits_def)

lemma takeWhile_digits_stop:
  "u = [] \<or> \<not> is_digit (hd u) \<Longrightarrow> takeWhile is_digit (takeWhile is_digit s @ u) = takeWhile is_digit s"
  "u = [] \<or> \<not> is_digit (hd u) \<Longrightarrow> dropWhile is_digit (takeWhile is_digit s @ u) = u"
  by (induction s) (cases u, auto)+

lemma parse_frac_prefix:
  assumes "parse_frac s = (fr, r)" "u = [] \<or> hd u \<in> set ''eE''"
  shows "parse_frac (fr @ u) = (fr, u)" "fr = [] \<or> hd fr = CHR ''.''"
proof -
  have u: "u = [] \<or> \<not> is_digit (hd u)" "u = [] \<or> hd u \<noteq> CHR ''.''"
    using assms(2) by (auto simp: is_digit_def in_range_def less_eq_char_def)
  show "fr = [] \<or> hd fr = CHR ''.''"
    using assms(1) by (auto simp: parse_frac_def Let_def split: list.splits if_splits)
  show "parse_frac (fr @ u) = (fr, u)"
  proof (cases fr)
    case Nil
    then show ?thesis using u(2) by (cases u) (auto simp: parse_frac_def Let_def)
  next
    case (Cons c ds)
    then obtain cs where "s = c # cs" "c = CHR ''.''" "ds = takeWhile is_digit cs" "ds \<noteq> []"
      using assms(1) by (auto simp: parse_frac_def Let_def split: list.splits if_splits)
    then show ?thesis
      using takeWhile_digits_stop [OF u(1), of cs] Cons by (simp add: parse_frac_def Let_def)
  qed
qed

lemma parse_exp_prefix:
  assumes "parse_exp s = (ex, r)"
  shows "parse_exp ex = (ex, [])" "ex = [] \<or> hd ex \<in> set ''eE''"
proof -
  show "ex = [] \<or> hd ex \<in> set ''eE''"
    using assms by (auto simp: parse_exp_def Let_def split: list.splits prod.splits if_splits)
  show "parse_exp ex = (ex, [])"
  proof (cases ex)
    case (Cons c x)
    then obtain cs sgn t where s: "s = c # cs" "c \<in> set ''eE''" "parse_sign cs = (sgn, t)"
        "takeWhile is_digit t \<noteq> []" "x = sgn @ takeWhile is_digit t"
      using assms by (auto simp: parse_exp_def Let_def split: list.splits prod.splits if_splits)
    have "hd (takeWhile is_digit t) \<notin> set ''+-''"
      using s(4) set_takeWhileD [of "hd (takeWhile is_digit t)" is_digit t]
      by (auto simp: is_digit_def in_range_def less_eq_char_def)
    then have "parse_sign x = (sgn, takeWhile is_digit t)"
      using s(3,4,5) by (cases "takeWhile is_digit t") (auto simp: parse_sign_def split: list.splits if_splits)
    then show ?thesis using s Cons takeWhile_digits_stop(2) [of "[]" t] by (simp add: parse_exp_def Let_def)
  qed (simp add: parse_exp_def)
qed

lemma parse_unsigned_float:
  assumes "parse_unsigned neg s = Some (JFloat f, r)"
  shows "\<exists>g. f = (if neg then ''-'' else []) @ g \<and> g \<noteq> [] \<and> is_digit (hd g) \<and> parse_unsigned neg g = Some (JFloat f, [])"
proof -
  obtain fr r1 where fr: "parse_frac (drop (length (parse_digits s)) s) = (fr, r1)" by (cases "parse_frac (drop (length (parse_digits s)) s)")
  obtain ex r2 where ex: "parse_exp r1 = (ex, r2)" by (cases "parse_exp r1")
  let ?d = "parse_digits s"
  have f: "f = (if neg then ''-'' else []) @ ?d @ fr @ ex" and ne: "?d \<noteq> []" "fr \<noteq> [] \<or> ex \<noteq> []"
    using assms by (auto simp: parse_unsigned_def Let_def fr ex split: if_splits)
  note e = parse_exp_prefix [OF ex]
  note p = parse_frac_prefix [OF fr e(2)]
  have stop: "fr @ ex = [] \<or> \<not> is_digit (hd (fr @ ex))"
    using p(2) e(2) by (cases fr) (auto simp: is_digit_def in_range_def less_eq_char_def)
  have d: "parse_digits (?d @ fr @ ex) = ?d" using parse_digits_prefix [OF stop] ne(1) by blast
  have "parse_unsigned neg (?d @ fr @ ex) = Some (JFloat f, [])"
    using ne f p(1) e(1) by (auto simp: parse_unsigned_def d Let_def)
  moreover have "is_digit (hd (?d @ fr @ ex))"
    using parse_digits_hd [of "?d @ fr @ ex"] d ne(1) by simp
  ultimately show ?thesis using f ne(1) by blast
qed

lemma parse_number_float:
  assumes "parse_number s = Some (JFloat f, r)"
  shows "float_text f"
proof -
  obtain neg t where "parse_unsigned neg t = Some (JFloat f, r)"
    using assms by (auto simp: parse_number_def split: list.splits if_splits)
  then obtain g where g: "f = (if neg then ''-'' else []) @ g" "g \<noteq> []" "is_digit (hd g)"
      "parse_unsigned neg g = Some (JFloat f, [])"
    using parse_unsigned_float by blast
  have "hd g \<noteq> CHR ''-''" using g(3) by (auto simp: is_digit_def in_range_def less_eq_char_def)
  then have "parse_number f = Some (JFloat f, [])" using g by (cases g) (auto simp: parse_number_def)
  then show ?thesis by (simp add: float_text_def)
qed

lemma parse_number_wf: "parse_number s = Some (v, r) \<Longrightarrow> json_wf v"
proof (cases v)
  case (JFloat f)
  then show "parse_number s = Some (v, r) \<Longrightarrow> json_wf v" by (auto intro: parse_number_float)
qed (auto simp: parse_number_def parse_unsigned_def Let_def split: list.splits if_splits prod.splits)

lemma parse_literal_wf: "parse_literal literals s = Some (v, r) \<Longrightarrow> json_wf v"
  by (auto simp: literals_def float_text_def split: if_splits)

text \<open>\<open>makes_dicts hook\<close>: the hook returns well-formed values on members that are.\<close>

definition makes_dicts :: "((string \<times> json) list \<Rightarrow> json option) \<Rightarrow> bool" where
  "makes_dicts hook \<longleftrightarrow> (\<forall>ps v. list_all (\<lambda>(k, v). json_wf v) ps \<longrightarrow> hook ps = Some v \<longrightarrow> json_wf v)"

lemma parse_wf:
  assumes "makes_dicts hook"
  shows "parse_value hook n s = Some (v, r) \<Longrightarrow> json_wf v"
    and "parse_elems hook n s = Some (vs, r) \<Longrightarrow> list_all json_wf vs"
    and "parse_members hook n s = Some (ps, r) \<Longrightarrow> list_all (\<lambda>(k, v). json_wf v) ps"
proof (induction n arbitrary: s v vs ps r)
  case (Suc n)
  note split = list.split_asm if_split_asm option.split_asm prod.split_asm
  have hook: "json_wf w" if "list_all (\<lambda>(k, v). json_wf v) qs" "hook qs = Some w" for qs w
    using assms that by (auto simp: makes_dicts_def)
  {
    case 1
    then show ?case
      by (auto split: split simp: Suc.IH(2) dest: parse_literal_wf parse_number_wf Suc.IH(3) hook
          intro: hook [of "[]"])
  next
    case 2
    then show ?case by (auto split: split dest: Suc.IH(1,2))
  next
    case 3
    then show ?case by (auto split: split dest: Suc.IH(1,3))
  }
qed simp_all

lemma set_foldl_dput:
  "(k, v) \<in> set (foldl (\<lambda>d (k, v). dput k v d) d ps) \<Longrightarrow> (k, v) \<in> set d \<or> (k, v) \<in> set ps"
proof (induction ps arbitrary: d)
  case (Cons p ps)
  have "(k, v) \<in> set (dput a b d) \<Longrightarrow> (k, v) = (a, b) \<or> (k, v) \<in> set d" for a b
    by (induction d) (auto split: if_splits)
  with Cons show ?case by (cases p) fastforce
qed simp

lemma makes_dicts_dict_hook: "makes_dicts dict_hook"
  using set_foldl_dput [where d = "[]"]
  by (fastforce simp: makes_dicts_def dict_hook_def dict_wf_dict_of_pairs list_all_iff dict_of_pairs_def [symmetric])

theorem json_loads_wf: "json_loads s = Some v \<Longrightarrow> json_wf v"
  using parse_wf(1) [OF makes_dicts_dict_hook]
  by (auto simp: json_loads_def json_loads_hook_def simp del: parse_value.simps
      split: option.split_asm if_split_asm)

end
