(* ===== verification/Sha256.thy ===== *)
theory Sha256
  imports PyStr "HOL-Library.Word"
begin

text \<open>
  \<open>hashlib.sha256(data).hexdigest()\<close>: the hash function of FIPS 180-4 over
  \<^typ>\<open>32 word\<close>, on byte strings. The components use it for payload digests and for
  the names of the objects they create; what their proofs need is the shape of the
  digest, 64 lower-case hexadecimal characters (\<open>sha256_hexdigest_shape\<close>).
\<close>

unbundle bit_operations_syntax

definition rotr :: "nat \<Rightarrow> 32 word \<Rightarrow> 32 word" where
  "rotr n x = drop_bit n x OR push_bit (32 - n) x"

definition ch :: "32 word \<Rightarrow> 32 word \<Rightarrow> 32 word \<Rightarrow> 32 word" where
  "ch x y z = (x AND y) XOR (NOT x AND z)"

definition maj :: "32 word \<Rightarrow> 32 word \<Rightarrow> 32 word \<Rightarrow> 32 word" where
  "maj x y z = (x AND y) XOR (x AND z) XOR (y AND z)"

definition big_sigma0 :: "32 word \<Rightarrow> 32 word" where
  "big_sigma0 x = rotr 2 x XOR rotr 13 x XOR rotr 22 x"

definition big_sigma1 :: "32 word \<Rightarrow> 32 word" where
  "big_sigma1 x = rotr 6 x XOR rotr 11 x XOR rotr 25 x"

definition small_sigma0 :: "32 word \<Rightarrow> 32 word" where
  "small_sigma0 x = rotr 7 x XOR rotr 18 x XOR drop_bit 3 x"

definition small_sigma1 :: "32 word \<Rightarrow> 32 word" where
  "small_sigma1 x = rotr 17 x XOR rotr 19 x XOR drop_bit 10 x"

definition round_constants :: "32 word list" where
  "round_constants =
     [1116352408, 1899447441, 3049323471, 3921009573, 961987163, 1508970993,
      2453635748, 2870763221, 3624381080, 310598401, 607225278, 1426881987,
      1925078388, 2162078206, 2614888103, 3248222580, 3835390401, 4022224774,
      264347078, 604807628, 770255983, 1249150122, 1555081692, 1996064986,
      2554220882, 2821834349, 2952996808, 3210313671, 3336571891, 3584528711,
      113926993, 338241895, 666307205, 773529912, 1294757372, 1396182291,
      1695183700, 1986661051, 2177026350, 2456956037, 2730485921, 2820302411,
      3259730800, 3345764771, 3516065817, 3600352804, 4094571909, 275423344,
      430227734, 506948616, 659060556, 883997877, 958139571, 1322822218,
      1537002063, 1747873779, 1955562222, 2024104815, 2227730452, 2361852424,
      2428436474, 2756734187, 3204031479, 3329325298]"

text \<open>The chaining state: the eight working variables.\<close>

type_synonym hash_state = "32 word list"

definition initial_hash :: hash_state where
  "initial_hash =
     [1779033703, 3144134277, 1013904242, 2773480762, 1359893119, 2600822924,
      528734635, 1541459225]"

text \<open>Padding to a multiple of 64 bytes: 0x80, zeros, and the length in bits, big-endian.\<close>

fun be_bytes :: "nat \<Rightarrow> nat \<Rightarrow> nat list" where
  "be_bytes 0 n = []"
| "be_bytes (Suc k) n = be_bytes k (n div 256) @ [n mod 256]"

definition pad :: "nat list \<Rightarrow> nat list" where
  "pad m = (let l = length m in m @ [128] @ replicate ((119 - l mod 64) mod 64) 0 @ be_bytes 8 (8 * l))"

fun chunks :: "nat \<Rightarrow> nat \<Rightarrow> 'a list \<Rightarrow> 'a list list" where
  "chunks 0 k xs = []"
| "chunks (Suc n) k xs = (if xs = [] then [] else take k xs # chunks n k (drop k xs))"

definition word_of_bytes :: "nat list \<Rightarrow> 32 word" where
  "word_of_bytes bs = foldl (\<lambda>a b. a * 256 + of_nat b) 0 bs"

text \<open>The message schedule, kept in reverse order: the newest word first.\<close>

fun extend_schedule :: "nat \<Rightarrow> 32 word list \<Rightarrow> 32 word list" where
  "extend_schedule 0 ws = ws"
| "extend_schedule (Suc n) ws =
     extend_schedule n ((small_sigma1 (ws ! 1) + ws ! 6 + small_sigma0 (ws ! 14) + ws ! 15) # ws)"

definition schedule :: "nat list \<Rightarrow> 32 word list" where
  "schedule block = rev (extend_schedule 48 (rev (map word_of_bytes (chunks 16 4 block))))"

fun round_step :: "hash_state \<Rightarrow> 32 word \<times> 32 word \<Rightarrow> hash_state" where
  "round_step [a, b, c, d, e, f, g, h] (k, w) =
     (let t1 = h + big_sigma1 e + ch e f g + k + w;
          t2 = big_sigma0 a + maj a b c
      in [t1 + t2, a, b, c, d + t1, e, f, g])"
| "round_step s kw = s"

definition compress :: "hash_state \<Rightarrow> nat list \<Rightarrow> hash_state" where
  "compress s block =
     map2 (+) s (foldl round_step s (zip round_constants (schedule block)))"

definition sha256_words :: "nat list \<Rightarrow> hash_state" where
  "sha256_words m = (let p = pad m in foldl compress initial_hash (chunks (length p div 64) 64 p))"

fun hex_digits :: "nat \<Rightarrow> nat \<Rightarrow> string" where
  "hex_digits 0 n = []"
| "hex_digits (Suc k) n = hex_digits k (n div 16) @ [hex_char (n mod 16)]"

definition sha256_hexdigest :: "string \<Rightarrow> string" where
  "sha256_hexdigest data =
     concat (map (\<lambda>w. hex_digits 8 (unat w)) (sha256_words (map of_char data)))"


section \<open>The shape of a digest\<close>

lemma length_hex_digits [simp]: "length (hex_digits k n) = k"
  by (induction k arbitrary: n) simp_all

lemma hex_digits_hex: "list_all is_hex (hex_digits k n)"
  by (induction k arbitrary: n) (simp_all add: hex_char_is_hex)

lemma length_round_step: "length (round_step s kw) = length s"
  by (induction s kw rule: round_step.induct) (simp_all add: Let_def)

lemma length_rounds: "length (foldl round_step s kws) = length s"
  by (induction kws arbitrary: s) (simp_all add: length_round_step)

lemma length_compress [simp]: "length (compress s b) = length s"
  by (simp add: compress_def length_rounds)

lemma length_sha256_words: "length (sha256_words m) = 8"
proof -
  have "length (foldl compress s bs) = length s" for s bs
    by (induction bs arbitrary: s) simp_all
  then show ?thesis by (simp add: sha256_words_def Let_def initial_hash_def)
qed

lemma length_concat_const: "(\<And>x. x \<in> set xs \<Longrightarrow> length (f x) = n) \<Longrightarrow> length (concat (map f xs)) = n * length xs"
  by (induction xs) simp_all

theorem sha256_hexdigest_shape:
  "length (sha256_hexdigest d) = 64" "list_all is_hex (sha256_hexdigest d)"
proof -
  show "length (sha256_hexdigest d) = 64"
    by (simp add: sha256_hexdigest_def length_concat_const [where n = 8] length_sha256_words)
  show "list_all is_hex (sha256_hexdigest d)"
    using hex_digits_hex by (fastforce simp: sha256_hexdigest_def list_all_iff)
qed

end
