(* ===== verification/Settings.thy ===== *)
theory Settings
  imports Json_Roundtrip Sha256 Complex_Main
begin

text \<open>
  Exceptions and settings of the runtime controller
  (\<open>src/components/DEALHost/dealhost/runtime_controller_service/\<close>).

  \<open>exn\<close> collects the exceptions the service raises: \<open>ContractError\<close> with its code and
  HTTP status (\<open>contract.py\<close>), \<open>KubernetesApiError\<close> with its optional status
  (\<open>kubernetes.py\<close>), \<open>ControllerConfigurationError\<close> (\<open>config.py\<close>), the built-in exceptions that leave a handler uncaught, and
  \<open>CancelledError\<close>, which a lost Lease injects into the task that held it. \<open>OutOfFuel\<close>
  is no exception of the source: it marks a loop model whose fuel was too small, and the
  loops are proved never to return it.
  \<open>controller_settings\<close> is the dataclass of \<open>config.py\<close>; times in seconds that the
  code keeps as \<open>float\<close> are rationals.
\<close>

section \<open>Exceptions\<close>

datatype exn =
    ContractError (exn_detail: string) (exn_code: string) (exn_status: int)
  | KubernetesApiError (exn_detail: string) (exn_kube_status: "int option")
  | ValueError (exn_detail: string)
  | TypeError (exn_detail: string)
  | AttributeError (exn_detail: string)
  | OverflowError (exn_detail: string)
  | ControllerConfigurationError (exn_detail: string)
  | OSError
  | CancelledError
  | OutOfFuel

text \<open>\<open>ContractError(detail)\<close> with the default code and status.\<close>

definition contract_error :: "string \<Rightarrow> exn" where
  "contract_error d = ContractError d ''invalid_runtime_contract'' 422"

definition RuntimeNotFound :: exn where
  "RuntimeNotFound = ContractError ''The runtime deployment does not exist.'' ''runtime_not_found'' 404"

definition RuntimeConflict :: "string \<Rightarrow> exn" where
  "RuntimeConflict d = ContractError d ''runtime_conflict'' 409"

definition RuntimeBusy :: exn where
  "RuntimeBusy = ContractError ''Another runtime mutation is still in progress.'' ''runtime_busy'' 429"


section \<open>Settings\<close>

record controller_settings =
  s_auth_token :: string
  s_environment :: string
  s_namespace :: string
  s_kubernetes_url :: string
  s_kubernetes_token_file :: string
  s_kubernetes_ca_file :: string
  s_allowed_image_prefixes :: "string list"
  s_workload_service_account :: string
  s_image_pull_secret :: string
  s_secret_name_prefix :: string
  s_secret_catalog_name :: string
  s_secret_catalog_namespace :: string
  s_max_replicas :: int
  s_request_timeout_seconds :: rat
  s_lease_duration_seconds :: int
  s_lease_acquire_timeout_seconds :: rat

end
