(* ===== verification/Contract.thy ===== *)
theory Contract
  imports Settings
begin

text \<open>
  The contract of runtime requests:
  \<open>src/components/DEALHost/dealhost/runtime_controller_service/contract.py\<close>.

  \<open>parse_desired_deployment\<close> turns a JSON payload into a \<open>desired_deployment\<close> or raises
  the \<open>ContractError\<close> of the source. The regular expressions of the source are
  executable predicates (\<open>is_component_slug\<close>, \<open>is_env_key\<close>, ...). The dictionary the source
  returns for a scaling policy is the datatype \<open>scaling_policy\<close>, tagged by its mode.
\<close>

section \<open>Regular expressions\<close>

definition is_slug_char :: "char \<Rightarrow> bool" where
  "is_slug_char c \<longleftrightarrow> is_lower_alnum c \<or> c = CHR ''-''"

definition is_component_slug :: "string \<Rightarrow> bool" where
  "is_component_slug s \<longleftrightarrow> s \<noteq> [] \<and> is_lower_alnum (hd s) \<and> list_all is_slug_char (tl s)
     \<and> length s \<le> 63"

definition is_env_char :: "char \<Rightarrow> bool" where
  "is_env_char c \<longleftrightarrow> is_upper c \<or> is_digit c \<or> c = CHR ''_''"

definition is_env_key :: "string \<Rightarrow> bool" where
  "is_env_key s \<longleftrightarrow> s \<noteq> [] \<and> is_upper (hd s) \<and> list_all is_env_char (tl s) \<and> length s \<le> 64"

definition is_secret_name :: "string \<Rightarrow> bool" where
  "is_secret_name s \<longleftrightarrow> s \<noteq> [] \<and> is_lower_alnum (hd s) \<and> is_lower_alnum (last s)
     \<and> list_all is_slug_char s \<and> length s \<le> 63"

definition is_hex_digest :: "string \<Rightarrow> bool" where
  "is_hex_digest s \<longleftrightarrow> length s = 64 \<and> list_all is_hex s"

definition is_image_char :: "char \<Rightarrow> bool" where
  "is_image_char c \<longleftrightarrow> is_lower_alnum c \<or> c \<in> set ''._/-''"

definition is_image_name :: "string \<Rightarrow> bool" where
  "is_image_name s \<longleftrightarrow> s \<noteq> [] \<and> is_lower_alnum (hd s) \<and> is_lower_alnum (last s)
     \<and> list_all is_image_char s"

text \<open>The digest has a fixed length, so the name is what precedes the last 72 characters.\<close>

definition is_image :: "string \<Rightarrow> bool" where
  "is_image s \<longleftrightarrow>
     (let n = length s - 72; name = take n s; rest = drop n s
      in 72 < length s \<and> is_image_name name \<and> take 8 rest = ''@sha256:'' \<and> is_hex_digest (drop 8 rest))"

definition is_positive_dec :: "string \<Rightarrow> bool" where
  "is_positive_dec s \<longleftrightarrow> s \<noteq> [] \<and> list_all is_digit s \<and> hd s \<noteq> CHR ''0''"

definition is_cpu :: "string \<Rightarrow> bool" where
  "is_cpu s \<longleftrightarrow> is_positive_dec s \<or> (ends_with ''m'' s \<and> is_positive_dec (butlast s))"

definition is_memory :: "string \<Rightarrow> bool" where
  "is_memory s \<longleftrightarrow> drop (length s - 2) s \<in> set [''Ki'', ''Mi'', ''Gi''] \<and> is_positive_dec (take (length s - 2) s)"

definition is_request_id_char :: "char \<Rightarrow> bool" where
  "is_request_id_char c \<longleftrightarrow> is_alnum c \<or> c \<in> set ''._:-''"

definition is_request_id :: "string \<Rightarrow> bool" where
  "is_request_id s \<longleftrightarrow> s \<noteq> [] \<and> is_alnum (hd s) \<and> list_all is_request_id_char (tl s)
     \<and> 8 \<le> length s \<and> length s \<le> 128"


section \<open>Data\<close>

datatype scaling_policy =
    Fixed (sp_replicas: int)
  | Autoscale (sp_min_replicas: int) (sp_max_replicas: int) (sp_target: int)

record manifest_component =
  mc_module_id :: int
  mc_image :: string
  mc_container_port :: int
  mc_healthcheck_path :: string
  mc_resources :: "string dict dict"
  mc_plain_keys :: "string set"
  mc_secret_keys :: "string set"

record component =
  c_module_id :: int
  c_slug :: string
  c_image :: string
  c_container_port :: int
  c_healthcheck_path :: string
  c_resources :: "string dict dict"
  c_plain_keys :: "string set"
  c_secret_keys :: "string set"
  c_configuration :: "string dict"
  c_secret_refs :: "string dict"
  c_scaling :: scaling_policy

record desired_deployment =
  d_deployment_id :: string
  d_environment :: string
  d_generation :: int
  d_desired_state :: string
  d_release_digest :: string
  d_manifest :: "json dict"
  d_components :: "component list"
  d_normalized_payload :: "json dict"

text \<open>A dictionary of strings as a JSON value.\<close>

definition str_dict :: "string dict \<Rightarrow> json" where
  "str_dict d = JObj (map (\<lambda>(k, v). (k, JStr v)) d)"

definition scaling_dict :: "scaling_policy \<Rightarrow> json" where
  "scaling_dict p = (case p of
     Fixed r \<Rightarrow> JObj [(''mode'', JStr ''fixed''), (''replicas'', JInt r)]
   | Autoscale lo hi t \<Rightarrow> JObj [(''mode'', JStr ''autoscale''), (''min_replicas'', JInt lo),
       (''max_replicas'', JInt hi), (''target_cpu_utilization'', JInt t)])"

definition payload_digest :: "json \<Rightarrow> string" where
  "payload_digest v = sha256_hexdigest (canonical_json v)"


section \<open>Identifiers\<close>

definition validate_request_id :: "string \<Rightarrow> exn + string" where
  "validate_request_id v =
     (let normalized = strip v in
      bindE (guardE (is_request_id normalized)
        (ContractError ''Idempotency-Key must contain 8-128 safe characters.'' ''invalid_idempotency_key'' 400))
      (\<lambda>_. Inr normalized))"

text \<open>
  \<open>uuid.UUID(text)\<close>: the prefixes \<open>urn:\<close> and \<open>uuid:\<close>, surrounding braces and every hyphen are
  removed, 32 characters must remain, and \<open>int(hex, 16)\<close> reads them. That function
  allows surrounding white space, a sign, a \<open>0x\<close> prefix and single underscores between
  digits; \<open>None\<close> is ValueError.
\<close>

fun remove_all :: "string \<Rightarrow> nat \<Rightarrow> string \<Rightarrow> string" where
  "remove_all pat 0 s = s"
| "remove_all pat (Suc n) [] = []"
| "remove_all pat (Suc n) (c # cs) =
     (if starts_with pat (c # cs) then remove_all pat n (drop (length pat) (c # cs))
      else c # remove_all pat n cs)"

definition replace_empty :: "string \<Rightarrow> string \<Rightarrow> string" where
  "replace_empty pat s = remove_all pat (length s) s"

fun hex_digits_us :: "bool \<Rightarrow> nat \<Rightarrow> string \<Rightarrow> nat option" where
  "hex_digits_us after_digit acc [] = (if after_digit then Some acc else None)"
| "hex_digits_us after_digit acc (c # cs) =
     (if is_hex_any c then hex_digits_us True (16 * acc + hex_val (lower_char c)) cs
      else if c = CHR ''_'' \<and> after_digit then hex_digits_us False acc cs
      else None)"

definition int_base16 :: "string \<Rightarrow> int option" where
  "int_base16 text =
     (let s = strip text;
          neg = starts_with ''-'' s;
          body = (if neg \<or> starts_with ''+'' s then tl s else s);
          prefixed = starts_with ''0x'' body \<or> starts_with ''0X'' body;
          ds = (if prefixed then drop 2 body else body);
          ds = (if prefixed \<and> starts_with ''_'' ds then tl ds else ds)
      in map_option (\<lambda>n. if neg then - int n else int n) (hex_digits_us False 0 ds))"

definition uuid_int :: "string \<Rightarrow> nat option" where
  "uuid_int v =
     (let h = replace_empty ''uuid:'' (replace_empty ''urn:'' v);
          h = replace_empty ''-'' (strip_where (\<lambda>c. c \<in> set ''{}'') h)
      in if length h \<noteq> 32 then None
         else case int_base16 h of
           None \<Rightarrow> None
         | Some i \<Rightarrow> if 0 \<le> i \<and> i < 2 ^ 128 then Some (nat i) else None)"

definition uuid_format :: "string \<Rightarrow> string" where
  "uuid_format h = take 8 h @ ''-'' @ take 4 (drop 8 h) @ ''-'' @ take 4 (drop 12 h) @ ''-''
     @ take 4 (drop 16 h) @ ''-'' @ drop 20 h"

definition uuid_str :: "nat \<Rightarrow> string" where
  "uuid_str n = uuid_format (hex_digits 32 n)"

definition uuid_error :: exn where
  "uuid_error = ContractError ''The deployment identifier must be a canonical UUID.''
     ''invalid_runtime_contract'' 400"

text \<open>A value that is not a string makes \<open>uuid.UUID\<close> raise TypeError or AttributeError, both caught.\<close>

definition validate_deployment_id :: "json \<Rightarrow> exn + string" where
  "validate_deployment_id v =
     (case v of
        JStr s \<Rightarrow>
          (case uuid_int s of
             None \<Rightarrow> Inl uuid_error
           | Some n \<Rightarrow> if s \<noteq> uuid_str n then Inl uuid_error else Inr (uuid_str n))
      | _ \<Rightarrow> Inl uuid_error)"


section \<open>Field helpers\<close>

definition object :: "json \<Rightarrow> string \<Rightarrow> exn + json dict" where
  "object v label = (case v of
     JObj d \<Rightarrow> Inr d
   | _ \<Rightarrow> Inl (contract_error (label @ '' must be a JSON object.'')))"

definition exact_fields :: "json dict \<Rightarrow> string list \<Rightarrow> string \<Rightarrow> string list \<Rightarrow> exn + unit" where
  "exact_fields v allowed label optional =
     (let unknown = filter (\<lambda>k. k \<notin> set allowed) (keys v);
          missing = filter (\<lambda>k. k \<notin> set optional \<and> k \<notin> set (keys v)) allowed
      in raise_if (unknown \<noteq> [] \<or> missing \<noteq> [])
           (contract_error (label @ '' fields are invalid (missing='' @ repr_str_list (sort missing)
              @ '', unknown='' @ repr_str_list (sort unknown) @ '').'')))"

definition positive_int :: "json \<Rightarrow> string \<Rightarrow> exn + int" where
  "positive_int v label =
     (let e = contract_error (label @ '' must be a positive integer.'')
      in case v of JInt i \<Rightarrow> if i < 1 then Inl e else Inr i | _ \<Rightarrow> Inl e)"

text \<open>\<open>v == 1\<close>: True and 1.0 are equal to 1.\<close>

definition equals_one :: "json \<Rightarrow> bool" where
  "equals_one v \<longleftrightarrow> v = JInt 1 \<or> v = JBool True \<or> v = JFloat ''1.0''"

definition cpu_millis :: "string \<Rightarrow> nat" where
  "cpu_millis v = (if ends_with ''m'' v then nat_of_dec (butlast v) else nat_of_dec v * 1000)"

definition memory_kib :: "string \<Rightarrow> nat" where
  "memory_kib v =
     (let number = nat_of_dec (take (length v - 2) v); suffix = drop (length v - 2) v
      in number * (if suffix = ''Ki'' then 1 else if suffix = ''Mi'' then 1024 else 1024 * 1024))"



section \<open>Runtime profiles\<close>

definition resource_group :: "json dict \<Rightarrow> string \<Rightarrow> string \<Rightarrow> exn + string dict" where
  "resource_group rs slug grp =
     bindE (object (dget rs grp) (''Resource '' @ grp @ '' for '' @ slug)) (\<lambda>entries.
     bindE (exact_fields entries [''cpu'', ''memory''] (''Resource '' @ grp @ '' for '' @ slug) []) (\<lambda>_.
     case dget entries ''cpu'' of
       JStr cpu \<Rightarrow>
         bindE (guardE (is_cpu cpu) (contract_error (''CPU '' @ grp @ '' for '' @ slug @ '' is invalid.''))) (\<lambda>_.
         case dget entries ''memory'' of
           JStr memory \<Rightarrow>
             bindE (guardE (is_memory memory)
               (contract_error (''Memory '' @ grp @ '' for '' @ slug @ '' is invalid.''))) (\<lambda>_.
             Inr [(''cpu'', cpu), (''memory'', memory)])
         | _ \<Rightarrow> Inl (contract_error (''Memory '' @ grp @ '' for '' @ slug @ '' is invalid.'')))
     | _ \<Rightarrow> Inl (contract_error (''CPU '' @ grp @ '' for '' @ slug @ '' is invalid.''))))"

text \<open>\<open>d[k]\<close> on a dictionary of strings whose key is known to be present.\<close>

definition entry :: "string dict \<Rightarrow> string \<Rightarrow> string" where
  "entry d k = (case map_of d k of None \<Rightarrow> [] | Some v \<Rightarrow> v)"

definition resources_of :: "json \<Rightarrow> string \<Rightarrow> exn + string dict dict" where
  "resources_of v slug =
     bindE (object v (''Resources for '' @ slug)) (\<lambda>rs.
     bindE (exact_fields rs [''requests'', ''limits''] (''Resources for '' @ slug) []) (\<lambda>_.
     bindE (resource_group rs slug ''requests'') (\<lambda>requests.
     bindE (resource_group rs slug ''limits'') (\<lambda>limits.
     bindE (raise_if (cpu_millis (entry requests ''cpu'') > cpu_millis (entry limits ''cpu'')
          \<or> memory_kib (entry requests ''memory'') > memory_kib (entry limits ''memory''))
        (contract_error (''Resource requests for '' @ slug @ '' cannot exceed limits.''))) (\<lambda>_.
     Inr [(''requests'', requests), (''limits'', limits)])))))"

fun env_key_items :: "json list \<Rightarrow> string list option" where
  "env_key_items [] = Some []"
| "env_key_items (JStr s # vs) = (if is_env_key s then map_option ((#) s) (env_key_items vs) else None)"
| "env_key_items (_ # vs) = None"

definition key_set :: "json \<Rightarrow> string \<Rightarrow> exn + string set" where
  "key_set v slug =
     (let e = contract_error (''Configuration schema keys for '' @ slug @ '' are invalid.'')
      in case v of
        JList vs \<Rightarrow>
          if length vs > 50 then Inl e
          else (case env_key_items vs of
                  None \<Rightarrow> Inl e
                | Some ks \<Rightarrow> if \<not> distinct ks then Inl e else Inr (set ks))
      | _ \<Rightarrow> Inl e)"

definition healthcheck_ok :: "string \<Rightarrow> bool" where
  "healthcheck_ok h \<longleftrightarrow> starts_with ''/'' h \<and> \<not> starts_with ''//'' h \<and> length h \<le> 255
     \<and> \<not> list_ex isspace_char h"

definition profile_fields :: "string list" where
  "profile_fields = [''kind'', ''container_port'', ''healthcheck_path'', ''resources'', ''configuration'',
     ''network_egress'']"

definition profile_optional :: "string list" where
  "profile_optional = [''configuration'', ''network_egress'']"

definition parse_profile :: "int \<Rightarrow> string \<Rightarrow> string \<Rightarrow> json dict \<Rightarrow> exn + manifest_component" where
  "parse_profile mid slug img spec =
     bindE (exact_fields spec profile_fields (''Runtime profile for '' @ slug) profile_optional) (\<lambda>_.
     bindE (guardE (dget spec ''kind'' = JStr ''deployment'')
        (contract_error (''Only stateless deployments are supported for '' @ slug @ ''.''))) (\<lambda>_.
     bindE (positive_int (dget spec ''container_port'') ''container_port'') (\<lambda>port.
     bindE (raise_if (port > 65535) (contract_error (''Container port for '' @ slug @ '' is invalid.''))) (\<lambda>_.
     bindE (case dget spec ''healthcheck_path'' of
              JStr h \<Rightarrow> if healthcheck_ok h then Inr h
                else Inl (contract_error (''Healthcheck path for '' @ slug @ '' is invalid.''))
            | _ \<Rightarrow> Inl (contract_error (''Healthcheck path for '' @ slug @ '' is invalid.''))) (\<lambda>health.
     bindE (resources_of (dget spec ''resources'') slug) (\<lambda>res.
     bindE (object (dget_or (JObj []) spec ''configuration'') (''Configuration schema for '' @ slug)) (\<lambda>conf.
     bindE (exact_fields conf [''plain'', ''secret''] (''Configuration schema for '' @ slug)
        [''plain'', ''secret'']) (\<lambda>_.
     bindE (key_set (dget_or (JList []) conf ''plain'') slug) (\<lambda>plain.
     bindE (key_set (dget_or (JList []) conf ''secret'') slug) (\<lambda>secret.
     bindE (raise_if (plain \<inter> secret \<noteq> {})
        (contract_error (''Configuration keys for '' @ slug @ '' cannot be both plain and secret.''))) (\<lambda>_.
     bindE (case dget_or (JList []) spec ''network_egress'' of
              JList vs \<Rightarrow> raise_if (vs \<noteq> [])
                (ContractError (''FQDN network egress for '' @ slug
                   @ '' is not enforced by this controller and is rejected.'') ''network_egress_unsupported'' 422)
            | _ \<Rightarrow> Inl (contract_error (''Network egress for '' @ slug @ '' is invalid.''))) (\<lambda>_.
     Inr \<lparr>mc_module_id = mid, mc_image = img, mc_container_port = port, mc_healthcheck_path = health,
          mc_resources = res, mc_plain_keys = plain, mc_secret_keys = secret\<rparr>))))))))))))"


section \<open>The release manifest\<close>

text \<open>One iteration of the loop over \<open>modules\<close>: the accumulator is the dictionary parsed so far.\<close>

definition module_fields :: "string list" where
  "module_fields = [''module_id'', ''slug'', ''image'', ''profile_schema_version'', ''profile_digest'', ''spec'']"

definition parse_module ::
  "controller_settings \<Rightarrow> json \<Rightarrow> manifest_component dict \<Rightarrow> exn + manifest_component dict" where
  "parse_module settings raw parsed =
     bindE (object raw ''Release component'') (\<lambda>comp.
     bindE (exact_fields comp module_fields ''Release component'' []) (\<lambda>_.
     bindE (positive_int (dget comp ''module_id'') ''module_id'') (\<lambda>mid.
     bindE (let e = contract_error ''Release component identities must be unique and canonical.''
            in case dget comp ''slug'' of
                 JStr s \<Rightarrow> if \<not> is_component_slug s \<or> s \<in> set (keys parsed)
                     \<or> mid \<in> set (map (\<lambda>(_, mc). mc_module_id mc) parsed) then Inl e else Inr s
               | _ \<Rightarrow> Inl e) (\<lambda>slug.
     bindE (let e = ContractError (''Image for '' @ slug @ '' is not an allowed immutable digest.'')
                 ''image_policy_rejected'' 422
            in case dget comp ''image'' of
                 JStr i \<Rightarrow> if \<not> is_image i \<or> \<not> list_ex (\<lambda>p. starts_with p i) (s_allowed_image_prefixes settings)
                   then Inl e else Inr i
               | _ \<Rightarrow> Inl e) (\<lambda>img.
     bindE (guardE (equals_one (dget comp ''profile_schema_version''))
        (contract_error (''Runtime profile for '' @ slug @ '' is unsupported.''))) (\<lambda>_.
     bindE (object (dget comp ''spec'') (''Runtime profile for '' @ slug)) (\<lambda>spec.
     bindE (let e = contract_error (''Runtime profile digest for '' @ slug @ '' is invalid.'')
            in case dget comp ''profile_digest'' of
                 JStr d \<Rightarrow> raise_if (\<not> is_hex_digest d \<or> payload_digest (JObj spec) \<noteq> d) e
               | _ \<Rightarrow> Inl e) (\<lambda>_.
     bindE (parse_profile mid slug img spec) (\<lambda>mc.
     Inr (dput slug mc parsed))))))))))"

definition manifest_fields :: "string list" where
  "manifest_fields = [''schema_version'', ''application'', ''version'', ''version_source'', ''modules'']"

definition parse_manifest :: "json dict \<Rightarrow> controller_settings \<Rightarrow> exn + manifest_component dict" where
  "parse_manifest m settings =
     bindE (exact_fields m manifest_fields ''Release manifest'' []) (\<lambda>_.
     bindE (guardE (equals_one (dget m ''schema_version''))
        (contract_error ''The release manifest schema is unsupported.'')) (\<lambda>_.
     bindE (object (dget m ''application'') ''Release application'') (\<lambda>app.
     bindE (exact_fields app [''id'', ''slug''] ''Release application'' []) (\<lambda>_.
     bindE (case dget app ''id'' of JInt i \<Rightarrow> Inr ()
            | _ \<Rightarrow> Inl (contract_error ''The release application identifier is invalid.'')) (\<lambda>_.
     bindE (case dget app ''slug'' of
              JStr s \<Rightarrow> raise_if (s = []) (contract_error ''The release application slug is invalid.'')
            | _ \<Rightarrow> Inl (contract_error ''The release application slug is invalid.'')) (\<lambda>_.
     bindE (case dget m ''version'' of
              JStr s \<Rightarrow> raise_if (s = []) (contract_error ''The release version is invalid.'')
            | _ \<Rightarrow> Inl (contract_error ''The release version is invalid.'')) (\<lambda>_.
     bindE (case dget m ''version_source'' of JStr s \<Rightarrow> Inr ()
            | _ \<Rightarrow> Inl (contract_error ''The release version source is invalid.'')) (\<lambda>_.
     case dget m ''modules'' of
       JList modules \<Rightarrow>
         bindE (guardE (1 \<le> length modules \<and> length modules \<le> 20)
           (contract_error ''A release must contain between 1 and 20 components.'')) (\<lambda>_.
         foldE (parse_module settings) modules [])
     | _ \<Rightarrow> Inl (contract_error ''A release must contain between 1 and 20 components.'')))))))))"



section \<open>Configuration, secret references and scaling\<close>

definition component_mapping :: "json \<Rightarrow> string \<Rightarrow> exn + json dict dict" where
  "component_mapping v label =
     bindE (object v label) (\<lambda>mapping.
     foldE (\<lambda>(slug, entries) normalized.
       bindE (guardE (is_component_slug slug)
         (contract_error (label @ '' contains an invalid component slug.''))) (\<lambda>_.
       bindE (object entries (label @ '' for '' @ slug)) (\<lambda>raw.
       Inr (dput slug raw normalized)))) mapping [])"

text \<open>One iteration of the loop of \<open>_validate_values\<close> over (running total, normalized).\<close>

definition validate_value ::
  "string set \<Rightarrow> string \<Rightarrow> bool \<Rightarrow> string \<times> json \<Rightarrow> nat \<times> string dict \<Rightarrow> exn + nat \<times> string dict" where
  "validate_value allowed slug secret kv acc =
     (case (kv, acc) of ((key, v), (used, normalized)) \<Rightarrow>
       bindE (guardE (is_env_key key \<and> key \<in> allowed)
         (contract_error (''Configuration key '' @ key @ '' is not allowed for '' @ slug @ ''.''))) (\<lambda>_.
       case v of
         JStr s \<Rightarrow>
           bindE (raise_if (length s > 2048 \<or> CHR 0x00 \<in> set s)
             (contract_error (''Configuration value for '' @ key @ '' is invalid.''))) (\<lambda>_.
           bindE (raise_if (secret \<and> \<not> is_secret_name s)
             (contract_error (''Secret reference for '' @ key @ '' is invalid.''))) (\<lambda>_.
           (let total' = used + (length (utf8_encode key) + length (utf8_encode s))
            in bindE (raise_if (total' > 16384)
                 (contract_error (''Configuration for '' @ slug @ '' exceeds 16 KiB.''))) (\<lambda>_.
               Inr (total', dput key s normalized)))))
       | _ \<Rightarrow> Inl (contract_error (''Configuration value for '' @ key @ '' is invalid.''))))"

definition validate_values :: "json dict \<Rightarrow> string set \<Rightarrow> string \<Rightarrow> bool \<Rightarrow> exn + string dict" where
  "validate_values vs allowed slug secret =
     bindE (raise_if (length vs > 50)
       (contract_error (''Too many configuration values for '' @ slug @ ''.''))) (\<lambda>_.
     bindE (foldE (validate_value allowed slug secret) vs (0, [])) (\<lambda>(_, normalized).
     Inr normalized))"

definition scaling_policy_of :: "json \<Rightarrow> string \<Rightarrow> int \<Rightarrow> exn + scaling_policy" where
  "scaling_policy_of v slug maximum_allowed =
     bindE (object v (''Scaling for '' @ slug)) (\<lambda>policy.
     if dget policy ''mode'' = JStr ''fixed'' then
       bindE (exact_fields policy [''mode'', ''replicas''] (''Scaling for '' @ slug) []) (\<lambda>_.
       bindE (positive_int (dget policy ''replicas'') ''replicas'') (\<lambda>replicas.
       bindE (raise_if (replicas > maximum_allowed)
         (contract_error (''Fixed scaling for '' @ slug @ '' exceeds the controller replica limit.''))) (\<lambda>_.
       Inr (Fixed replicas))))
     else if dget policy ''mode'' = JStr ''autoscale'' then
       bindE (exact_fields policy [''mode'', ''min_replicas'', ''max_replicas'', ''target_cpu_utilization'']
         (''Scaling for '' @ slug) []) (\<lambda>_.
       bindE (positive_int (dget policy ''min_replicas'') ''min_replicas'') (\<lambda>minimum.
       bindE (positive_int (dget policy ''max_replicas'') ''max_replicas'') (\<lambda>maximum.
       bindE (positive_int (dget policy ''target_cpu_utilization'') ''target_cpu_utilization'') (\<lambda>target.
       bindE (raise_if (minimum > maximum \<or> maximum > maximum_allowed \<or> \<not> (10 \<le> target \<and> target \<le> 90))
         (contract_error (''Autoscaling for '' @ slug @ '' violates controller limits.''))) (\<lambda>_.
       Inr (Autoscale minimum maximum target))))))
     else Inl (contract_error (''Scaling mode for '' @ slug @ '' is unsupported.'')))"


section \<open>The desired deployment\<close>

definition known_components :: "string list \<Rightarrow> string \<times> string list \<Rightarrow> exn + unit" where
  "known_components expected lm =
     (case lm of (label, ks) \<Rightarrow>
       (let unknown = filter (\<lambda>k. k \<notin> set expected) ks
        in raise_if (unknown \<noteq> [])
             (contract_error (label @ '' contains unknown components: '' @ join_with '', '' (sort unknown) @ ''.''))))"

text \<open>The component the loop builds for one entry of the manifest.\<close>

definition build_component ::
  "json dict dict \<Rightarrow> json dict dict \<Rightarrow> json dict \<Rightarrow> controller_settings \<Rightarrow> string \<times> manifest_component \<Rightarrow> exn + component" where
  "build_component conf refs scaling settings sm =
     (case sm of (slug, mc) \<Rightarrow>
       bindE (validate_values (case map_of conf slug of None \<Rightarrow> [] | Some d \<Rightarrow> d)
         (mc_plain_keys mc) slug False) (\<lambda>plain_values.
       bindE (validate_values (case map_of refs slug of None \<Rightarrow> [] | Some d \<Rightarrow> d)
         (mc_secret_keys mc) slug True) (\<lambda>secret_values.
       bindE (scaling_policy_of (dget scaling slug) slug (s_max_replicas settings)) (\<lambda>policy.
       Inr \<lparr>c_module_id = mc_module_id mc, c_slug = slug, c_image = mc_image mc,
            c_container_port = mc_container_port mc, c_healthcheck_path = mc_healthcheck_path mc,
            c_resources = mc_resources mc, c_plain_keys = mc_plain_keys mc,
            c_secret_keys = mc_secret_keys mc, c_configuration = plain_values,
            c_secret_refs = secret_values, c_scaling = policy\<rparr>))))"

definition payload_of ::
  "string \<Rightarrow> string \<Rightarrow> int \<Rightarrow> string \<Rightarrow> string \<Rightarrow> json dict \<Rightarrow> component list \<Rightarrow> json dict" where
  "payload_of did env gen st dig man comps =
     [(''deployment_id'', JStr did), (''environment'', JStr env), (''generation'', JInt gen),
      (''desired_state'', JStr st),
      (''release'', JObj [(''digest'', JStr dig), (''manifest'', JObj man)]),
      (''configuration'', JObj (map (\<lambda>c. (c_slug c, str_dict (c_configuration c))) comps)),
      (''secret_refs'', JObj (map (\<lambda>c. (c_slug c, str_dict (c_secret_refs c))) comps)),
      (''scaling'', JObj (map (\<lambda>c. (c_slug c, scaling_dict (c_scaling c))) comps))]"

definition payload_fields :: "string list" where
  "payload_fields = [''deployment_id'', ''environment'', ''generation'', ''desired_state'', ''release'',
     ''configuration'', ''secret_refs'', ''scaling'']"

text \<open>
  \<open>desired_state not in {...}\<close> hashes the value: a list or a dictionary raises TypeError,
  which no caller turns into a contract error.
\<close>

definition check_desired_state :: "json \<Rightarrow> bool \<Rightarrow> exn + string" where
  "check_desired_state v allow_absent =
     (if \<not> hashable v then Inl (TypeError ''unhashable type'')
      else case v of
        JStr s \<Rightarrow> if s \<in> set ([''running'', ''stopped''] @ (if allow_absent then [''absent''] else []))
          then Inr s else Inl (contract_error ''The requested desired state is unsupported by this operation.'')
      | _ \<Rightarrow> Inl (contract_error ''The requested desired state is unsupported by this operation.''))"

definition check_release :: "json \<Rightarrow> exn + string \<times> json dict" where
  "check_release v =
     bindE (object v ''Release'') (\<lambda>release.
     bindE (exact_fields release [''digest'', ''manifest''] ''Release'' []) (\<lambda>_.
     bindE (object (dget release ''manifest'') ''Release manifest'') (\<lambda>man.
     case dget release ''digest'' of
       JStr dig \<Rightarrow>
         bindE (guardE (is_hex_digest dig) (contract_error ''The release digest is invalid.'')) (\<lambda>_.
         bindE (guardE (payload_digest (JObj man) = dig)
           (ContractError ''The release manifest does not match its digest.'' ''release_integrity_failed'' 422)) (\<lambda>_.
         Inr (dig, man)))
     | _ \<Rightarrow> Inl (contract_error ''The release digest is invalid.''))))"

definition parse_desired_deployment ::
  "json \<Rightarrow> controller_settings \<Rightarrow> bool \<Rightarrow> exn + desired_deployment" where
  "parse_desired_deployment v settings allow_absent =
     bindE (object v ''Runtime payload'') (\<lambda>payload.
     bindE (exact_fields payload payload_fields ''Runtime payload'' []) (\<lambda>_.
     bindE (validate_deployment_id (dget payload ''deployment_id'')) (\<lambda>did.
     bindE (guardE (dget payload ''environment'' = JStr (s_environment settings))
        (ContractError ''The requested runtime environment is not managed by this controller.''
           ''environment_not_managed'' 409)) (\<lambda>_.
     bindE (positive_int (dget payload ''generation'') ''generation'') (\<lambda>gen.
     bindE (check_desired_state (dget payload ''desired_state'') allow_absent) (\<lambda>st.
     bindE (check_release (dget payload ''release'')) (\<lambda>(dig, man).
     bindE (parse_manifest man settings) (\<lambda>mcs.
     bindE (component_mapping (dget payload ''configuration'') ''Configuration'') (\<lambda>conf.
     bindE (component_mapping (dget payload ''secret_refs'') ''Secret references'') (\<lambda>refs.
     bindE (object (dget payload ''scaling'') ''Scaling'') (\<lambda>scaling.
     bindE (mapE (known_components (keys mcs))
        [(''Configuration'', keys conf), (''Secret references'', keys refs), (''Scaling'', keys scaling)]) (\<lambda>_.
     bindE (guardE (set (keys scaling) = set (keys mcs))
        (contract_error ''Scaling must define every release component.'')) (\<lambda>_.
     bindE (mapE (build_component conf refs scaling settings) mcs) (\<lambda>comps.
     Inr \<lparr>d_deployment_id = did, d_environment = s_environment settings, d_generation = gen,
          d_desired_state = st, d_release_digest = dig, d_manifest = man, d_components = comps,
          d_normalized_payload = payload_of did (s_environment settings) gen st dig man comps\<rparr>))))))))))))))"

end
