(* ===== verification/Uuid_Facts.thy ===== *)
theory Uuid_Facts
  imports Contract
begin

text \<open>
  \<open>validate_deployment_id\<close> accepts exactly the canonical texts of UUIDs: 32 lower-case
  hexadecimal characters in groups of 8, 4, 4, 4 and 12. The many other spellings
  \<open>uuid.UUID\<close> reads (braces, \<open>urn:uuid:\<close>, upper case, missing hyphens, underscores) are
  all rejected by the comparison with the canonical text.
\<close>

definition is_canonical_uuid :: "string \<Rightarrow> bool" where
  "is_canonical_uuid s \<longleftrightarrow>
     (let h = filter (\<lambda>c. c \<noteq> CHR ''-'') s
      in length h = 32 \<and> list_all is_hex h \<and> s = uuid_format h)"

lemma hyphen_not_hex: "\<not> is_hex CHR ''-''"
  by (simp add: char_class_defs less_eq_char_def)

lemma filter_hex: "list_all is_hex h \<Longrightarrow> filter (\<lambda>c. c \<noteq> CHR ''-'') h = h"
  using hyphen_not_hex by (induction h) auto

lemma filter_uuid_format:
  assumes "list_all is_hex h"
  shows "filter (\<lambda>c. c \<noteq> CHR ''-'') (uuid_format h) = h"
proof -
  have part: "filter (\<lambda>c. c \<noteq> CHR ''-'') (take n (drop m h)) = take n (drop m h)" for n m
    using assms by (intro filter_hex) (auto simp: list_all_iff dest: in_set_takeD in_set_dropD)
  have "filter (\<lambda>c. c \<noteq> CHR ''-'') (uuid_format h) =
      take 8 h @ take 4 (drop 8 h) @ take 4 (drop 12 h) @ take 4 (drop 16 h) @ drop 20 h"
    using part [of 8 0] part [of 4 8] part [of 4 12] part [of 4 16] part [of "length h" 20]
    by (simp add: uuid_format_def)
  also have "\<dots> = h"
    using append_take_drop_id [of 8 h] append_take_drop_id [of 4 "drop 8 h"]
      append_take_drop_id [of 4 "drop 12 h"] append_take_drop_id [of 4 "drop 16 h"]
    by (simp del: append_take_drop_id)
  finally show ?thesis .
qed

lemma is_canonical_uuid_iff:
  "is_canonical_uuid s \<longleftrightarrow> (\<exists>h. length h = 32 \<and> list_all is_hex h \<and> s = uuid_format h)"
  unfolding is_canonical_uuid_def Let_def using filter_uuid_format by (metis (full_types))

lemma uuid_format_set: "set (uuid_format h) \<subseteq> insert CHR ''-'' (set h)"
  by (auto simp: uuid_format_def dest: in_set_takeD in_set_dropD)

lemma canonical_uuid_chars:
  assumes "is_canonical_uuid s" "c \<in> set s"
  shows "is_hex c \<or> c = CHR ''-''"
  using assms uuid_format_set unfolding is_canonical_uuid_iff by (auto simp: list_all_iff)

lemma canonical_uuid_length: "is_canonical_uuid s \<Longrightarrow> length s = 36"
  by (auto simp: is_canonical_uuid_iff uuid_format_def)


section \<open>Reading 32 hexadecimal characters\<close>

lemma remove_all_absent: "p \<noteq> [] \<Longrightarrow> hd p \<notin> set s \<Longrightarrow> remove_all p n s = s"
proof (induction n arbitrary: s)
  case (Suc n)
  then show ?case by (cases s; cases p) (auto simp: starts_with_def)
qed simp

lemma remove_all_char: "length s \<le> n \<Longrightarrow> remove_all [c] n s = filter (\<lambda>x. x \<noteq> c) s"
proof (induction n arbitrary: s)
  case (Suc n)
  then show ?case by (cases s) (auto simp: starts_with_def)
qed simp

definition hex_value :: "string \<Rightarrow> nat" where
  "hex_value h = foldl (\<lambda>a c. 16 * a + hex_val c) 0 h"

lemma is_hex_cases:
  assumes "is_hex c"
  obtains d where "d < 16" "c = hex_char d"
proof -
  define n where "n = (of_char c :: nat)"
  have c: "c = char_of n" by (simp add: n_def)
  have "48 \<le> n \<and> n \<le> 57 \<or> 97 \<le> n \<and> n \<le> 102"
    using assms by (auto simp: char_class_defs less_eq_char_def n_def)
  then show thesis
  proof
    assume "48 \<le> n \<and> n \<le> 57"
    then have "n - 48 < 16" "c = hex_char (n - 48)" by (auto simp: c hex_char_def)
    then show thesis by (rule that)
  next
    assume "97 \<le> n \<and> n \<le> 102"
    then have "n - 87 < 16" "c = hex_char (n - 87)" by (auto simp: c hex_char_def)
    then show thesis by (rule that)
  qed
qed

lemma is_hex_facts:
  assumes "is_hex c"
  shows "is_hex_any c" "lower_char c = c" "hex_val c < 16" "hex_char (hex_val c) = c"
    "\<not> isspace_char c" "c \<notin> set ''-+xXur{}''"
proof -
  have "\<forall>d \<in> set [0..<16]. is_hex_any (hex_char d) \<and> lower_char (hex_char d) = hex_char d
      \<and> \<not> isspace_char (hex_char d) \<and> hex_char d \<notin> set ''-+xXur{}''"
    by code_simp
  moreover obtain d where d: "d < 16" "c = hex_char d" using assms by (rule is_hex_cases)
  ultimately show "is_hex_any c" "lower_char c = c" "\<not> isspace_char c" "c \<notin> set ''-+xXur{}''" by auto
  show "hex_val c < 16" "hex_char (hex_val c) = c" using d by simp_all
qed

lemma hex_digits_us_hex:
  "list_all is_hex h \<Longrightarrow> h \<noteq> [] \<or> b \<Longrightarrow>
   hex_digits_us b a h = Some (foldl (\<lambda>a c. 16 * a + hex_val c) a h)"
  by (induction h arbitrary: a b) (simp_all add: is_hex_facts)

lemma hex_value_snoc: "hex_value (h @ [c]) = 16 * hex_value h + hex_val c"
  by (simp add: hex_value_def)

lemma hex_digits_value: "list_all is_hex h \<Longrightarrow> hex_digits (length h) (hex_value h) = h"
proof (induction h rule: rev_induct)
  case (snoc c h)
  then show ?case using is_hex_facts(3,4) [of c] by (simp add: hex_value_snoc)
qed simp

lemma hex_value_bound: "list_all is_hex h \<Longrightarrow> hex_value h < 16 ^ length h"
proof (induction h rule: rev_induct)
  case (snoc c h)
  then show ?case using is_hex_facts(3) [of c] by (auto simp: hex_value_snoc)
qed (simp add: hex_value_def)

lemma dropWhile_none: "list_all (\<lambda>c. \<not> P c) s \<Longrightarrow> dropWhile P s = s"
  by (cases s) auto

lemma strip_where_none: "list_all (\<lambda>c. \<not> P c) s \<Longrightarrow> strip_where P s = s"
  by (simp add: strip_where_def lstrip_where_def rstrip_where_def dropWhile_none)

lemma starts_with_first: "starts_with (c # p) s \<Longrightarrow> c \<in> set s"
  by (cases s) (auto simp: starts_with_def)

lemma int_base16_hex:
  assumes "list_all is_hex h" "h \<noteq> []"
  shows "int_base16 h = Some (int (hex_value h))"
proof -
  have strip: "strip h = h"
    using assms(1) is_hex_facts(5) by (auto simp: strip_def list_all_iff intro!: strip_where_none)
  have no: "c \<notin> set h" if "c \<in> set ''-+xX''" for c
  proof
    assume "c \<in> set h"
    then have "is_hex c" using assms(1) by (simp add: list_all_iff)
    from is_hex_facts(6) [OF this] that show False by auto
  qed
  have "\<not> starts_with ''-'' h" "\<not> starts_with ''+'' h"
    using no [of "CHR ''-''"] no [of "CHR ''+''"] starts_with_first by fastforce+
  moreover have "\<not> starts_with ''0x'' h" "\<not> starts_with ''0X'' h"
    using no [of "CHR ''x''"] no [of "CHR ''X''"] by (force simp: starts_with_iff)+
  ultimately show ?thesis
    using assms by (simp add: int_base16_def strip Let_def hex_digits_us_hex hex_value_def)
qed

lemma uuid_int_format:
  assumes h: "length h = 32" "list_all is_hex h"
  shows "uuid_int (uuid_format h) = Some (hex_value h)"
proof -
  let ?s = "uuid_format h"
  have no: "c \<notin> set ?s" if "c \<in> set ''ur{}''" for c
  proof
    assume "c \<in> set ?s"
    then have "is_hex c" using h(2) that uuid_format_set [of h] by (auto simp: list_all_iff)
    from is_hex_facts(6) [OF this] that show False by auto
  qed
  have "replace_empty ''urn:'' ?s = ?s" "replace_empty ''uuid:'' ?s = ?s"
    using no by (simp_all add: replace_empty_def remove_all_absent)
  moreover have "strip_where (\<lambda>c. c \<in> set ''{}'') ?s = ?s"
    using no by (intro strip_where_none) (auto simp: list_all_iff)
  moreover have "replace_empty ''-'' ?s = h"
    using filter_uuid_format [OF h(2)] by (simp add: replace_empty_def remove_all_char)
  moreover have "int (hex_value h) < 2 ^ 128"
    using hex_value_bound [OF h(2)] h(1) by simp
  moreover have "int_base16 h = Some (int (hex_value h))"
    using h by (intro int_base16_hex) auto
  ultimately show ?thesis
    using h by (auto simp: uuid_int_def Let_def)
qed

theorem validate_deployment_id_iff [res_iff]:
  "validate_deployment_id v = Inr s \<longleftrightarrow> v = JStr s \<and> is_canonical_uuid s"
proof
  assume "validate_deployment_id v = Inr s"
  then obtain n where "v = JStr s" "s = uuid_str n"
    by (auto simp: validate_deployment_id_def split: json.splits option.splits if_splits)
  then show "v = JStr s \<and> is_canonical_uuid s"
    using hex_digits_hex [of 32 n]
    by (auto simp: is_canonical_uuid_iff uuid_str_def intro!: exI [of _ "hex_digits 32 n"])
next
  assume "v = JStr s \<and> is_canonical_uuid s"
  then obtain h where h: "v = JStr s" "length h = 32" "list_all is_hex h" "s = uuid_format h"
    by (auto simp: is_canonical_uuid_iff)
  have "uuid_str (hex_value h) = s"
    using hex_digits_value [OF h(3)] h(2,4) by (simp add: uuid_str_def)
  then show "validate_deployment_id v = Inr s"
    using h uuid_int_format [OF h(2,3)] by (simp add: validate_deployment_id_def)
qed

end
