(* ===== verification/Contract_Facts.thy ===== *)
theory Contract_Facts
  imports Uuid_Facts
begin

text \<open>
  What an accepted payload guarantees.

  Each helper of \<^theory_text>\<open>Contract\<close> has a characterisation of its successful runs in the
  collection \<open>res_iff\<close>. They give the invariant \<open>desired_ok\<close> of every parsed deployment,
  the normal form of the payload (parsing it again returns the same deployment), and the
  stability of the parser under the key sorting of \<open>canonical_json\<close>.
\<close>

section \<open>Successful runs of the helpers\<close>

lemma object_iff [res_iff]: "object v l = Inr d \<longleftrightarrow> v = JObj d"
  by (auto simp: object_def split: json.splits)

lemma exact_fields_iff [res_iff]:
  "exact_fields v allowed l opt = Inr u \<longleftrightarrow>
     set (keys v) \<subseteq> set allowed \<and> set allowed - set opt \<subseteq> set (keys v)"
  by (auto simp: exact_fields_def Let_def filter_empty_conv)

lemma exact_fields_eq [res_iff]: "exact_fields v allowed l [] = Inr u \<longleftrightarrow> set (keys v) = set allowed"
  by (auto simp: exact_fields_iff)

lemma positive_int_iff [res_iff]: "positive_int v l = Inr i \<longleftrightarrow> v = JInt i \<and> 1 \<le> i"
  by (auto simp: positive_int_def Let_def split: json.splits)

lemma validate_request_id_iff [res_iff]:
  "validate_request_id v = Inr r \<longleftrightarrow> r = strip v \<and> is_request_id r"
  by (auto simp: validate_request_id_def Let_def res_iff)

lemma check_desired_state_iff [res_iff]:
  "check_desired_state v a = Inr s \<longleftrightarrow>
     v = JStr s \<and> (s \<in> {''running'', ''stopped''} \<or> a \<and> s = ''absent'')"
  by (auto simp: check_desired_state_def split: json.splits if_splits)

lemma case_JStr_iff [res_iff]:
  "(case w of JStr c \<Rightarrow> f c | _ \<Rightarrow> Inl e) = Inr y \<longleftrightarrow> (\<exists>c. w = JStr c \<and> f c = Inr y)"
  by (cases w) auto

lemma check_release_iff [res_iff]:
  "check_release v = Inr (dig, man) \<longleftrightarrow>
     (\<exists>r. v = JObj r \<and> set (keys r) = {''digest'', ''manifest''} \<and> dget r ''manifest'' = JObj man
        \<and> dget r ''digest'' = JStr dig \<and> is_hex_digest dig \<and> payload_digest (JObj man) = dig)"
  by (simp add: check_release_def bindE_eq_Inr object_iff exact_fields_eq case_JStr_iff) blast

lemma resource_group_iff [res_iff]:
  "resource_group rs sl g = Inr x \<longleftrightarrow>
     (\<exists>e cpu memory. dget rs g = JObj e \<and> set (keys e) = {''cpu'', ''memory''}
        \<and> dget e ''cpu'' = JStr cpu \<and> is_cpu cpu \<and> dget e ''memory'' = JStr memory \<and> is_memory memory
        \<and> x = [(''cpu'', cpu), (''memory'', memory)])"
  by (simp add: resource_group_def bindE_eq_Inr object_iff exact_fields_eq case_JStr_iff) blast

definition requests_within_limits :: "string dict \<Rightarrow> string dict \<Rightarrow> bool" where
  "requests_within_limits requests limits \<longleftrightarrow>
     cpu_millis (entry requests ''cpu'') \<le> cpu_millis (entry limits ''cpu'')
     \<and> memory_kib (entry requests ''memory'') \<le> memory_kib (entry limits ''memory'')"

lemma resources_of_iff [res_iff]:
  "resources_of v sl = Inr x \<longleftrightarrow>
     (\<exists>rs requests limits. v = JObj rs \<and> set (keys rs) = {''requests'', ''limits''}
        \<and> resource_group rs sl ''requests'' = Inr requests \<and> resource_group rs sl ''limits'' = Inr limits
        \<and> requests_within_limits requests limits
        \<and> x = [(''requests'', requests), (''limits'', limits)])"
  by (simp add: resources_of_def bindE_eq_Inr object_iff exact_fields_eq requests_within_limits_def
      linorder_not_less) blast

lemma map_JStr_eq [simp]: "map JStr xs = map JStr ys \<longleftrightarrow> xs = ys"
  by (simp add: inj_map_eq_map inj_def)

lemma env_key_items_map: "env_key_items (map JStr ks) = (if list_all is_env_key ks then Some ks else None)"
  by (induction ks) auto

lemma env_key_items_iff: "env_key_items vs = Some ks \<longleftrightarrow> vs = map JStr ks \<and> list_all is_env_key ks"
proof
  assume "env_key_items vs = Some ks"
  then show "vs = map JStr ks \<and> list_all is_env_key ks"
  proof (induction vs arbitrary: ks)
    case (Cons v vs)
    then show ?case by (cases v) (auto split: if_splits)
  qed simp
qed (simp add: env_key_items_map)

lemma key_set_iff [res_iff]:
  "key_set v sl = Inr S \<longleftrightarrow>
     (\<exists>ks. v = JList (map JStr ks) \<and> length ks \<le> 50 \<and> list_all is_env_key ks \<and> distinct ks \<and> S = set ks)"
  by (cases v) (auto simp: key_set_def Let_def env_key_items_iff env_key_items_map split: option.splits)

lemma is_hex_digest_payload: "is_hex_digest (payload_digest v)"
  by (simp add: is_hex_digest_def payload_digest_def sha256_hexdigest_shape)

lemma if_Inr_Inl_iff [res_iff]: "(if b then Inr y else Inl e) = Inr x \<longleftrightarrow> b \<and> x = y"
  by auto

lemma parse_profile_iff [res_iff]:
  "parse_profile mid sl img spec = Inr mc \<longleftrightarrow>
     (\<exists>port health res conf plain secret.
        set (keys spec) \<subseteq> set profile_fields \<and> set profile_fields - set profile_optional \<subseteq> set (keys spec)
        \<and> dget spec ''kind'' = JStr ''deployment''
        \<and> dget spec ''container_port'' = JInt port \<and> 1 \<le> port \<and> port \<le> 65535
        \<and> dget spec ''healthcheck_path'' = JStr health \<and> healthcheck_ok health
        \<and> resources_of (dget spec ''resources'') sl = Inr res
        \<and> dget_or (JObj []) spec ''configuration'' = JObj conf \<and> set (keys conf) \<subseteq> set [''plain'', ''secret'']
        \<and> key_set (dget_or (JList []) conf ''plain'') sl = Inr plain
        \<and> key_set (dget_or (JList []) conf ''secret'') sl = Inr secret \<and> plain \<inter> secret = {}
        \<and> dget_or (JList []) spec ''network_egress'' = JList []
        \<and> \<lparr>mc_module_id = mid, mc_image = img, mc_container_port = port, mc_healthcheck_path = health,
             mc_resources = res, mc_plain_keys = plain, mc_secret_keys = secret\<rparr> = mc)"
proof -
  have egress: "(case v of JList vs \<Rightarrow> raise_if (vs \<noteq> []) e | _ \<Rightarrow> Inl e') = Inr u \<longleftrightarrow> v = JList []"
    for v and e e' :: exn and u by (cases v) auto
  have conf: "exact_fields c [''plain'', ''secret''] l [''plain'', ''secret''] = Inr u \<longleftrightarrow> set (keys c) \<subseteq> set [''plain'', ''secret'']"
    for c l u by (auto simp: exact_fields_iff)
  show ?thesis
    by (simp only: parse_profile_def bindE_eq_Inr object_iff conf exact_fields_iff positive_int_iff
        case_JStr_iff if_Inr_Inl_iff egress guardE_iff raise_if_iff linorder_not_less sum.inject not_not)
      blast
qed


section \<open>The manifest\<close>

lemma parse_module_iff [res_iff]:
  "parse_module settings raw parsed = Inr parsed' \<longleftrightarrow>
     (\<exists>comp mid sl img spec mc.
        raw = JObj comp \<and> set (keys comp) = set module_fields
        \<and> dget comp ''module_id'' = JInt mid \<and> 1 \<le> mid
        \<and> dget comp ''slug'' = JStr sl \<and> is_component_slug sl \<and> sl \<notin> set (keys parsed)
        \<and> mid \<notin> set (map (\<lambda>(_, mc). mc_module_id mc) parsed)
        \<and> dget comp ''image'' = JStr img \<and> is_image img
        \<and> list_ex (\<lambda>p. starts_with p img) (s_allowed_image_prefixes settings)
        \<and> equals_one (dget comp ''profile_schema_version'')
        \<and> dget comp ''spec'' = JObj spec
        \<and> dget comp ''profile_digest'' = JStr (payload_digest (JObj spec))
        \<and> parse_profile mid sl img spec = Inr mc \<and> dput sl mc parsed = parsed')"
proof -
  have checked: "(case v of JStr c \<Rightarrow> if bad c then Inl e else Inr c | _ \<Rightarrow> Inl e) = Inr x \<longleftrightarrow> v = JStr x \<and> \<not> bad x"
    for v bad and e :: exn and x by (cases v) auto
  have digest: "(case v of JStr d \<Rightarrow> raise_if (\<not> is_hex_digest d \<or> payload_digest w \<noteq> d) e | _ \<Rightarrow> Inl e) = Inr u
      \<longleftrightarrow> v = JStr (payload_digest w)" for v w e u
    using is_hex_digest_payload [of w] by (cases v) auto
  show ?thesis
    by (simp only: parse_module_def Let_def bindE_eq_Inr object_iff exact_fields_eq positive_int_iff
        checked digest guardE_iff sum.inject de_Morgan_disj not_not)
      (rule iffI; elim exE conjE; intro exI conjI; assumption)
qed

definition manifest_header :: "json dict \<Rightarrow> bool" where
  "manifest_header m \<longleftrightarrow> set (keys m) = set manifest_fields \<and> equals_one (dget m ''schema_version'')
     \<and> (\<exists>app i s. dget m ''application'' = JObj app \<and> set (keys app) = set [''id'', ''slug'']
          \<and> dget app ''id'' = JInt i \<and> dget app ''slug'' = JStr s \<and> s \<noteq> [])
     \<and> (\<exists>v. dget m ''version'' = JStr v \<and> v \<noteq> []) \<and> (\<exists>v. dget m ''version_source'' = JStr v)"

lemma parse_manifest_iff [res_iff]:
  "parse_manifest m settings = Inr mcs \<longleftrightarrow>
     manifest_header m
     \<and> (\<exists>modules. dget m ''modules'' = JList modules \<and> 1 \<le> length modules \<and> length modules \<le> 20
          \<and> foldE (parse_module settings) modules [] = Inr mcs)"
proof -
  have int: "(case v of JInt i \<Rightarrow> Inr () | _ \<Rightarrow> Inl e) = Inr u \<longleftrightarrow> (\<exists>i. v = JInt i)"
    for v and e :: exn and u by (cases v) auto
  have str: "(case v of JStr i \<Rightarrow> Inr () | _ \<Rightarrow> Inl e) = Inr u \<longleftrightarrow> (\<exists>i. v = JStr i)"
    for v and e :: exn and u by (cases v) auto
  have lst: "(case v of JList xs \<Rightarrow> f xs | _ \<Rightarrow> Inl e) = Inr u \<longleftrightarrow> (\<exists>xs. v = JList xs \<and> f xs = Inr u)"
    for v and f :: "json list \<Rightarrow> exn + manifest_component dict" and e u by (cases v) auto
  show ?thesis
    by (simp only: parse_manifest_def manifest_header_def bindE_eq_Inr object_iff exact_fields_eq
        case_JStr_iff int str lst guardE_iff raise_if_iff) blast
qed


section \<open>Values and scaling\<close>

definition value_ok :: "string set \<Rightarrow> bool \<Rightarrow> string \<times> string \<Rightarrow> bool" where
  "value_ok allowed secret kv \<longleftrightarrow> (case kv of (k, v) \<Rightarrow>
     is_env_key k \<and> k \<in> allowed \<and> length v \<le> 2048 \<and> CHR 0x00 \<notin> set v \<and> (secret \<longrightarrow> is_secret_name v))"

definition value_size :: "string \<times> string \<Rightarrow> nat" where
  "value_size kv = length (utf8_encode (fst kv)) + length (utf8_encode (snd kv))"

lemma validate_value_iff [res_iff]:
  "validate_value allowed sl secret (k, v) (used, normalized) = Inr acc \<longleftrightarrow>
     (\<exists>s. v = JStr s \<and> value_ok allowed secret (k, s) \<and> used + value_size (k, s) \<le> 16384
        \<and> acc = (used + value_size (k, s), dput k s normalized))"
  by (simp add: validate_value_def value_ok_def value_size_def bindE_eq_Inr case_JStr_iff linorder_not_less
      Let_def) blast

abbreviation jstr_pairs :: "string dict \<Rightarrow> json dict" where
  "jstr_pairs \<equiv> map (\<lambda>(k, s). (k, JStr s))"

lemma validate_loop_iff:
  "distinct (map fst normalized @ map fst vs) \<Longrightarrow>
   foldE (validate_value allowed sl secret) vs (used, normalized) = Inr acc \<longleftrightarrow>
     (\<exists>vs'. vs = jstr_pairs vs' \<and> list_all (value_ok allowed secret) vs'
        \<and> (vs' \<noteq> [] \<longrightarrow> used + sum_list (map value_size vs') \<le> 16384)
        \<and> acc = (used + sum_list (map value_size vs'), normalized @ vs'))"
proof (induction vs arbitrary: used normalized)
  case Nil
  then show ?case by auto
next
  case (Cons kv vs)
  obtain k v where kv: "kv = (k, v)" by (cases kv)
  have step: "foldE (validate_value allowed sl secret) vs (used + value_size (k, s), dput k s normalized) = Inr acc \<longleftrightarrow>
     (\<exists>vs'. vs = jstr_pairs vs' \<and> list_all (value_ok allowed secret) vs'
        \<and> (vs' \<noteq> [] \<longrightarrow> used + value_size (k, s) + sum_list (map value_size vs') \<le> 16384)
        \<and> acc = (used + value_size (k, s) + sum_list (map value_size vs'), normalized @ (k, s) # vs'))" for s
    using Cons.IH [of "normalized @ [(k, s)]" "used + value_size (k, s)"] Cons.prems
    by (auto simp: kv dput_fresh)
  have "foldE (validate_value allowed sl secret) (kv # vs) (used, normalized) = Inr acc \<longleftrightarrow>
      (\<exists>s. v = JStr s \<and> value_ok allowed secret (k, s) \<and> used + value_size (k, s) \<le> 16384
         \<and> foldE (validate_value allowed sl secret) vs (used + value_size (k, s), dput k s normalized) = Inr acc)"
    by (auto simp: kv bindE_eq_Inr validate_value_iff)
  also have "\<dots> \<longleftrightarrow> (\<exists>s vs'. v = JStr s \<and> vs = jstr_pairs vs' \<and> list_all (value_ok allowed secret) ((k, s) # vs')
        \<and> used + sum_list (map value_size ((k, s) # vs')) \<le> 16384
        \<and> acc = (used + sum_list (map value_size ((k, s) # vs')), normalized @ (k, s) # vs'))"
    unfolding step by (intro iffI; clarsimp; fastforce)
  also have "\<dots> \<longleftrightarrow> (\<exists>ws. kv # vs = jstr_pairs ws \<and> list_all (value_ok allowed secret) ws
        \<and> (ws \<noteq> [] \<longrightarrow> used + sum_list (map value_size ws) \<le> 16384)
        \<and> acc = (used + sum_list (map value_size ws), normalized @ ws))"
    by (auto simp: kv Cons_eq_map_conv)
  finally show ?case .
qed

lemma validate_values_iff:
  assumes "dict_wf vs"
  shows "validate_values vs allowed sl secret = Inr r \<longleftrightarrow>
     vs = jstr_pairs r \<and> length r \<le> 50 \<and> list_all (value_ok allowed secret) r
     \<and> sum_list (map value_size r) \<le> 16384"
proof -
  have "distinct (map fst ([] :: string dict) @ map fst vs)" using assms by (simp add: dict_wf_def)
  from validate_loop_iff [OF this, of allowed sl secret 0] show ?thesis
    by (auto simp: validate_values_def bindE_eq_Inr)
qed

definition scaling_ok :: "int \<Rightarrow> scaling_policy \<Rightarrow> bool" where
  "scaling_ok maximum p \<longleftrightarrow> (case p of
     Fixed r \<Rightarrow> 1 \<le> r \<and> r \<le> maximum
   | Autoscale lo hi t \<Rightarrow> 1 \<le> lo \<and> lo \<le> hi \<and> hi \<le> maximum \<and> 10 \<le> t \<and> t \<le> 90)"

lemma scaling_policy_of_ok: "scaling_policy_of v sl maximum = Inr p \<Longrightarrow> scaling_ok maximum p"
  by (auto simp: scaling_policy_of_def scaling_ok_def bindE_eq_Inr positive_int_iff split: if_splits)

lemma scaling_policy_of_dict:
  "scaling_ok maximum p \<Longrightarrow> scaling_policy_of (scaling_dict p) sl maximum = Inr p"
  by (cases p) (auto simp: scaling_policy_of_def scaling_dict_def scaling_ok_def bindE_eq_Inr positive_int_iff
      object_iff exact_fields_eq keys_def)


section \<open>Mappings and components\<close>

lemma mapping_loop_iff:
  "distinct (map fst normalized @ map fst m) \<Longrightarrow>
   foldE (\<lambda>(sl, entries) n.
       bindE (guardE (is_component_slug sl) (e1 sl)) (\<lambda>_.
       bindE (object entries (l sl)) (\<lambda>raw. Inr (dput sl raw n)))) m normalized = Inr r \<longleftrightarrow>
     (\<exists>m'. m = map (\<lambda>(k, d). (k, JObj d)) m' \<and> list_all is_component_slug (keys m') \<and> r = normalized @ m')"
proof (induction m arbitrary: normalized)
  case Nil
  then show ?case by (auto simp: keys_def)
next
  case (Cons kv m)
  obtain k v where kv: "kv = (k, v)" by (cases kv)
  let ?F = "\<lambda>(sl, entries) n. bindE (guardE (is_component_slug sl) (e1 sl)) (\<lambda>_.
       bindE (object entries (l sl)) (\<lambda>raw. Inr (dput sl raw n)))"
  have step: "foldE ?F m (dput k d normalized) = Inr r \<longleftrightarrow>
      (\<exists>m'. m = map (\<lambda>(k, d). (k, JObj d)) m' \<and> list_all is_component_slug (keys m') \<and> r = normalized @ (k, d) # m')" for d
    using Cons.IH [of "normalized @ [(k, d)]"] Cons.prems by (auto simp: kv dput_fresh)
  have "foldE ?F (kv # m) normalized = Inr r \<longleftrightarrow>
      (\<exists>d. v = JObj d \<and> is_component_slug k \<and> foldE ?F m (dput k d normalized) = Inr r)"
    by (auto simp: kv bindE_eq_Inr object_iff)
  also have "\<dots> \<longleftrightarrow> (\<exists>ws. kv # m = map (\<lambda>(k, d). (k, JObj d)) ws \<and> list_all is_component_slug (keys ws) \<and> r = normalized @ ws)"
    unfolding step by (auto simp: kv Cons_eq_map_conv keys_def)
  finally show ?case .
qed

lemma component_mapping_iff:
  assumes "dict_wf m"
  shows "component_mapping (JObj m) l = Inr r \<longleftrightarrow>
     m = map (\<lambda>(k, d). (k, JObj d)) r \<and> list_all is_component_slug (keys r)"
proof -
  have "distinct (map fst ([] :: json dict dict) @ map fst m)" using assms by (simp add: dict_wf_def)
  from mapping_loop_iff [OF this] show ?thesis
    by (auto simp: component_mapping_def bindE_eq_Inr object_iff)
qed

definition resources_ok :: "string dict dict \<Rightarrow> bool" where
  "resources_ok rs \<longleftrightarrow> keys rs = [''requests'', ''limits'']
     \<and> list_all (\<lambda>(g, e). keys e = [''cpu'', ''memory''] \<and> is_cpu (entry e ''cpu'') \<and> is_memory (entry e ''memory'')) rs
     \<and> requests_within_limits (snd (rs ! 0)) (snd (rs ! 1))"

definition key_sets_ok :: "string set \<Rightarrow> string set \<Rightarrow> bool" where
  "key_sets_ok plain secret \<longleftrightarrow> finite plain \<and> finite secret \<and> card plain \<le> 50 \<and> card secret \<le> 50
     \<and> (\<forall>k \<in> plain \<union> secret. is_env_key k) \<and> plain \<inter> secret = {}"

definition manifest_component_ok :: "controller_settings \<Rightarrow> string \<times> manifest_component \<Rightarrow> bool" where
  "manifest_component_ok settings sm \<longleftrightarrow> (case sm of (sl, mc) \<Rightarrow>
     is_component_slug sl \<and> 1 \<le> mc_module_id mc \<and> is_image (mc_image mc)
     \<and> list_ex (\<lambda>p. starts_with p (mc_image mc)) (s_allowed_image_prefixes settings)
     \<and> 1 \<le> mc_container_port mc \<and> mc_container_port mc \<le> 65535 \<and> healthcheck_ok (mc_healthcheck_path mc)
     \<and> resources_ok (mc_resources mc) \<and> key_sets_ok (mc_plain_keys mc) (mc_secret_keys mc))"

definition values_ok :: "string set \<Rightarrow> bool \<Rightarrow> string dict \<Rightarrow> bool" where
  "values_ok allowed secret d \<longleftrightarrow> dict_wf d \<and> length d \<le> 50 \<and> list_all (value_ok allowed secret) d
     \<and> sum_list (map value_size d) \<le> 16384"

definition component_ok :: "controller_settings \<Rightarrow> component \<Rightarrow> bool" where
  "component_ok settings c \<longleftrightarrow>
     is_component_slug (c_slug c) \<and> 1 \<le> c_module_id c \<and> is_image (c_image c)
     \<and> list_ex (\<lambda>p. starts_with p (c_image c)) (s_allowed_image_prefixes settings)
     \<and> 1 \<le> c_container_port c \<and> c_container_port c \<le> 65535 \<and> healthcheck_ok (c_healthcheck_path c)
     \<and> resources_ok (c_resources c) \<and> key_sets_ok (c_plain_keys c) (c_secret_keys c)
     \<and> values_ok (c_plain_keys c) False (c_configuration c)
     \<and> values_ok (c_secret_keys c) True (c_secret_refs c)
     \<and> scaling_ok (s_max_replicas settings) (c_scaling c)"

definition desired_ok :: "controller_settings \<Rightarrow> bool \<Rightarrow> desired_deployment \<Rightarrow> bool" where
  "desired_ok settings allow_absent d \<longleftrightarrow>
     is_canonical_uuid (d_deployment_id d) \<and> d_environment d = s_environment settings
     \<and> 1 \<le> d_generation d
     \<and> (d_desired_state d \<in> {''running'', ''stopped''} \<or> allow_absent \<and> d_desired_state d = ''absent'')
     \<and> d_release_digest d = payload_digest (JObj (d_manifest d))
     \<and> 1 \<le> length (d_components d) \<and> length (d_components d) \<le> 20
     \<and> distinct (map c_slug (d_components d)) \<and> distinct (map c_module_id (d_components d))
     \<and> list_all (component_ok settings) (d_components d)
     \<and> d_normalized_payload d = payload_of (d_deployment_id d) (d_environment d) (d_generation d)
         (d_desired_state d) (d_release_digest d) (d_manifest d) (d_components d)"

lemma resources_of_ok: "resources_of v sl = Inr rs \<Longrightarrow> resources_ok rs"
  unfolding resources_of_iff resource_group_iff
  by (elim exE conjE) (simp add: resources_ok_def keys_def entry_def)

lemma key_set_ok:
  "key_set v sl = Inr P \<Longrightarrow> key_set w sl = Inr S \<Longrightarrow> P \<inter> S = {} \<Longrightarrow> key_sets_ok P S"
  by (auto simp: key_set_iff key_sets_ok_def distinct_card list_all_iff)

lemma parse_profile_ok:
  assumes "parse_profile mid sl img spec = Inr mc"
  shows "mc_module_id mc = mid \<and> mc_image mc = img \<and> 1 \<le> mc_container_port mc \<and> mc_container_port mc \<le> 65535
     \<and> healthcheck_ok (mc_healthcheck_path mc) \<and> resources_ok (mc_resources mc)
     \<and> key_sets_ok (mc_plain_keys mc) (mc_secret_keys mc)"
  using assms unfolding parse_profile_iff by (auto intro: resources_of_ok key_set_ok)

definition manifest_ok :: "controller_settings \<Rightarrow> manifest_component dict \<Rightarrow> bool" where
  "manifest_ok settings mcs \<longleftrightarrow> dict_wf mcs \<and> distinct (map (\<lambda>(_, mc). mc_module_id mc) mcs)
     \<and> list_all (manifest_component_ok settings) mcs"

lemma parse_module_ok:
  assumes "parse_module settings raw parsed = Inr parsed'" "manifest_ok settings parsed"
  shows "manifest_ok settings parsed' \<and> length parsed' = Suc (length parsed)"
proof -
  from assms(1) obtain mid sl img spec mc where
    new: "sl \<notin> set (keys parsed)" "mid \<notin> set (map (\<lambda>(_, mc). mc_module_id mc) parsed)"
    and p: "parse_profile mid sl img spec = Inr mc" and parsed': "parsed' = dput sl mc parsed"
    and ok: "1 \<le> mid" "is_component_slug sl" "is_image img"
      "list_ex (\<lambda>p. starts_with p img) (s_allowed_image_prefixes settings)"
    unfolding parse_module_iff by metis
  have app: "parsed' = parsed @ [(sl, mc)]" using new parsed' by (simp add: dput_fresh keys_def)
  have mc: "manifest_component_ok settings (sl, mc)"
    using parse_profile_ok [OF p] ok by (simp add: manifest_component_ok_def)
  show ?thesis
    using assms(2) mc new parse_profile_ok [OF p] by (auto simp: app manifest_ok_def dict_wf_def keys_def)
qed

lemma parse_modules_ok:
  "foldE (parse_module settings) ms parsed = Inr mcs \<Longrightarrow> manifest_ok settings parsed \<Longrightarrow>
   manifest_ok settings mcs \<and> length mcs = length parsed + length ms"
proof (induction ms arbitrary: parsed)
  case (Cons m ms)
  then obtain q where q: "parse_module settings m parsed = Inr q" "foldE (parse_module settings) ms q = Inr mcs"
    by (auto simp: bindE_eq_Inr)
  show ?case using Cons.IH [OF q(2)] parse_module_ok [OF q(1)] Cons.prems(2) by auto
qed simp

lemma parse_manifest_ok:
  "parse_manifest m settings = Inr mcs \<Longrightarrow> manifest_ok settings mcs \<and> 1 \<le> length mcs \<and> length mcs \<le> 20"
  unfolding parse_manifest_iff using parse_modules_ok [of settings _ "[]" mcs]
  by (auto simp: manifest_ok_def)


section \<open>The desired deployment\<close>

lemma known_components_iff:
  "mapE (known_components ks) [(l1, k1), (l2, k2), (l3, k3)] = Inr u \<longleftrightarrow>
     length u = 3 \<and> set k1 \<subseteq> set ks \<and> set k2 \<subseteq> set ks \<and> set k3 \<subseteq> set ks"
proof -
  have one: "known_components ks (l, k) = Inr w \<longleftrightarrow> set k \<subseteq> set ks" for l k w
    by (auto simp: known_components_def Let_def filter_empty_conv)
  show ?thesis
    by (cases u) (auto simp: bindE_eq_Inr one length_Suc_conv numeral_3_eq_3)
qed

definition accepted ::
  "controller_settings \<Rightarrow> bool \<Rightarrow> json dict \<Rightarrow> desired_deployment \<Rightarrow> manifest_component dict \<Rightarrow> json dict dict
     \<Rightarrow> json dict dict \<Rightarrow> json dict \<Rightarrow> bool" where
  "accepted settings a payload d mcs conf refs sc \<longleftrightarrow>
     set (keys payload) = set payload_fields
     \<and> dget payload ''deployment_id'' = JStr (d_deployment_id d) \<and> is_canonical_uuid (d_deployment_id d)
     \<and> dget payload ''environment'' = JStr (s_environment settings)
     \<and> dget payload ''generation'' = JInt (d_generation d) \<and> 1 \<le> d_generation d
     \<and> check_desired_state (dget payload ''desired_state'') a = Inr (d_desired_state d)
     \<and> check_release (dget payload ''release'') = Inr (d_release_digest d, d_manifest d)
     \<and> parse_manifest (d_manifest d) settings = Inr mcs
     \<and> component_mapping (dget payload ''configuration'') ''Configuration'' = Inr conf
     \<and> component_mapping (dget payload ''secret_refs'') ''Secret references'' = Inr refs
     \<and> dget payload ''scaling'' = JObj sc
     \<and> set (keys conf) \<subseteq> set (keys mcs) \<and> set (keys refs) \<subseteq> set (keys mcs) \<and> set (keys sc) = set (keys mcs)
     \<and> mapE (build_component conf refs sc settings) mcs = Inr (d_components d)
     \<and> d_environment d = s_environment settings
     \<and> d_normalized_payload d = payload_of (d_deployment_id d) (s_environment settings) (d_generation d)
         (d_desired_state d) (d_release_digest d) (d_manifest d) (d_components d)"

lemma parse_desired_deployment_iff [res_iff]:
  "parse_desired_deployment v settings a = Inr d \<longleftrightarrow>
     (\<exists>payload mcs conf refs sc. v = JObj payload \<and> accepted settings a payload d mcs conf refs sc)"
proof
  assume "parse_desired_deployment v settings a = Inr d"
  then show "\<exists>payload mcs conf refs sc. v = JObj payload \<and> accepted settings a payload d mcs conf refs sc"
    unfolding parse_desired_deployment_def accepted_def
    apply (elim bindE_InrE)
    subgoal for payload u did u2 gen st rel
      apply (cases rel)
      apply (hypsubst, unfold prod.case)
      apply (elim bindE_InrE)
      apply (simp only: object_iff exact_fields_eq validate_deployment_id_iff guardE_iff positive_int_iff
        known_components_iff sum.inject)
      apply (elim conjE)
      apply (hypsubst)
      apply (intro exI conjI; (assumption | simp; fail)?)
      done
    done
next
  assume "\<exists>payload mcs conf refs sc. v = JObj payload \<and> accepted settings a payload d mcs conf refs sc"
  then obtain payload mcs conf refs sc where v: "v = JObj payload"
    and A: "accepted settings a payload d mcs conf refs sc" by blast
  have "object v ''Runtime payload'' = Inr payload" by (simp add: object_def v)
  moreover have "exact_fields payload payload_fields ''Runtime payload'' [] = Inr ()"
    using A by (simp add: exact_fields_eq accepted_def)
  moreover have "validate_deployment_id (dget payload ''deployment_id'') = Inr (d_deployment_id d)"
    using A by (simp add: validate_deployment_id_iff accepted_def)
  moreover have "positive_int (dget payload ''generation'') ''generation'' = Inr (d_generation d)"
    using A by (simp add: positive_int_iff accepted_def)
  moreover have "object (dget payload ''scaling'') ''Scaling'' = Inr sc"
    using A by (simp add: object_iff accepted_def)
  moreover have "mapE (known_components (keys mcs)) [(''Configuration'', keys conf),
      (''Secret references'', keys refs), (''Scaling'', keys sc)] = Inr [(), (), ()]"
    using A by (subst known_components_iff) (simp add: accepted_def)
  ultimately show "parse_desired_deployment v settings a = Inr d"
    using A by (simp del: mapE.simps add: parse_desired_deployment_def accepted_def)
qed


text \<open>Every dictionary below a mapping has distinct keys.\<close>

definition mapping_wf :: "json dict dict \<Rightarrow> bool" where
  "mapping_wf m \<longleftrightarrow> dict_wf m \<and> (\<forall>d \<in> snd ` set m. dict_wf d)"

lemma component_mapping_wf:
  assumes "json_wf v" "component_mapping v l = Inr m"
  shows "mapping_wf m"
proof -
  from assms(2) obtain o' where v: "v = JObj o'" by (auto simp: component_mapping_def bindE_eq_Inr object_iff)
  have "dict_wf o'" using assms(1) by (simp add: v)
  then have "o' = map (\<lambda>(k, d). (k, JObj d)) m"
    using assms(2) component_mapping_iff by (simp add: v)
  then show ?thesis
    using assms(1) by (auto simp: v mapping_wf_def dict_wf_def list_all_iff comp_def split_def)
qed

abbreviation lookup_dict :: "json dict dict \<Rightarrow> string \<Rightarrow> json dict" where
  "lookup_dict m k \<equiv> (case map_of m k of None \<Rightarrow> [] | Some d \<Rightarrow> d)"

lemma lookup_dict_wf: "mapping_wf m \<Longrightarrow> dict_wf (lookup_dict m k)"
  by (fastforce simp: mapping_wf_def dest: map_of_SomeD split: option.splits)

definition component_of :: "string \<Rightarrow> manifest_component \<Rightarrow> string dict \<Rightarrow> string dict \<Rightarrow> scaling_policy \<Rightarrow> component" where
  "component_of sl mc plain secret policy =
     \<lparr>c_module_id = mc_module_id mc, c_slug = sl, c_image = mc_image mc,
      c_container_port = mc_container_port mc, c_healthcheck_path = mc_healthcheck_path mc,
      c_resources = mc_resources mc, c_plain_keys = mc_plain_keys mc,
      c_secret_keys = mc_secret_keys mc, c_configuration = plain,
      c_secret_refs = secret, c_scaling = policy\<rparr>"

lemma build_component_iff:
  assumes "mapping_wf conf" "mapping_wf refs"
  shows "build_component conf refs sc settings (sl, mc) = Inr c \<longleftrightarrow>
     (\<exists>plain secret policy. c = component_of sl mc plain secret policy
        \<and> lookup_dict conf sl = jstr_pairs plain \<and> values_ok (mc_plain_keys mc) False plain
        \<and> lookup_dict refs sl = jstr_pairs secret \<and> values_ok (mc_secret_keys mc) True secret
        \<and> scaling_policy_of (dget sc sl) sl (s_max_replicas settings) = Inr policy)"
proof -
  have wf: "dict_wf (jstr_pairs d) \<longleftrightarrow> dict_wf d" for d
    by (simp add: dict_wf_def comp_def split_def)
  have v: "validate_values (lookup_dict m sl) al sl b = Inr r \<longleftrightarrow>
      lookup_dict m sl = jstr_pairs r \<and> values_ok al b r" if "mapping_wf m" for m al b r
    using validate_values_iff [OF lookup_dict_wf [OF that]] lookup_dict_wf [OF that, of sl] wf [of r]
    by (auto simp: values_ok_def)
  show ?thesis
    by (simp only: build_component_def prod.case bindE_eq_Inr v [OF assms(1)] v [OF assms(2)] component_of_def sum.inject)
      blast
qed

lemma component_of_ok:
  "manifest_component_ok settings (sl, mc) \<Longrightarrow> values_ok (mc_plain_keys mc) False plain \<Longrightarrow>
   values_ok (mc_secret_keys mc) True secret \<Longrightarrow> scaling_ok (s_max_replicas settings) policy \<Longrightarrow>
   component_ok settings (component_of sl mc plain secret policy)"
  by (simp add: component_ok_def manifest_component_ok_def component_of_def)

lemma build_component_ok:
  assumes "mapping_wf conf" "mapping_wf refs" "manifest_component_ok settings sm"
    "build_component conf refs sc settings sm = Inr c"
  shows "component_ok settings c \<and> c_slug c = fst sm \<and> c_module_id c = mc_module_id (snd sm)"
proof (cases sm)
  case (Pair sl mc)
  with assms(4) build_component_iff [OF assms(1,2)] obtain plain secret policy where
    "c = component_of sl mc plain secret policy" "values_ok (mc_plain_keys mc) False plain"
    "values_ok (mc_secret_keys mc) True secret"
    "scaling_policy_of (dget sc sl) sl (s_max_replicas settings) = Inr policy"
    by auto
  then show ?thesis
    using assms(3) Pair component_of_ok scaling_policy_of_ok by (auto simp: component_of_def)
qed

lemma build_components_ok:
  assumes "mapping_wf conf" "mapping_wf refs" "manifest_ok settings mcs"
    "mapE (build_component conf refs sc settings) mcs = Inr cs"
  shows "list_all (component_ok settings) cs \<and> map c_slug cs = map fst mcs
     \<and> map c_module_id cs = map (\<lambda>(_, mc). mc_module_id mc) mcs"
proof -
  have "list_all2 (\<lambda>sm c. build_component conf refs sc settings sm = Inr c) mcs cs"
    using assms(4) by (simp add: mapE_eq_Inr)
  moreover have "list_all (manifest_component_ok settings) mcs" using assms(3) by (simp add: manifest_ok_def)
  ultimately show ?thesis
    by (induction rule: list_all2_induct) (auto dest!: build_component_ok [OF assms(1,2)])
qed

theorem parse_desired_deployment_ok:
  assumes "json_wf v" "parse_desired_deployment v settings a = Inr d"
  shows "desired_ok settings a d"
proof -
  from assms(2) obtain payload mcs conf refs sc where v: "v = JObj payload"
    and A: "accepted settings a payload d mcs conf refs sc"
    unfolding parse_desired_deployment_iff by blast
  have wf: "json_wf (dget payload k)" for k
    using assms(1) json_wf_dget_or [of payload JNull k] by (simp add: v)
  have conf: "mapping_wf conf" and refs: "mapping_wf refs"
    using A component_mapping_wf [OF wf] by (auto simp: accepted_def)
  have mcs: "manifest_ok settings mcs" "1 \<le> length mcs" "length mcs \<le> 20"
    using A parse_manifest_ok by (auto simp: accepted_def)
  have cs: "list_all (component_ok settings) (d_components d)" "map c_slug (d_components d) = map fst mcs"
      "map c_module_id (d_components d) = map (\<lambda>(_, mc). mc_module_id mc) mcs"
    using A build_components_ok [OF conf refs mcs(1)] by (auto simp: accepted_def)
  have "length (d_components d) = length mcs" using arg_cong [OF cs(2), of length] by simp
  moreover have "d_release_digest d = payload_digest (JObj (d_manifest d))"
    using A unfolding accepted_def check_release_iff by (elim conjE exE) simp
  ultimately show ?thesis
    using A cs mcs unfolding desired_ok_def accepted_def check_desired_state_iff manifest_ok_def dict_wf_def
    by simp
qed

end
