(* ===== verification/Contract_Canonical.thy ===== *)
theory Contract_Canonical
  imports Contract_Facts
begin

text \<open>
  The normal form of a payload and its canonical text.

  The controller stores \<open>canonical_json(normalized_payload)\<close> and reads it back with
  \<open>json.loads\<close> and \<open>parse_desired_deployment\<close>. Sorting keys permutes dictionaries, so the
  deployment that is read back is \<open>canonical_desired d\<close>: the same identity, generation,
  state, release digest and components, with the dictionaries in key order. Both have the
  same payload digest, which is what makes a retried request idempotent.
\<close>

section \<open>Sorting keys\<close>

definition jsort_dict :: "json dict \<Rightarrow> json dict" where
  "jsort_dict d = map (\<lambda>(k, v). (k, jsort v)) (sort_key fst d)"

lemma insort_key_fst_map:
  "insort_key fst (k, g v) (map (\<lambda>(k, v). (k, g v)) d) = map (\<lambda>(k, v). (k, g v)) (insort_key fst (k, v) d)"
  by (induction d) auto

lemma sort_key_fst_map:
  "sort_key fst (map (\<lambda>(k, v). (k, g v)) d) = map (\<lambda>(k, v). (k, g v)) (sort_key fst d)"
  by (induction d) (auto simp: insort_key_fst_map)

lemma jsort_JObj [simp]: "jsort (JObj d) = JObj (jsort_dict d)"
  by (simp add: jsort_dict_def sort_key_fst_map)

declare jsort.simps(2) [simp del]

lemma jsort_eq_atom [simp]:
  "jsort v = JNull \<longleftrightarrow> v = JNull" "jsort v = JBool b \<longleftrightarrow> v = JBool b" "jsort v = JInt i \<longleftrightarrow> v = JInt i"
  "jsort v = JFloat f \<longleftrightarrow> v = JFloat f" "jsort v = JStr s \<longleftrightarrow> v = JStr s"
  by (cases v; simp)+

lemma jsort_map_JStr [simp]: "map jsort (map JStr ks) = map JStr ks"
  by (induction ks) simp_all

lemma keys_jsort_dict [simp]: "set (keys (jsort_dict d)) = set (keys d)"
  by (auto simp: jsort_dict_def keys_def image_iff split_def)

lemma map_of_jsort_dict: "dict_wf d \<Longrightarrow> map_of (jsort_dict d) k = map_option jsort (map_of d k)"
  using map_of_jsorted [of d "jsort_dict d" k] by simp

lemma dget_jsort_dict: "dict_wf d \<Longrightarrow> dget_or (jsort v) (jsort_dict d) k = jsort (dget_or v d k)"
  by (simp add: dget_or_def map_of_jsort_dict split: option.splits)

lemma dget_jsort_dict_default:
  "dict_wf d \<Longrightarrow> dget (jsort_dict d) k = jsort (dget d k)"
  "dict_wf d \<Longrightarrow> dget_or (JObj []) (jsort_dict d) k = jsort (dget_or (JObj []) d k)"
  "dict_wf d \<Longrightarrow> dget_or (JList []) (jsort_dict d) k = jsort (dget_or (JList []) d k)"
  using dget_jsort_dict [of d JNull] dget_jsort_dict [of d "JObj []"] dget_jsort_dict [of d "JList []"]
  by (simp_all add: jsort_dict_def)

lemma jsort_idem: "jsort (jsort v) = jsort v"
proof (induction v)
  case (JObj d)
  have "map (\<lambda>(k, v). (k, jsort v)) (jsort_dict d) = jsort_dict d"
    using JObj by (auto simp: jsort_dict_def)
  moreover have "sort_key fst (jsort_dict d) = jsort_dict d"
    by (rule sort_key_id_if_sorted) (simp add: jsort_dict_def comp_def split_def)
  ultimately show ?case by (simp add: jsort_dict_def [of "jsort_dict d"])
qed auto

lemma payload_digest_jsort [simp]: "payload_digest (jsort v) = payload_digest v"
  by (simp add: payload_digest_def canonical_json_def jsort_idem)

lemma payload_digest_jsort_dict [simp]: "payload_digest (JObj (jsort_dict d)) = payload_digest (JObj d)"
  using payload_digest_jsort [of "JObj d"] by simp

lemma equals_one_jsort [simp]: "equals_one (jsort v) = equals_one v"
  by (simp add: equals_one_def)

lemma json_wf_JObj_dget:
  assumes "json_wf (JObj d)"
  shows "dict_wf d" "json_wf (dget d k)" "json_wf (dget_or (JObj []) d k)" "json_wf (dget_or (JList []) d k)"
  using assms json_wf_dget_or [OF assms] by auto


section \<open>The manifest under sorting\<close>

lemma resource_group_jsort:
  assumes wf: "json_wf (JObj rs)" and ok: "resource_group rs sl g = Inr x"
  shows "resource_group (jsort_dict rs) sl g = Inr x"
proof -
  from ok obtain e cpu memory where e: "dget rs g = JObj e" "set (keys e) = {''cpu'', ''memory''}"
    "dget e ''cpu'' = JStr cpu" "is_cpu cpu" "dget e ''memory'' = JStr memory" "is_memory memory"
    "x = [(''cpu'', cpu), (''memory'', memory)]"
    unfolding resource_group_iff by blast
  have "dict_wf rs" "dict_wf e" using wf json_wf_JObj_dget(2) [OF wf, of g] e(1) by auto
  then show ?thesis
    unfolding resource_group_iff using e
    by (intro exI [of _ "jsort_dict e"] exI [of _ cpu] exI [of _ memory]) (simp add: dget_jsort_dict_default)
qed

lemma resources_of_jsort:
  assumes wf: "json_wf v" and ok: "resources_of v sl = Inr x"
  shows "resources_of (jsort v) sl = Inr x"
proof -
  from ok obtain rs requests limits where v: "v = JObj rs" "set (keys rs) = {''requests'', ''limits''}"
    "resource_group rs sl ''requests'' = Inr requests" "resource_group rs sl ''limits'' = Inr limits"
    "requests_within_limits requests limits" "x = [(''requests'', requests), (''limits'', limits)]"
    unfolding resources_of_iff by blast
  have wf': "json_wf (JObj rs)" using wf v(1) by simp
  show ?thesis
    unfolding resources_of_iff
    using v resource_group_jsort [OF wf' v(3)] resource_group_jsort [OF wf' v(4)]
    by (intro exI [of _ "jsort_dict rs"] exI [of _ requests] exI [of _ limits]) simp
qed

lemma key_set_jsort: "key_set v sl = Inr S \<Longrightarrow> key_set (jsort v) sl = Inr S"
  unfolding key_set_iff by (elim exE conjE) (auto simp del: map_map)

lemma parse_profile_jsort:
  assumes wf: "json_wf (JObj spec)" and ok: "parse_profile mid sl img spec = Inr mc"
  shows "parse_profile mid sl img (jsort_dict spec) = Inr mc"
proof -
  from ok obtain port health res conf plain secret where
    p: "set (keys spec) \<subseteq> set profile_fields" "set profile_fields - set profile_optional \<subseteq> set (keys spec)"
      "dget spec ''kind'' = JStr ''deployment''" "dget spec ''container_port'' = JInt port" "1 \<le> port"
      "port \<le> 65535" "dget spec ''healthcheck_path'' = JStr health" "healthcheck_ok health"
    and r: "resources_of (dget spec ''resources'') sl = Inr res"
    and c: "dget_or (JObj []) spec ''configuration'' = JObj conf" "set (keys conf) \<subseteq> set [''plain'', ''secret'']"
    and k: "key_set (dget_or (JList []) conf ''plain'') sl = Inr plain"
      "key_set (dget_or (JList []) conf ''secret'') sl = Inr secret" "plain \<inter> secret = {}"
    and n: "dget_or (JList []) spec ''network_egress'' = JList []"
    and mc: "\<lparr>mc_module_id = mid, mc_image = img, mc_container_port = port, mc_healthcheck_path = health,
             mc_resources = res, mc_plain_keys = plain, mc_secret_keys = secret\<rparr> = mc"
    unfolding parse_profile_iff by blast
  note sw = json_wf_JObj_dget [OF wf]
  have cw: "dict_wf conf" using sw(3) [of "''configuration''"] c(1) by simp
  have "resources_of (dget (jsort_dict spec) ''resources'') sl = Inr res"
    using resources_of_jsort [OF sw(2) r] sw(1) by (simp add: dget_jsort_dict_default)
  moreover have "key_set (dget_or (JList []) (jsort_dict conf) ''plain'') sl = Inr plain"
      "key_set (dget_or (JList []) (jsort_dict conf) ''secret'') sl = Inr secret"
    using key_set_jsort [OF k(1)] key_set_jsort [OF k(2)] cw by (simp_all add: dget_jsort_dict_default)
  ultimately show ?thesis
    unfolding parse_profile_iff using p c k(3) n mc sw(1)
    by (intro exI [of _ port] exI [of _ health] exI [of _ res] exI [of _ "jsort_dict conf"]
        exI [of _ plain] exI [of _ secret]) (simp add: dget_jsort_dict_default)
qed


lemma parse_module_jsort:
  assumes wf: "json_wf raw" and ok: "parse_module settings raw parsed = Inr parsed'"
  shows "parse_module settings (jsort raw) parsed = Inr parsed'"
proof -
  from ok obtain comp mid sl img spec mc where
    raw: "raw = JObj comp" "set (keys comp) = set module_fields"
    and p: "dget comp ''module_id'' = JInt mid" "1 \<le> mid" "dget comp ''slug'' = JStr sl" "is_component_slug sl"
      "sl \<notin> set (keys parsed)" "mid \<notin> set (map (\<lambda>(_, mc). mc_module_id mc) parsed)"
      "dget comp ''image'' = JStr img" "is_image img"
      "list_ex (\<lambda>p. starts_with p img) (s_allowed_image_prefixes settings)"
      "equals_one (dget comp ''profile_schema_version'')"
    and s: "dget comp ''spec'' = JObj spec" "dget comp ''profile_digest'' = JStr (payload_digest (JObj spec))"
      "parse_profile mid sl img spec = Inr mc" "dput sl mc parsed = parsed'"
    unfolding parse_module_iff by (elim exE conjE)
  have cw: "json_wf (JObj comp)" using wf raw(1) by simp
  note w = json_wf_JObj_dget [OF cw]
  have sw: "json_wf (JObj spec)" using w(2) [of "''spec''"] s(1) by simp
  have "parse_profile mid sl img (jsort_dict spec) = Inr mc" by (rule parse_profile_jsort [OF sw s(3)])
  then show ?thesis
    unfolding parse_module_iff using raw p s w(1)
    by (intro exI [of _ "jsort_dict comp"] exI [of _ mid] exI [of _ sl] exI [of _ img]
        exI [of _ "jsort_dict spec"] exI [of _ mc]) (simp add: dget_jsort_dict_default)
qed

lemma parse_modules_jsort:
  "list_all json_wf ms \<Longrightarrow> foldE (parse_module settings) ms parsed = Inr mcs \<Longrightarrow>
   foldE (parse_module settings) (map jsort ms) parsed = Inr mcs"
proof (induction ms arbitrary: parsed)
  case (Cons m ms)
  then obtain q where "parse_module settings m parsed = Inr q" "foldE (parse_module settings) ms q = Inr mcs"
    by (auto simp: bindE_eq_Inr)
  with Cons show ?case by (simp add: parse_module_jsort)
qed simp

lemma manifest_header_jsort:
  assumes wf: "json_wf (JObj m)" and ok: "manifest_header m"
  shows "manifest_header (jsort_dict m)"
proof -
  note w = json_wf_JObj_dget [OF wf]
  from ok obtain app i s where app: "dget m ''application'' = JObj app" "set (keys app) = set [''id'', ''slug'']"
      "dget app ''id'' = JInt i" "dget app ''slug'' = JStr s" "s \<noteq> []"
    unfolding manifest_header_def by blast
  have "dict_wf app" using w(2) [of "''application''"] app(1) by simp
  then have "\<exists>app i s. dget (jsort_dict m) ''application'' = JObj app \<and> set (keys app) = set [''id'', ''slug'']
          \<and> dget app ''id'' = JInt i \<and> dget app ''slug'' = JStr s \<and> s \<noteq> []"
    using app w(1) by (intro exI [of _ "jsort_dict app"] exI [of _ i] exI [of _ s])
      (simp add: dget_jsort_dict_default)
  then show ?thesis
    using ok w(1) unfolding manifest_header_def by (simp add: dget_jsort_dict_default)
qed

lemma parse_manifest_jsort:
  assumes wf: "json_wf (JObj m)" and ok: "parse_manifest m settings = Inr mcs"
  shows "parse_manifest (jsort_dict m) settings = Inr mcs"
proof -
  from ok obtain ms where ms: "dget m ''modules'' = JList ms" "1 \<le> length ms" "length ms \<le> 20"
      "foldE (parse_module settings) ms [] = Inr mcs" and h: "manifest_header m"
    unfolding parse_manifest_iff by blast
  note w = json_wf_JObj_dget [OF wf]
  have "list_all json_wf ms" using w(2) [of "''modules''"] ms(1) by simp
  with ms w(1) show ?thesis
    unfolding parse_manifest_iff
    by (auto simp: dget_jsort_dict_default parse_modules_jsort manifest_header_jsort [OF wf h])
qed


section \<open>Storable deployments\<close>

text \<open>
  What a parsed deployment keeps beyond \<open>desired_ok\<close>: its components come from its own
  manifest. The deletion record of a deployment is storable as well.
\<close>

definition built_from :: "string \<times> manifest_component \<Rightarrow> component \<Rightarrow> bool" where
  "built_from sm c \<longleftrightarrow>
     c = component_of (fst sm) (snd sm) (c_configuration c) (c_secret_refs c) (c_scaling c)"

lemma built_from_slug: "built_from sm c \<Longrightarrow> c_slug c = fst sm"
proof -
  have "c_slug (component_of sl mc p s x) = sl" for sl mc p s x by (simp add: component_of_def)
  then show "built_from sm c \<Longrightarrow> c_slug c = fst sm" unfolding built_from_def by metis
qed

definition storable :: "controller_settings \<Rightarrow> desired_deployment \<Rightarrow> bool" where
  "storable settings d \<longleftrightarrow> desired_ok settings True d \<and> json_wf (JObj (d_manifest d))
     \<and> (\<exists>mcs. parse_manifest (d_manifest d) settings = Inr mcs \<and> list_all2 built_from mcs (d_components d))"

lemma desired_ok_mono: "desired_ok settings a d \<Longrightarrow> desired_ok settings True d"
  by (auto simp: desired_ok_def)

lemma build_component_built_from:
  "build_component conf refs sc settings sm = Inr c \<Longrightarrow> built_from sm c"
  by (cases sm) (auto simp: build_component_def bindE_eq_Inr built_from_def component_of_def)

theorem parse_desired_deployment_storable:
  assumes "json_wf v" "parse_desired_deployment v settings a = Inr d"
  shows "storable settings d"
proof -
  from assms(2) obtain payload mcs conf refs sc where v: "v = JObj payload"
    and A: "accepted settings a payload d mcs conf refs sc"
    unfolding parse_desired_deployment_iff by blast
  have wf: "json_wf (JObj payload)" using assms(1) v by simp
  from A obtain r where r: "dget payload ''release'' = JObj r" "dget r ''manifest'' = JObj (d_manifest d)"
    unfolding accepted_def check_release_iff by (elim conjE exE)
  have "json_wf (JObj r)" using json_wf_JObj_dget(2) [OF wf, of "''release''"] r(1) by simp
  then have "json_wf (JObj (d_manifest d))" using json_wf_JObj_dget(2) [of r "''manifest''"] r(2) by simp
  moreover have "list_all2 (\<lambda>sm c. build_component conf refs sc settings sm = Inr c) mcs (d_components d)"
    using A by (simp add: accepted_def mapE_eq_Inr)
  then have "list_all2 built_from mcs (d_components d)"
    by (rule list_all2_mono) (rule build_component_built_from)
  ultimately show ?thesis
    using A desired_ok_mono [OF parse_desired_deployment_ok [OF assms]] by (auto simp: storable_def accepted_def)
qed

definition canonical_component :: "component \<Rightarrow> component" where
  "canonical_component c = c\<lparr>c_configuration := sort_key fst (c_configuration c),
     c_secret_refs := sort_key fst (c_secret_refs c)\<rparr>"

definition canonical_desired :: "desired_deployment \<Rightarrow> desired_deployment" where
  "canonical_desired d =
     (let man = jsort_dict (d_manifest d); comps = map canonical_component (d_components d)
      in d\<lparr>d_manifest := man, d_components := comps,
           d_normalized_payload := payload_of (d_deployment_id d) (d_environment d) (d_generation d)
             (d_desired_state d) (d_release_digest d) man comps\<rparr>)"

lemma canonical_desired_simps [simp]:
  "d_deployment_id (canonical_desired d) = d_deployment_id d"
  "d_environment (canonical_desired d) = d_environment d"
  "d_generation (canonical_desired d) = d_generation d"
  "d_desired_state (canonical_desired d) = d_desired_state d"
  "d_release_digest (canonical_desired d) = d_release_digest d"
  "d_manifest (canonical_desired d) = jsort_dict (d_manifest d)"
  "d_components (canonical_desired d) = map canonical_component (d_components d)"
  by (simp_all add: canonical_desired_def Let_def)

lemma canonical_desired_payload:
  "d_normalized_payload (canonical_desired d) = payload_of (d_deployment_id d) (d_environment d) (d_generation d)
     (d_desired_state d) (d_release_digest d) (jsort_dict (d_manifest d)) (map canonical_component (d_components d))"
  by (simp add: canonical_desired_def Let_def)

lemma canonical_component_simps [simp]:
  "c_slug (canonical_component c) = c_slug c" "c_image (canonical_component c) = c_image c"
  "c_scaling (canonical_component c) = c_scaling c" "c_module_id (canonical_component c) = c_module_id c"
  "c_configuration (canonical_component c) = sort_key fst (c_configuration c)"
  "c_secret_refs (canonical_component c) = sort_key fst (c_secret_refs c)"
  by (simp_all add: canonical_component_def)


section \<open>Reading the canonical payload\<close>

lemma jsort_str_dict [simp]: "jsort (str_dict d) = str_dict (sort_key fst d)"
  by (auto simp: str_dict_def jsort_dict_def sort_key_fst_map)

lemma jsort_scaling_dict:
  "jsort (scaling_dict (Fixed r)) = JObj [(''mode'', JStr ''fixed''), (''replicas'', JInt r)]"
  "jsort (scaling_dict (Autoscale lo hi t)) = JObj [(''max_replicas'', JInt hi), (''min_replicas'', JInt lo),
     (''mode'', JStr ''autoscale''), (''target_cpu_utilization'', JInt t)]"
  by (simp_all add: scaling_dict_def jsort_dict_def less_eq_char_def)

lemma scaling_dict_jsort:
  "scaling_ok maximum p \<Longrightarrow> scaling_policy_of (jsort (scaling_dict p)) sl maximum = Inr p"
  by (cases p) (auto simp: jsort_scaling_dict scaling_policy_of_def scaling_ok_def object_def exact_fields_def
      positive_int_def keys_def)

lemma json_wf_scaling_dict: "json_wf (scaling_dict p)"
  by (cases p) (simp_all add: scaling_dict_def)

definition sorted_mapping :: "(component \<Rightarrow> string dict) \<Rightarrow> component list \<Rightarrow> json dict dict" where
  "sorted_mapping f cs = sort_key fst (map (\<lambda>c. (c_slug c, jstr_pairs (sort_key fst (f c)))) cs)"

lemma jsort_dict_mapping:
  "jsort_dict (map (\<lambda>c. (c_slug c, str_dict (f c))) cs) = map (\<lambda>(k, d). (k, JObj d)) (sorted_mapping f cs)"
proof -
  have "jsort_dict (map (\<lambda>c. (c_slug c, str_dict (f c))) cs) =
      sort_key fst (map (\<lambda>(k, v). (k, jsort v)) (map (\<lambda>c. (c_slug c, str_dict (f c))) cs))"
    by (simp only: jsort_dict_def sort_key_fst_map)
  also have "\<dots> = sort_key fst (map (\<lambda>(k, d). (k, JObj d)) (map (\<lambda>c. (c_slug c, jstr_pairs (sort_key fst (f c)))) cs))"
    by (simp add: comp_def str_dict_def [symmetric])
  also have "\<dots> = map (\<lambda>(k, d). (k, JObj d)) (sorted_mapping f cs)"
    by (simp only: sorted_mapping_def sort_key_fst_map)
  finally show ?thesis .
qed

lemma set_sorted_mapping:
  "set (sorted_mapping f cs) = (\<lambda>c. (c_slug c, jstr_pairs (sort_key fst (f c)))) ` set cs"
  by (simp add: sorted_mapping_def)

lemma sorted_mapping_wf:
  assumes "distinct (map c_slug cs)" "\<forall>c \<in> set cs. dict_wf (f c)"
  shows "mapping_wf (sorted_mapping f cs)"
proof -
  have "dict_wf (map (\<lambda>c. (c_slug c, jstr_pairs (sort_key fst (f c)))) cs)"
    using assms(1) by (simp add: dict_wf_def comp_def)
  moreover have "dict_wf (jstr_pairs (sort_key fst (f c)))" if "c \<in> set cs" for c
    using sort_key_fst_wf [of "f c"] assms(2) that by (simp add: dict_wf_def comp_def split_def)
  ultimately show ?thesis
    by (auto simp: mapping_wf_def set_sorted_mapping sorted_mapping_def intro: sort_key_fst_wf)
qed

lemma lookup_sorted_mapping:
  assumes "distinct (map c_slug cs)" "c \<in> set cs"
  shows "lookup_dict (sorted_mapping f cs) (c_slug c) = jstr_pairs (sort_key fst (f c))"
proof -
  let ?m = "map (\<lambda>c. (c_slug c, jstr_pairs (sort_key fst (f c)))) cs"
  have wf: "dict_wf ?m" using assms(1) by (simp add: dict_wf_def comp_def)
  have "map_of ?m (c_slug c) = Some (jstr_pairs (sort_key fst (f c)))"
    using assms(2) by (subst map_of_dict_wf [OF wf]) auto
  then show ?thesis by (simp add: sorted_mapping_def map_of_sort_key [OF wf])
qed

lemma values_ok_sort: "values_ok al b d \<Longrightarrow> values_ok al b (sort_key fst d)"
proof -
  have "sum_list (map value_size (sort_key fst d)) = sum_list (map value_size d)"
    by (metis mset_map mset_sort sum_mset_sum_list)
  then show "values_ok al b d \<Longrightarrow> values_ok al b (sort_key fst d)"
    by (simp add: values_ok_def sort_key_fst_wf list_all_iff)
qed

lemma build_canonical:
  assumes cs: "distinct (map c_slug cs)" "list_all (component_ok settings) cs" "c \<in> set cs"
    and built: "built_from sm c"
    and sc: "sc = jsort_dict (map (\<lambda>c. (c_slug c, scaling_dict (c_scaling c))) cs)"
  shows "build_component (sorted_mapping c_configuration cs) (sorted_mapping c_secret_refs cs) sc settings sm
     = Inr (canonical_component c)"
proof -
  obtain sl mc where sm: "sm = (sl, mc)" by (cases sm)
  have c: "c = component_of sl mc (c_configuration c) (c_secret_refs c) (c_scaling c)"
    using built by (simp add: built_from_def sm)
  have sl: "c_slug c = sl" and keys: "c_plain_keys c = mc_plain_keys mc" "c_secret_keys c = mc_secret_keys mc"
    by (subst c, simp add: component_of_def)+
  have ok: "component_ok settings c" using cs(2,3) by (simp add: list_all_iff)
  let ?s = "map (\<lambda>c. (c_slug c, scaling_dict (c_scaling c))) cs"
  have wf: "dict_wf ?s" using cs(1) by (simp add: dict_wf_def comp_def)
  have "map_of ?s sl = Some (scaling_dict (c_scaling c))"
    using cs(3) sl by (subst map_of_dict_wf [OF wf]) auto
  then have "dget sc sl = jsort (scaling_dict (c_scaling c))"
    by (simp add: sc dget_jsort_dict_default wf) (simp add: dget_or_def)
  then have "scaling_policy_of (dget sc sl) sl (s_max_replicas settings) = Inr (c_scaling c)"
    using ok scaling_dict_jsort by (simp add: component_ok_def)
  moreover have wfs: "mapping_wf (sorted_mapping c_configuration cs)" "mapping_wf (sorted_mapping c_secret_refs cs)"
    using cs(1,2) by (auto intro!: sorted_mapping_wf simp: list_all_iff component_ok_def values_ok_def)
  moreover have "canonical_component c =
      component_of sl mc (sort_key fst (c_configuration c)) (sort_key fst (c_secret_refs c)) (c_scaling c)"
    by (subst c) (simp add: canonical_component_def component_of_def)
  ultimately show ?thesis
    using ok lookup_sorted_mapping [OF cs(1,3)] values_ok_sort
    unfolding sm build_component_iff [OF wfs]
    by - (rule exI [of _ "sort_key fst (c_configuration c)"], rule exI [of _ "sort_key fst (c_secret_refs c)"],
        rule exI [of _ "c_scaling c"], simp add: component_ok_def keys sl)
qed


lemma payload_of_wf: "dict_wf (payload_of did env gen st dig man cs)"
  by (simp add: payload_of_def)

lemma keys_payload_of: "set (keys (payload_of did env gen st dig man cs)) = set payload_fields"
  by (simp add: payload_of_def payload_fields_def keys_def)

lemma dget_payload_of:
  "dget (payload_of did env gen st dig man cs) ''deployment_id'' = JStr did"
  "dget (payload_of did env gen st dig man cs) ''environment'' = JStr env"
  "dget (payload_of did env gen st dig man cs) ''generation'' = JInt gen"
  "dget (payload_of did env gen st dig man cs) ''desired_state'' = JStr st"
  "dget (payload_of did env gen st dig man cs) ''release'' = JObj [(''digest'', JStr dig), (''manifest'', JObj man)]"
  "dget (payload_of did env gen st dig man cs) ''configuration'' =
     JObj (map (\<lambda>c. (c_slug c, str_dict (c_configuration c))) cs)"
  "dget (payload_of did env gen st dig man cs) ''secret_refs'' =
     JObj (map (\<lambda>c. (c_slug c, str_dict (c_secret_refs c))) cs)"
  "dget (payload_of did env gen st dig man cs) ''scaling'' =
     JObj (map (\<lambda>c. (c_slug c, scaling_dict (c_scaling c))) cs)"
  by (simp_all add: payload_of_def)

lemma component_mapping_sorted:
  assumes "distinct (map c_slug cs)" "list_all (component_ok settings) cs"
  shows "component_mapping (JObj (jsort_dict (map (\<lambda>c. (c_slug c, str_dict (f c))) cs))) l
    = Inr (sorted_mapping f cs)"
proof -
  let ?m = "map (\<lambda>c. (c_slug c, str_dict (f c))) cs"
  have "dict_wf ?m" using assms(1) by (simp add: dict_wf_def comp_def)
  then have "dict_wf (jsort_dict ?m)"
    using sort_key_fst_wf [of ?m] by (simp add: jsort_dict_def dict_wf_def comp_def split_def)
  moreover have "list_all is_component_slug (keys (sorted_mapping f cs))"
    using assms(2) by (auto simp: list_all_iff keys_def set_sorted_mapping component_ok_def)
  ultimately show ?thesis by (simp add: component_mapping_iff jsort_dict_mapping)
qed

lemma check_release_sorted:
  assumes "dig = payload_digest (JObj man)"
  shows "check_release (jsort (JObj [(''digest'', JStr dig), (''manifest'', JObj man)])) = Inr (dig, jsort_dict man)"
proof -
  let ?r = "[(''digest'', JStr dig), (''manifest'', JObj man)]"
  have "dict_wf ?r" by simp
  then show ?thesis
    unfolding check_release_iff using assms
    by (intro exI [of _ "jsort_dict ?r"]) (simp add: dget_jsort_dict_default is_hex_digest_payload, simp add: keys_def)
qed

theorem parse_canonical_payload:
  assumes "storable settings d"
  shows "parse_desired_deployment (jsort (JObj (d_normalized_payload d))) settings True = Inr (canonical_desired d)"
proof -
  let ?cs = "d_components d" and ?p = "d_normalized_payload d"
  from assms obtain mcs where ok: "desired_ok settings True d" and man: "json_wf (JObj (d_manifest d))"
    "parse_manifest (d_manifest d) settings = Inr mcs" and built: "list_all2 built_from mcs ?cs"
    by (auto simp: storable_def)
  have p: "?p = payload_of (d_deployment_id d) (d_environment d) (d_generation d) (d_desired_state d)
      (d_release_digest d) (d_manifest d) ?cs" using ok by (simp add: desired_ok_def)
  have cs: "distinct (map c_slug ?cs)" "list_all (component_ok settings) ?cs"
    using ok by (auto simp: desired_ok_def)
  let ?sc = "jsort_dict (map (\<lambda>c. (c_slug c, scaling_dict (c_scaling c))) ?cs)"
  have get: "dget (jsort_dict ?p) k = jsort (dget ?p k)" for k
    by (simp add: p payload_of_wf dget_jsort_dict_default)
  have "list_all2 (\<lambda>sm c. build_component (sorted_mapping c_configuration ?cs) (sorted_mapping c_secret_refs ?cs)
      ?sc settings sm = Inr c) mcs (map canonical_component ?cs)"
    unfolding list_all2_map2 using built
    by (rule list.rel_mono_strong) (rule build_canonical [OF cs], simp_all)
  then have build: "mapE (build_component (sorted_mapping c_configuration ?cs) (sorted_mapping c_secret_refs ?cs)
      ?sc settings) mcs = Inr (map canonical_component ?cs)" by (simp add: mapE_eq_Inr)
  have slugs: "map fst mcs = map c_slug ?cs"
    using built by (induction rule: list_all2_induct) (auto simp: built_from_slug)
  have fields: "dget (jsort_dict ?p) ''deployment_id'' = JStr (d_deployment_id d)"
      "dget (jsort_dict ?p) ''environment'' = JStr (d_environment d)"
      "dget (jsort_dict ?p) ''generation'' = JInt (d_generation d)"
      "dget (jsort_dict ?p) ''desired_state'' = JStr (d_desired_state d)"
      "dget (jsort_dict ?p) ''scaling'' = JObj ?sc"
    unfolding get unfolding p dget_payload_of by simp_all
  have release: "check_release (dget (jsort_dict ?p) ''release'') = Inr (d_release_digest d, jsort_dict (d_manifest d))"
    unfolding get unfolding p dget_payload_of using ok by (intro check_release_sorted) (simp add: desired_ok_def)
  have maps: "component_mapping (dget (jsort_dict ?p) ''configuration'') l = Inr (sorted_mapping c_configuration ?cs)"
      "component_mapping (dget (jsort_dict ?p) ''secret_refs'') l = Inr (sorted_mapping c_secret_refs ?cs)" for l
    unfolding get unfolding p dget_payload_of by (simp_all add: component_mapping_sorted [OF cs])
  have keys: "set (keys (jsort_dict ?p)) = set payload_fields" by (simp add: p keys_payload_of)
  have "set (keys mcs) = c_slug ` set ?cs" using slugs by (metis keys_def set_map)
  then have slug_sets: "set (keys (sorted_mapping f ?cs)) \<subseteq> set (keys mcs)" "set (keys ?sc) = set (keys mcs)" for f
    by (auto simp: keys_def [of "sorted_mapping f ?cs"] set_sorted_mapping)
      (auto simp: keys_def)
  have "accepted settings True (jsort_dict ?p) (canonical_desired d) mcs
      (sorted_mapping c_configuration ?cs) (sorted_mapping c_secret_refs ?cs) ?sc"
    using ok parse_manifest_jsort [OF man] build
    unfolding accepted_def fields release maps keys canonical_desired_simps check_desired_state_iff
    by (simp add: slug_sets [unfolded keys_jsort_dict] desired_ok_def canonical_desired_def Let_def)
  then show ?thesis unfolding parse_desired_deployment_iff by auto
qed

text \<open>The canonical text of the payload, read by \<open>json.loads\<close> and parsed.\<close>

lemma json_wf_str_dict: "dict_wf d \<Longrightarrow> json_wf (str_dict d)"
  by (auto simp: str_dict_def dict_wf_def comp_def split_def list_all_iff)

lemma json_wf_payload:
  assumes "storable settings d"
  shows "json_wf (JObj (d_normalized_payload d))"
proof -
  let ?cs = "d_components d"
  have ok: "desired_ok settings True d" and man: "json_wf (JObj (d_manifest d))"
    using assms by (auto simp: storable_def)
  have cs: "distinct (map c_slug ?cs)" "\<forall>c \<in> set ?cs. component_ok settings c"
    using ok by (auto simp: desired_ok_def list_all_iff)
  have wf: "json_wf (JObj (map (\<lambda>c. (c_slug c, f c)) ?cs))" if "\<forall>c \<in> set ?cs. json_wf (f c)" for f
    using cs(1) that by (auto simp: dict_wf_def comp_def list_all_iff)
  have "\<forall>c \<in> set ?cs. json_wf (str_dict (c_configuration c)) \<and> json_wf (str_dict (c_secret_refs c))"
    using cs(2) by (auto intro!: json_wf_str_dict simp: component_ok_def values_ok_def)
  then have "json_wf (JObj (map (\<lambda>c. (c_slug c, str_dict (c_configuration c))) ?cs))"
      "json_wf (JObj (map (\<lambda>c. (c_slug c, str_dict (c_secret_refs c))) ?cs))"
      "json_wf (JObj (map (\<lambda>c. (c_slug c, scaling_dict (c_scaling c))) ?cs))"
    by (auto intro!: wf simp del: json_wf.simps(3) simp: json_wf_scaling_dict)
  moreover have "d_normalized_payload d = payload_of (d_deployment_id d) (d_environment d) (d_generation d)
      (d_desired_state d) (d_release_digest d) (d_manifest d) ?cs"
    using ok by (simp add: desired_ok_def)
  ultimately show ?thesis
    using man payload_of_wf by (simp add: payload_of_def)
qed

theorem read_back_canonical:
  assumes "storable settings d"
    and "utf8_decode (canonical_json (JObj (d_normalized_payload d))) = Some text"
  shows "\<exists>v. json_loads text = Some v \<and> parse_desired_deployment v settings True = Inr (canonical_desired d)"
proof -
  have "json_loads text = Some (jsort (JObj (d_normalized_payload d)))"
    using json_loads_canonical [OF json_wf_payload [OF assms(1)]] assms(2) by simp
  then show ?thesis using parse_canonical_payload [OF assms(1)] by simp
qed

lemma jsort_dict_cong:
  "map (\<lambda>(k, v). (k, jsort v)) d = map (\<lambda>(k, v). (k, jsort v)) e \<Longrightarrow> jsort_dict d = jsort_dict e"
  by (simp add: jsort_dict_def sort_key_fst_map [symmetric])

lemma jsort_dict_idem: "jsort_dict (jsort_dict d) = jsort_dict d"
  using jsort_idem [of "JObj d"] by simp

lemma sort_key_fst_idem [simp]: "sort_key fst (sort_key fst d) = sort_key fst d"
  by (rule sort_key_id_if_sorted) simp

theorem canonical_desired_digest:
  assumes "storable settings d"
  shows "payload_digest (JObj (d_normalized_payload (canonical_desired d))) = payload_digest (JObj (d_normalized_payload d))"
proof -
  have sort_obj: "jsort_dict (map (\<lambda>c. (c_slug c, g (canonical_component c))) cs) = jsort_dict (map (\<lambda>c. (c_slug c, g c)) cs)"
    if "\<And>c. jsort (g (canonical_component c)) = jsort (g c)" for g cs
    using that by (intro jsort_dict_cong) (simp add: comp_def)
  have rel: "jsort_dict [(''digest'', x), (''manifest'', JObj (jsort_dict m))] = jsort_dict [(''digest'', x), (''manifest'', JObj m)]"
    for x m by (intro jsort_dict_cong) (simp add: jsort_dict_idem)
  have "jsort_dict (d_normalized_payload (canonical_desired d)) = jsort_dict (d_normalized_payload d)"
  proof (rule jsort_dict_cong)
    show "map (\<lambda>(k, v). (k, jsort v)) (d_normalized_payload (canonical_desired d)) =
      map (\<lambda>(k, v). (k, jsort v)) (d_normalized_payload d)"
      using assms sort_obj [of "\<lambda>c. str_dict (c_configuration c)"] sort_obj [of "\<lambda>c. str_dict (c_secret_refs c)"]
        sort_obj [of "\<lambda>c. scaling_dict (c_scaling c)"]
      by (simp add: storable_def desired_ok_def canonical_desired_payload payload_of_def rel comp_def)
  qed
  then have "jsort (JObj (d_normalized_payload (canonical_desired d))) = jsort (JObj (d_normalized_payload d))" by simp
  then show ?thesis unfolding payload_digest_def canonical_json_def by simp
qed



section \<open>The normalized payload is a normal form\<close>

definition plain_mapping :: "(component \<Rightarrow> string dict) \<Rightarrow> component list \<Rightarrow> json dict dict" where
  "plain_mapping f cs = map (\<lambda>c. (c_slug c, jstr_pairs (f c))) cs"

lemma plain_mapping_wf:
  "distinct (map c_slug cs) \<Longrightarrow> \<forall>c \<in> set cs. dict_wf (f c) \<Longrightarrow> mapping_wf (plain_mapping f cs)"
  by (auto simp: mapping_wf_def plain_mapping_def dict_wf_def comp_def split_def)

lemma component_mapping_plain:
  assumes "distinct (map c_slug cs)" "list_all (component_ok settings) cs"
  shows "component_mapping (JObj (map (\<lambda>c. (c_slug c, str_dict (f c))) cs)) l = Inr (plain_mapping f cs)"
proof -
  have "dict_wf (map (\<lambda>c. (c_slug c, str_dict (f c))) cs)" using assms(1) by (simp add: dict_wf_def comp_def)
  then show ?thesis
    using assms(2) by (auto simp: component_mapping_iff plain_mapping_def list_all_iff keys_def
        component_ok_def str_dict_def)
qed

lemma map_of_slug:
  assumes "distinct (map c_slug cs)" "c \<in> set cs"
  shows "map_of (map (\<lambda>c. (c_slug c, g c)) cs) (c_slug c) = Some (g c)"
proof -
  have "dict_wf (map (\<lambda>c. (c_slug c, g c)) cs)" using assms(1) by (simp add: dict_wf_def comp_def)
  then show ?thesis using assms(2) by (subst map_of_dict_wf) auto
qed

lemma build_normal:
  assumes cs: "distinct (map c_slug cs)" "list_all (component_ok settings) cs" "c \<in> set cs"
    and built: "built_from sm c"
  shows "build_component (plain_mapping c_configuration cs) (plain_mapping c_secret_refs cs)
     (map (\<lambda>c. (c_slug c, scaling_dict (c_scaling c))) cs) settings sm = Inr c"
proof -
  obtain sl mc where sm: "sm = (sl, mc)" by (cases sm)
  have c: "c = component_of sl mc (c_configuration c) (c_secret_refs c) (c_scaling c)"
    using built by (simp add: built_from_def sm)
  have sl: "c_slug c = sl" and keys: "c_plain_keys c = mc_plain_keys mc" "c_secret_keys c = mc_secret_keys mc"
    by (subst c, simp add: component_of_def)+
  have ok: "component_ok settings c" using cs(2,3) by (simp add: list_all_iff)
  have wfs: "mapping_wf (plain_mapping c_configuration cs)" "mapping_wf (plain_mapping c_secret_refs cs)"
    using cs(1,2) by (auto intro!: plain_mapping_wf simp: list_all_iff component_ok_def values_ok_def)
  have "lookup_dict (plain_mapping f cs) sl = jstr_pairs (f c)" for f
    using map_of_slug [OF cs(1,3), of "\<lambda>c. jstr_pairs (f c)"] sl by (simp add: plain_mapping_def)
  moreover have "dget (map (\<lambda>c. (c_slug c, scaling_dict (c_scaling c))) cs) sl = scaling_dict (c_scaling c)"
    using map_of_slug [OF cs(1,3), of "\<lambda>c. scaling_dict (c_scaling c)"] sl by (simp add: dget_or_def)
  ultimately show ?thesis
    using ok c scaling_policy_of_dict unfolding sm build_component_iff [OF wfs]
    by - (rule exI [of _ "c_configuration c"], rule exI [of _ "c_secret_refs c"],
        rule exI [of _ "c_scaling c"], simp add: component_ok_def keys sl)
qed

theorem parse_normal_form:
  assumes "storable settings d" and st: "d_desired_state d = ''absent'' \<Longrightarrow> a"
  shows "parse_desired_deployment (JObj (d_normalized_payload d)) settings a = Inr d"
proof -
  let ?cs = "d_components d" and ?p = "d_normalized_payload d"
  from assms obtain mcs where ok: "desired_ok settings True d"
    and man: "parse_manifest (d_manifest d) settings = Inr mcs" and built: "list_all2 built_from mcs ?cs"
    by (auto simp: storable_def)
  have p: "?p = payload_of (d_deployment_id d) (d_environment d) (d_generation d) (d_desired_state d)
      (d_release_digest d) (d_manifest d) ?cs" using ok by (simp add: desired_ok_def)
  have cs: "distinct (map c_slug ?cs)" "list_all (component_ok settings) ?cs"
    using ok by (auto simp: desired_ok_def)
  have "list_all2 (\<lambda>sm c. build_component (plain_mapping c_configuration ?cs) (plain_mapping c_secret_refs ?cs)
      (map (\<lambda>c. (c_slug c, scaling_dict (c_scaling c))) ?cs) settings sm = Inr c) mcs ?cs"
    using built by (rule list.rel_mono_strong) (rule build_normal [OF cs], simp_all)
  then have build: "mapE (build_component (plain_mapping c_configuration ?cs) (plain_mapping c_secret_refs ?cs)
      (map (\<lambda>c. (c_slug c, scaling_dict (c_scaling c))) ?cs) settings) mcs = Inr ?cs" by (simp add: mapE_eq_Inr)
  have "map fst mcs = map c_slug ?cs"
    using built by (induction rule: list_all2_induct) (auto simp: built_from_slug)
  then have "set (keys mcs) = c_slug ` set ?cs" by (metis keys_def set_map)
  then have slugs: "set (keys (map (\<lambda>c. (c_slug c, g c)) ?cs)) = set (keys mcs)" for g :: "component \<Rightarrow> 'x"
    by (auto simp: keys_def)
  have release: "check_release (dget ?p ''release'') = Inr (d_release_digest d, d_manifest d)"
    unfolding check_release_iff using ok
    by (simp add: p dget_payload_of desired_ok_def is_hex_digest_payload keys_def)
  have "accepted settings a ?p d mcs (plain_mapping c_configuration ?cs) (plain_mapping c_secret_refs ?cs)
      (map (\<lambda>c. (c_slug c, scaling_dict (c_scaling c))) ?cs)"
    using ok man build release st component_mapping_plain [OF cs]
    unfolding accepted_def check_desired_state_iff
    by (simp add: p dget_payload_of keys_payload_of desired_ok_def slugs)
      (auto simp: plain_mapping_def slugs)
  then show ?thesis unfolding parse_desired_deployment_iff by blast
qed

end
