(* ===== verification/Samples.thy ===== *)
theory Samples
  imports Contract_Canonical
begin

text \<open>
  A concrete controller configuration and a concrete runtime payload with one autoscaled
  component, used to instantiate the properties. Digests stay symbolic: the manifest
  carries the digest of its own profile and the payload that of its manifest.
\<close>

definition sample_settings :: controller_settings where
  "sample_settings = \<lparr>s_auth_token = ''0123456789abcdef0123456789abcdef'', s_environment = ''production'',
     s_namespace = ''archideal-runtime'', s_kubernetes_url = ''https://10.0.0.1:443'',
     s_kubernetes_token_file = ''/var/run/secrets/kubernetes.io/serviceaccount/token'',
     s_kubernetes_ca_file = ''/var/run/secrets/kubernetes.io/serviceaccount/ca.crt'',
     s_allowed_image_prefixes = [''ghcr.io/smartappli/''],
     s_workload_service_account = ''dealhost-runtime-application'',
     s_image_pull_secret = ''archideal-registry-credentials'', s_secret_name_prefix = ''dealapp'',
     s_secret_catalog_name = ''dealhost-runtime-secret-catalog'',
     s_secret_catalog_namespace = ''archideal'', s_max_replicas = 10, s_request_timeout_seconds = 15,
     s_lease_duration_seconds = 30, s_lease_acquire_timeout_seconds = 10\<rparr>"

definition sample_image :: string where
  "sample_image = ''ghcr.io/smartappli/web@sha256:'' @ replicate 64 CHR ''a''"

definition sample_id :: string where
  "sample_id = ''01234567-89ab-4cde-8f01-23456789abcd''"

definition sample_resources :: "string dict dict" where
  "sample_resources = [(''requests'', [(''cpu'', ''100m''), (''memory'', ''64Mi'')]),
     (''limits'', [(''cpu'', ''1''), (''memory'', ''1Gi'')])]"

definition sample_spec :: "json dict" where
  "sample_spec = [(''kind'', JStr ''deployment''), (''container_port'', JInt 8080),
     (''healthcheck_path'', JStr ''/health''),
     (''resources'', JObj (map (\<lambda>(g, e). (g, str_dict e)) sample_resources)),
     (''configuration'', JObj [(''plain'', JList [JStr ''LOG_LEVEL'']), (''secret'', JList [JStr ''DB_URL''])])]"

definition sample_module :: "json dict" where
  "sample_module = [(''module_id'', JInt 7), (''slug'', JStr ''web''), (''image'', JStr sample_image),
     (''profile_schema_version'', JInt 1), (''profile_digest'', JStr (payload_digest (JObj sample_spec))),
     (''spec'', JObj sample_spec)]"

definition sample_manifest :: "json dict" where
  "sample_manifest = [(''schema_version'', JInt 1),
     (''application'', JObj [(''id'', JInt 3), (''slug'', JStr ''portal'')]),
     (''version'', JStr ''1.2.3''), (''version_source'', JStr ''tag''), (''modules'', JList [JObj sample_module])]"

definition sample_component :: component where
  "sample_component = \<lparr>c_module_id = 7, c_slug = ''web'', c_image = sample_image, c_container_port = 8080,
     c_healthcheck_path = ''/health'', c_resources = sample_resources, c_plain_keys = {''LOG_LEVEL''},
     c_secret_keys = {''DB_URL''}, c_configuration = [(''LOG_LEVEL'', ''info'')],
     c_secret_refs = [(''DB_URL'', ''portal-db'')], c_scaling = Autoscale 2 5 70\<rparr>"

definition sample_payload :: "string \<Rightarrow> json dict" where
  "sample_payload st = payload_of sample_id ''production'' 4 st (payload_digest (JObj sample_manifest))
     sample_manifest [sample_component]"

definition sample_desired :: "string \<Rightarrow> desired_deployment" where
  "sample_desired st = \<lparr>d_deployment_id = sample_id, d_environment = ''production'', d_generation = 4,
     d_desired_state = st, d_release_digest = payload_digest (JObj sample_manifest),
     d_manifest = sample_manifest, d_components = [sample_component],
     d_normalized_payload = sample_payload st\<rparr>"

lemma sample_image_ok: "is_image sample_image" "starts_with ''ghcr.io/smartappli/'' sample_image"
  by code_simp+

lemma sample_id_ok: "is_canonical_uuid sample_id"
  by code_simp

definition sample_mc :: manifest_component where
  "sample_mc = \<lparr>mc_module_id = 7, mc_image = sample_image, mc_container_port = 8080,
     mc_healthcheck_path = ''/health'', mc_resources = sample_resources,
     mc_plain_keys = {''LOG_LEVEL''}, mc_secret_keys = {''DB_URL''}\<rparr>"

lemmas char_eval = char_class_defs less_eq_char_def

lemma sample_atoms:
  "is_component_slug ''web''" "is_env_key ''LOG_LEVEL''" "is_env_key ''DB_URL''" "is_secret_name ''portal-db''"
  "healthcheck_ok ''/health''"
  by (simp_all add: is_component_slug_def is_env_key_def is_secret_name_def healthcheck_ok_def char_eval
      is_slug_char_def is_env_char_def starts_with_def isspace_char_def)

lemma sample_quantities:
  "is_cpu ''100m''" "is_cpu ''1''" "is_memory ''64Mi''" "is_memory ''1Gi''"
  "requests_within_limits [(''cpu'', ''100m''), (''memory'', ''64Mi'')] [(''cpu'', ''1''), (''memory'', ''1Gi'')]"
  by (simp_all add: is_cpu_def is_memory_def is_positive_dec_def char_eval ends_with_def
      requests_within_limits_def entry_def cpu_millis_def memory_kib_def nat_of_dec_def digit_val_def)

lemma sample_resources_of:
  "resources_of (JObj (map (\<lambda>(g, e). (g, str_dict e)) sample_resources)) sl = Inr sample_resources"
  unfolding resources_of_iff resource_group_iff using sample_quantities
  by (simp add: sample_resources_def str_dict_def keys_def)

lemma sample_profile: "parse_profile 7 ''web'' sample_image sample_spec = Inr sample_mc"
proof -
  have "resources_of (dget sample_spec ''resources'') ''web'' = Inr sample_resources"
    using sample_resources_of [of "''web''"] by (simp add: sample_spec_def)
  moreover have "key_set (JList [JStr ''LOG_LEVEL'']) ''web'' = Inr {''LOG_LEVEL''}"
      "key_set (JList [JStr ''DB_URL'']) ''web'' = Inr {''DB_URL''}"
    using sample_atoms(2,3) by (simp_all add: key_set_def)
  ultimately show ?thesis
    unfolding parse_profile_iff using sample_atoms(5)
    by - (rule exI [of _ 8080], rule exI [of _ "''/health''"], rule exI [of _ sample_resources],
        rule exI [of _ "[(''plain'', JList [JStr ''LOG_LEVEL'']), (''secret'', JList [JStr ''DB_URL''])]"],
        rule exI [of _ "{''LOG_LEVEL''}"], rule exI [of _ "{''DB_URL''}"],
        simp add: sample_spec_def sample_mc_def keys_def profile_fields_def profile_optional_def insert_Diff_if)
qed

lemma sample_module_ok: "parse_module sample_settings (JObj sample_module) [] = Inr [(''web'', sample_mc)]"
proof -
  show ?thesis
    unfolding parse_module_iff using sample_atoms(1) sample_profile sample_image_ok
    by - (rule exI [of _ sample_module], rule exI [of _ 7], rule exI [of _ "''web''"],
        rule exI [of _ sample_image], rule exI [of _ sample_spec], rule exI [of _ sample_mc],
        simp add: sample_module_def module_fields_def keys_def equals_one_def sample_settings_def)
qed

lemma sample_manifest_ok: "parse_manifest sample_manifest sample_settings = Inr [(''web'', sample_mc)]"
  unfolding parse_manifest_iff manifest_header_def using sample_module_ok
  by (simp add: sample_manifest_def manifest_fields_def keys_def equals_one_def)

lemma sample_json_wf: "json_wf (JObj sample_manifest)" "json_wf (JObj (sample_payload st))"
proof -
  have spec: "json_wf (JObj sample_spec)" by code_simp
  show man: "json_wf (JObj sample_manifest)"
    using spec by (simp add: sample_manifest_def sample_module_def)
  show "json_wf (JObj (sample_payload st))"
    using man by (simp add: sample_payload_def payload_of_def sample_component_def str_dict_def
        scaling_dict_def)
qed

lemma sample_component_ok: "component_ok sample_settings sample_component"
proof -
  have "resources_ok sample_resources" using resources_of_ok [OF sample_resources_of] .
  then show ?thesis
    using sample_atoms sample_image_ok
    by (simp add: component_ok_def sample_component_def sample_settings_def key_sets_ok_def values_ok_def
        value_ok_def value_size_def utf8_encode_def utf8_char_def scaling_ok_def)
qed

lemma sample_desired_ok:
  assumes "st \<in> {''running'', ''stopped'', ''absent''}"
  shows "desired_ok sample_settings True (sample_desired st)"
  using assms sample_component_ok sample_id_ok
  by (auto simp: desired_ok_def sample_desired_def sample_payload_def sample_settings_def)

lemma sample_storable:
  assumes "st \<in> {''running'', ''stopped'', ''absent''}"
  shows "storable sample_settings (sample_desired st)"
proof -
  have "built_from (''web'', sample_mc) sample_component"
    by (simp add: built_from_def component_of_def sample_component_def sample_mc_def)
  then show ?thesis
    using sample_desired_ok [OF assms] sample_json_wf(1) sample_manifest_ok
    by (simp add: storable_def) (simp add: sample_desired_def)
qed

lemma sample_parses:
  assumes "st \<in> {''running'', ''stopped''}"
  shows "parse_desired_deployment (JObj (sample_payload st)) sample_settings a = Inr (sample_desired st)"
  using parse_normal_form [OF sample_storable, of st a] assms by (auto simp: sample_desired_def)

end
