(* ===== verification/Kube_Monad.thy ===== *)
theory Kube_Monad
  imports Settings
begin

text \<open>
  Computations of the controller that talk to the outside.

  A computation runs against an environment \<open>env\<close> and the history of what this task has
  done so far, newest event first: the HTTP requests it sent and the times it slept. The
  environment holds what is not under the controller's control, each as an arbitrary
  function of the history: the outcome of the last request (the Kubernetes API server and
  the network, including what other tasks and other replicas do to the server between two
  requests), the content of the mounted token, the clocks, the fresh identifiers, and the
  text decoding of the HTTP library. A theorem that holds for every environment holds for
  every server, every failure and every interleaving with other clients.

  \<open>Cancelled\<close> is the outcome of a request at which \<open>asyncio\<close> delivered a cancellation; the
  flag \<open>e_lease_lost\<close> tells whether the Lease renewal task, which runs beside the task,
  had set its \<open>lease_lost\<close> event by then. The wall clock \<open>e_now\<close> is in microseconds since
  the Unix epoch, the monotonic clock and the times slept are in seconds.
\<close>

record kube_request =
  r_method :: string
  r_path :: string
  r_params :: "string dict"
  r_content :: "string option"
  r_headers :: "string dict"

record http_response =
  h_status :: int
  h_headers :: "string dict"
  h_chunks :: "string list"

datatype http_outcome =
    HttpError
  | Cancelled
  | HttpReply http_response

datatype event =
    Request kube_request
  | Sleep rat

type_synonym history = "event list"

record env =
  e_transport :: "history \<Rightarrow> http_outcome"
  e_token :: "history \<Rightarrow> string option"
  e_now :: "history \<Rightarrow> int"
  e_monotonic :: "history \<Rightarrow> rat"
  e_uuid4 :: "history \<Rightarrow> string"
  e_lease_lost :: "history \<Rightarrow> bool"
  e_text :: "http_response \<Rightarrow> string"

type_synonym 'a kube = "env \<Rightarrow> history \<Rightarrow> (exn + 'a) \<times> history"

definition retK :: "'a \<Rightarrow> 'a kube" where
  "retK x env h = (Inr x, h)"

definition raiseK :: "exn \<Rightarrow> 'a kube" where
  "raiseK e env h = (Inl e, h)"

definition liftK :: "exn + 'a \<Rightarrow> 'a kube" where
  "liftK r env h = (r, h)"

definition askK :: "(env \<Rightarrow> history \<Rightarrow> 'a) \<Rightarrow> 'a kube" where
  "askK f env h = (Inr (f env h), h)"

definition emitK :: "event \<Rightarrow> unit kube" where
  "emitK ev env h = (Inr (), ev # h)"

definition bindK :: "'a kube \<Rightarrow> ('a \<Rightarrow> 'b kube) \<Rightarrow> 'b kube" where
  "bindK m f env h = (case m env h of (Inl e, h') \<Rightarrow> (Inl e, h') | (Inr x, h') \<Rightarrow> f x env h')"

definition tryK :: "'a kube \<Rightarrow> (exn \<Rightarrow> 'a kube) \<Rightarrow> 'a kube" where
  "tryK m f env h = (case m env h of (Inl e, h') \<Rightarrow> f e env h' | (Inr x, h') \<Rightarrow> (Inr x, h'))"

fun forK :: "('a \<Rightarrow> unit kube) \<Rightarrow> 'a list \<Rightarrow> unit kube" where
  "forK f [] = retK ()"
| "forK f (x # xs) = bindK (f x) (\<lambda>_. forK f xs)"

fun mapK :: "('a \<Rightarrow> 'b kube) \<Rightarrow> 'a list \<Rightarrow> 'b list kube" where
  "mapK f [] = retK []"
| "mapK f (x # xs) = bindK (f x) (\<lambda>y. bindK (mapK f xs) (\<lambda>ys. retK (y # ys)))"

lemma retK_simp [simp]: "retK x env h = (Inr x, h)"
  by (simp add: retK_def)

lemma raiseK_simp [simp]: "raiseK e env h = (Inl e, h)"
  by (simp add: raiseK_def)

lemma liftK_simp [simp]: "liftK r env h = (r, h)"
  by (simp add: liftK_def)

lemma askK_simp [simp]: "askK f env h = (Inr (f env h), h)"
  by (simp add: askK_def)

lemma emitK_simp [simp]: "emitK ev env h = (Inr (), ev # h)"
  by (simp add: emitK_def)

lemma bindK_cases:
  assumes "bindK m f env h = (r, h'')"
  obtains (raised) e where "m env h = (Inl e, h'')" "r = Inl e"
    | (continued) x h' where "m env h = (Inr x, h')" "f x env h' = (r, h'')"
  using assms by (cases "m env h"; cases "fst (m env h)") (auto simp: bindK_def)

lemma bindK_InrE:
  assumes "bindK m f env h = (Inr y, h'')"
  obtains x h' where "m env h = (Inr x, h')" "f x env h' = (Inr y, h'')"
  using assms by (rule bindK_cases) auto

lemma bindK_Inr [simp]: "m env h = (Inr x, h') \<Longrightarrow> bindK m f env h = f x env h'"
  by (simp add: bindK_def)

lemma bindK_Inl [simp]: "m env h = (Inl e, h') \<Longrightarrow> bindK m f env h = (Inl e, h')"
  by (simp add: bindK_def)

lemma tryK_Inr [simp]: "m env h = (Inr x, h') \<Longrightarrow> tryK m f env h = (Inr x, h')"
  by (simp add: tryK_def)

lemma tryK_Inl [simp]: "m env h = (Inl e, h') \<Longrightarrow> tryK m f env h = f e env h'"
  by (simp add: tryK_def)

lemma bindK_retK: "bindK (retK x) f = f x"
  by (simp add: fun_eq_iff)

lemma bindK_raiseK: "bindK (raiseK e) f = raiseK e"
  by (simp add: fun_eq_iff)


section \<open>What a computation does to the history\<close>

text \<open>
  \<open>does P m\<close>: whatever the environment, \<open>m\<close> only prepends events that satisfy \<open>P\<close>. The
  rules of the collection \<open>does_intros\<close> follow the structure of a computation.
\<close>

named_theorems does_intros \<open>rules for the events of a computation\<close>

definition does :: "(event \<Rightarrow> bool) \<Rightarrow> 'a kube \<Rightarrow> bool" where
  "does P m \<longleftrightarrow> (\<forall>env h. \<exists>es. snd (m env h) = es @ h \<and> list_all P es)"

lemma doesI: "(\<And>env h. \<exists>es. snd (m env h) = es @ h \<and> list_all P es) \<Longrightarrow> does P m"
  by (simp add: does_def)

lemma doesD: "does P m \<Longrightarrow> m env h = (r, h') \<Longrightarrow> \<exists>es. h' = es @ h \<and> list_all P es"
  unfolding does_def by (metis snd_conv)

lemma does_retK [does_intros]: "does P (retK x)"
  by (simp add: does_def)

lemma does_raiseK [does_intros]: "does P (raiseK e)"
  by (simp add: does_def)

lemma does_liftK [does_intros]: "does P (liftK r)"
  by (simp add: does_def)

lemma does_askK [does_intros]: "does P (askK f)"
  by (simp add: does_def)

lemma does_emitK [does_intros]: "P ev \<Longrightarrow> does P (emitK ev)"
  by (simp add: does_def)

lemma does_bindK [does_intros]:
  assumes "does P m" "\<And>x. does P (f x)"
  shows "does P (bindK m f)"
proof (rule doesI)
  fix env h
  obtain r h1 where m: "m env h = (r, h1)" by (cases "m env h")
  obtain es where es: "h1 = es @ h" "list_all P es" using doesD [OF assms(1) m] by blast
  show "\<exists>es. snd (bindK m f env h) = es @ h \<and> list_all P es"
  proof (cases r)
    case (Inl e)
    with m es show ?thesis by simp
  next
    case (Inr x)
    obtain r2 h2 where f: "f x env h1 = (r2, h2)" by (cases "f x env h1")
    from doesD [OF assms(2) f] obtain fs where "h2 = fs @ h1" "list_all P fs" by blast
    with m f Inr es show ?thesis by (intro exI [of _ "fs @ es"]) simp
  qed
qed

lemma does_tryK [does_intros]:
  assumes "does P m" "\<And>e. does P (f e)"
  shows "does P (tryK m f)"
proof (rule doesI)
  fix env h
  obtain r h1 where m: "m env h = (r, h1)" by (cases "m env h")
  obtain es where es: "h1 = es @ h" "list_all P es" using doesD [OF assms(1) m] by blast
  show "\<exists>es. snd (tryK m f env h) = es @ h \<and> list_all P es"
  proof (cases r)
    case (Inr x)
    with m es show ?thesis by simp
  next
    case (Inl e)
    obtain r2 h2 where f: "f e env h1 = (r2, h2)" by (cases "f e env h1")
    from doesD [OF assms(2) f] obtain fs where "h2 = fs @ h1" "list_all P fs" by blast
    with m f Inl es show ?thesis by (intro exI [of _ "fs @ es"]) simp
  qed
qed

lemma does_forK [does_intros]: "(\<And>x. x \<in> set xs \<Longrightarrow> does P (f x)) \<Longrightarrow> does P (forK f xs)"
  by (induction xs) (auto intro!: does_intros)

lemma does_mapK [does_intros]: "(\<And>x. x \<in> set xs \<Longrightarrow> does P (f x)) \<Longrightarrow> does P (mapK f xs)"
  by (induction xs) (auto intro!: does_intros)

lemma does_if [does_intros]: "(b \<Longrightarrow> does P m) \<Longrightarrow> (\<not> b \<Longrightarrow> does P m') \<Longrightarrow> does P (if b then m else m')"
  by simp

lemma does_case_option [does_intros]:
  "(v = None \<Longrightarrow> does P m) \<Longrightarrow> (\<And>x. v = Some x \<Longrightarrow> does P (f x)) \<Longrightarrow>
   does P (case v of None \<Rightarrow> m | Some x \<Rightarrow> f x)"
  by (cases v) simp_all

lemma does_case_prod [does_intros]:
  "(\<And>a b. v = (a, b) \<Longrightarrow> does P (f a b)) \<Longrightarrow> does P (case v of (a, b) \<Rightarrow> f a b)"
  by (cases v) simp

lemma does_mono: "does P m \<Longrightarrow> (\<And>ev. P ev \<Longrightarrow> Q ev) \<Longrightarrow> does Q m"
  unfolding does_def by (meson list.pred_mono_strong)

text \<open>The history only grows.\<close>

lemma does_extends: "does P m \<Longrightarrow> m env h = (r, h') \<Longrightarrow> length h \<le> length h'"
  using doesD by fastforce



section \<open>What a computation may raise\<close>

named_theorems raises_intros \<open>rules for the exceptions of a computation\<close>

definition raises :: "(exn \<Rightarrow> bool) \<Rightarrow> 'a kube \<Rightarrow> bool" where
  "raises Q m \<longleftrightarrow> (\<forall>env h e h'. m env h = (Inl e, h') \<longrightarrow> Q e)"

lemma raisesD: "raises Q m \<Longrightarrow> m env h = (Inl e, h') \<Longrightarrow> Q e"
  unfolding raises_def by blast

lemma raises_retK [raises_intros]: "raises Q (retK x)"
  by (simp add: raises_def)

lemma raises_raiseK [raises_intros]: "Q e \<Longrightarrow> raises Q (raiseK e)"
  by (simp add: raises_def)

lemma raises_liftK [raises_intros]: "(\<And>e. r = Inl e \<Longrightarrow> Q e) \<Longrightarrow> raises Q (liftK r)"
  by (simp add: raises_def)

lemma raises_askK [raises_intros]: "raises Q (askK f)"
  by (simp add: raises_def)

lemma raises_emitK [raises_intros]: "raises Q (emitK ev)"
  by (simp add: raises_def)

lemma raisesI: "(\<And>env h e h'. m env h = (Inl e, h') \<Longrightarrow> Q e) \<Longrightarrow> raises Q m"
  unfolding raises_def by blast

lemma raises_bindK [raises_intros]: "raises Q m \<Longrightarrow> (\<And>x. raises Q (f x)) \<Longrightarrow> raises Q (bindK m f)"
  by (rule raisesI, erule bindK_cases) (auto dest: raisesD)

lemma raises_tryK [raises_intros]: "(\<And>e. raises Q (f e)) \<Longrightarrow> raises Q (tryK m f)"
  by (rule raisesI) (auto simp: tryK_def dest: raisesD split: prod.splits sum.splits)

lemma raises_forK [raises_intros]: "(\<And>x. x \<in> set xs \<Longrightarrow> raises Q (f x)) \<Longrightarrow> raises Q (forK f xs)"
  by (induction xs) (auto intro!: raises_intros)

lemma raises_mapK [raises_intros]: "(\<And>x. x \<in> set xs \<Longrightarrow> raises Q (f x)) \<Longrightarrow> raises Q (mapK f xs)"
  by (induction xs) (auto intro!: raises_intros)

lemma raises_if [raises_intros]: "(b \<Longrightarrow> raises Q m) \<Longrightarrow> (\<not> b \<Longrightarrow> raises Q m') \<Longrightarrow> raises Q (if b then m else m')"
  by simp

lemma raises_case_option [raises_intros]:
  "(v = None \<Longrightarrow> raises Q m) \<Longrightarrow> (\<And>x. v = Some x \<Longrightarrow> raises Q (f x)) \<Longrightarrow>
   raises Q (case v of None \<Rightarrow> m | Some x \<Rightarrow> f x)"
  by (cases v) simp_all

lemma raises_case_prod [raises_intros]:
  "(\<And>a b. v = (a, b) \<Longrightarrow> raises Q (f a b)) \<Longrightarrow> raises Q (case v of (a, b) \<Rightarrow> f a b)"
  by (cases v) simp

lemma raises_mono: "raises P m \<Longrightarrow> (\<And>e. P e \<Longrightarrow> Q e) \<Longrightarrow> raises Q m"
  by (rule raisesI) (blast dest: raisesD)

end
