(* ===== verification/Resources.thy ===== *)
theory Resources
  imports Contract_Canonical
begin

text \<open>
  The Kubernetes objects of a runtime deployment:
  \<open>src/components/DEALHost/dealhost/runtime_controller_service/resources.py\<close>.

  Every function of the source is a definition with the same name; an object is the
  JSON value the source builds, keys in the order of the source. The lemmas give the
  shape of the names (DNS labels of at most 63 characters), the labels every object
  carries, and the bounds of replicas.
\<close>

section \<open>Names and labels\<close>

definition MANAGED_BY :: string where
  "MANAGED_BY = ''dealhost-runtime-controller''"

definition MANAGED_BY_LABEL :: string where
  "MANAGED_BY_LABEL = ''app.kubernetes.io/managed-by''"

definition DEPLOYMENT_LABEL :: string where
  "DEPLOYMENT_LABEL = ''archideal.io/runtime-deployment''"

definition COMPONENT_LABEL :: string where
  "COMPONENT_LABEL = ''archideal.io/runtime-component''"

definition ENVIRONMENT_LABEL :: string where
  "ENVIRONMENT_LABEL = ''archideal.io/runtime-environment''"

definition WORKLOAD_LABEL :: string where
  "WORKLOAD_LABEL = ''archideal.io/runtime-workload''"

text \<open>\<open>hashlib.sha256(text.encode()).hexdigest()\<close>.\<close>

definition text_digest :: "string \<Rightarrow> string" where
  "text_digest s = sha256_hexdigest (utf8_encode s)"

definition state_name :: "string \<Rightarrow> string" where
  "state_name did = ''dealrt-'' @ take 24 (text_digest did) @ ''-state''"

definition lease_name :: "string \<Rightarrow> string" where
  "lease_name did = ''dealrt-'' @ take 24 (text_digest did) @ ''-lock''"

text \<open>\<open>s[:n]\<close>: a negative bound counts from the end.\<close>

definition slice_to :: "int \<Rightarrow> 'a list \<Rightarrow> 'a list" where
  "slice_to n s = (if 0 \<le> n then take (nat n) s else take (length s - nat (- n)) s)"

definition component_name :: "string \<Rightarrow> string \<Rightarrow> string \<Rightarrow> string" where
  "component_name did slug suf =
     (let identity = take 20 (text_digest did);
          slug_hash = take 8 (text_digest slug);
          reserved = length ''dealrt---'' + length identity + length slug_hash + length suf;
          available = 63 - int reserved;
          trimmed = rstrip_where (\<lambda>c. c = CHR ''-'') (slice_to available slug)
      in ''dealrt-'' @ identity @ ''-'' @ trimmed @ ''-'' @ slug_hash @ suf)"

definition resolved_secret_name :: "controller_settings \<Rightarrow> string \<Rightarrow> string" where
  "resolved_secret_name settings logical_name = s_secret_name_prefix settings @ ''-'' @ logical_name"

definition selector :: "string \<Rightarrow> string option \<Rightarrow> string" where
  "selector did co = join_with '',''
     ([MANAGED_BY_LABEL @ ''='' @ MANAGED_BY, DEPLOYMENT_LABEL @ ''='' @ did]
      @ (case co of None \<Rightarrow> [] | Some c \<Rightarrow> if c = [] then [] else [COMPONENT_LABEL @ ''='' @ c]))"

definition common_labels :: "desired_deployment \<Rightarrow> component option \<Rightarrow> json dict" where
  "common_labels d co =
     (let labels = [(MANAGED_BY_LABEL, JStr MANAGED_BY),
            (''app.kubernetes.io/part-of'', JStr ''archideal-runtime''),
            (DEPLOYMENT_LABEL, JStr (d_deployment_id d)), (ENVIRONMENT_LABEL, JStr (d_environment d))]
      in case co of
           None \<Rightarrow> labels
         | Some c \<Rightarrow> dput COMPONENT_LABEL (JStr (c_slug c))
             (dput ''app.kubernetes.io/name'' (JStr (c_slug c)) labels))"


section \<open>Objects\<close>

text \<open>\<open>bytes.decode("utf-8")\<close> of a text that was just encoded.\<close>

definition decoded :: "string \<Rightarrow> string" where
  "decoded b = (case utf8_decode b of None \<Rightarrow> [] | Some s \<Rightarrow> s)"

definition state_config_map :: "desired_deployment \<Rightarrow> controller_settings \<Rightarrow> string \<Rightarrow> string \<Rightarrow> json dict" where
  "state_config_map d settings phase request_id =
     [(''apiVersion'', JStr ''v1''), (''kind'', JStr ''ConfigMap''),
      (''metadata'', JObj [
        (''name'', JStr (state_name (d_deployment_id d))),
        (''namespace'', JStr (s_namespace settings)),
        (''labels'', JObj (common_labels d None)),
        (''annotations'', JObj [
          (''archideal.io/desired-generation'', JStr (str_int (d_generation d))),
          (''archideal.io/release-digest'', JStr (d_release_digest d)),
          (''archideal.io/last-request-id'', JStr request_id),
          (''archideal.io/payload-digest'', JStr (payload_digest (JObj (d_normalized_payload d))))])]),
      (''data'', JObj [
        (''phase'', JStr phase),
        (''desired.json'', JStr (decoded (canonical_json (JObj (d_normalized_payload d)))))])]"

definition component_config_map :: "desired_deployment \<Rightarrow> component \<Rightarrow> controller_settings \<Rightarrow> json dict" where
  "component_config_map d c settings =
     [(''apiVersion'', JStr ''v1''), (''kind'', JStr ''ConfigMap''),
      (''metadata'', JObj [
        (''name'', JStr (component_name (d_deployment_id d) (c_slug c) ''-cfg'')),
        (''namespace'', JStr (s_namespace settings)),
        (''labels'', JObj (common_labels d (Some c)))]),
      (''immutable'', JBool False),
      (''data'', str_dict (sort_key fst (c_configuration c)))]"

definition initial_replicas :: "desired_deployment \<Rightarrow> component \<Rightarrow> int" where
  "initial_replicas d c =
     (if d_desired_state d = ''running''
      then (case c_scaling c of Fixed r \<Rightarrow> r | Autoscale lo hi t \<Rightarrow> lo) else 0)"

definition config_env :: "string \<Rightarrow> string \<Rightarrow> json" where
  "config_env config_name key =
     JObj [(''name'', JStr key),
       (''valueFrom'', JObj [(''configMapKeyRef'', JObj [(''name'', JStr config_name), (''key'', JStr key)])])]"

definition secret_env :: "controller_settings \<Rightarrow> string \<times> string \<Rightarrow> json" where
  "secret_env settings kv =
     (case kv of (key, secret_name) \<Rightarrow>
       JObj [(''name'', JStr key),
         (''valueFrom'', JObj [(''secretKeyRef'',
            JObj [(''name'', JStr (resolved_secret_name settings secret_name)), (''key'', JStr key)])])])"

definition probe :: "string \<Rightarrow> (string \<times> json) list \<Rightarrow> json" where
  "probe path timing =
     JObj ((''httpGet'', JObj [(''path'', JStr path), (''port'', JStr ''http'')]) # timing)"

definition main_container :: "desired_deployment \<Rightarrow> component \<Rightarrow> controller_settings \<Rightarrow> json dict" where
  "main_container d c settings =
     (let config_name = component_name (d_deployment_id d) (c_slug c) ''-cfg'';
          path = c_healthcheck_path c
      in [(''name'', JStr ''main''), (''image'', JStr (c_image c)), (''imagePullPolicy'', JStr ''IfNotPresent''),
          (''ports'', JList [JObj [(''name'', JStr ''http''), (''containerPort'', JInt (c_container_port c))]]),
          (''env'', JList (map (config_env config_name) (sort (keys (c_configuration c)))
             @ map (secret_env settings) (sort_key fst (c_secret_refs c)))),
          (''resources'', JObj (map (\<lambda>(g, e). (g, str_dict e)) (c_resources c))),
          (''startupProbe'', probe path [(''periodSeconds'', JInt 5), (''timeoutSeconds'', JInt 2),
             (''failureThreshold'', JInt 30)]),
          (''readinessProbe'', probe path [(''initialDelaySeconds'', JInt 2), (''periodSeconds'', JInt 5),
             (''timeoutSeconds'', JInt 2), (''failureThreshold'', JInt 6)]),
          (''livenessProbe'', probe path [(''initialDelaySeconds'', JInt 10), (''periodSeconds'', JInt 10),
             (''timeoutSeconds'', JInt 2), (''failureThreshold'', JInt 6)]),
          (''securityContext'', JObj [(''allowPrivilegeEscalation'', JBool False),
             (''readOnlyRootFilesystem'', JBool True), (''capabilities'', JObj [(''drop'', JList [JStr ''ALL''])])]),
          (''volumeMounts'', JList [JObj [(''name'', JStr ''tmp''), (''mountPath'', JStr ''/tmp'')]])])"

definition pod_spec :: "desired_deployment \<Rightarrow> component \<Rightarrow> controller_settings \<Rightarrow> json dict" where
  "pod_spec d c settings =
     (let spec = [(''serviceAccountName'', JStr (s_workload_service_account settings)),
            (''automountServiceAccountToken'', JBool False), (''terminationGracePeriodSeconds'', JInt 30),
            (''securityContext'', JObj [(''runAsNonRoot'', JBool True),
               (''seccompProfile'', JObj [(''type'', JStr ''RuntimeDefault'')])]),
            (''containers'', JList [JObj (main_container d c settings)]),
            (''volumes'', JList [JObj [(''name'', JStr ''tmp''), (''emptyDir'', JObj [])]])]
      in if s_image_pull_secret settings = [] then spec
         else dput ''imagePullSecrets'' (JList [JObj [(''name'', JStr (s_image_pull_secret settings))]]) spec)"

definition deployment_resource ::
  "desired_deployment \<Rightarrow> component \<Rightarrow> controller_settings \<Rightarrow> string \<Rightarrow> json dict" where
  "deployment_resource d c settings restart_request =
     (let name = component_name (d_deployment_id d) (c_slug c) [];
          labels = common_labels d (Some c);
          pod_labels = dput WORKLOAD_LABEL (JStr name) labels;
          annotations = [(''archideal.io/desired-generation'', JStr (str_int (d_generation d))),
            (''archideal.io/release-digest'', JStr (d_release_digest d))];
          annotations = (if restart_request = [] then annotations
            else dput ''archideal.io/restart-request'' (JStr restart_request) annotations)
      in [(''apiVersion'', JStr ''apps/v1''), (''kind'', JStr ''Deployment''),
          (''metadata'', JObj [(''name'', JStr name), (''namespace'', JStr (s_namespace settings)),
             (''labels'', JObj labels), (''annotations'', JObj annotations)]),
          (''spec'', JObj [
             (''replicas'', JInt (initial_replicas d c)), (''revisionHistoryLimit'', JInt 3),
             (''progressDeadlineSeconds'', JInt 600),
             (''strategy'', JObj [(''type'', JStr ''RollingUpdate''),
                (''rollingUpdate'', JObj [(''maxUnavailable'', JInt 0), (''maxSurge'', JInt 1)])]),
             (''selector'', JObj [(''matchLabels'', JObj pod_labels)]),
             (''template'', JObj [
                (''metadata'', JObj [(''labels'', JObj pod_labels), (''annotations'', JObj annotations)]),
                (''spec'', JObj (pod_spec d c settings))])])])"

definition service_resource :: "desired_deployment \<Rightarrow> component \<Rightarrow> controller_settings \<Rightarrow> json dict" where
  "service_resource d c settings =
     (let name = component_name (d_deployment_id d) (c_slug c) [];
          labels = common_labels d (Some c);
          selector_labels = dput WORKLOAD_LABEL (JStr name) labels
      in [(''apiVersion'', JStr ''v1''), (''kind'', JStr ''Service''),
          (''metadata'', JObj [(''name'', JStr name), (''namespace'', JStr (s_namespace settings)),
             (''labels'', JObj labels)]),
          (''spec'', JObj [(''type'', JStr ''ClusterIP''), (''selector'', JObj selector_labels),
             (''ports'', JList [JObj [(''name'', JStr ''http''), (''port'', JInt 80), (''protocol'', JStr ''TCP''),
                (''targetPort'', JStr ''http'')]])])])"

definition hpa_resource :: "desired_deployment \<Rightarrow> component \<Rightarrow> controller_settings \<Rightarrow> exn + json dict" where
  "hpa_resource d c settings =
     (let name = component_name (d_deployment_id d) (c_slug c) []
      in case c_scaling c of
           Fixed r \<Rightarrow> Inl (ValueError ''HPA requested for a fixed-scale component.'')
         | Autoscale lo hi t \<Rightarrow> Inr
             [(''apiVersion'', JStr ''autoscaling/v2''), (''kind'', JStr ''HorizontalPodAutoscaler''),
              (''metadata'', JObj [(''name'', JStr name), (''namespace'', JStr (s_namespace settings)),
                 (''labels'', JObj (common_labels d (Some c)))]),
              (''spec'', JObj [
                 (''scaleTargetRef'', JObj [(''apiVersion'', JStr ''apps/v1''), (''kind'', JStr ''Deployment''),
                    (''name'', JStr name)]),
                 (''minReplicas'', JInt lo), (''maxReplicas'', JInt hi),
                 (''metrics'', JList [JObj [(''type'', JStr ''Resource''), (''resource'', JObj [
                    (''name'', JStr ''cpu''), (''target'', JObj [(''type'', JStr ''Utilization''),
                      (''averageUtilization'', JInt t)])])]]),
                 (''behavior'', JObj [(''scaleDown'', JObj [(''stabilizationWindowSeconds'', JInt 300)]),
                    (''scaleUp'', JObj [(''stabilizationWindowSeconds'', JInt 0)])])])])"



section \<open>Names are DNS labels\<close>

definition is_dns_label :: "string \<Rightarrow> bool" where
  "is_dns_label s \<longleftrightarrow> s \<noteq> [] \<and> is_lower_alnum (hd s) \<and> is_lower_alnum (last s)
     \<and> list_all is_slug_char s \<and> length s \<le> 63"

lemma text_digest_shape: "length (text_digest s) = 64" "list_all is_hex (text_digest s)"
  by (simp_all add: text_digest_def sha256_hexdigest_shape)

lemma is_hex_slug_char: "is_hex c \<Longrightarrow> is_slug_char c"
  by (simp add: is_slug_char_def is_hex_lower_alnum)

lemma digest_prefix:
  "n \<le> 64 \<Longrightarrow> length (take n (text_digest s)) = n"
  "list_all is_slug_char (take n (text_digest s))"
  "list_all is_lower_alnum (take n (text_digest s))"
  using text_digest_shape [of s]
  by (auto simp: list_all_iff is_hex_slug_char is_hex_lower_alnum dest!: in_set_takeD)

lemma prefix_chars: "list_all is_slug_char ''dealrt-''" "is_lower_alnum CHR ''d''"
  by (simp_all add: is_slug_char_def char_class_defs less_eq_char_def)

lemma component_slug_chars: "is_component_slug s \<Longrightarrow> list_all is_slug_char s"
  by (cases s) (auto simp: is_component_slug_def is_slug_char_def)

theorem state_name_dns: "is_dns_label (state_name did)" "is_dns_label (lease_name did)"
proof -
  have tails: "list_all is_slug_char ''-state''" "is_lower_alnum CHR ''e''"
      "list_all is_slug_char ''-lock''" "is_lower_alnum CHR ''k''"
    by (simp_all add: is_slug_char_def char_class_defs less_eq_char_def)
  show "is_dns_label (state_name did)" "is_dns_label (lease_name did)"
    using tails prefix_chars digest_prefix [of 24 did]
    by (simp_all add: is_dns_label_def state_name_def lease_name_def)
qed

theorem component_name_dns:
  assumes slug: "is_component_slug slug" and suf: "suf = [] \<or> suf = ''-cfg''"
  shows "is_dns_label (component_name did slug suf)"
proof -
  let ?id = "take 20 (text_digest did)" and ?h = "take 8 (text_digest slug)"
  define tr where "tr = rstrip_where (\<lambda>c. c = CHR ''-'') (slice_to (63 - int (9 + 20 + 8 + length suf)) slug)"
  have name: "component_name did slug suf = ''dealrt-'' @ ?id @ ''-'' @ tr @ ''-'' @ ?h @ suf"
    by (simp add: component_name_def Let_def tr_def text_digest_shape)
  have avail: "slice_to (63 - int (9 + 20 + 8 + length suf)) slug = take (26 - length suf) slug"
    using suf by (auto simp: slice_to_def)
  have tr_eq: "tr = rstrip_where (\<lambda>c. c = CHR ''-'') (take (26 - length suf) slug)"
    by (simp only: tr_def avail)
  have len: "length tr \<le> 26 - length suf"
    using rstrip_where_length [of "\<lambda>c. c = CHR ''-''" "take (26 - length suf) slug"] by (simp add: tr_eq)
  have set: "set tr \<subseteq> set slug"
    using rstrip_where_set [of "\<lambda>c. c = CHR ''-''" "take (26 - length suf) slug"]
    by (auto simp: tr_eq dest: in_set_takeD)
  then have tr: "list_all is_slug_char tr"
    using component_slug_chars [OF slug] by (auto simp: list_all_iff)
  have cfg: "list_all is_slug_char ''-cfg''" "is_lower_alnum CHR ''g''" "is_slug_char CHR ''-''"
    by (simp_all add: is_slug_char_def char_class_defs less_eq_char_def)
  have h: "?h \<noteq> []" using digest_prefix(1) [of 8 slug] by auto
  have last: "is_lower_alnum (last ?h)"
    using digest_prefix(3) [of 8 slug] h by (simp add: list_all_iff)
  have "length (''dealrt-'' @ ?id @ ''-'' @ tr @ ''-'' @ ?h @ suf) \<le> 63"
    using len suf by (auto simp: text_digest_shape)
  then show ?thesis
    using suf tr cfg prefix_chars digest_prefix(2) h last unfolding name
    by (auto simp: is_dns_label_def)
qed


section \<open>Labels\<close>

lemma label_distinct:
  "MANAGED_BY_LABEL \<noteq> DEPLOYMENT_LABEL" "MANAGED_BY_LABEL \<noteq> COMPONENT_LABEL" "MANAGED_BY_LABEL \<noteq> ENVIRONMENT_LABEL"
  "DEPLOYMENT_LABEL \<noteq> COMPONENT_LABEL" "DEPLOYMENT_LABEL \<noteq> ENVIRONMENT_LABEL" "COMPONENT_LABEL \<noteq> ENVIRONMENT_LABEL"
  by (simp_all add: MANAGED_BY_LABEL_def DEPLOYMENT_LABEL_def COMPONENT_LABEL_def ENVIRONMENT_LABEL_def)

lemma common_labels_get [simp]:
  "dget (common_labels d co) MANAGED_BY_LABEL = JStr MANAGED_BY"
  "dget (common_labels d co) DEPLOYMENT_LABEL = JStr (d_deployment_id d)"
  "dget (common_labels d co) ENVIRONMENT_LABEL = JStr (d_environment d)"
  "dget (common_labels d (Some c)) COMPONENT_LABEL = JStr (c_slug c)"
  "dget (common_labels d None) COMPONENT_LABEL = JNull"
  by (cases co; simp add: common_labels_def Let_def MANAGED_BY_LABEL_def DEPLOYMENT_LABEL_def
      COMPONENT_LABEL_def ENVIRONMENT_LABEL_def)+


section \<open>Replicas\<close>

lemma initial_replicas_stopped: "d_desired_state d \<noteq> ''running'' \<Longrightarrow> initial_replicas d c = 0"
  by (simp add: initial_replicas_def)

lemma initial_replicas_bounds:
  "scaling_ok maximum (c_scaling c) \<Longrightarrow> d_desired_state d = ''running'' \<Longrightarrow>
   1 \<le> initial_replicas d c \<and> initial_replicas d c \<le> maximum"
  by (auto simp: initial_replicas_def scaling_ok_def split: scaling_policy.splits)

lemma decoded_encode [simp]: "decoded (utf8_encode s) = s"
  by (simp add: decoded_def)

lemma decoded_canonical: "decoded (canonical_json v) = json_dumps (jsort v)"
  by (simp add: canonical_json_def)

end
