(* ===== verification/Kubernetes.thy ===== *)
theory Kubernetes
  imports Kube_Monad Resources
begin

text \<open>
  The Kubernetes REST client:
  \<open>src/components/DEALHost/dealhost/runtime_controller_service/kubernetes.py\<close>.

  Each method of \<open>KubernetesClient\<close> is a computation of the previous theory; the client's
  settings are the first argument. \<open>send_request\<close> is \<open>_request\<close>, with the bounded reading of
  the response body as the loop of the source. The lemmas describe the one request each
  method sends, for every server.
\<close>

section \<open>Paths\<close>

text \<open>\<open>urllib.parse.quote(text, safe="")\<close>: every byte but the unreserved ones becomes \<open>%XX\<close>.\<close>

definition is_unreserved :: "char \<Rightarrow> bool" where
  "is_unreserved c \<longleftrightarrow> is_alnum c \<or> c \<in> set ''_.-~''"

definition upper_hex_char :: "nat \<Rightarrow> char" where
  "upper_hex_char d = (if d < 10 then char_of (48 + d) else char_of (55 + d))"

definition quote_byte :: "char \<Rightarrow> string" where
  "quote_byte c =
     (if is_unreserved c then [c]
      else (let n = (of_char c :: nat) in [CHR ''%'', upper_hex_char (n div 16), upper_hex_char (n mod 16)]))"

definition quote :: "string \<Rightarrow> string" where
  "quote s = concat (map quote_byte (utf8_encode s))"

definition RESOURCE_ENDPOINTS :: "(string \<times> string \<times> string) list" where
  "RESOURCE_ENDPOINTS =
     [(''ConfigMap'', ''/api/v1'', ''configmaps''), (''Service'', ''/api/v1'', ''services''),
      (''Pod'', ''/api/v1'', ''pods''), (''Deployment'', ''/apis/apps/v1'', ''deployments''),
      (''HorizontalPodAutoscaler'', ''/apis/autoscaling/v2'', ''horizontalpodautoscalers''),
      (''Lease'', ''/apis/coordination.k8s.io/v1'', ''leases'')]"

definition endpoint :: "string \<Rightarrow> exn + string \<times> string" where
  "endpoint kind = (case map_of RESOURCE_ENDPOINTS kind of
     None \<Rightarrow> Inl (ValueError (''Unsupported Kubernetes kind: '' @ kind))
   | Some ep \<Rightarrow> Inr ep)"

definition resource_path ::
  "controller_settings \<Rightarrow> string \<Rightarrow> string \<Rightarrow> string \<Rightarrow> string option \<Rightarrow> string" where
  "resource_path settings pre plural name ns =
     (let resource_namespace = (case ns of None \<Rightarrow> s_namespace settings
            | Some n \<Rightarrow> if n = [] then s_namespace settings else n);
          base = pre @ ''/namespaces/'' @ quote resource_namespace @ ''/'' @ quote plural
      in if name = [] then base else base @ ''/'' @ quote name)"


section \<open>Requests\<close>

definition MAX_KUBERNETES_RESPONSE_BYTES :: nat where
  "MAX_KUBERNETES_RESPONSE_BYTES = 2 * 1024 * 1024"

text \<open>\<open>int(text)\<close> in base ten: white space around, a sign, underscores between digits; None is ValueError.\<close>

fun dec_digits_us :: "bool \<Rightarrow> nat \<Rightarrow> string \<Rightarrow> nat option" where
  "dec_digits_us after_digit acc [] = (if after_digit then Some acc else None)"
| "dec_digits_us after_digit acc (c # cs) =
     (if is_digit c then dec_digits_us True (10 * acc + digit_val c) cs
      else if c = CHR ''_'' \<and> after_digit then dec_digits_us False acc cs
      else None)"

definition int_text :: "string \<Rightarrow> int option" where
  "int_text text =
     (let s = strip text; neg = starts_with ''-'' s;
          ds = (if neg \<or> starts_with ''+'' s then tl s else s)
      in map_option (\<lambda>n. if neg then - int n else int n) (dec_digits_us False 0 ds))"

text \<open>Header names are compared without case.\<close>

fun header :: "string dict \<Rightarrow> string \<Rightarrow> string option" where
  "header [] k = None"
| "header ((n, v) # hs) k = (if lower n = lower k then Some v else header hs k)"

definition too_large :: exn where
  "too_large = KubernetesApiError ''The Kubernetes API response is too large.'' None"

text \<open>The loop over \<open>aiter_bytes()\<close>: the body collected so far never exceeds the limit plus one.\<close>

fun read_chunks :: "string \<Rightarrow> string list \<Rightarrow> exn + string" where
  "read_chunks body [] = Inr body"
| "read_chunks body (chunk # rest) =
     (let remaining = MAX_KUBERNETES_RESPONSE_BYTES + 1 - length body;
          body' = body @ take remaining chunk
      in if length body' > MAX_KUBERNETES_RESPONSE_BYTES then Inl too_large
         else read_chunks body' rest)"

definition read_response :: "http_response \<Rightarrow> exn + http_response" where
  "read_response resp =
     bindE (case header (h_headers resp) ''content-length'' of
              None \<Rightarrow> Inr ()
            | Some declared \<Rightarrow>
                if declared = [] then Inr ()
                else (case int_text declared of
                        None \<Rightarrow> Inr ()
                      | Some n \<Rightarrow> raise_if (n > int MAX_KUBERNETES_RESPONSE_BYTES) too_large)) (\<lambda>_.
     bindE (read_chunks [] (h_chunks resp)) (\<lambda>body.
     Inr \<lparr>h_status = h_status resp,
          h_headers = filter (\<lambda>(k, _). lower k \<notin> {''content-encoding'', ''content-length''}) (h_headers resp),
          h_chunks = [body]\<rparr>))"

definition send_request ::
  "string \<Rightarrow> string \<Rightarrow> int set \<Rightarrow> string dict \<Rightarrow> string option \<Rightarrow> string option \<Rightarrow> http_response kube" where
  "send_request method path expected params content content_type =
     bindK (askK e_token) (\<lambda>credential.
     case credential of
       None \<Rightarrow> raiseK (KubernetesApiError ''The projected Kubernetes credential is unavailable.'' None)
     | Some text \<Rightarrow>
         (let token = strip text in
          if token = [] then raiseK (KubernetesApiError ''The projected Kubernetes credential is empty.'' None)
          else
            (let headers = [(''Accept'', ''application/json''), (''Authorization'', ''Bearer '' @ token)];
                 headers = (case content_type of
                     None \<Rightarrow> headers
                   | Some ct \<Rightarrow> if ct = [] then headers else dput ''Content-Type'' ct headers)
             in bindK (emitK (Request \<lparr>r_method = method, r_path = path, r_params = params,
                   r_content = content, r_headers = headers\<rparr>)) (\<lambda>_.
                bindK (askK e_transport) (\<lambda>outcome.
                case outcome of
                  HttpError \<Rightarrow> raiseK (KubernetesApiError ''The Kubernetes API could not be reached.'' None)
                | Cancelled \<Rightarrow> raiseK CancelledError
                | HttpReply raw \<Rightarrow>
                    bindK (liftK (read_response raw)) (\<lambda>resp.
                    if h_status resp \<notin> expected then
                      raiseK (KubernetesApiError (''The Kubernetes API rejected '' @ method @ '' '' @ path
                        @ '' (HTTP '' @ str_int (h_status resp) @ '').'') (Some (h_status resp)))
                    else retK resp))))))"

text \<open>\<open>value.split(";", 1)[0]\<close> of the content type.\<close>

definition media_type :: "http_response \<Rightarrow> string" where
  "media_type resp =
     takeWhile (\<lambda>c. c \<noteq> CHR '';'') (case header (h_headers resp) ''content-type'' of None \<Rightarrow> [] | Some v \<Rightarrow> v)"

definition response_json :: "http_response \<Rightarrow> exn + json dict" where
  "response_json resp =
     (if media_type resp \<noteq> ''application/json'' then
        Inl (KubernetesApiError ''Kubernetes returned a non-JSON response.'' None)
      else case Option.bind (utf8_decode (concat (h_chunks resp))) json_loads of
        None \<Rightarrow> Inl (KubernetesApiError ''Kubernetes returned malformed JSON.'' None)
      | Some (JObj d) \<Rightarrow> Inr d
      | Some _ \<Rightarrow> Inl (KubernetesApiError ''Kubernetes returned an invalid response.'' None))"

definition request_json ::
  "string \<Rightarrow> string \<Rightarrow> int set \<Rightarrow> string dict \<Rightarrow> string option \<Rightarrow> string option \<Rightarrow> json dict kube" where
  "request_json method path expected params content content_type =
     bindK (send_request method path expected params content content_type) (\<lambda>resp.
     liftK (response_json resp))"


section \<open>Methods of the client\<close>

definition body_of :: "json dict \<Rightarrow> string" where
  "body_of resource = utf8_encode (json_dumps (JObj resource))"

definition apply_resource :: "controller_settings \<Rightarrow> json dict \<Rightarrow> json dict kube" where
  "apply_resource settings resource =
     (case (dget resource ''kind'', dget resource ''metadata'') of
        (JStr kind, JObj metadata) \<Rightarrow>
          (case map_of RESOURCE_ENDPOINTS kind of
             None \<Rightarrow> raiseK (ValueError ''Unsupported Kubernetes resource.'')
           | Some (pre, plural) \<Rightarrow>
               (case dget metadata ''name'' of
                  JStr name \<Rightarrow>
                    if name = [] then raiseK (ValueError ''Kubernetes resource name is required.'')
                    else request_json ''PATCH'' (resource_path settings pre plural name None) {200, 201}
                      [(''fieldManager'', ''dealhost-runtime-controller''), (''force'', ''true'')]
                      (Some (body_of resource)) (Some ''application/apply-patch+yaml'')
                | _ \<Rightarrow> raiseK (ValueError ''Kubernetes resource name is required.'')))
      | (kind, _) \<Rightarrow> if hashable kind then raiseK (ValueError ''Unsupported Kubernetes resource.'')
          else raiseK (TypeError ''unhashable type''))"

definition kube_get :: "controller_settings \<Rightarrow> string \<Rightarrow> string \<Rightarrow> string option \<Rightarrow> json dict option kube" where
  "kube_get settings kind name ns =
     bindK (liftK (endpoint kind)) (\<lambda>(pre, plural).
     bindK (send_request ''GET'' (resource_path settings pre plural name ns) {200, 404} [] None None) (\<lambda>resp.
     if h_status resp = 404 then retK None
     else bindK (liftK (response_json resp)) (\<lambda>d. retK (Some d))))"

text \<open>The dictionaries of a list of JSON values, None when one is not a dictionary.\<close>

fun objects :: "json list \<Rightarrow> json dict list option" where
  "objects [] = Some []"
| "objects (JObj d # vs) = map_option ((#) d) (objects vs)"
| "objects (_ # vs) = None"

definition list_items :: "json dict \<Rightarrow> exn + json dict list" where
  "list_items payload =
     (let e = KubernetesApiError ''Kubernetes returned an invalid resource list.'' None
      in case dget payload ''items'' of
        JList vs \<Rightarrow>
          (case objects vs of
             None \<Rightarrow> Inl e
           | Some items \<Rightarrow>
               (case dget_or (JObj []) payload ''metadata'' of
                  JObj metadata \<Rightarrow>
                    if truthy (dget metadata ''continue'') then
                      Inl (KubernetesApiError ''Kubernetes returned more runtime resources than the safety limit.'' None)
                    else Inr items
                | _ \<Rightarrow> Inl (AttributeError ''get'')))
      | _ \<Rightarrow> Inl e)"

definition kube_list :: "controller_settings \<Rightarrow> string \<Rightarrow> string \<Rightarrow> json dict list kube" where
  "kube_list settings kind label_selector =
     bindK (liftK (endpoint kind)) (\<lambda>(pre, plural).
     bindK (send_request ''GET'' (resource_path settings pre plural [] None) {200}
        [(''labelSelector'', label_selector), (''limit'', ''500'')] None None) (\<lambda>resp.
     bindK (liftK (response_json resp)) (\<lambda>payload.
     liftK (list_items payload))))"

definition delete_options :: string where
  "delete_options = json_dumps (JObj [(''apiVersion'', JStr ''v1''), (''kind'', JStr ''DeleteOptions''),
     (''propagationPolicy'', JStr ''Foreground'')])"

definition kube_delete :: "controller_settings \<Rightarrow> string \<Rightarrow> string \<Rightarrow> unit kube" where
  "kube_delete settings kind name =
     bindK (liftK (endpoint kind)) (\<lambda>(pre, plural).
     bindK (send_request ''DELETE'' (resource_path settings pre plural name None) {200, 202, 404} []
        (Some delete_options) (Some ''application/json'')) (\<lambda>_.
     retK ()))"

definition create_lease :: "controller_settings \<Rightarrow> json dict \<Rightarrow> bool kube" where
  "create_lease settings resource =
     (case dget resource ''metadata'' of
        JObj metadata \<Rightarrow>
          if dget resource ''kind'' \<noteq> JStr ''Lease'' then
            raiseK (ValueError ''A Kubernetes Lease resource is required.'')
          else (case dget metadata ''name'' of
             JStr name \<Rightarrow>
               if name = [] then raiseK (ValueError ''Kubernetes Lease name is required.'')
               else bindK (liftK (endpoint ''Lease'')) (\<lambda>(pre, plural).
                 bindK (send_request ''POST'' (resource_path settings pre plural [] None) {201, 409} []
                   (Some (body_of resource)) (Some ''application/json'')) (\<lambda>resp.
                 retK (h_status resp = 201)))
           | _ \<Rightarrow> raiseK (ValueError ''Kubernetes Lease name is required.''))
      | _ \<Rightarrow> raiseK (ValueError ''A Kubernetes Lease resource is required.''))"

definition replace_lease :: "controller_settings \<Rightarrow> json dict \<Rightarrow> bool kube" where
  "replace_lease settings resource =
     (case dget resource ''metadata'' of
        JObj metadata \<Rightarrow>
          if dget resource ''kind'' \<noteq> JStr ''Lease'' then
            raiseK (ValueError ''A Kubernetes Lease resource is required.'')
          else (case (dget metadata ''name'', dget metadata ''resourceVersion'') of
             (JStr name, JStr resource_version) \<Rightarrow>
               if name = [] \<or> resource_version = [] then
                 raiseK (ValueError ''Kubernetes Lease name and resourceVersion are required.'')
               else bindK (liftK (endpoint ''Lease'')) (\<lambda>(pre, plural).
                 bindK (send_request ''PUT'' (resource_path settings pre plural name None) {200, 404, 409} []
                   (Some (body_of resource)) (Some ''application/json'')) (\<lambda>resp.
                 retK (h_status resp = 200)))
           | _ \<Rightarrow> raiseK (ValueError ''Kubernetes Lease name and resourceVersion are required.''))
      | _ \<Rightarrow> raiseK (ValueError ''A Kubernetes Lease resource is required.''))"

definition release_lease :: "controller_settings \<Rightarrow> string \<Rightarrow> string \<Rightarrow> bool kube" where
  "release_lease settings name holder_identity =
     bindK (kube_get settings ''Lease'' name None) (\<lambda>lease.
     case lease of
       None \<Rightarrow> retK False
     | Some lease \<Rightarrow>
         (case (dget lease ''metadata'', dget lease ''spec'') of
            (JObj metadata, JObj spec) \<Rightarrow>
              if dget spec ''holderIdentity'' \<noteq> JStr holder_identity then retK False
              else (case (dget metadata ''uid'', dget metadata ''resourceVersion'') of
                 (JStr uid, JStr resource_version) \<Rightarrow>
                   if uid = [] \<or> resource_version = [] then
                     raiseK (KubernetesApiError ''Kubernetes returned an invalid Lease identity.'' None)
                   else bindK (liftK (endpoint ''Lease'')) (\<lambda>(pre, plural).
                     bindK (send_request ''DELETE'' (resource_path settings pre plural name None)
                        {200, 202, 404, 409} []
                        (Some (body_of [(''apiVersion'', JStr ''v1''), (''kind'', JStr ''DeleteOptions''),
                           (''preconditions'', JObj [(''uid'', JStr uid),
                              (''resourceVersion'', JStr resource_version)])]))
                        (Some ''application/json'')) (\<lambda>resp.
                     retK (h_status resp \<in> {200, 202})))
               | _ \<Rightarrow> raiseK (KubernetesApiError ''Kubernetes returned an invalid Lease identity.'' None))
          | _ \<Rightarrow> raiseK (KubernetesApiError ''Kubernetes returned an invalid Lease.'' None)))"

definition pod_logs :: "controller_settings \<Rightarrow> string \<Rightarrow> string \<Rightarrow> int \<Rightarrow> int \<Rightarrow> string kube" where
  "pod_logs settings pod_name container tail_lines since_seconds =
     bindK (liftK (endpoint ''Pod'')) (\<lambda>(pre, plural).
     bindK (send_request ''GET'' (resource_path settings pre plural pod_name None @ ''/log'') {200}
        [(''container'', container), (''tailLines'', str_int tail_lines),
         (''sinceSeconds'', str_int since_seconds), (''timestamps'', ''true''), (''limitBytes'', ''1000000'')]
        None None) (\<lambda>resp.
     if media_type resp \<notin> {''text/plain'', ''application/octet-stream'', []} then
       raiseK (KubernetesApiError ''Kubernetes returned an invalid log response.'' None)
     else askK (\<lambda>env _. e_text env resp)))"

definition ready :: "controller_settings \<Rightarrow> unit kube" where
  "ready settings =
     bindK (liftK (endpoint ''ConfigMap'')) (\<lambda>(pre, plural).
     bindK (request_json ''GET'' (resource_path settings pre plural [] None) {200} [(''limit'', ''1'')] None None) (\<lambda>payload.
     case dget payload ''items'' of
       JList _ \<Rightarrow> bindK (kube_get settings ''Lease'' ''dealhost-runtime-controller-readiness'' None) (\<lambda>_. retK ())
     | _ \<Rightarrow> raiseK (KubernetesApiError ''Kubernetes returned an invalid readiness response.'' None)))"

end
