(* ===== verification/Timestamps.thy ===== *)
theory Timestamps
  imports Kubernetes
begin

text \<open>
  The ISO 8601 timestamps of Leases: \<open>datetime.isoformat\<close> and \<open>datetime.fromisoformat\<close> of
  the standard library, as \<open>lease.py\<close> uses them.

  An aware \<open>datetime\<close> is the number of microseconds since the Unix epoch. \<open>isoformat\<close> prints
  the UTC civil time; \<open>fromisoformat\<close> reads the extended calendar format with hours, minutes
  and seconds, an optional fraction and an optional offset. The other spellings the library
  accepts (basic format, week dates, truncated times) are outside the model.
  \<open>fromisoformat_timestamp\<close> is the round trip, for every instant of the years 1 to 9999.
\<close>

section \<open>The proleptic Gregorian calendar\<close>

definition leap_year :: "int \<Rightarrow> bool" where
  "leap_year y \<longleftrightarrow> y mod 4 = 0 \<and> (y mod 100 \<noteq> 0 \<or> y mod 400 = 0)"

definition month_lengths :: "int \<Rightarrow> int list" where
  "month_lengths y = [31, if leap_year y then 29 else 28, 31, 30, 31, 30, 31, 31, 30, 31, 30, 31]"

text \<open>The number of days before the first day of year \<open>y\<close>, counted from year 1.\<close>

definition days_before_year :: "int \<Rightarrow> int" where
  "days_before_year y = (y - 1) * 365 + (y - 1) div 4 - (y - 1) div 100 + (y - 1) div 400"

definition date_ordinal :: "int \<times> int \<times> int \<Rightarrow> int" where
  "date_ordinal ymd = (case ymd of (y, m, d) \<Rightarrow>
     days_before_year y + sum_list (take (nat (m - 1)) (month_lengths y)) + d)"

text \<open>The year of a day (counted from zero) and the day within the year.\<close>

definition year_of_day :: "int \<Rightarrow> int \<times> int" where
  "year_of_day n =
     (let n400 = n div 146097; r400 = n mod 146097;
          n100 = r400 div 36524; r100 = r400 mod 36524;
          n4 = r100 div 1461; r4 = r100 mod 1461;
          n1 = r4 div 365; r1 = r4 mod 365;
          y = 400 * n400 + 100 * n100 + 4 * n4 + n1 + 1
      in if n1 = 4 \<or> n100 = 4 then (y - 1, 365) else (y, r1))"

fun split_months :: "int list \<Rightarrow> int \<Rightarrow> int \<Rightarrow> int \<times> int" where
  "split_months [] m r = (m, r + 1)"
| "split_months (l # ls) m r = (if r < l then (m, r + 1) else split_months ls (m + 1) (r - l))"

definition ordinal_date :: "int \<Rightarrow> int \<times> int \<times> int" where
  "ordinal_date n =
     (let (y, r) = year_of_day (n - 1); (m, d) = split_months (month_lengths y) 1 r in (y, m, d))"

lemma sum_month_lengths: "sum_list (month_lengths y) = (if leap_year y then 366 else 365)"
  by (simp add: month_lengths_def)

lemma days_before_year_parts:
  assumes "0 \<le> (b::int)" "b \<le> 3" "0 \<le> c" "c \<le> 24" "0 \<le> d" "d \<le> 3"
  shows "days_before_year (400 * a + 100 * b + 4 * c + d + 1) = 146097 * a + 36524 * b + 1461 * c + 365 * d"
proof -
  let ?x = "400 * a + 100 * b + 4 * c + d"
  have "?x div 4 = 100 * a + 25 * b + c" using assms by (intro int_div_pos_eq [where r = d]) auto
  moreover have "?x div 100 = 4 * a + b" using assms by (intro int_div_pos_eq [where r = "4 * c + d"]) auto
  moreover have "?x div 400 = a" using assms by (intro int_div_pos_eq [where r = "100 * b + 4 * c + d"]) auto
  ultimately show ?thesis by (simp add: days_before_year_def)
qed

lemma leap_year_parts:
  assumes "0 \<le> (b::int)" "b \<le> 3" "0 \<le> c" "c \<le> 24" "b = 3 \<or> c \<noteq> 24"
  shows "leap_year (400 * a + 100 * b + 4 * c + 4)"
proof -
  let ?y = "400 * a + 100 * b + 4 * c + 4"
  have "?y mod 4 = 0" by (intro int_mod_pos_eq [where q = "100 * a + 25 * b + c + 1"]) auto
  moreover have "?y mod 100 \<noteq> 0 \<or> ?y mod 400 = 0"
  proof (cases "c = 24")
    case True
    then have "?y mod 400 = 0" using assms by (intro int_mod_pos_eq [where q = "a + 1"]) auto
    then show ?thesis ..
  next
    case False
    then have "?y mod 100 = 4 * c + 4" using assms by (intro int_mod_pos_eq [where q = "4 * a + b"]) auto
    then show ?thesis using assms(3) by simp
  qed
  ultimately show ?thesis by (simp add: leap_year_def)
qed

lemma year_of_day_days:
  assumes "0 \<le> n" "year_of_day n = (y, r)"
  shows "days_before_year y + r = n \<and> 1 \<le> y \<and> 0 \<le> r \<and> r < sum_list (month_lengths y)"
proof -
  define a where "a = n div 146097"
  define r400 where "r400 = n mod 146097"
  define b where "b = r400 div 36524"
  define r100 where "r100 = r400 mod 36524"
  define c where "c = r100 div 1461"
  define r4 where "r4 = r100 mod 1461"
  define d where "d = r4 div 365"
  define r1 where "r1 = r4 mod 365"
  have yr: "(if d = 4 \<or> b = 4 then (400 * a + 100 * b + 4 * c + d + 1 - 1, 365)
      else (400 * a + 100 * b + 4 * c + d + 1, r1)) = (y, r)"
    using assms(2)
    unfolding year_of_day_def Let_def a_def r400_def b_def r100_def c_def r4_def d_def r1_def .
  have n: "n = 146097 * a + r400" "r400 = 36524 * b + r100" "r100 = 1461 * c + r4" "r4 = 365 * d + r1"
    by (simp_all add: a_def r400_def b_def r100_def c_def r4_def d_def r1_def)
  have bounds: "0 \<le> a" "0 \<le> r400" "r400 < 146097" "0 \<le> r100" "r100 < 36524" "0 \<le> r4" "r4 < 1461"
      "0 \<le> r1" "r1 < 365"
    using assms(1) by (simp_all add: a_def r400_def r100_def r4_def r1_def pos_imp_zdiv_nonneg_iff)
  have "0 \<le> b" "0 \<le> c" "0 \<le> d"
    using bounds by (simp_all add: b_def c_def d_def pos_imp_zdiv_nonneg_iff)
  moreover have "b \<le> 4" "c \<le> 24" "d \<le> 4" using n bounds by linarith+
  ultimately have small: "0 \<le> b" "b \<le> 4" "0 \<le> c" "c \<le> 24" "0 \<le> d" "d \<le> 4" by blast+
  consider (century) "b = 4" | (leap) "b \<le> 3" "d = 4" | (normal) "b \<le> 3" "d \<le> 3"
    using small by linarith
  then show ?thesis
  proof cases
    case century
    then have "c = 0" "d = 0" "r400 = 146096" using n bounds small by linarith+
    then have y: "y = 400 * a + 100 * 3 + 4 * 24 + 3 + 1" "r = 365" using yr century by simp_all
    have "leap_year y" using leap_year_parts [of 3 24 a] y(1) by (simp add: algebra_simps)
    moreover have "days_before_year y = 146097 * a + 145731"
      using days_before_year_parts [of 3 24 3 a] y(1) by simp
    ultimately show ?thesis using n(1) \<open>r400 = 146096\<close> y bounds by (simp add: sum_month_lengths)
  next
    case leap
    have c: "c \<le> 23" using n bounds small leap by linarith
    have r1: "r1 = 0" using n bounds leap by linarith
    have y: "y = 400 * a + 100 * b + 4 * c + 3 + 1" "r = 365" using yr leap by simp_all
    have "leap_year y" using leap_year_parts [of b c a] y(1) leap small c by (simp add: algebra_simps)
    moreover have "days_before_year y = 146097 * a + 36524 * b + 1461 * c + 365 * 3"
      using days_before_year_parts [of b c 3 a] y(1) leap small by simp
    ultimately show ?thesis using n r1 leap y bounds small by (simp add: sum_month_lengths)
  next
    case normal
    have y: "y = 400 * a + 100 * b + 4 * c + d + 1" "r = r1" using yr normal by (simp_all split: if_splits)
    have "days_before_year y = 146097 * a + 36524 * b + 1461 * c + 365 * d"
      using days_before_year_parts [of b c d a] y(1) normal small by simp
    then show ?thesis using n y bounds small by (simp add: sum_month_lengths)
  qed
qed

lemma split_months_sum:
  "0 \<le> r \<Longrightarrow> r < sum_list ls \<Longrightarrow> list_all ((<) 0) ls \<Longrightarrow> split_months ls m r = (m', d) \<Longrightarrow>
   m \<le> m' \<and> m' < m + int (length ls) \<and> 1 \<le> d \<and> d \<le> ls ! nat (m' - m)
     \<and> sum_list (take (nat (m' - m)) ls) + d = r + 1"
proof (induction ls arbitrary: m r)
  case (Cons l ls)
  show ?case
  proof (cases "r < l")
    case True
    then show ?thesis using Cons.prems by auto
  next
    case False
    then have IH: "m + 1 \<le> m' \<and> m' < m + 1 + int (length ls) \<and> 1 \<le> d \<and> d \<le> ls ! nat (m' - (m + 1))
        \<and> sum_list (take (nat (m' - (m + 1))) ls) + d = r - l + 1"
      using Cons.IH [of "r - l" "m + 1"] Cons.prems by simp
    then have "nat (m' - m) = Suc (nat (m' - (m + 1)))" by linarith
    then show ?thesis using IH by auto
  qed
qed simp

lemma month_lengths_pos: "list_all ((<) 0) (month_lengths y)" "length (month_lengths y) = 12"
  by (simp_all add: month_lengths_def)

theorem date_ordinal_inverse:
  assumes "1 \<le> n" "ordinal_date n = (y, m, d)"
  shows "date_ordinal (y, m, d) = n \<and> 1 \<le> y \<and> 1 \<le> m \<and> m \<le> 12 \<and> 1 \<le> d \<and> d \<le> month_lengths y ! nat (m - 1)"
proof -
  obtain r where yr: "year_of_day (n - 1) = (y, r)" and md: "split_months (month_lengths y) 1 r = (m, d)"
    using assms(2) by (auto simp: ordinal_date_def Let_def split: prod.splits)
  have Y: "days_before_year y + r = n - 1" "1 \<le> y" "0 \<le> r" "r < sum_list (month_lengths y)"
    using year_of_day_days [OF _ yr] assms(1) by auto
  have M: "1 \<le> m \<and> m < 1 + int (length (month_lengths y)) \<and> 1 \<le> d \<and> d \<le> month_lengths y ! nat (m - 1)
     \<and> sum_list (take (nat (m - 1)) (month_lengths y)) + d = r + 1"
    by (rule split_months_sum [OF Y(3,4) month_lengths_pos(1) md])
  then show ?thesis using Y by (auto simp: date_ordinal_def month_lengths_pos(2))
qed



section \<open>Printing and reading\<close>

fun dec_width :: "nat \<Rightarrow> nat \<Rightarrow> string" where
  "dec_width 0 n = []"
| "dec_width (Suc k) n = dec_width k (n div 10) @ [digit_char (n mod 10)]"

definition EPOCH_ORDINAL :: int where
  "EPOCH_ORDINAL = 719163"

text \<open>Date, seconds of the day and microseconds of the second.\<close>

definition civil_text :: "int \<times> int \<times> int \<Rightarrow> int \<Rightarrow> int \<Rightarrow> string" where
  "civil_text ymd secs us = (case ymd of (y, m, d) \<Rightarrow>
     dec_width 4 (nat y) @ ''-'' @ dec_width 2 (nat m) @ ''-'' @ dec_width 2 (nat d) @ ''T''
     @ dec_width 2 (nat (secs div 3600)) @ '':'' @ dec_width 2 (nat (secs div 60 mod 60)) @ '':''
     @ dec_width 2 (nat (secs mod 60)) @ ''.'' @ dec_width 6 (nat us))"

definition iso_prefix :: "int \<Rightarrow> string" where
  "iso_prefix t =
     (let us = t mod 86400000000
      in civil_text (ordinal_date (t div 86400000000 + EPOCH_ORDINAL)) (us div 1000000) (us mod 1000000))"

definition isoformat_utc :: "int \<Rightarrow> string" where
  "isoformat_utc t = iso_prefix t @ ''+00:00''"

text \<open>\<open>s.replace(old, new)\<close>.\<close>

fun replace_fuel :: "nat \<Rightarrow> string \<Rightarrow> string \<Rightarrow> string \<Rightarrow> string" where
  "replace_fuel 0 old new s = s"
| "replace_fuel (Suc n) old new s =
     (if starts_with old s then new @ replace_fuel n old new (drop (length old) s)
      else case s of [] \<Rightarrow> [] | c # cs \<Rightarrow> c # replace_fuel n old new cs)"

definition replace_str :: "string \<Rightarrow> string \<Rightarrow> string \<Rightarrow> string" where
  "replace_str old new s = replace_fuel (Suc (length s)) old new s"

definition timestamp :: "int \<Rightarrow> string" where
  "timestamp t = replace_str ''+00:00'' ''Z'' (isoformat_utc t)"

definition read_digits :: "nat \<Rightarrow> string \<Rightarrow> (int \<times> string) option" where
  "read_digits k s =
     (if k \<le> length s \<and> list_all is_digit (take k s) then Some (int (nat_of_dec (take k s)), drop k s) else None)"

definition read_char :: "char \<Rightarrow> string \<Rightarrow> string option" where
  "read_char c s = (case s of [] \<Rightarrow> None | x # xs \<Rightarrow> if x = c then Some xs else None)"

text \<open>A fraction of a second as microseconds: six digits, missing ones zero, further ones dropped.\<close>

definition micros :: "string \<Rightarrow> int" where
  "micros ds = int (nat_of_dec (take 6 (ds @ replicate 6 CHR ''0'')))"

definition read_fraction :: "string \<Rightarrow> (int \<times> string) option" where
  "read_fraction s = (case s of
     c # cs \<Rightarrow> if c \<in> set ''.,'' then
         (let ds = takeWhile is_digit cs in if ds = [] then None else Some (micros ds, dropWhile is_digit cs))
       else Some (0, s)
   | [] \<Rightarrow> Some (0, s))"

definition read_clock :: "string \<Rightarrow> (int \<times> string) option" where
  "read_clock s =
     Option.bind (read_digits 2 s) (\<lambda>(hh, s1).
     Option.bind (read_char CHR '':'' s1) (\<lambda>s2.
     Option.bind (read_digits 2 s2) (\<lambda>(mm, s3).
     Option.bind (read_char CHR '':'' s3) (\<lambda>s4.
     Option.bind (read_digits 2 s4) (\<lambda>(ss, s5).
     if hh < 24 \<and> mm < 60 \<and> ss < 60 then Some (hh * 3600 + mm * 60 + ss, s5) else None)))))"

definition read_offset :: "string \<Rightarrow> int option option" where
  "read_offset s = (case s of
     [] \<Rightarrow> Some None
   | c # cs \<Rightarrow>
       if c \<notin> set ''+-'' then None
       else Option.bind (read_digits 2 cs) (\<lambda>(hh, s1).
         Option.bind (read_char CHR '':'' s1) (\<lambda>s2.
         Option.bind (read_digits 2 s2) (\<lambda>(mm, s3).
         if s3 = [] \<and> hh < 24 \<and> mm < 60
         then Some (Some ((if c = CHR ''-'' then -1 else 1) * (hh * 3600 + mm * 60) * 1000000))
         else None))))"

definition read_date :: "string \<Rightarrow> (int \<times> string) option" where
  "read_date s =
     Option.bind (read_digits 4 s) (\<lambda>(y, s1).
     Option.bind (read_char CHR ''-'' s1) (\<lambda>s2.
     Option.bind (read_digits 2 s2) (\<lambda>(m, s3).
     Option.bind (read_char CHR ''-'' s3) (\<lambda>s4.
     Option.bind (read_digits 2 s4) (\<lambda>(d, s5).
     if 1 \<le> y \<and> 1 \<le> m \<and> m \<le> 12 \<and> 1 \<le> d \<and> d \<le> month_lengths y ! nat (m - 1)
     then Some (date_ordinal (y, m, d), s5) else None)))))"

text \<open>The local time in microseconds since the epoch and the offset; no offset is a naive datetime.\<close>

definition fromisoformat :: "string \<Rightarrow> (int \<times> int option) option" where
  "fromisoformat s =
     Option.bind (read_date s) (\<lambda>(n, s1).
     let midnight = (n - EPOCH_ORDINAL) * 86400000000 in
     case s1 of
       [] \<Rightarrow> Some (midnight, None)
     | _ # s2 \<Rightarrow>
         Option.bind (read_clock s2) (\<lambda>(secs, s3).
         Option.bind (read_fraction s3) (\<lambda>(us, s4).
         Option.bind (read_offset s4) (\<lambda>offset.
         Some (midnight + secs * 1000000 + us, offset)))))"


section \<open>The round trip\<close>

definition datetime_range :: "int \<Rightarrow> bool" where
  "datetime_range t \<longleftrightarrow>
     1 \<le> t div 86400000000 + EPOCH_ORDINAL \<and> t div 86400000000 + EPOCH_ORDINAL \<le> 3652059"

lemma length_dec_width [simp]: "length (dec_width k n) = k"
  by (induction k arbitrary: n) simp_all

lemma dec_width_digits: "list_all is_digit (dec_width k n)"
  by (induction k arbitrary: n) (simp_all add: digit_char_is_digit)

lemma nat_of_dec_width: "n < 10 ^ k \<Longrightarrow> nat_of_dec (dec_width k n) = n"
proof (induction k arbitrary: n)
  case (Suc k)
  then show ?case using Suc.IH [of "n div 10"] by (simp add: nat_of_dec_snoc less_mult_imp_div_less mult.commute)
qed (simp add: nat_of_dec_def)

lemma read_digits_width: "n < 10 ^ k \<Longrightarrow> read_digits k (dec_width k n @ s) = Some (int n, s)"
  using dec_width_digits [of k n] by (simp add: read_digits_def nat_of_dec_width)

lemma read_digits_int: "0 \<le> i \<Longrightarrow> i < 10 ^ k \<Longrightarrow> read_digits k (dec_width k (nat i) @ s) = Some (i, s)"
proof -
  assume i: "0 \<le> i" "i < 10 ^ k"
  then have "int (nat i) < int (10 ^ k)" by simp
  then have "nat i < 10 ^ k" by (simp only: of_nat_less_iff)
  then show ?thesis using i by (simp add: read_digits_width)
qed

lemma read_char_Cons [simp]: "read_char c (c # s) = Some s"
  by (simp add: read_char_def)

lemma div_bounds: "0 < (k::int) \<Longrightarrow> x - (k - 1) \<le> k * (x div k) \<and> k * (x div k) \<le> x"
proof -
  assume "0 < k"
  then have "0 \<le> x mod k" "x mod k < k" "x = k * (x div k) + x mod k" by simp_all
  then show ?thesis by linarith
qed

lemma year_bound:
  assumes "days_before_year y + r \<le> 3652058" "0 \<le> r" "1 \<le> y"
  shows "y \<le> 9999"
proof (rule ccontr)
  define x where "x = y - 1"
  define q4 where "q4 = x div 4"
  define q100 where "q100 = x div 100"
  define q400 where "q400 = x div 400"
  assume "\<not> y \<le> 9999"
  then have x: "9999 \<le> x" by (simp add: x_def)
  have q: "x - 3 \<le> 4 * q4" "100 * q100 \<le> x" "x - 399 \<le> 400 * q400"
    using div_bounds [of 4 x] div_bounds [of 100 x] div_bounds [of 400 x]
    unfolding q4_def [symmetric] q100_def [symmetric] q400_def [symmetric] by simp_all
  have "days_before_year y = x * 365 + q4 - q100 + q400"
    by (simp add: days_before_year_def x_def q4_def q100_def q400_def)
  with x q have "3652059 \<le> days_before_year y" by linarith
  then show False using assms by linarith
qed

lemma month_length_bound: "1 \<le> m \<Longrightarrow> m \<le> 12 \<Longrightarrow> month_lengths y ! nat (m - 1) \<le> 31"
proof -
  assume "1 \<le> m" "m \<le> 12"
  moreover have "\<forall>l \<in> set (month_lengths y). l \<le> 31" by (simp add: month_lengths_def)
  ultimately show ?thesis using month_lengths_pos(2) [of y] by (simp add: nat_less_iff)
qed


lemma replace_fuel_Nil: "old \<noteq> [] \<Longrightarrow> replace_fuel n old new [] = []"
  by (cases n) (auto simp: starts_with_def)

lemma replace_fuel_last:
  assumes "old = c # o'" "c \<notin> set p" "length p < n"
  shows "replace_fuel n old new (p @ old) = p @ new"
  using assms(2,3)
proof (induction p arbitrary: n)
  case Nil
  then obtain k where "n = Suc k" by (cases n) auto
  moreover have "starts_with old old" by (simp add: starts_with_def)
  ultimately show ?case using assms(1) replace_fuel_Nil [of old k new] by simp
next
  case (Cons x p)
  then obtain k where k: "n = Suc k" "length p < k" by (cases n) auto
  have "\<not> starts_with old (x # p @ old)" using Cons.prems assms(1) by (auto simp: starts_with_def)
  then show ?case using Cons.IH [of k] Cons.prems k by simp
qed

lemma replace_str_last: "old = c # o' \<Longrightarrow> c \<notin> set p \<Longrightarrow> replace_str old new (p @ old) = p @ new"
  unfolding replace_str_def by (rule replace_fuel_last) auto

lemma dec_width_no_sign: "CHR ''+'' \<notin> set (dec_width k n)" "CHR ''Z'' \<notin> set (dec_width k n)"
proof -
  have "\<not> is_digit CHR ''+''" "\<not> is_digit CHR ''Z''" by (simp_all add: is_digit_def in_range_def less_eq_char_def)
  then show "CHR ''+'' \<notin> set (dec_width k n)" "CHR ''Z'' \<notin> set (dec_width k n)"
    using dec_width_digits [of k n] by (auto simp: list_all_iff)
qed

lemma iso_prefix_no_sign: "CHR ''+'' \<notin> set (iso_prefix t)" "CHR ''Z'' \<notin> set (iso_prefix t)"
proof -
  have "CHR ''+'' \<notin> set (civil_text ymd secs us)" "CHR ''Z'' \<notin> set (civil_text ymd secs us)" for ymd secs us
    by (cases ymd, simp add: civil_text_def dec_width_no_sign)+
  then show "CHR ''+'' \<notin> set (iso_prefix t)" "CHR ''Z'' \<notin> set (iso_prefix t)"
    by (simp_all only: iso_prefix_def Let_def not_False_eq_True)
qed

lemma timestamp_eq: "timestamp t = iso_prefix t @ ''Z''"
  unfolding timestamp_def isoformat_utc_def by (rule replace_str_last [OF refl iso_prefix_no_sign(1)])

lemma timestamp_with_offset: "replace_str ''Z'' ''+00:00'' (timestamp t) = iso_prefix t @ ''+00:00''"
  unfolding timestamp_eq by (rule replace_str_last [OF refl iso_prefix_no_sign(2)])

lemma read_date_printed:
  assumes "ordinal_date n = (y, m, d)" "1 \<le> n" "n \<le> 3652059"
  shows "read_date (dec_width 4 (nat y) @ ''-'' @ dec_width 2 (nat m) @ ''-'' @ dec_width 2 (nat d) @ s) = Some (n, s)"
proof -
  have D: "date_ordinal (y, m, d) = n" "1 \<le> y" "1 \<le> m" "m \<le> 12" "1 \<le> d" "d \<le> month_lengths y ! nat (m - 1)"
    using date_ordinal_inverse [OF assms(2,1)] by auto
  obtain r where "year_of_day (n - 1) = (y, r)"
    using assms(1) by (auto simp: ordinal_date_def Let_def split: prod.splits)
  then have "days_before_year y + r = n - 1" "0 \<le> r" using year_of_day_days [of "n - 1" y r] assms(2) by auto
  then have y: "y \<le> 9999" using assms(3) D(2) by (intro year_bound [of y r]) auto
  have d: "d \<le> 31" using month_length_bound [OF D(3,4), of y] D(6) by linarith
  show ?thesis
    using D y d by (simp add: read_date_def read_digits_int)
qed

lemma read_clock_printed:
  assumes "0 \<le> secs" "secs < 86400"
  shows "read_clock (dec_width 2 (nat (secs div 3600)) @ '':'' @ dec_width 2 (nat (secs div 60 mod 60)) @ '':''
    @ dec_width 2 (nat (secs mod 60)) @ s) = Some (secs, s)"
proof -
  define q where "q = secs div 60"
  define hh where "hh = q div 60"
  define mm where "mm = q mod 60"
  define ss where "ss = secs mod 60"
  have h: "secs div 3600 = hh" by (simp add: hh_def q_def zdiv_zmult2_eq [symmetric])
  have parts: "secs = 60 * q + ss" "q = 60 * hh + mm" by (simp_all add: q_def hh_def mm_def ss_def)
  have m: "0 \<le> mm" "mm < 60" and x: "0 \<le> ss" "ss < 60" by (simp_all add: mm_def ss_def)
  have hb: "0 \<le> hh" "hh < 24" using parts m x assms by linarith+
  have sum: "hh * 3600 + mm * 60 + ss = secs" using parts by linarith
  show ?thesis
    unfolding h q_def [symmetric] mm_def [symmetric] ss_def [symmetric]
    using hb m x sum by (simp add: read_clock_def read_digits_int)
qed

lemma read_fraction_printed:
  assumes "n < 1000000" "c = CHR ''+''"
  shows "read_fraction (''.'' @ dec_width 6 n @ c # s) = Some (int n, c # s)"
proof -
  have "\<not> is_digit c" using assms(2) by (simp add: is_digit_def in_range_def less_eq_char_def)
  then have "takeWhile is_digit (dec_width 6 n @ c # s) = dec_width 6 n"
      "dropWhile is_digit (dec_width 6 n @ c # s) = c # s"
    using takeWhile_append_stop [OF dec_width_digits] dropWhile_append_stop [OF dec_width_digits] by simp_all
  moreover have "dec_width 6 n \<noteq> []" by (metis length_dec_width list.size(3) zero_neq_numeral)
  ultimately show ?thesis
    using assms(1) by (simp add: read_fraction_def Let_def micros_def nat_of_dec_width)
qed

lemma read_offset_zero: "read_offset ''+00:00'' = Some (Some 0)"
  by (simp add: read_offset_def read_digits_def read_char_def is_digit_def in_range_def less_eq_char_def
      nat_of_dec_def digit_val_def)

theorem fromisoformat_timestamp:
  assumes "datetime_range t"
  shows "fromisoformat (replace_str ''Z'' ''+00:00'' (timestamp t)) = Some (t, Some 0)"
proof -
  define n where "n = t div 86400000000 + EPOCH_ORDINAL"
  define us where "us = t mod 86400000000"
  obtain y m d where ymd: "ordinal_date n = (y, m, d)" by (cases "ordinal_date n") auto
  have n: "1 \<le> n" "n \<le> 3652059" using assms by (simp_all add: datetime_range_def n_def)
  have us: "0 \<le> us" "us < 86400000000" by (simp_all add: us_def)
  have secs: "0 \<le> us div 1000000" "us div 1000000 < 86400" using us by (auto simp: pos_imp_zdiv_nonneg_iff)
  have fr: "nat (us mod 1000000) < 1000000" "0 \<le> us mod 1000000" by simp_all
  have printed: "iso_prefix t @ ''+00:00'' =
     dec_width 4 (nat y) @ ''-'' @ dec_width 2 (nat m) @ ''-'' @ dec_width 2 (nat d) @ CHR ''T'' #
       (dec_width 2 (nat (us div 1000000 div 3600)) @ '':'' @ dec_width 2 (nat (us div 1000000 div 60 mod 60)) @ '':''
        @ dec_width 2 (nat (us div 1000000 mod 60)) @ (''.'' @ dec_width 6 (nat (us mod 1000000)) @ CHR ''+'' # ''00:00''))"
    unfolding iso_prefix_def Let_def n_def [symmetric] us_def [symmetric] ymd civil_text_def prod.case by simp
  have whole: "(n - EPOCH_ORDINAL) * 86400000000 + us div 1000000 * 1000000 + us mod 1000000 = t"
    by (simp add: n_def us_def)
  show ?thesis
    unfolding timestamp_with_offset printed fromisoformat_def
    using whole fr
    by (simp only: read_date_printed [OF ymd n] bind.bind_lunit case_prod_conv Let_def list.case
        read_clock_printed [OF secs] read_fraction_printed [OF fr(1) refl] read_offset_zero) simp
qed

definition read_timestamp :: "string \<Rightarrow> int option" where
  "read_timestamp s = (case fromisoformat (replace_str ''Z'' ''+00:00'' s) of
     Some (t, Some offset) \<Rightarrow> Some (t - offset) | _ \<Rightarrow> None)"

interpretation stamp: codec timestamp read_timestamp datetime_range "\<lambda>t. t"
  by unfold_locales (simp add: read_timestamp_def fromisoformat_timestamp)

end
