(* ===== verification/Kubernetes_Facts.thy ===== *)
theory Kubernetes_Facts
  imports Kubernetes "HOL-Library.Sublist"
begin

text \<open>
  Facts on the Kubernetes client: paths cannot be escaped (\<open>quote\<close> is injective and emits
  no separator), response bodies are bounded, and every method sends exactly the request
  its arguments name. \<open>performs ws m\<close> states the writes of a computation for every server:
  all of \<open>ws\<close> in order when it returns, a prefix of them when it raises.
\<close>

section \<open>Quoted path segments\<close>

definition upper_hex_val :: "char \<Rightarrow> nat" where
  "upper_hex_val c = (if is_digit c then of_char c - 48 else of_char c - 55)"

fun unquote :: "string \<Rightarrow> string" where
  "unquote [] = []"
| "unquote (c # s) =
     (if c = CHR ''%'' then
        (case s of a # b # t \<Rightarrow> char_of (16 * upper_hex_val a + upper_hex_val b) # unquote t | _ \<Rightarrow> c # s)
      else c # unquote s)"

lemma upper_hex_char_val:
  assumes "d < 16"
  shows "upper_hex_val (upper_hex_char d) = d"
  using assms
  by (auto simp: upper_hex_val_def upper_hex_char_def is_digit_def in_range_def less_eq_char_def of_char_of take_bit_eq_mod)

lemma percent_not_unreserved: "\<not> is_unreserved CHR ''%''"
  by (simp add: is_unreserved_def char_class_defs less_eq_char_def)

lemma unquote_byte: "unquote (quote_byte c @ s) = c # unquote s"
proof (cases "is_unreserved c")
  case True
  then have "c \<noteq> CHR ''%''" using percent_not_unreserved by auto
  then show ?thesis using True by (simp add: quote_byte_def)
next
  case False
  define n where "n = (of_char c :: nat)"
  have "n < 256" by (simp add: n_def)
  then have n: "n div 16 < 16" "n mod 16 < 16" by auto
  have "char_of (16 * (n div 16) + n mod 16) = c" by (simp add: n_def)
  then show ?thesis
    using False upper_hex_char_val [OF n(1)] upper_hex_char_val [OF n(2)]
    by (simp add: quote_byte_def Let_def n_def [symmetric] del: mult_div_mod_eq)
qed

lemma unquote_quote_bytes: "unquote (concat (map quote_byte s)) = s"
  by (induction s) (simp_all add: unquote_byte)

interpretation segment: codec quote "\<lambda>s. utf8_decode (unquote s)" "\<lambda>_. True" "\<lambda>s. s"
  by unfold_locales (simp add: quote_def unquote_quote_bytes)

theorem quote_inject: "quote s = quote t \<longleftrightarrow> s = t"
  by (rule segment.enc_inject) simp_all

lemma slash_not_quoted: "CHR ''/'' \<notin> set (quote s)"
proof -
  have hex: "\<forall>d \<in> set [0..<16]. upper_hex_char d \<noteq> CHR ''/''" by code_simp
  have "CHR ''/'' \<notin> set (quote_byte c)" for c
  proof -
    have "(of_char c :: nat) div 16 < 16" by (rule less_mult_imp_div_less) simp
    moreover have "(of_char c :: nat) mod 16 < 16" by simp
    ultimately show ?thesis
      using hex by (auto simp: quote_byte_def Let_def is_unreserved_def char_class_defs less_eq_char_def)
  qed
  then show ?thesis by (auto simp: quote_def)
qed

lemma quote_Nil: "quote s = [] \<longleftrightarrow> s = []"
  using quote_inject [of s "[]"] by (simp add: quote_def utf8_encode_def)


section \<open>Bounded bodies\<close>

theorem read_chunks_bounded:
  "length body \<le> MAX_KUBERNETES_RESPONSE_BYTES \<Longrightarrow>
   read_chunks body cs =
     (if length (body @ concat cs) \<le> MAX_KUBERNETES_RESPONSE_BYTES then Inr (body @ concat cs)
      else Inl too_large)"
proof (induction cs arbitrary: body)
  case (Cons c cs)
  let ?M = MAX_KUBERNETES_RESPONSE_BYTES
  show ?case
  proof (cases "length body + length c \<le> ?M")
    case True
    then have "take (?M + 1 - length body) c = c" by simp
    then show ?thesis using True Cons.IH [of "body @ c"] by simp
  next
    case False
    then have "length (body @ take (?M + 1 - length body) c) > ?M" using Cons.prems by simp
    then show ?thesis using False by (simp add: Let_def)
  qed
qed simp


section \<open>The request a method sends\<close>

definition object_path :: "controller_settings \<Rightarrow> string \<Rightarrow> string \<Rightarrow> string option \<Rightarrow> string" where
  "object_path settings kind name ns =
     (case map_of RESOURCE_ENDPOINTS kind of
        None \<Rightarrow> [] | Some (pre, plural) \<Rightarrow> resource_path settings pre plural name ns)"

definition kinds :: "string set" where
  "kinds = fst ` set RESOURCE_ENDPOINTS"

lemma endpoint_eq_Inr [res_iff]: "endpoint kind = Inr ep \<longleftrightarrow> map_of RESOURCE_ENDPOINTS kind = Some ep"
  by (auto simp: endpoint_def split: option.splits)

lemma does_endpoint:
  "(\<And>pre plural. map_of RESOURCE_ENDPOINTS kind = Some (pre, plural) \<Longrightarrow> does P (f pre plural)) \<Longrightarrow>
   does P (bindK (liftK (endpoint kind)) (\<lambda>(pre, plural). f pre plural))"
  by (cases "map_of RESOURCE_ENDPOINTS kind")
    (auto simp: endpoint_def does_def bindK_def split: prod.splits sum.splits)

lemma does_send_request:
  assumes "\<And>hs. P (Request \<lparr>r_method = mth, r_path = path, r_params = ps, r_content = c, r_headers = hs\<rparr>)"
  shows "does P (send_request mth path ex ps c ct)"
  unfolding send_request_def Let_def
  by (intro does_intros) (auto intro!: does_intros assms split: http_outcome.splits)

lemma does_request_json:
  assumes "\<And>hs. P (Request \<lparr>r_method = mth, r_path = path, r_params = ps, r_content = c, r_headers = hs\<rparr>)"
  shows "does P (request_json mth path ex ps c ct)"
  unfolding request_json_def by (intro does_intros does_send_request assms)

lemma does_kube_get:
  assumes "\<And>hs. P (Request \<lparr>r_method = ''GET'', r_path = object_path settings kind name ns, r_params = [],
      r_content = None, r_headers = hs\<rparr>)"
  shows "does P (kube_get settings kind name ns)"
  unfolding kube_get_def using assms
  by (intro does_endpoint does_intros does_send_request) (auto simp: object_path_def)

lemma does_kube_list:
  assumes "\<And>hs. P (Request \<lparr>r_method = ''GET'', r_path = object_path settings kind [] None,
      r_params = [(''labelSelector'', sel), (''limit'', ''500'')], r_content = None, r_headers = hs\<rparr>)"
  shows "does P (kube_list settings kind sel)"
  unfolding kube_list_def using assms
  by (intro does_endpoint does_intros does_send_request) (auto simp: object_path_def)

lemma does_kube_delete:
  assumes "\<And>hs. P (Request \<lparr>r_method = ''DELETE'', r_path = object_path settings kind name None, r_params = [],
      r_content = Some delete_options, r_headers = hs\<rparr>)"
  shows "does P (kube_delete settings kind name)"
  unfolding kube_delete_def using assms
  by (intro does_endpoint does_intros does_send_request) (auto simp: object_path_def)

text \<open>A resource the controller applies: a known kind and a non-empty name.\<close>

definition named_resource :: "string \<Rightarrow> string \<Rightarrow> json dict \<Rightarrow> bool" where
  "named_resource kind name r \<longleftrightarrow> dget r ''kind'' = JStr kind \<and> kind \<in> kinds
     \<and> (\<exists>m. dget r ''metadata'' = JObj m \<and> dget m ''name'' = JStr name) \<and> name \<noteq> []"

lemma apply_resource_eq:
  assumes "named_resource kind name r"
  shows "apply_resource settings r =
    request_json ''PATCH'' (object_path settings kind name None) {200, 201}
      [(''fieldManager'', ''dealhost-runtime-controller''), (''force'', ''true'')]
      (Some (body_of r)) (Some ''application/apply-patch+yaml'')"
proof -
  from assms obtain m where m: "dget r ''kind'' = JStr kind" "kind \<in> kinds" "dget r ''metadata'' = JObj m"
      "dget m ''name'' = JStr name" "name \<noteq> []" by (auto simp: named_resource_def)
  obtain pre plural where "map_of RESOURCE_ENDPOINTS kind = Some (pre, plural)"
    using m(2) by (auto simp: kinds_def map_of_eq_None_iff dest: weak_map_of_SomeI)
  with m show ?thesis by (simp add: apply_resource_def object_path_def)
qed

lemma does_apply_resource:
  assumes "named_resource kind name r"
    and "\<And>hs. P (Request \<lparr>r_method = ''PATCH'', r_path = object_path settings kind name None,
      r_params = [(''fieldManager'', ''dealhost-runtime-controller''), (''force'', ''true'')],
      r_content = Some (body_of r), r_headers = hs\<rparr>)"
  shows "does P (apply_resource settings r)"
  unfolding apply_resource_eq [OF assms(1)] by (intro does_request_json assms)



section \<open>The writes of a computation\<close>

type_synonym kube_write = "string \<times> string \<times> string option"

definition write_of :: "event \<Rightarrow> kube_write option" where
  "write_of ev = (case ev of
     Request r \<Rightarrow> if r_method r = ''GET'' then None else Some (r_method r, r_path r, r_content r)
   | Sleep t \<Rightarrow> None)"

definition writes :: "history \<Rightarrow> kube_write list" where
  "writes es = List.map_filter write_of (rev es)"

lemma writes_append [simp]: "writes (fs @ es) = writes es @ writes fs"
  by (simp add: writes_def map_filter_def)

lemma writes_Nil [simp]: "writes [] = []"
  by (simp add: writes_def)

lemma writes_Cons: "writes (ev # es) = writes es @ (case write_of ev of None \<Rightarrow> [] | Some w \<Rightarrow> [w])"
  by (simp add: writes_def map_filter_def split: option.splits)

definition performs :: "kube_write list \<Rightarrow> 'a kube \<Rightarrow> bool" where
  "performs ws m \<longleftrightarrow> (\<forall>env h r h'. m env h = (r, h') \<longrightarrow>
     (\<exists>es. h' = es @ h \<and> (case r of Inl _ \<Rightarrow> prefix (writes es) ws | Inr _ \<Rightarrow> writes es = ws)))"

named_theorems performs_intros \<open>rules for the writes of a computation\<close>

lemma performsI:
  "(\<And>env h r h'. m env h = (r, h') \<Longrightarrow>
     \<exists>es. h' = es @ h \<and> (case r of Inl _ \<Rightarrow> prefix (writes es) ws | Inr _ \<Rightarrow> writes es = ws)) \<Longrightarrow> performs ws m"
  by (simp add: performs_def)

lemma performs_InrD: "performs ws m \<Longrightarrow> m env h = (Inr x, h') \<Longrightarrow> \<exists>es. h' = es @ h \<and> writes es = ws"
  unfolding performs_def by fastforce

lemma performs_InlD: "performs ws m \<Longrightarrow> m env h = (Inl e, h') \<Longrightarrow> \<exists>es. h' = es @ h \<and> prefix (writes es) ws"
  unfolding performs_def by fastforce

lemma performs_prefixD: "performs ws m \<Longrightarrow> m env h = (r, h') \<Longrightarrow> \<exists>es. h' = es @ h \<and> prefix (writes es) ws"
  using performs_InlD performs_InrD by (cases r) fastforce+

lemma performs_retK [performs_intros]: "performs [] (retK x)"
  by (simp add: performs_def)

lemma performs_raiseK [performs_intros]: "performs ws (raiseK e)"
  by (auto simp: performs_def)

lemma performs_liftK [performs_intros]: "performs [] (liftK r)"
  by (auto simp: performs_def split: sum.splits)

lemma performs_askK [performs_intros]: "performs [] (askK f)"
  by (auto simp: performs_def)

lemma performs_bindK:
  assumes m: "performs ws1 m" and f: "\<And>x. performs ws2 (f x)"
  shows "performs (ws1 @ ws2) (bindK m f)"
proof (rule performsI)
  fix env h r h'' assume "bindK m f env h = (r, h'')"
  then show "\<exists>es. h'' = es @ h \<and> (case r of Inl _ \<Rightarrow> prefix (writes es) (ws1 @ ws2) | Inr _ \<Rightarrow> writes es = ws1 @ ws2)"
  proof (cases rule: bindK_cases)
    case (raised e)
    then show ?thesis using performs_InlD [OF m raised(1)] by (auto intro: prefix_prefix)
  next
    case (continued x h')
    from performs_InrD [OF m continued(1)] obtain es where "h' = es @ h" "writes es = ws1" by blast
    then show ?thesis
      using f [of x] continued(2) unfolding performs_def by (fastforce split: sum.splits)
  qed
qed

lemma performs_bind_read [performs_intros]:
  "performs [] m \<Longrightarrow> (\<And>x. performs ws (f x)) \<Longrightarrow> performs ws (bindK m f)"
  using performs_bindK [of "[]" m ws f] by simp

lemma performs_bind_write:
  "performs [w] m \<Longrightarrow> (\<And>x. performs ws (f x)) \<Longrightarrow> performs (w # ws) (bindK m f)"
  using performs_bindK [of "[w]" m ws f] by simp

lemma performs_bind_last:
  "performs ws m \<Longrightarrow> (\<And>x. performs [] (f x)) \<Longrightarrow> performs ws (bindK m f)"
  using performs_bindK [of ws m "[]" f] by simp

lemma performs_forK: "(\<And>x. x \<in> set xs \<Longrightarrow> performs (ws x) (f x)) \<Longrightarrow> performs (concat (map ws xs)) (forK f xs)"
proof (induction xs)
  case (Cons x xs)
  then show ?case by (auto intro!: performs_bindK)
qed (simp add: performs_retK)

lemma performs_mapK_read [performs_intros]: "(\<And>x. x \<in> set xs \<Longrightarrow> performs [] (f x)) \<Longrightarrow> performs [] (mapK f xs)"
  by (induction xs) (auto intro!: performs_intros)

lemma performs_forK_read [performs_intros]: "(\<And>x. x \<in> set xs \<Longrightarrow> performs [] (f x)) \<Longrightarrow> performs [] (forK f xs)"
  by (induction xs) (auto intro!: performs_intros)

lemma performs_if [performs_intros]:
  "(b \<Longrightarrow> performs ws m) \<Longrightarrow> (\<not> b \<Longrightarrow> performs ws m') \<Longrightarrow> performs ws (if b then m else m')"
  by simp

lemma performs_case_option [performs_intros]:
  "(v = None \<Longrightarrow> performs ws m) \<Longrightarrow> (\<And>x. v = Some x \<Longrightarrow> performs ws (f x)) \<Longrightarrow>
   performs ws (case v of None \<Rightarrow> m | Some x \<Rightarrow> f x)"
  by (cases v) simp_all

lemma performs_case_prod [performs_intros]:
  "(\<And>a b. v = (a, b) \<Longrightarrow> performs ws (f a b)) \<Longrightarrow> performs ws (case v of (a, b) \<Rightarrow> f a b)"
  by (cases v) simp

lemma performs_does: "performs ws m \<Longrightarrow> does (\<lambda>_. True) m"
proof (rule doesI)
  fix env h assume "performs ws m"
  then show "\<exists>es. snd (m env h) = es @ h \<and> list_all (\<lambda>_. True) es"
    using performs_prefixD [of ws m env h "fst (m env h)" "snd (m env h)"] by (auto simp: list_all_iff)
qed

text \<open>A computation that only reads.\<close>

lemma writes_none: "list_all (\<lambda>ev. write_of ev = None) es \<Longrightarrow> writes es = []"
  by (simp add: writes_def map_filter_def filter_empty_conv list_all_iff)

lemma performs_reads: "does (\<lambda>ev. write_of ev = None) m \<Longrightarrow> performs [] m"
  by (rule performsI) (auto dest!: doesD simp: writes_none split: sum.splits)

lemma performs_send_request:
  assumes "mth \<noteq> ''GET''"
  shows "performs [(mth, path, c)] (send_request mth path ex ps c ct)"
proof (rule performsI)
  fix env h r h'
  let ?req = "\<lambda>hs. Request \<lparr>r_method = mth, r_path = path, r_params = ps, r_content = c, r_headers = hs\<rparr>"
  assume run: "send_request mth path ex ps c ct env h = (r, h')"
  have w: "writes [?req hs] = [(mth, path, c)]" for hs
    using assms by (simp add: writes_def map_filter_def write_of_def)
  have "(\<exists>e. r = Inl e) \<and> h' = h \<or> (\<exists>hs. h' = ?req hs # h)"
    using run unfolding send_request_def Let_def bindK_def
    by (auto split: option.splits sum.splits if_splits http_outcome.splits)
  then show "\<exists>es. h' = es @ h \<and> (case r of Inl _ \<Rightarrow> prefix (writes es) [(mth, path, c)] | Inr _ \<Rightarrow> writes es = [(mth, path, c)])"
  proof
    assume "(\<exists>e. r = Inl e) \<and> h' = h"
    then show ?thesis by auto
  next
    assume "\<exists>hs. h' = ?req hs # h"
    then obtain hs where "h' = [?req hs] @ h" by auto
    then show ?thesis using w [of hs] by (intro exI [of _ "[?req hs]"]) (auto split: sum.splits)
  qed
qed

lemma performs_get [performs_intros]: "performs [] (kube_get settings kind name ns)"
  by (intro performs_reads does_kube_get) (simp add: write_of_def)

lemma performs_list [performs_intros]: "performs [] (kube_list settings kind sel)"
  by (intro performs_reads does_kube_list) (simp add: write_of_def)

definition delete_write :: "controller_settings \<Rightarrow> string \<Rightarrow> string \<Rightarrow> kube_write" where
  "delete_write settings kind name = (''DELETE'', object_path settings kind name None, Some delete_options)"

definition patch_write :: "controller_settings \<Rightarrow> string \<Rightarrow> string \<Rightarrow> json dict \<Rightarrow> kube_write" where
  "patch_write settings kind name r = (''PATCH'', object_path settings kind name None, Some (body_of r))"

lemma performs_delete:
  assumes "kind \<in> kinds"
  shows "performs [delete_write settings kind name] (kube_delete settings kind name)"
proof -
  obtain pre plural where ep: "map_of RESOURCE_ENDPOINTS kind = Some (pre, plural)"
    using assms by (auto simp: kinds_def map_of_eq_None_iff dest: weak_map_of_SomeI)
  have "kube_delete settings kind name =
      bindK (send_request ''DELETE'' (object_path settings kind name None) {200, 202, 404} []
        (Some delete_options) (Some ''application/json'')) (\<lambda>_. retK ())"
    by (simp add: kube_delete_def endpoint_def ep object_path_def fun_eq_iff bindK_def)
  then show ?thesis
    unfolding delete_write_def by (auto intro!: performs_bind_last performs_send_request performs_retK)
qed

lemma performs_apply:
  assumes "named_resource kind name r"
  shows "performs [patch_write settings kind name r] (apply_resource settings r)"
  unfolding apply_resource_eq [OF assms] request_json_def patch_write_def
  by (intro performs_bind_last performs_send_request performs_liftK) simp



section \<open>The exceptions of the client\<close>

text \<open>
  With a known kind the client raises \<open>KubernetesApiError\<close>, a cancellation, or (for a list
  whose metadata is not an object) AttributeError.
\<close>

definition is_api_error :: "exn \<Rightarrow> bool" where
  "is_api_error e \<longleftrightarrow> (\<exists>d s. e = KubernetesApiError d s) \<or> e = CancelledError"

lemma is_api_error_simps [simp]:
  "is_api_error (KubernetesApiError d s)" "is_api_error CancelledError"
  "\<not> is_api_error (ContractError d c n)" "\<not> is_api_error (ValueError d)" "\<not> is_api_error (TypeError d)"
  "\<not> is_api_error (AttributeError d)" "\<not> is_api_error (OverflowError d)" "\<not> is_api_error OutOfFuel"
  "\<not> is_api_error (ControllerConfigurationError d)" "\<not> is_api_error OSError"
  by (simp_all add: is_api_error_def)

lemma endpoint_kinds: "kind \<in> kinds \<Longrightarrow> \<exists>pre plural. endpoint kind = Inr (pre, plural)"
  by (auto simp: kinds_def endpoint_def split: option.splits dest: weak_map_of_SomeI)

lemma raises_endpoint:
  "kind \<in> kinds \<Longrightarrow> (\<And>pre plural. raises Q (f pre plural)) \<Longrightarrow>
   raises Q (bindK (liftK (endpoint kind)) (\<lambda>(pre, plural). f pre plural))"
  by (rule raisesI, erule bindK_cases) (auto dest: endpoint_kinds raisesD)

lemma read_chunks_error: "read_chunks body cs = Inl e \<Longrightarrow> e = too_large"
  by (induction body cs rule: read_chunks.induct) (auto simp: Let_def split: if_splits)

lemma read_response_error: "read_response r = Inl e \<Longrightarrow> is_api_error e"
  unfolding read_response_def
  by (auto simp: bindE_eq_Inl too_large_def dest!: read_chunks_error split: option.splits if_splits)

lemma response_json_error: "response_json r = Inl e \<Longrightarrow> is_api_error e"
  by (auto simp: response_json_def split: if_splits option.splits json.splits)

lemma raises_send_request: "raises is_api_error (send_request mth path ex ps c ct)"
  unfolding send_request_def Let_def
  by (intro raises_intros; (intro raises_intros)?)
    (auto intro!: raises_intros dest: read_response_error split: http_outcome.splits)

lemma raises_request_json: "raises is_api_error (request_json mth path ex ps c ct)"
  unfolding request_json_def by (intro raises_intros raises_send_request) (rule response_json_error)

lemma raises_kube_get: "kind \<in> kinds \<Longrightarrow> raises is_api_error (kube_get settings kind name ns)"
  unfolding kube_get_def
  by (intro raises_endpoint raises_intros raises_send_request) (auto dest: response_json_error)

lemma raises_kube_delete: "kind \<in> kinds \<Longrightarrow> raises is_api_error (kube_delete settings kind name)"
  unfolding kube_delete_def by (intro raises_endpoint raises_intros raises_send_request)

lemma list_items_error: "list_items p = Inl e \<Longrightarrow> is_api_error e \<or> e = AttributeError ''get''"
  by (auto simp: list_items_def Let_def split: json.splits option.splits if_splits)

lemma raises_kube_list:
  "kind \<in> kinds \<Longrightarrow> raises (\<lambda>e. is_api_error e \<or> e = AttributeError ''get'') (kube_list settings kind sel)"
  unfolding kube_list_def
  by (intro raises_endpoint raises_intros raises_mono [OF raises_send_request])
    (auto dest: response_json_error list_items_error)

lemma raises_apply_resource:
  "named_resource kind name r \<Longrightarrow> raises is_api_error (apply_resource settings r)"
  using raises_request_json by (simp add: apply_resource_eq)

lemma known_kinds [simp]:
  "''ConfigMap'' \<in> kinds" "''Service'' \<in> kinds" "''Pod'' \<in> kinds" "''Deployment'' \<in> kinds"
  "''HorizontalPodAutoscaler'' \<in> kinds" "''Lease'' \<in> kinds"
  by (simp_all add: kinds_def RESOURCE_ENDPOINTS_def)

end
