(* ===== verification/Lease.thy ===== *)
theory Lease
  imports Timestamps Kubernetes_Facts
begin

text \<open>
  The per-deployment Lease: \<open>DeploymentLeaseManager\<close> of
  \<open>src/components/DEALHost/dealhost/runtime_controller_service/lease.py\<close>.

  The pure parts (\<open>expired\<close>, \<open>new_lease\<close>, \<open>replacement_lease\<close>, \<open>validated_lease\<close>) are functions
  of the Lease object; \<open>try_acquire\<close>, \<open>renew\<close>, \<open>acquire\<close> and \<open>hold\<close> are computations. The
  renewal task that runs beside the body is \<open>renewal_round\<close>, one iteration of its loop; its
  effect on the body is the environment's: the server it changes, the cancellation it
  delivers and the flag \<open>e_lease_lost\<close>.
\<close>

section \<open>Lease objects\<close>

definition new_lease :: "controller_settings \<Rightarrow> string \<Rightarrow> string \<Rightarrow> string \<Rightarrow> int \<Rightarrow> json dict" where
  "new_lease settings name did holder_identity now =
     [(''apiVersion'', JStr ''coordination.k8s.io/v1''), (''kind'', JStr ''Lease''),
      (''metadata'', JObj [(''name'', JStr name), (''namespace'', JStr (s_namespace settings)),
         (''labels'', JObj [(MANAGED_BY_LABEL, JStr MANAGED_BY), (DEPLOYMENT_LABEL, JStr did)])]),
      (''spec'', JObj [(''holderIdentity'', JStr holder_identity),
         (''leaseDurationSeconds'', JInt (s_lease_duration_seconds settings)),
         (''acquireTime'', JStr (timestamp now)), (''renewTime'', JStr (timestamp now)),
         (''leaseTransitions'', JInt 0)])]"

definition replacement_lease ::
  "controller_settings \<Rightarrow> json dict \<Rightarrow> json dict \<Rightarrow> string \<Rightarrow> string \<Rightarrow> int \<Rightarrow> bool \<Rightarrow> exn + json dict" where
  "replacement_lease settings metadata spec did holder_identity now takeover =
     (let e = KubernetesApiError ''Kubernetes returned an invalid Lease transition.'' None in
      case dget_or (JInt 0) spec ''leaseTransitions'' of
        JInt transitions \<Rightarrow>
          if transitions < 0 then Inl e
          else Inr
            [(''apiVersion'', JStr ''coordination.k8s.io/v1''), (''kind'', JStr ''Lease''),
             (''metadata'', JObj [(''name'', dget metadata ''name''), (''namespace'', JStr (s_namespace settings)),
                (''resourceVersion'', dget metadata ''resourceVersion''),
                (''labels'', JObj [(MANAGED_BY_LABEL, JStr MANAGED_BY), (DEPLOYMENT_LABEL, JStr did)])]),
             (''spec'', JObj [(''holderIdentity'', JStr holder_identity),
                (''leaseDurationSeconds'', JInt (s_lease_duration_seconds settings)),
                (''acquireTime'', if takeover then JStr (timestamp now)
                   else dget_or (JStr (timestamp now)) spec ''acquireTime''),
                (''renewTime'', JStr (timestamp now)),
                (''leaseTransitions'', JInt (transitions + (if takeover then 1 else 0)))])]
      | _ \<Rightarrow> Inl e)"

definition validated_lease ::
  "controller_settings \<Rightarrow> json dict \<Rightarrow> string \<Rightarrow> string \<Rightarrow> exn + json dict \<times> json dict" where
  "validated_lease settings lease name did =
     (let e = KubernetesApiError ''Kubernetes returned an invalid runtime Lease.'' None in
      case (dget lease ''metadata'', dget lease ''spec'') of
        (JObj metadata, JObj spec) \<Rightarrow>
          (case (dget metadata ''labels'', dget metadata ''resourceVersion'') of
             (JObj labels, JStr resource_version) \<Rightarrow>
               if dget lease ''apiVersion'' \<noteq> JStr ''coordination.k8s.io/v1''
                 \<or> dget lease ''kind'' \<noteq> JStr ''Lease''
                 \<or> dget metadata ''name'' \<noteq> JStr name
                 \<or> dget metadata ''namespace'' \<noteq> JStr (s_namespace settings)
                 \<or> resource_version = []
                 \<or> dget labels MANAGED_BY_LABEL \<noteq> JStr MANAGED_BY
                 \<or> dget labels DEPLOYMENT_LABEL \<noteq> JStr did
               then Inl e
               else (case dget spec ''holderIdentity'' of
                       JNull \<Rightarrow> Inr (metadata, spec)
                     | JStr _ \<Rightarrow> Inr (metadata, spec)
                     | _ \<Rightarrow> Inl (KubernetesApiError ''Kubernetes returned an invalid Lease holder.'' None))
           | _ \<Rightarrow> Inl e)
      | _ \<Rightarrow> Inl e)"

text \<open>The last microsecond of year 9999, the greatest \<open>datetime\<close>.\<close>

definition MAX_DATETIME :: int where
  "MAX_DATETIME = (3652060 - EPOCH_ORDINAL) * 86400000000 - 1"

definition expired :: "json dict \<Rightarrow> int \<Rightarrow> exn + bool" where
  "expired spec now =
     (let renewed_at = (if truthy (dget spec ''renewTime'') then dget spec ''renewTime''
                        else dget spec ''acquireTime'');
          lifetime = KubernetesApiError ''Kubernetes returned an invalid Lease lifetime.'' None;
          invalid = KubernetesApiError ''Kubernetes returned an invalid Lease timestamp.'' None
      in case (dget spec ''leaseDurationSeconds'', renewed_at) of
        (JInt duration, JStr text) \<Rightarrow>
          if duration \<le> 0 then Inl lifetime
          else (case fromisoformat (replace_str ''Z'' ''+00:00'' text) of
                  None \<Rightarrow> Inl invalid
                | Some (_, None) \<Rightarrow> Inl invalid
                | Some (local, Some offset) \<Rightarrow>
                    (let deadline = local - offset + duration * 1000000
                     in if deadline > MAX_DATETIME then Inl (OverflowError ''date value out of range'')
                        else Inr (now \<ge> deadline)))
      | _ \<Rightarrow> Inl lifetime)"


section \<open>Acquiring and renewing\<close>

definition try_acquire :: "controller_settings \<Rightarrow> string \<Rightarrow> string \<Rightarrow> string \<Rightarrow> bool kube" where
  "try_acquire settings name did holder_identity =
     bindK (askK e_now) (\<lambda>now.
     bindK (kube_get settings ''Lease'' name None) (\<lambda>current.
     case current of
       None \<Rightarrow> create_lease settings (new_lease settings name did holder_identity now)
     | Some lease \<Rightarrow>
         bindK (liftK (validated_lease settings lease name did)) (\<lambda>(metadata, spec).
         bindK (if truthy (dget spec ''holderIdentity'')
                then bindK (liftK (expired spec now)) (\<lambda>x. retK (\<not> x)) else retK False) (\<lambda>held.
         if held then retK False
         else bindK (liftK (replacement_lease settings metadata spec did holder_identity now
                (truthy (dget spec ''holderIdentity'')))) (\<lambda>replacement.
           replace_lease settings replacement)))))"

fun acquire_loop :: "nat \<Rightarrow> controller_settings \<Rightarrow> rat \<Rightarrow> string \<Rightarrow> string \<Rightarrow> string \<Rightarrow> unit kube" where
  "acquire_loop 0 settings deadline name did holder = raiseK OutOfFuel"
| "acquire_loop (Suc n) settings deadline name did holder =
     bindK (try_acquire settings name did holder) (\<lambda>acquired.
     if acquired then retK ()
     else bindK (askK e_monotonic) (\<lambda>clock.
       let remaining = deadline - clock in
       if remaining \<le> 0 then raiseK RuntimeBusy
       else bindK (emitK (Sleep (min (1/10) remaining))) (\<lambda>_.
         acquire_loop n settings deadline name did holder)))"

text \<open>Each round but the last sleeps a tenth of a second, so this many rounds are enough.\<close>

definition acquire_fuel :: "controller_settings \<Rightarrow> nat" where
  "acquire_fuel settings = nat \<lceil>s_lease_acquire_timeout_seconds settings * 10\<rceil> + 2"

definition acquire :: "controller_settings \<Rightarrow> string \<Rightarrow> string \<Rightarrow> string \<Rightarrow> unit kube" where
  "acquire settings name did holder =
     bindK (askK e_monotonic) (\<lambda>start.
     acquire_loop (acquire_fuel settings) settings (start + s_lease_acquire_timeout_seconds settings) name did holder)"

definition renew :: "controller_settings \<Rightarrow> string \<Rightarrow> string \<Rightarrow> string \<Rightarrow> bool kube" where
  "renew settings name did holder_identity =
     bindK (kube_get settings ''Lease'' name None) (\<lambda>current.
     case current of
       None \<Rightarrow> retK False
     | Some lease \<Rightarrow>
         bindK (liftK (validated_lease settings lease name did)) (\<lambda>(metadata, spec).
         if dget spec ''holderIdentity'' \<noteq> JStr holder_identity then retK False
         else bindK (askK e_now) (\<lambda>now.
           bindK (liftK (replacement_lease settings metadata spec did holder_identity now False)) (\<lambda>replacement.
           replace_lease settings replacement))))"

text \<open>
  One round of \<open>_renew_until_cancelled\<close>: sleep a third of the Lease's duration, renew, and
  return whether the loop goes on; False sets \<open>lease_lost\<close> and cancels the owner.
\<close>

definition renewal_round :: "controller_settings \<Rightarrow> string \<Rightarrow> string \<Rightarrow> string \<Rightarrow> bool kube" where
  "renewal_round settings name did holder_identity =
     bindK (emitK (Sleep (max 1 (of_int (s_lease_duration_seconds settings) / 3)))) (\<lambda>_.
     tryK (renew settings name did holder_identity) (\<lambda>e.
       case e of KubernetesApiError _ _ \<Rightarrow> retK False | _ \<Rightarrow> raiseK e))"


section \<open>Holding the Lease around a body\<close>

definition lease_lost_error :: exn where
  "lease_lost_error = KubernetesApiError ''The Kubernetes runtime mutation Lease was lost.'' None"

definition release_error :: exn where
  "release_error = KubernetesApiError ''The Kubernetes runtime mutation Lease could not be released.'' None"

text \<open>The body failed with \<open>e\<close>: release, but keep the original failure over one of the API.\<close>

definition release_after_failure :: "controller_settings \<Rightarrow> string \<Rightarrow> string \<Rightarrow> exn \<Rightarrow> 'a kube" where
  "release_after_failure settings name holder e =
     bindK (askK e_lease_lost) (\<lambda>lost.
     let e' = (if e = CancelledError \<and> lost then lease_lost_error else e) in
     tryK (bindK (release_lease settings name holder) (\<lambda>_. raiseK e'))
       (\<lambda>x. case x of KubernetesApiError _ _ \<Rightarrow> raiseK e' | _ \<Rightarrow> raiseK x))"

definition release_after_success :: "controller_settings \<Rightarrow> string \<Rightarrow> string \<Rightarrow> unit kube" where
  "release_after_success settings name holder =
     bindK (askK e_lease_lost) (\<lambda>lost.
     bindK (release_lease settings name holder) (\<lambda>released.
     if \<not> released \<and> \<not> lost then raiseK release_error else retK ()))"

definition hold :: "controller_settings \<Rightarrow> string \<Rightarrow> 'a kube \<Rightarrow> 'a kube" where
  "hold settings did body =
     (let name = lease_name did in
      bindK (askK e_uuid4) (\<lambda>holder.
      bindK (acquire settings name did holder) (\<lambda>_.
      bindK (tryK (bindK body (\<lambda>x. retK (Inr x))) (\<lambda>e. retK (Inl e))) (\<lambda>outcome.
      case outcome of
        Inl e \<Rightarrow> release_after_failure settings name holder e
      | Inr x \<Rightarrow> bindK (release_after_success settings name holder) (\<lambda>_. retK x)))))"

end
