(* ===== verification/Reconciler.thy ===== *)
theory Reconciler
  imports Lease
begin

text \<open>
  The reconciler: \<open>RuntimeReconciler\<close> of
  \<open>src/components/DEALHost/dealhost/runtime_controller_service/service.py\<close>.

  Every method is a definition: the pure ones (\<open>phase_of\<close>, \<open>desired_from_state\<close>,
  \<open>component_status\<close>, ...) are functions of the JSON objects the API server returned, the
  others are computations of the monad of \<open>Kube_Monad\<close>. The dictionary a component's status
  is in the source has fixed keys and is the record \<open>component_result\<close>; \<open>status_json\<close> is the
  dictionary.
\<close>

section \<open>Results\<close>

record component_result =
  cr_slug :: string
  cr_image_digest :: string
  cr_desired_replicas :: int
  cr_ready_replicas :: int
  cr_available_replicas :: int
  cr_state :: string
  cr_health :: string
  cr_restart_count :: int
  cr_last_error :: string

record runtime_result =
  rr_deployment_id :: string
  rr_state :: string
  rr_message :: string
  rr_observed_generation :: int
  rr_components :: "component_result list"

record log_result =
  lr_lines :: "string list"
  lr_cursor :: string
  lr_truncated :: bool

definition status_json :: "component_result \<Rightarrow> json" where
  "status_json r = JObj [(''slug'', JStr (cr_slug r)), (''image_digest'', JStr (cr_image_digest r)),
     (''desired_replicas'', JInt (cr_desired_replicas r)), (''ready_replicas'', JInt (cr_ready_replicas r)),
     (''available_replicas'', JInt (cr_available_replicas r)), (''state'', JStr (cr_state r)),
     (''health'', JStr (cr_health r)), (''restart_count'', JInt (cr_restart_count r)),
     (''last_error'', JStr (cr_last_error r))]"

definition result_as_dict :: "runtime_result \<Rightarrow> json" where
  "result_as_dict r = JObj [(''id'', JStr (rr_deployment_id r)), (''state'', JStr (rr_state r)),
     (''message'', JStr (rr_message r)), (''observed_generation'', JInt (rr_observed_generation r)),
     (''components'', JList (map status_json (rr_components r)))]"

definition log_as_dict :: "log_result \<Rightarrow> json" where
  "log_as_dict r = JObj [(''lines'', JList (map JStr (lr_lines r))), (''cursor'', JStr (lr_cursor r)),
     (''truncated'', JBool (lr_truncated r))]"


section \<open>Reading objects of the API server\<close>

text \<open>\<open>resource.get("metadata", {})\<close>, on which the source then calls \<open>get\<close>.\<close>

definition metadata_of :: "json dict \<Rightarrow> exn + json dict" where
  "metadata_of resource = (case dget_or (JObj []) resource ''metadata'' of
     JObj m \<Rightarrow> Inr m | _ \<Rightarrow> Inl (AttributeError ''get''))"

text \<open>A value that is used only when it is a dictionary.\<close>

definition dict_or_empty :: "json \<Rightarrow> json dict" where
  "dict_or_empty v = (case v of JObj d \<Rightarrow> d | _ \<Rightarrow> [])"

definition count_of :: "json \<Rightarrow> int" where
  "count_of v = (case v of JInt n \<Rightarrow> if n \<ge> 0 then n else 0 | _ \<Rightarrow> 0)"

definition state_identity_ok :: "string \<Rightarrow> json \<Rightarrow> bool" where
  "state_identity_ok did labels = (case labels of
     JObj ls \<Rightarrow> dget ls MANAGED_BY_LABEL = JStr MANAGED_BY \<and> dget ls DEPLOYMENT_LABEL = JStr did
   | _ \<Rightarrow> False)"

definition state_of :: "controller_settings \<Rightarrow> string \<Rightarrow> json dict option kube" where
  "state_of settings did =
     bindK (kube_get settings ''ConfigMap'' (state_name did) None) (\<lambda>state.
     case state of
       None \<Rightarrow> retK None
     | Some s \<Rightarrow>
         bindK (liftK (metadata_of s)) (\<lambda>metadata.
         if state_identity_ok did (dget_or (JObj []) metadata ''labels'') then retK (Some s)
         else raiseK (RuntimeConflict ''The runtime state object identity is invalid.'')))"

definition desired_from_state :: "controller_settings \<Rightarrow> json dict \<Rightarrow> exn + desired_deployment" where
  "desired_from_state settings state =
     (let corrupted = RuntimeConflict ''The runtime state object is corrupted.'' in
      case dget state ''data'' of
        JObj data \<Rightarrow>
          (case dget data ''desired.json'' of
             JStr raw \<Rightarrow>
               (case json_loads raw of
                  None \<Rightarrow> Inl corrupted
                | Some payload \<Rightarrow> parse_desired_deployment payload settings True)
           | _ \<Rightarrow> Inl corrupted)
      | _ \<Rightarrow> Inl corrupted)"

definition phases :: "string list" where
  "phases = [''reconciling'', ''active'', ''stopped'', ''deleting'', ''deleted'']"

text \<open>Membership in a set literal hashes the value: a list or a dictionary is a TypeError.\<close>

definition phase_of :: "json dict \<Rightarrow> exn + string" where
  "phase_of state =
     (let phase = (case dget state ''data'' of JObj data \<Rightarrow> dget data ''phase'' | _ \<Rightarrow> JNull) in
      if \<not> hashable phase then Inl (TypeError ''unhashable type'')
      else case phase of
        JStr p \<Rightarrow> if p \<in> set phases then Inr p
          else Inl (RuntimeConflict ''The runtime state phase is invalid.'')
      | _ \<Rightarrow> Inl (RuntimeConflict ''The runtime state phase is invalid.''))"

definition pod_phase :: "json dict \<Rightarrow> string" where
  "pod_phase pod = (case dget pod ''status'' of
     JObj status \<Rightarrow> (case dget status ''phase'' of JStr p \<Rightarrow> p | _ \<Rightarrow> [])
   | _ \<Rightarrow> [])"


section \<open>The status of a component\<close>

definition make_component_result ::
  "component \<Rightarrow> int \<Rightarrow> int \<Rightarrow> int \<Rightarrow> string \<Rightarrow> string \<Rightarrow> int \<Rightarrow> string \<Rightarrow> component_result" where
  "make_component_result c desired_replicas ready_count available state health restart_count error =
     \<lparr>cr_slug = c_slug c, cr_image_digest = c_image c,
      cr_desired_replicas = min desired_replicas 65535, cr_ready_replicas = min ready_count 65535,
      cr_available_replicas = min available 65535, cr_state = state, cr_health = health,
      cr_restart_count = min restart_count 100000, cr_last_error = error\<rparr>"

definition deleting_component :: "component \<Rightarrow> component_result" where
  "deleting_component c = make_component_result c 0 0 0 ''deleting'' ''unknown'' 0 []"

definition deleted_result :: "desired_deployment \<Rightarrow> runtime_result" where
  "deleted_result d =
     \<lparr>rr_deployment_id = d_deployment_id d, rr_state = ''deleted'', rr_message = [],
      rr_observed_generation = d_generation d,
      rr_components = map (\<lambda>c. make_component_result c 0 0 0 ''deleted'' ''unknown'' 0 []) (d_components d)\<rparr>"

definition condition_failed :: "json dict \<Rightarrow> bool" where
  "condition_failed c \<longleftrightarrow>
     dget c ''type'' = JStr ''ReplicaFailure'' \<and> dget c ''status'' = JStr ''True''
     \<or> dget c ''type'' = JStr ''Progressing'' \<and> dget c ''status'' = JStr ''False''"

fun first_failure :: "json list \<Rightarrow> string" where
  "first_failure [] = []"
| "first_failure (JObj c # rest) =
     (if condition_failed c then
        (if dget c ''type'' = JStr ''ReplicaFailure'' then ''Kubernetes could not create a runtime replica.''
         else ''The runtime rollout did not progress.'')
      else first_failure rest)"
| "first_failure (_ # rest) = first_failure rest"

definition deployment_failure :: "json dict \<Rightarrow> string" where
  "deployment_failure status = (case dget_or (JList []) status ''conditions'' of
     JList conditions \<Rightarrow> first_failure conditions | _ \<Rightarrow> [])"

definition container_restarts :: "json \<Rightarrow> int" where
  "container_restarts v = (case v of
     JObj d \<Rightarrow> if dget d ''name'' = JStr ''main'' then count_of (dget_or (JInt 0) d ''restartCount'') else 0
   | _ \<Rightarrow> 0)"

definition pod_restarts :: "json dict \<Rightarrow> int" where
  "pod_restarts pod = (case dget pod ''status'' of
     JObj status \<Rightarrow> (case dget_or (JList []) status ''containerStatuses'' of
        JList cs \<Rightarrow> sum_list (map container_restarts cs) | _ \<Rightarrow> 0)
   | _ \<Rightarrow> 0)"

fun main_of :: "json list \<Rightarrow> json dict option" where
  "main_of [] = None"
| "main_of (JObj d # rest) = (if dget d ''name'' = JStr ''main'' then Some d else main_of rest)"
| "main_of (_ # rest) = main_of rest"

text \<open>\<open>spec.get("template", {}).get("spec", {}).get("containers", [])\<close>.\<close>

definition containers_of :: "json dict \<Rightarrow> exn + json" where
  "containers_of spec = (case dget spec ''template'' of
     JObj template \<Rightarrow> (case dget_or (JObj []) template ''spec'' of
        JObj pod \<Rightarrow> Inr (dget_or (JList []) pod ''containers'')
      | _ \<Rightarrow> Inl (AttributeError ''get''))
   | _ \<Rightarrow> Inr (JList []))"

definition actual_image :: "component \<Rightarrow> json \<Rightarrow> string" where
  "actual_image c containers = (case containers of
     JList cs \<Rightarrow> (case main_of cs of
        Some m \<Rightarrow> (case dget m ''image'' of JStr img \<Rightarrow> img | _ \<Rightarrow> c_image c)
      | None \<Rightarrow> c_image c)
   | _ \<Rightarrow> c_image c)"

definition component_status ::
  "desired_deployment \<Rightarrow> component \<Rightarrow> json dict option \<Rightarrow> json dict list \<Rightarrow> exn + component_result" where
  "component_status d c deployment pods =
     (let restart_count = sum_list (map pod_restarts pods) in
      case deployment of
        None \<Rightarrow> Inr (make_component_result c 0 0 0 ''reconciling'' ''pending'' restart_count [])
      | Some dep \<Rightarrow>
          (let spec = dict_or_empty (dget dep ''spec'');
               status = dict_or_empty (dget dep ''status'');
               metadata = dict_or_empty (dget dep ''metadata'');
               desired_replicas = count_of (dget_or (JInt 0) spec ''replicas'');
               ready_count = count_of (dget_or (JInt 0) status ''readyReplicas'');
               available = count_of (dget_or (JInt 0) status ''availableReplicas'');
               generation = count_of (dget_or (JInt 0) metadata ''generation'');
               observed_generation = count_of (dget_or (JInt 0) status ''observedGeneration'')
           in bindE (containers_of spec) (\<lambda>containers.
             let img = actual_image c containers;
                 failure = (if img \<noteq> c_image c then ''Runtime image drift was detected.''
                            else deployment_failure status);
                 (state, health) =
                   (if d_desired_state d = ''stopped'' then
                      (if desired_replicas = 0 \<and> available = 0 then (''stopped'', ''stopped'')
                       else (''reconciling'', ''stopping''))
                    else if failure \<noteq> [] then (''degraded'', ''unhealthy'')
                    else if desired_replicas > 0 \<and> ready_count \<ge> desired_replicas
                      \<and> available \<ge> desired_replicas \<and> observed_generation \<ge> generation
                    then (''running'', ''healthy'')
                    else (''reconciling'', ''progressing''))
             in Inr ((make_component_result c desired_replicas ready_count available state health
                  restart_count failure)\<lparr>cr_image_digest := img\<rparr>))))"


section \<open>Observation\<close>

definition owned_kinds :: "string \<Rightarrow> component \<Rightarrow> (string \<times> string) list" where
  "owned_kinds did c =
     (let name = component_name did (c_slug c) [] in
      [(''Deployment'', name), (''Service'', name),
       (''ConfigMap'', component_name did (c_slug c) ''-cfg''), (''HorizontalPodAutoscaler'', name)])"

text \<open>The nested loop that reads every object: it does not stop at the first one found.\<close>

definition any_remaining :: "controller_settings \<Rightarrow> (string \<times> string) list \<Rightarrow> bool kube" where
  "any_remaining settings targets =
     bindK (mapK (\<lambda>(kind, name). bindK (kube_get settings kind name None) (\<lambda>r. retK (r \<noteq> None))) targets)
       (\<lambda>found. retK (list_ex id found))"

definition pod_groups :: "json dict list \<Rightarrow> exn + json dict list dict" where
  "pod_groups pods =
     foldE (\<lambda>pod acc. bindE (metadata_of pod) (\<lambda>metadata.
       case dget_or (JObj []) metadata ''labels'' of
         JObj labels \<Rightarrow>
           (case dget labels COMPONENT_LABEL of
              JStr c \<Rightarrow> Inr (dput c ((case map_of acc c of None \<Rightarrow> [] | Some ps \<Rightarrow> ps) @ [pod]) acc)
            | _ \<Rightarrow> Inr acc)
       | _ \<Rightarrow> Inr acc)) pods []"

definition aggregate_state :: "string \<Rightarrow> string list \<Rightarrow> string" where
  "aggregate_state desired_state states =
     (if desired_state = ''stopped'' then
        (if set states = {''stopped''} then ''stopped'' else ''reconciling'')
      else if ''degraded'' \<in> set states then ''degraded''
      else if set states = {''running''} then ''running''
      else ''reconciling'')"

definition first_message :: "component_result list \<Rightarrow> string" where
  "first_message rs = (case filter (\<lambda>r. cr_last_error r \<noteq> []) rs of [] \<Rightarrow> [] | r # _ \<Rightarrow> cr_last_error r)"

definition observe_deleting :: "controller_settings \<Rightarrow> string \<Rightarrow> desired_deployment \<Rightarrow> runtime_result kube" where
  "observe_deleting settings did d =
     bindK (any_remaining settings (concat (map (owned_kinds did) (d_components d)))) (\<lambda>remaining.
     if remaining then
       retK \<lparr>rr_deployment_id = did, rr_state = ''deleting'', rr_message = ''Runtime resources are terminating.'',
             rr_observed_generation = d_generation d,
             rr_components = map deleting_component (d_components d)\<rparr>
     else bindK (kube_delete settings ''ConfigMap'' (state_name did)) (\<lambda>_. retK (deleted_result d)))"

definition observe_components :: "controller_settings \<Rightarrow> string \<Rightarrow> desired_deployment \<Rightarrow> runtime_result kube" where
  "observe_components settings did d =
     bindK (kube_list settings ''Pod'' (selector did None)) (\<lambda>pods.
     bindK (liftK (pod_groups pods)) (\<lambda>groups.
     bindK (mapK (\<lambda>c.
        bindK (kube_get settings ''Deployment'' (component_name did (c_slug c) []) None) (\<lambda>dep.
        liftK (component_status d c dep (case map_of groups (c_slug c) of None \<Rightarrow> [] | Some ps \<Rightarrow> ps))))
        (d_components d)) (\<lambda>observed.
     retK \<lparr>rr_deployment_id = did,
           rr_state = aggregate_state (d_desired_state d) (map cr_state observed),
           rr_message = first_message observed,
           rr_observed_generation = d_generation d, rr_components = observed\<rparr>)))"

definition observe :: "controller_settings \<Rightarrow> string \<Rightarrow> runtime_result kube" where
  "observe settings did =
     bindK (state_of settings did) (\<lambda>state.
     case state of
       None \<Rightarrow> raiseK RuntimeNotFound
     | Some s \<Rightarrow>
         bindK (liftK (desired_from_state settings s)) (\<lambda>d.
         bindK (liftK (phase_of s)) (\<lambda>phase.
         if phase = ''deleted'' then
           bindK (kube_delete settings ''ConfigMap'' (state_name did)) (\<lambda>_. retK (deleted_result d))
         else if phase = ''deleting'' then observe_deleting settings did d
         else observe_components settings did d)))"


section \<open>Before a deployment: tombstones, secret catalog, ownership\<close>

text \<open>The name of a state object that only records a past deletion.\<close>

definition tombstone :: "json dict \<Rightarrow> string option" where
  "tombstone resource =
     (case dget resource ''metadata'' of
        JObj metadata \<Rightarrow>
          (case (dget metadata ''labels'', dget metadata ''name'', dget resource ''data'') of
             (JObj labels, JStr name, JObj data) \<Rightarrow>
               (case dget labels DEPLOYMENT_LABEL of
                  JStr did \<Rightarrow>
                    if name = state_name did \<and> dget data ''phase'' = JStr ''deleted''
                      \<and> map_of labels COMPONENT_LABEL = None
                    then Some name else None
                | _ \<Rightarrow> None)
           | _ \<Rightarrow> None)
      | _ \<Rightarrow> None)"

definition cleanup_legacy_tombstones :: "controller_settings \<Rightarrow> unit kube" where
  "cleanup_legacy_tombstones settings =
     bindK (kube_list settings ''ConfigMap'' (MANAGED_BY_LABEL @ ''='' @ MANAGED_BY)) (\<lambda>resources.
     forK (\<lambda>resource. case tombstone resource of
         None \<Rightarrow> retK ()
       | Some name \<Rightarrow> kube_delete settings ''ConfigMap'' name) resources)"

text \<open>\<open>required\<close>: the environment keys requested of each logical secret, in order of first use.\<close>

definition add_required :: "string \<times> string \<Rightarrow> string list dict \<Rightarrow> string list dict" where
  "add_required kv req = (case kv of (key, logical) \<Rightarrow>
     dput logical (List.insert key (case map_of req logical of None \<Rightarrow> [] | Some ks \<Rightarrow> ks)) req)"

definition required_secrets :: "desired_deployment \<Rightarrow> string list dict" where
  "required_secrets d = fold add_required (concat (map c_secret_refs (d_components d))) []"

text \<open>The hook that refuses duplicate keys; its ValueError is the None of the parser.\<close>

definition unique_object :: "(string \<times> json) list \<Rightarrow> json option" where
  "unique_object pairs = (if distinct (map fst pairs) then Some (JObj pairs) else None)"

fun strings_of :: "json list \<Rightarrow> string list option" where
  "strings_of [] = Some []"
| "strings_of (JStr s # vs) = map_option ((#) s) (strings_of vs)"
| "strings_of (_ # vs) = None"

definition unavailable :: exn where
  "unavailable = ContractError ''Runtime secret references are not provisioned.'' ''secret_reference_unavailable'' 422"

definition catalog_keys_ok :: "json \<Rightarrow> string list \<Rightarrow> bool" where
  "catalog_keys_ok v requested = (case v of
     JList vs \<Rightarrow> length vs \<le> 50 \<and> (case strings_of vs of
        Some ks \<Rightarrow> list_all is_env_key ks \<and> distinct ks \<and> ks = sort ks \<and> set requested \<subseteq> set ks
      | None \<Rightarrow> False)
   | _ \<Rightarrow> False)"

definition check_catalog_entry ::
  "controller_settings \<Rightarrow> json dict \<Rightarrow> string \<times> string list \<Rightarrow> exn + unit" where
  "check_catalog_entry settings data req = (case req of (logical, requested) \<Rightarrow>
     (let invalid = RuntimeConflict ''The runtime secret catalog is invalid.'' in
      case dget data logical of
        JStr raw \<Rightarrow>
          if length raw > 4096 then Inl unavailable
          else (case json_loads_hook unique_object raw of
             Some (JObj e) \<Rightarrow>
               if set (keys e) \<noteq> {''secret_name'', ''keys''} then Inl invalid
               else guardE (dget e ''secret_name'' = JStr (resolved_secret_name settings logical)
                  \<and> catalog_keys_ok (dget e ''keys'') requested) unavailable
           | _ \<Rightarrow> Inl invalid)
      | _ \<Rightarrow> Inl unavailable))"

definition catalog_identity_ok :: "controller_settings \<Rightarrow> json dict \<Rightarrow> bool" where
  "catalog_identity_ok settings catalog = (case dget catalog ''metadata'' of
     JObj metadata \<Rightarrow>
       dget metadata ''name'' = JStr (s_secret_catalog_name settings)
       \<and> dget metadata ''namespace'' = JStr (s_secret_catalog_namespace settings)
       \<and> (case dget metadata ''labels'' of
            JObj labels \<Rightarrow> dget labels MANAGED_BY_LABEL = JStr ''archideal-operator''
              \<and> dget labels ''archideal.io/runtime-secret-catalog'' = JStr ''true''
          | _ \<Rightarrow> False)
   | _ \<Rightarrow> False)"

definition check_catalog ::
  "controller_settings \<Rightarrow> string list dict \<Rightarrow> json dict option \<Rightarrow> exn + unit" where
  "check_catalog settings required catalog = (case catalog of
     None \<Rightarrow> Inl unavailable
   | Some cat \<Rightarrow>
       if \<not> catalog_identity_ok settings cat then
         Inl (RuntimeConflict ''The runtime secret catalog identity is invalid.'')
       else (case dget cat ''data'' of
          JObj data \<Rightarrow> foldE (\<lambda>req _. check_catalog_entry settings data req) required ()
        | _ \<Rightarrow> Inl (RuntimeConflict ''The runtime secret catalog is invalid.'')))"

definition validate_secret_catalog :: "controller_settings \<Rightarrow> desired_deployment \<Rightarrow> unit kube" where
  "validate_secret_catalog settings d =
     (let required = required_secrets d in
      if required = [] then retK ()
      else bindK (kube_get settings ''ConfigMap'' (s_secret_catalog_name settings)
             (Some (s_secret_catalog_namespace settings))) (\<lambda>catalog.
           liftK (check_catalog settings required catalog)))"

definition owned_by :: "controller_settings \<Rightarrow> desired_deployment \<Rightarrow> string \<Rightarrow> string \<Rightarrow> json dict \<Rightarrow> bool" where
  "owned_by settings d name component_slug resource =
     (case dget resource ''metadata'' of
        JObj metadata \<Rightarrow>
          dget metadata ''name'' = JStr name \<and> dget metadata ''namespace'' = JStr (s_namespace settings)
          \<and> (case dget metadata ''labels'' of
               JObj labels \<Rightarrow> list_all (\<lambda>(k, v). dget labels k = JStr v)
                 ([(MANAGED_BY_LABEL, MANAGED_BY), (DEPLOYMENT_LABEL, d_deployment_id d),
                   (ENVIRONMENT_LABEL, d_environment d)]
                  @ (if component_slug = [] then [] else [(COMPONENT_LABEL, component_slug)]))
             | _ \<Rightarrow> False)
      | _ \<Rightarrow> False)"

definition assert_owned ::
  "controller_settings \<Rightarrow> string \<Rightarrow> string \<Rightarrow> desired_deployment \<Rightarrow> string \<Rightarrow> bool kube" where
  "assert_owned settings kind name d component_slug =
     bindK (kube_get settings kind name None) (\<lambda>resource.
     case resource of
       None \<Rightarrow> retK False
     | Some r \<Rightarrow>
         if owned_by settings d name component_slug r then retK True
         else raiseK (RuntimeConflict ''A target Kubernetes resource is not owned by this runtime deployment.''))"

definition owned_targets :: "string \<Rightarrow> component \<Rightarrow> (string \<times> string \<times> string) list" where
  "owned_targets did c =
     (let name = component_name did (c_slug c) [] in
      [(''Deployment'', name, c_slug c), (''Service'', name, c_slug c),
       (''HorizontalPodAutoscaler'', name, c_slug c),
       (''ConfigMap'', component_name did (c_slug c) ''-cfg'', c_slug c)])"

definition assert_owned_resources :: "controller_settings \<Rightarrow> desired_deployment \<Rightarrow> bool kube" where
  "assert_owned_resources settings d =
     bindK (mapK (\<lambda>(kind, name, component_slug). assert_owned settings kind name d component_slug)
       ((''ConfigMap'', state_name (d_deployment_id d), [])
        # concat (map (owned_targets (d_deployment_id d)) (d_components d)))) (\<lambda>present.
     retK (list_ex id present))"

definition preflight_deploy :: "controller_settings \<Rightarrow> desired_deployment \<Rightarrow> unit kube" where
  "preflight_deploy settings d =
     bindK (validate_secret_catalog settings d) (\<lambda>_.
     bindK (assert_owned_resources settings d) (\<lambda>_. retK ()))"


section \<open>Deploying\<close>

definition stale_generation :: exn where
  "stale_generation = RuntimeConflict ''The requested runtime generation is stale.''"

definition admit_over :: "controller_settings \<Rightarrow> desired_deployment \<Rightarrow> json dict \<Rightarrow> exn + unit" where
  "admit_over settings d current =
     bindE (desired_from_state settings current) (\<lambda>current_desired.
     bindE (phase_of current) (\<lambda>phase.
     bindE (raise_if (phase \<in> {''deleting'', ''deleted''})
              (RuntimeConflict ''A deleted runtime identifier cannot be reused.'')) (\<lambda>_.
     bindE (raise_if (d_generation d < d_generation current_desired) stale_generation) (\<lambda>_.
     raise_if (d_generation d = d_generation current_desired
         \<and> payload_digest (JObj (d_normalized_payload d)) \<noteq> payload_digest (JObj (d_normalized_payload current_desired)))
       (RuntimeConflict ''The runtime generation was already used for another desired state.'')))))"

definition apply_component ::
  "controller_settings \<Rightarrow> desired_deployment \<Rightarrow> string \<Rightarrow> component \<Rightarrow> unit kube" where
  "apply_component settings d restart_request c =
     (let name = component_name (d_deployment_id d) (c_slug c) [];
          fixed = (case c_scaling c of Fixed _ \<Rightarrow> True | _ \<Rightarrow> False)
      in bindK (if d_desired_state d = ''stopped'' \<or> fixed
                then kube_delete settings ''HorizontalPodAutoscaler'' name else retK ()) (\<lambda>_.
         bindK (apply_resource settings (component_config_map d c settings)) (\<lambda>_.
         bindK (apply_resource settings (deployment_resource d c settings restart_request)) (\<lambda>_.
         bindK (apply_resource settings (service_resource d c settings)) (\<lambda>_.
         if d_desired_state d = ''running'' \<and> \<not> fixed
         then bindK (liftK (hpa_resource d c settings)) (\<lambda>hpa.
              bindK (apply_resource settings hpa) (\<lambda>_. retK ()))
         else retK ())))))"

definition deploy_unlocked ::
  "controller_settings \<Rightarrow> desired_deployment \<Rightarrow> string \<Rightarrow> bool \<Rightarrow> string \<Rightarrow> runtime_result kube" where
  "deploy_unlocked settings d request_id require_existing restart_request =
     bindK (state_of settings (d_deployment_id d)) (\<lambda>current.
     bindK (case current of
              None \<Rightarrow> if require_existing then raiseK RuntimeNotFound else retK ()
            | Some s \<Rightarrow> liftK (admit_over settings d s)) (\<lambda>_.
     bindK (cleanup_legacy_tombstones settings) (\<lambda>_.
     bindK (preflight_deploy settings d) (\<lambda>_.
     bindK (apply_resource settings (state_config_map d settings ''reconciling'' request_id)) (\<lambda>_.
     bindK (forK (apply_component settings d restart_request) (d_components d)) (\<lambda>_.
     bindK (apply_resource settings (state_config_map d settings
              (if d_desired_state d = ''running'' then ''active'' else ''stopped'') request_id)) (\<lambda>_.
     observe settings (d_deployment_id d))))))))"

definition deploy ::
  "controller_settings \<Rightarrow> desired_deployment \<Rightarrow> string \<Rightarrow> bool \<Rightarrow> string \<Rightarrow> runtime_result kube" where
  "deploy settings d request_id require_existing restart_request =
     hold settings (d_deployment_id d)
       (deploy_unlocked settings d request_id require_existing restart_request)"

text \<open>\<open>str.title()\<close> of a word in lower-case letters.\<close>

definition title_word :: "string \<Rightarrow> string" where
  "title_word w = (case w of [] \<Rightarrow> [] | c # cs \<Rightarrow>
     (if is_lower c then char_of ((of_char c :: nat) - 32) else c) # cs)"

definition check_action :: "string \<Rightarrow> string \<Rightarrow> exn + unit" where
  "check_action act desired_state =
     (if act = ''start'' \<and> desired_state \<noteq> ''running'' then
        Inl (contract_error ''Start requires running desired state.'')
      else if act = ''stop'' \<and> desired_state \<noteq> ''stopped'' then
        Inl (contract_error ''Stop requires stopped desired state.'')
      else if act \<in> {''restart'', ''redeploy''} \<and> desired_state \<noteq> ''running'' then
        Inl (contract_error (title_word act @ '' requires running desired state.''))
      else if act \<notin> {''start'', ''stop'', ''restart'', ''redeploy''} then
        Inl (ContractError ''The runtime action is unsupported.'' ''invalid_runtime_contract'' 404)
      else Inr ())"

definition action :: "controller_settings \<Rightarrow> desired_deployment \<Rightarrow> string \<Rightarrow> string \<Rightarrow> runtime_result kube" where
  "action settings d act request_id =
     bindK (liftK (check_action act (d_desired_state d))) (\<lambda>_.
     hold settings (d_deployment_id d)
       (deploy_unlocked settings d request_id True
          (if act \<in> {''restart'', ''redeploy''} then request_id else [])))"


section \<open>Undeploying\<close>

definition deletion_desired :: "desired_deployment \<Rightarrow> int \<Rightarrow> desired_deployment" where
  "deletion_desired d generation =
     d\<lparr>d_generation := generation, d_desired_state := ''absent'',
       d_normalized_payload := dput ''desired_state'' (JStr ''absent'')
         (dput ''generation'' (JInt generation) (d_normalized_payload d))\<rparr>"

definition delete_component :: "controller_settings \<Rightarrow> string \<Rightarrow> component \<Rightarrow> unit kube" where
  "delete_component settings did c =
     (let name = component_name did (c_slug c) [] in
      bindK (kube_delete settings ''HorizontalPodAutoscaler'' name) (\<lambda>_.
      bindK (kube_delete settings ''Deployment'' name) (\<lambda>_.
      bindK (kube_delete settings ''Service'' name) (\<lambda>_.
      kube_delete settings ''ConfigMap'' (component_name did (c_slug c) ''-cfg'')))))"

definition remove_all_resources ::
  "controller_settings \<Rightarrow> string \<Rightarrow> string \<Rightarrow> desired_deployment \<Rightarrow> runtime_result kube" where
  "remove_all_resources settings did request_id current_desired =
     bindK (apply_resource settings (state_config_map current_desired settings ''deleting'' request_id)) (\<lambda>_.
     bindK (forK (delete_component settings did) (d_components current_desired)) (\<lambda>_.
     tryK (observe settings did) (\<lambda>e.
       if e = RuntimeNotFound then retK (deleted_result current_desired) else raiseK e)))"

text \<open>What is to be removed, when a state object exists.\<close>

definition removal_of ::
  "controller_settings \<Rightarrow> json dict \<Rightarrow> desired_deployment option \<Rightarrow> exn + desired_deployment" where
  "removal_of settings current desired =
     bindE (desired_from_state settings current) (\<lambda>current_desired.
     case desired of
       None \<Rightarrow> Inr (deletion_desired current_desired (d_generation current_desired))
     | Some d \<Rightarrow>
         if d_generation d < d_generation current_desired then Inl stale_generation
         else if d_release_digest d \<noteq> d_release_digest current_desired then
           Inl (RuntimeConflict ''DELETE cannot replace the immutable runtime release.'')
         else Inr (deletion_desired current_desired (d_generation d)))"

definition check_removal :: "string \<Rightarrow> desired_deployment option \<Rightarrow> exn + unit" where
  "check_removal did desired = (case desired of
     None \<Rightarrow> Inr ()
   | Some d \<Rightarrow>
       if d_desired_state d \<noteq> ''absent'' then Inl (contract_error ''DELETE requires absent desired state.'')
       else if d_deployment_id d \<noteq> did then
         Inl (contract_error ''DELETE payload identifier does not match its path.'')
       else Inr ())"

definition undeploy_unlocked ::
  "controller_settings \<Rightarrow> string \<Rightarrow> string \<Rightarrow> desired_deployment option \<Rightarrow> runtime_result kube" where
  "undeploy_unlocked settings did request_id desired =
     bindK (state_of settings did) (\<lambda>current.
     bindK (liftK (check_removal did desired)) (\<lambda>_.
     case current of
       None \<Rightarrow>
         (case desired of
            None \<Rightarrow> retK \<lparr>rr_deployment_id = did, rr_state = ''deleted'', rr_message = [],
                          rr_observed_generation = 0, rr_components = []\<rparr>
          | Some d \<Rightarrow>
              bindK (assert_owned_resources settings d) (\<lambda>present.
              if present then remove_all_resources settings did request_id d
              else retK (deleted_result d)))
     | Some s \<Rightarrow>
         bindK (liftK (removal_of settings s desired)) (\<lambda>current_desired.
         bindK (liftK (phase_of s)) (\<lambda>phase.
         if phase = ''deleted'' then
           bindK (kube_delete settings ''ConfigMap'' (state_name did)) (\<lambda>_. retK (deleted_result current_desired))
         else bindK (assert_owned_resources settings current_desired) (\<lambda>_.
           remove_all_resources settings did request_id current_desired)))))"

definition undeploy ::
  "controller_settings \<Rightarrow> string \<Rightarrow> string \<Rightarrow> desired_deployment option \<Rightarrow> runtime_result kube" where
  "undeploy settings did request_id desired =
     hold settings did (undeploy_unlocked settings did request_id desired)"


section \<open>Logs\<close>

text \<open>
  \<open>str(v)\<close> of a JSON value, \<open>str.splitlines()\<close> on code points below 256, the stable sort
  with \<open>reverse=True\<close> and the slice \<open>xs[n:]\<close>.
\<close>

fun py_repr :: "json \<Rightarrow> string" where
  "py_repr JNull = ''None''"
| "py_repr (JBool b) = (if b then ''True'' else ''False'')"
| "py_repr (JInt n) = str_int n"
| "py_repr (JFloat f) = (if f = ''NaN'' then ''nan'' else if f = ''Infinity'' then ''inf''
     else if f = ''-Infinity'' then ''-inf'' else f)"
| "py_repr (JStr s) = repr_str s"
| "py_repr (JList vs) = ''['' @ join_with '', '' (map py_repr vs) @ '']''"
| "py_repr (JObj d) = ''{'' @ join_with '', '' (map (\<lambda>(k, v). repr_str k @ '': '' @ py_repr v) d) @ ''}''"

definition py_str :: "json \<Rightarrow> string" where
  "py_str v = (case v of JStr s \<Rightarrow> s | _ \<Rightarrow> py_repr v)"

definition is_line_break :: "char \<Rightarrow> bool" where
  "is_line_break c \<longleftrightarrow> (of_char c :: nat) \<in> {10, 11, 12, 13, 28, 29, 30, 133}"

fun splitlines_from :: "string \<Rightarrow> string \<Rightarrow> string list" where
  "splitlines_from cur [] = (if cur = [] then [] else [rev cur])"
| "splitlines_from cur (c # cs) =
     (if is_line_break c then
        rev cur # splitlines_from [] (if c = CHR 0x0D \<and> starts_with [CHR 0x0A] cs then tl cs else cs)
      else splitlines_from (c # cur) cs)"

definition splitlines :: "string \<Rightarrow> string list" where
  "splitlines s = splitlines_from [] s"

definition sort_desc :: "('a \<Rightarrow> string) \<Rightarrow> 'a list \<Rightarrow> 'a list" where
  "sort_desc k xs = rev (sort_key k (rev xs))"

definition slice_from :: "int \<Rightarrow> 'a list \<Rightarrow> 'a list" where
  "slice_from n xs = (if n \<ge> 0 then drop (nat n) xs else drop (length xs - nat (- n)) xs)"

text \<open>The newest of the candidate pods.\<close>

definition newest_pod :: "json dict list \<Rightarrow> exn + json dict" where
  "newest_pod candidates =
     bindE (mapE (\<lambda>pod. bindE (metadata_of pod) (\<lambda>m.
        Inr (py_str (dget_or (JStr []) m ''creationTimestamp''), pod))) candidates) (\<lambda>keyed.
     case sort_desc fst keyed of
       [] \<Rightarrow> Inl (ContractError ''No runtime pod is available for logs.'' ''logs_unavailable'' 409)
     | (_, pod) # _ \<Rightarrow> Inr pod)"

definition logs ::
  "controller_settings \<Rightarrow> string \<Rightarrow> string \<Rightarrow> int \<Rightarrow> int \<Rightarrow> log_result kube" where
  "logs settings did component_slug tail_lines since_seconds =
     bindK (state_of settings did) (\<lambda>state.
     case state of
       None \<Rightarrow> raiseK RuntimeNotFound
     | Some s \<Rightarrow>
         bindK (liftK (phase_of s)) (\<lambda>phase.
         if phase \<in> {''deleting'', ''deleted''} then raiseK RuntimeNotFound
         else bindK (liftK (desired_from_state settings s)) (\<lambda>d.
         if component_slug \<notin> set (map c_slug (d_components d)) then
           raiseK (ContractError ''The requested component is outside the runtime release.'' ''component_not_found'' 404)
         else bindK (kube_list settings ''Pod'' (selector did (Some component_slug))) (\<lambda>pods.
         bindK (liftK (newest_pod (filter (\<lambda>p. pod_phase p \<in> {''Running'', ''Succeeded''}) pods))) (\<lambda>pod.
         bindK (liftK (metadata_of pod)) (\<lambda>metadata.
         case dget metadata ''name'' of
           JStr pod_name \<Rightarrow>
             if pod_name = [] then raiseK (RuntimeConflict ''Kubernetes returned an invalid runtime pod.'')
             else bindK (pod_logs settings pod_name ''main'' tail_lines since_seconds) (\<lambda>content.
               let lns = splitlines content;
                   truncated = int (length lns) > tail_lines;
                   lns = (if truncated then slice_from (- tail_lines) lns else lns);
                   resource_version = dget_or (JStr []) metadata ''resourceVersion'';
                   cursor = take 500 (pod_name @ '':'' @ py_str resource_version)
               in retK \<lparr>lr_lines = lns, lr_cursor = cursor, lr_truncated = truncated\<rparr>)
         | _ \<Rightarrow> raiseK (RuntimeConflict ''Kubernetes returned an invalid runtime pod.''))))))) "

end
