(* ===== verification/Urls.thy ===== *)
theory Urls
  imports PyStr Complex_Main
begin

text \<open>
  URLs and numbers as the configuration code reads them: \<open>urllib.parse.urlsplit\<close> with its
  properties \<open>hostname\<close>, \<open>username\<close>, \<open>password\<close> and \<open>port\<close>, the bracketed-host check with the
  IPv6 syntax of \<open>ipaddress\<close>, \<open>urllib.parse.unquote_plus\<close> as \<open>parse_qs\<close> uses it, \<open>int\<close> and
  \<open>float\<close> of a text. \<open>None\<close> is the ValueError of the library. A float is the rational its
  decimal text denotes; \<open>inf\<close> and \<open>nan\<close> are \<open>NonFinite\<close>.
\<close>

section \<open>Partition\<close>

definition partition :: "char \<Rightarrow> string \<Rightarrow> string \<times> bool \<times> string" where
  "partition c s = (takeWhile (\<lambda>x. x \<noteq> c) s, c \<in> set s, tl (dropWhile (\<lambda>x. x \<noteq> c) s))"

definition rpartition :: "char \<Rightarrow> string \<Rightarrow> string \<times> bool \<times> string" where
  "rpartition c s =
     (if c \<notin> set s then ([], False, s)
      else (case partition c (rev s) of (a, _, b) \<Rightarrow> (rev b, True, rev a)))"

lemma partition_split: "c \<in> set s \<Longrightarrow> partition c s = (a, b, r) \<Longrightarrow> s = a @ c # r"
proof (induction s arbitrary: a)
  case (Cons x xs)
  then show ?case by (cases "x = c") (auto simp: partition_def)
qed simp


section \<open>IPv6 syntax\<close>

definition is_octet :: "string \<Rightarrow> bool" where
  "is_octet s \<longleftrightarrow> s \<noteq> [] \<and> list_all is_digit s \<and> length s \<le> 3
     \<and> (length s > 1 \<longrightarrow> hd s \<noteq> CHR ''0'') \<and> nat_of_dec s \<le> 255"

definition is_ipv4 :: "string \<Rightarrow> bool" where
  "is_ipv4 s \<longleftrightarrow> length (split_on CHR ''.'' s) = 4 \<and> list_all is_octet (split_on CHR ''.'' s)"

definition is_hextet :: "string \<Rightarrow> bool" where
  "is_hextet s \<longleftrightarrow> s \<noteq> [] \<and> length s \<le> 4 \<and> list_all (\<lambda>c. is_hex (lower_char c)) s"

text \<open>The empty parts between the first and the last one: the places of \<open>::\<close>.\<close>

definition inner_empty :: "string list \<Rightarrow> nat list" where
  "inner_empty parts = filter (\<lambda>i. parts ! i = []) [1..<length parts - 1]"

definition hextets_ok :: "string list \<Rightarrow> bool" where
  "hextets_ok parts =
     (case inner_empty parts of
        [] \<Rightarrow> length parts = 8 \<and> list_all is_hextet parts
      | [i] \<Rightarrow>
          (let hi = (if parts ! 0 = [] then i - 1 else i);
               lo = (if last parts = [] then length parts - i - 2 else length parts - i - 1)
           in (parts ! 0 = [] \<longrightarrow> hi = 0) \<and> (last parts = [] \<longrightarrow> lo = 0) \<and> hi + lo < 8
              \<and> list_all is_hextet (take hi parts) \<and> list_all is_hextet (drop (length parts - lo) parts))
      | _ \<Rightarrow> False)"

definition is_ipv6 :: "string \<Rightarrow> bool" where
  "is_ipv6 s =
     (case partition CHR ''%'' s of (addr, has_scope, scope) \<Rightarrow>
        let parts = split_on CHR '':'' addr;
            v4 = CHR ''.'' \<in> set (last parts)
        in CHR ''/'' \<notin> set s
           \<and> (has_scope \<longrightarrow> scope \<noteq> [] \<and> CHR ''%'' \<notin> set scope)
           \<and> length parts \<ge> 3 \<and> length parts + (if v4 then 1 else 0) \<le> 9
           \<and> (v4 \<longrightarrow> is_ipv4 (last parts))
           \<and> hextets_ok (if v4 then butlast parts @ [''0'', ''0''] else parts))"


section \<open>\<open>urlsplit\<close>\<close>

record split_result =
  u_scheme :: string
  u_netloc :: string
  u_path :: string
  u_query :: string
  u_fragment :: string

definition is_scheme_char :: "char \<Rightarrow> bool" where
  "is_scheme_char c \<longleftrightarrow> is_alnum c \<or> c \<in> set ''+-.''"

definition clean_url :: "string \<Rightarrow> string" where
  "clean_url url = filter (\<lambda>c. (of_char c :: nat) \<notin> {9, 10, 13}) (dropWhile (\<lambda>c. (of_char c :: nat) \<le> 32) url)"

definition split_scheme :: "string \<Rightarrow> string \<times> string" where
  "split_scheme url =
     (case partition CHR '':'' url of (pre, colon, rest) \<Rightarrow>
        if colon \<and> pre \<noteq> [] \<and> (is_lower (hd url) \<or> is_upper (hd url)) \<and> list_all is_scheme_char pre
        then (lower pre, rest) else ([], url))"

definition check_bracketed_host :: "string \<Rightarrow> bool" where
  "check_bracketed_host host =
     (if starts_with ''v'' host then
        (case partition CHR ''.'' (tl host) of (hex, dot, rest) \<Rightarrow>
           dot \<and> hex \<noteq> [] \<and> list_all (\<lambda>c. is_hex (lower_char c)) hex
           \<and> rest \<noteq> [] \<and> CHR 0x0A \<notin> set rest)
      else is_ipv6 host)"

definition check_bracketed_netloc :: "string \<Rightarrow> bool" where
  "check_bracketed_netloc netloc =
     (let host_port = snd (snd (rpartition CHR ''@'' netloc)) in
      case partition CHR ''['' host_port of (before, open_br, bracketed) \<Rightarrow>
        if open_br then
          (case partition CHR '']'' bracketed of (host, _, port) \<Rightarrow>
             before = [] \<and> (port = [] \<or> starts_with '':'' port) \<and> check_bracketed_host host)
        else check_bracketed_host (fst (partition CHR '':'' host_port)))"

definition urlsplit :: "string \<Rightarrow> split_result option" where
  "urlsplit raw =
     (let (scheme, url) = split_scheme (clean_url raw);
          (netloc, url) = (if starts_with ''//'' url
             then (takeWhile (\<lambda>c. c \<notin> set ''/?#'') (drop 2 url), dropWhile (\<lambda>c. c \<notin> set ''/?#'') (drop 2 url))
             else ([], url));
          br_open = CHR ''['' \<in> set netloc; br_close = CHR '']'' \<in> set netloc;
          (before, _, fragment) = partition CHR ''#'' url;
          (path, _, query) = partition CHR ''?'' before
      in if br_open \<noteq> br_close \<or> br_open \<and> br_close \<and> \<not> check_bracketed_netloc netloc then None
         else Some \<lparr>u_scheme = scheme, u_netloc = netloc, u_path = path, u_query = query, u_fragment = fragment\<rparr>)"

definition hostinfo :: "split_result \<Rightarrow> string \<times> string" where
  "hostinfo u =
     (let info = snd (snd (rpartition CHR ''@'' (u_netloc u))) in
      case partition CHR ''['' info of (_, open_br, bracketed) \<Rightarrow>
        if open_br then
          (case partition CHR '']'' bracketed of (host, _, rest) \<Rightarrow> (host, snd (snd (partition CHR '':'' rest))))
        else (case partition CHR '':'' info of (host, _, port) \<Rightarrow> (host, port)))"

text \<open>An empty host is the \<open>None\<close> of the source; the zone of an IPv6 host keeps its case.\<close>

definition url_hostname :: "split_result \<Rightarrow> string" where
  "url_hostname u = (case partition CHR ''%'' (fst (hostinfo u)) of
     (host, percent, zone) \<Rightarrow> lower host @ (if percent then CHR ''%'' # zone else []))"

text \<open>Both parts of the user info, the empty text where the source has \<open>None\<close>.\<close>

definition url_userinfo :: "split_result \<Rightarrow> string \<times> string" where
  "url_userinfo u = (case rpartition CHR ''@'' (u_netloc u) of (info, have, _) \<Rightarrow>
     if have then (case partition CHR '':'' info of (user, _, password) \<Rightarrow> (user, password)) else ([], []))"

text \<open>\<open>None\<close> is the ValueError, \<open>Some None\<close> that no port was given.\<close>

definition url_port :: "split_result \<Rightarrow> nat option option" where
  "url_port u =
     (let port = snd (hostinfo u) in
      if port = [] then Some None
      else if list_all is_digit port \<and> nat_of_dec port \<le> 65535 then Some (Some (nat_of_dec port))
      else None)"


section \<open>Numbers\<close>

text \<open>Digits with single underscores between them: the value and the number of digits.\<close>

fun digit_part :: "bool \<Rightarrow> nat \<Rightarrow> nat \<Rightarrow> string \<Rightarrow> (nat \<times> nat) option" where
  "digit_part after_digit acc n [] = (if after_digit then Some (acc, n) else None)"
| "digit_part after_digit acc n (c # cs) =
     (if is_digit c then digit_part True (10 * acc + digit_val c) (Suc n) cs
      else if c = CHR ''_'' \<and> after_digit then digit_part False acc n cs
      else None)"

definition split_sign :: "string \<Rightarrow> bool \<times> string" where
  "split_sign s = (case s of
     c # cs \<Rightarrow> if c = CHR ''-'' then (True, cs) else if c = CHR ''+'' then (False, cs) else (False, s)
   | [] \<Rightarrow> (False, s))"

definition int_of_text :: "string \<Rightarrow> int option" where
  "int_of_text s = (case split_sign (strip s) of (neg, ds) \<Rightarrow>
     map_option (\<lambda>(v, _). if neg then - int v else int v) (digit_part False 0 0 ds))"

datatype pyfloat = Finite rat | NonFinite

definition power10 :: "int \<Rightarrow> rat" where
  "power10 k = (if k \<ge> 0 then 10 ^ nat k else 1 / 10 ^ nat (- k))"

definition digit_part_or_empty :: "string \<Rightarrow> (nat \<times> nat) option" where
  "digit_part_or_empty s = (if s = [] then Some (0, 0) else digit_part False 0 0 s)"

definition exponent_of_text :: "bool \<Rightarrow> string \<Rightarrow> int option" where
  "exponent_of_text has_exp s =
     (if \<not> has_exp then Some 0
      else case split_sign s of (neg, ds) \<Rightarrow>
        map_option (\<lambda>(v, _). if neg then - int v else int v) (digit_part False 0 0 ds))"

definition float_of_text :: "string \<Rightarrow> pyfloat option" where
  "float_of_text raw =
     (case split_sign (lower (strip raw)) of (neg, s) \<Rightarrow>
        if s \<in> {''inf'', ''infinity'', ''nan''} then Some NonFinite
        else (case partition CHR ''e'' s of (mantissa, has_exp, exponent) \<Rightarrow>
          (case partition CHR ''.'' mantissa of (whole, _, fracpart) \<Rightarrow>
             if whole = [] \<and> fracpart = [] then None
             else (case (digit_part_or_empty whole, digit_part_or_empty fracpart, exponent_of_text has_exp exponent) of
                (Some (w, _), Some (f, k), Some x) \<Rightarrow>
                  (let v = (of_nat w + of_nat f * power10 (- int k)) * power10 x
                   in Some (Finite (if neg then - v else v)))
              | _ \<Rightarrow> None))))"

end
