(* ===== verification/Config.thy ===== *)
theory Config
  imports Resources Urls
begin

text \<open>
  Starting the controller: \<open>ControllerSettings.from_env\<close> and \<open>validate\<close> of
  \<open>src/components/DEALHost/dealhost/runtime_controller_service/config.py\<close>.

  The process environment is a function \<open>getenv\<close>, the file system two functions:
  \<open>read_text\<close> (\<open>None\<close> is an OSError) and \<open>is_file\<close>. A path is its text. A float setting
  that is not finite is stored as 0, which fails the same range checks.
\<close>

definition PLACEHOLDERS :: "string list" where
  "PLACEHOLDERS = [[], ''replace-me'', ''<runtime_controller_token>'']"

definition config_error :: "string \<Rightarrow> exn" where
  "config_error = ControllerConfigurationError"

definition DNS_LABEL :: "string \<Rightarrow> bool" where
  "DNS_LABEL s \<longleftrightarrow> s \<noteq> [] \<and> length s \<le> 63 \<and> is_lower_alnum (hd s) \<and> is_lower_alnum (last s)
     \<and> list_all is_slug_char s"

definition visible_ascii :: "char \<Rightarrow> bool" where
  "visible_ascii c \<longleftrightarrow> 32 < (of_char c :: nat) \<and> (of_char c :: nat) < 127"

definition token_valid :: "string \<Rightarrow> bool" where
  "token_valid token \<longleftrightarrow> token \<notin> set PLACEHOLDERS \<and> 32 \<le> length token \<and> length token \<le> 256
     \<and> list_all visible_ascii token"

definition check_labels :: "controller_settings \<Rightarrow> exn + unit" where
  "check_labels settings =
     foldE (\<lambda>(label, v) _. guardE (DNS_LABEL v)
         (config_error (''The runtime-controller '' @ label @ '' must be a canonical DNS label.'')))
       [(''environment'', s_environment settings), (''namespace'', s_namespace settings),
        (''workload service account'', s_workload_service_account settings),
        (''secret catalog namespace'', s_secret_catalog_namespace settings)] ()"

definition origin_ok :: "split_result \<Rightarrow> nat option \<Rightarrow> bool" where
  "origin_ok u port \<longleftrightarrow> u_scheme u = ''https'' \<and> url_hostname u \<noteq> [] \<and> fst (url_userinfo u) = []
     \<and> snd (url_userinfo u) = [] \<and> u_path u \<in> {[], ''/''} \<and> u_query u = [] \<and> u_fragment u = []
     \<and> (case port of None \<Rightarrow> True | Some p \<Rightarrow> 1 \<le> p \<and> p \<le> 65535)"

definition check_url :: "string \<Rightarrow> exn + unit" where
  "check_url url =
     (let invalid = config_error ''RUNTIME_CONTROLLER_KUBERNETES_URL is invalid.'' in
      case urlsplit url of
        None \<Rightarrow> Inl invalid
      | Some u \<Rightarrow> (case url_port u of
          None \<Rightarrow> Inl invalid
        | Some port \<Rightarrow> guardE (origin_ok u port)
            (config_error ''The Kubernetes API URL must be an HTTPS origin without credentials or path.'')))"

definition image_prefix_ok :: "string \<Rightarrow> bool" where
  "image_prefix_ok p \<longleftrightarrow> ends_with ''/'' p \<and> CHR ''@'' \<notin> set p \<and> \<not> list_ex isspace_char p"

definition is_absolute :: "string \<Rightarrow> bool" where
  "is_absolute path \<longleftrightarrow> starts_with ''/'' path"

definition check_files :: "(string \<Rightarrow> bool) \<Rightarrow> controller_settings \<Rightarrow> exn + unit" where
  "check_files is_file settings =
     foldE (\<lambda>(label, path) _. guardE (is_absolute path \<and> is_file path)
         (config_error (''The mounted '' @ label @ '' file is missing or is not absolute.'')))
       [(''service-account token'', s_kubernetes_token_file settings),
        (''Kubernetes CA'', s_kubernetes_ca_file settings)] ()"

definition validate :: "(string \<Rightarrow> bool) \<Rightarrow> controller_settings \<Rightarrow> bool \<Rightarrow> exn + unit" where
  "validate is_file settings require_files =
     bindE (guardE (token_valid (s_auth_token settings))
       (config_error ''RUNTIME_CONTROLLER_AUTH_TOKEN must contain 32-256 visible ASCII characters.'')) (\<lambda>_.
     bindE (check_labels settings) (\<lambda>_.
     bindE (guardE (s_image_pull_secret settings = [] \<or> DNS_LABEL (s_image_pull_secret settings))
       (config_error ''RUNTIME_CONTROLLER_IMAGE_PULL_SECRET must be a canonical DNS label.'')) (\<lambda>_.
     bindE (guardE (DNS_LABEL (s_secret_name_prefix settings))
       (config_error ''RUNTIME_CONTROLLER_SECRET_NAME_PREFIX must be a canonical DNS label.'')) (\<lambda>_.
     bindE (guardE (DNS_LABEL (s_secret_catalog_name settings))
       (config_error ''RUNTIME_CONTROLLER_SECRET_CATALOG_NAME must be a canonical DNS label.'')) (\<lambda>_.
     bindE (check_url (s_kubernetes_url settings)) (\<lambda>_.
     bindE (guardE (s_allowed_image_prefixes settings \<noteq> [] \<and> list_all image_prefix_ok (s_allowed_image_prefixes settings))
       (config_error ''RUNTIME_CONTROLLER_ALLOWED_IMAGE_PREFIXES must contain canonical repository prefixes ending in '/'.'')) (\<lambda>_.
     bindE (guardE (1 \<le> s_max_replicas settings \<and> s_max_replicas settings \<le> 100)
       (config_error ''RUNTIME_CONTROLLER_MAX_REPLICAS must be between 1 and 100.'')) (\<lambda>_.
     bindE (guardE (1 \<le> s_request_timeout_seconds settings \<and> s_request_timeout_seconds settings \<le> 60)
       (config_error ''RUNTIME_CONTROLLER_KUBERNETES_TIMEOUT_SECONDS must be between 1 and 60.'')) (\<lambda>_.
     bindE (guardE (10 \<le> s_lease_duration_seconds settings \<and> s_lease_duration_seconds settings \<le> 300
          \<and> 2 * s_request_timeout_seconds settings \<le> of_int (s_lease_duration_seconds settings))
       (config_error ''RUNTIME_CONTROLLER_LEASE_DURATION_SECONDS must be between 10 and 300 and at least twice the Kubernetes timeout.'')) (\<lambda>_.
     bindE (guardE (1 / 10 \<le> s_lease_acquire_timeout_seconds settings \<and> s_lease_acquire_timeout_seconds settings \<le> 30)
       (config_error ''RUNTIME_CONTROLLER_LEASE_ACQUIRE_TIMEOUT_SECONDS must be between 0.1 and 30.'')) (\<lambda>_.
     if require_files then check_files is_file settings else Inr ())))))))))))"


section \<open>Reading the environment\<close>

definition getenv_or :: "(string \<Rightarrow> string option) \<Rightarrow> string \<Rightarrow> string \<Rightarrow> string" where
  "getenv_or getenv k dflt = (case getenv k of None \<Rightarrow> dflt | Some v \<Rightarrow> v)"

definition path_join :: "string \<Rightarrow> string \<Rightarrow> string" where
  "path_join account_root leaf = (if account_root = [] then leaf else if ends_with ''/'' account_root then account_root @ leaf else account_root @ ''/'' @ leaf)"

definition numeric_error :: exn where
  "numeric_error = config_error ''Runtime-controller numeric settings are invalid.''"

definition int_setting :: "string \<Rightarrow> exn + int" where
  "int_setting s = (case int_of_text s of None \<Rightarrow> Inl numeric_error | Some n \<Rightarrow> Inr n)"

definition float_setting :: "string \<Rightarrow> exn + rat" where
  "float_setting s = (case float_of_text s of
     None \<Rightarrow> Inl numeric_error | Some (Finite x) \<Rightarrow> Inr x | Some NonFinite \<Rightarrow> Inr 0)"

definition namespace_setting ::
  "(string \<Rightarrow> string option) \<Rightarrow> (string \<Rightarrow> string option) \<Rightarrow> string \<Rightarrow> exn + string" where
  "namespace_setting getenv read_text account_root =
     (let configured = strip (getenv_or getenv ''RUNTIME_CONTROLLER_NAMESPACE'' []) in
      if configured \<noteq> [] then Inr configured
      else (case read_text (path_join account_root ''namespace'') of
        None \<Rightarrow> Inl (config_error ''RUNTIME_CONTROLLER_NAMESPACE or the mounted service-account namespace is required.'')
      | Some t \<Rightarrow> Inr (strip t)))"

definition url_setting :: "(string \<Rightarrow> string option) \<Rightarrow> string" where
  "url_setting getenv =
     (let host = strip (getenv_or getenv ''KUBERNETES_SERVICE_HOST'' []);
          port = strip (getenv_or getenv ''KUBERNETES_SERVICE_PORT_HTTPS'' ''443'');
          default_url = (if host \<noteq> [] then ''https://'' @ host @ '':'' @ port else [])
      in rstrip_where (\<lambda>c. c = CHR ''/'') (strip (getenv_or getenv ''RUNTIME_CONTROLLER_KUBERNETES_URL'' default_url)))"

definition prefixes_setting :: "(string \<Rightarrow> string option) \<Rightarrow> string list" where
  "prefixes_setting getenv = filter (\<lambda>s. s \<noteq> []) (map strip
     (split_on CHR '','' (getenv_or getenv ''RUNTIME_CONTROLLER_ALLOWED_IMAGE_PREFIXES'' ''ghcr.io/smartappli/'')))"

definition from_env ::
  "(string \<Rightarrow> string option) \<Rightarrow> (string \<Rightarrow> string option) \<Rightarrow> (string \<Rightarrow> bool) \<Rightarrow> exn + controller_settings" where
  "from_env getenv read_text is_file =
     (let account_root = getenv_or getenv ''RUNTIME_CONTROLLER_SERVICE_ACCOUNT_ROOT''
            ''/var/run/secrets/kubernetes.io/serviceaccount'';
          text_setting = (\<lambda>k dflt. strip (getenv_or getenv k dflt))
      in bindE (namespace_setting getenv read_text account_root) (\<lambda>namespace.
         bindE (int_setting (getenv_or getenv ''RUNTIME_CONTROLLER_MAX_REPLICAS'' ''10'')) (\<lambda>maximum.
         bindE (float_setting (getenv_or getenv ''RUNTIME_CONTROLLER_KUBERNETES_TIMEOUT_SECONDS'' ''15'')) (\<lambda>timeout.
         bindE (int_setting (getenv_or getenv ''RUNTIME_CONTROLLER_LEASE_DURATION_SECONDS'' ''30'')) (\<lambda>lease_duration.
         bindE (float_setting (getenv_or getenv ''RUNTIME_CONTROLLER_LEASE_ACQUIRE_TIMEOUT_SECONDS'' ''10'')) (\<lambda>lease_timeout.
         let settings =
           \<lparr>s_auth_token = text_setting ''RUNTIME_CONTROLLER_AUTH_TOKEN'' [],
            s_environment = text_setting ''RUNTIME_CONTROLLER_ENVIRONMENT'' ''production'',
            s_namespace = namespace,
            s_kubernetes_url = url_setting getenv,
            s_kubernetes_token_file = getenv_or getenv ''RUNTIME_CONTROLLER_KUBERNETES_TOKEN_FILE'' (path_join account_root ''token''),
            s_kubernetes_ca_file = getenv_or getenv ''RUNTIME_CONTROLLER_KUBERNETES_CA_FILE'' (path_join account_root ''ca.crt''),
            s_allowed_image_prefixes = prefixes_setting getenv,
            s_workload_service_account =
              text_setting ''RUNTIME_CONTROLLER_WORKLOAD_SERVICE_ACCOUNT'' ''dealhost-runtime-application'',
            s_image_pull_secret = text_setting ''RUNTIME_CONTROLLER_IMAGE_PULL_SECRET'' ''archideal-registry-credentials'',
            s_secret_name_prefix = text_setting ''RUNTIME_CONTROLLER_SECRET_NAME_PREFIX'' ''dealapp'',
            s_secret_catalog_name = text_setting ''RUNTIME_CONTROLLER_SECRET_CATALOG_NAME'' ''dealhost-runtime-secret-catalog'',
            s_secret_catalog_namespace = text_setting ''RUNTIME_CONTROLLER_SECRET_CATALOG_NAMESPACE'' ''archideal'',
            s_max_replicas = maximum,
            s_request_timeout_seconds = timeout,
            s_lease_duration_seconds = lease_duration,
            s_lease_acquire_timeout_seconds = lease_timeout\<rparr>
         in bindE (validate is_file settings True) (\<lambda>_. Inr settings)))))))"

end
