(* ===== verification/Client.thy ===== *)
theory Client
  imports Reconciler Config
begin

text \<open>
  The DEALHost side of the controller's HTTP interface:
  \<open>src/components/DEALHost/apps/hosting/runtime_controller.py\<close>, with the connection settings
  of \<open>src/components/DEALHost/dealhost/settings/env.py\<close>.

  The HTTP library is a function from the request to its outcome. The exceptions are those
  of the module (\<open>RuntimeControllerUnavailable\<close>, \<open>RuntimeControllerError\<close>) and
  \<open>OtherException\<close> for every other one. The dictionary of a component is the record
  \<open>component_result\<close> of the controller, which has the same keys. Response bodies are read as
  UTF-8.
\<close>

datatype wexn =
    ControllerUnavailable (wexn_message: string)
  | ControllerError (wexn_message: string) (wexn_status: "int option")
  | OtherException (wexn_message: string)

abbreviation controller_error :: "string \<Rightarrow> wexn" where
  "controller_error m \<equiv> ControllerError m None"

section \<open>Connection settings\<close>

record controller_config =
  cc_base_url :: string
  cc_token :: string
  cc_timeout_seconds :: rat
  cc_ca_file :: string

definition PLACEHOLDER_VALUES :: "string list" where
  "PLACEHOLDER_VALUES = [[], ''replace-me'', ''<apisix_admin_key>'', ''<admin_api_token>'',
     ''<django_secret_key>'', ''<github_personal_access_token>'', ''<github_webhook_secret>'',
     ''<runtime_controller_token>'', ''<service_api_token>'']"

definition is_placeholder :: "string \<Rightarrow> bool" where
  "is_placeholder v = (let normalized = strip v in
     normalized \<in> set PLACEHOLDER_VALUES \<or> starts_with ''<'' normalized \<and> ends_with ''>'' normalized)"

definition configured :: "controller_config \<Rightarrow> bool" where
  "configured cfg \<longleftrightarrow> cc_base_url cfg \<noteq> [] \<and> cc_token cfg \<noteq> [] \<and> \<not> is_placeholder (cc_token cfg)"

definition controller_url_ok :: "string \<Rightarrow> split_result \<Rightarrow> nat option \<Rightarrow> bool" where
  "controller_url_ok base_url u port \<longleftrightarrow>
     lower (u_scheme u) \<in> {''http'', ''https''} \<and> url_hostname u \<noteq> []
     \<and> fst (url_userinfo u) = [] \<and> snd (url_userinfo u) = [] \<and> u_query u = [] \<and> u_fragment u = []
     \<and> \<not> list_ex isspace_char base_url
     \<and> (case port of None \<Rightarrow> True | Some p \<Rightarrow> 1 \<le> p \<and> p \<le> 65535)"

definition controller_token_ok :: "string \<Rightarrow> bool" where
  "controller_token_ok token \<longleftrightarrow> \<not> is_placeholder token \<and> 32 \<le> length token \<and> length token \<le> 256
     \<and> list_all visible_ascii token"

definition check_ca_file :: "(string \<Rightarrow> bool) \<Rightarrow> bool \<Rightarrow> split_result \<Rightarrow> string \<Rightarrow> wexn + unit" where
  "check_ca_file is_file require_tls u ca_file =
     (if ca_file \<noteq> [] then
        (if lower (u_scheme u) \<noteq> ''https'' then
           Inl (OtherException ''DEALHOST_RUNTIME_CONTROLLER_CA_FILE requires an HTTPS controller URL.'')
         else if \<not> is_absolute ca_file \<or> \<not> is_file ca_file then
           Inl (OtherException ''DEALHOST_RUNTIME_CONTROLLER_CA_FILE must reference an existing absolute file.'')
         else Inr ())
      else if require_tls then
        Inl (OtherException ''DEALHOST_RUNTIME_CONTROLLER_CA_FILE is required for the production controller.'')
      else Inr ())"

definition runtime_controller_config ::
  "(string \<Rightarrow> string option) \<Rightarrow> (string \<Rightarrow> bool) \<Rightarrow> bool \<Rightarrow> wexn + controller_config" where
  "runtime_controller_config getenv is_file require_tls =
     (let base_url = rstrip_where (\<lambda>c. c = CHR ''/'') (strip (getenv_or getenv ''DEALHOST_RUNTIME_CONTROLLER_URL'' []));
          ca_file = strip (getenv_or getenv ''DEALHOST_RUNTIME_CONTROLLER_CA_FILE'' []);
          token = strip (getenv_or getenv ''DEALHOST_RUNTIME_CONTROLLER_TOKEN'' []);
          range_error = OtherException ''DEALHOST_RUNTIME_CONTROLLER_TIMEOUT_SECONDS must be between 1 and 60.'';
          url_error = OtherException ''DEALHOST_RUNTIME_CONTROLLER_URL is not a valid URL.''
      in case float_of_text (getenv_or getenv ''DEALHOST_RUNTIME_CONTROLLER_TIMEOUT_SECONDS'' ''15'') of
           None \<Rightarrow> Inl (OtherException ''DEALHOST_RUNTIME_CONTROLLER_TIMEOUT_SECONDS must be a number.'')
         | Some NonFinite \<Rightarrow> Inl range_error
         | Some (Finite timeout) \<Rightarrow>
             if \<not> (1 \<le> timeout \<and> timeout \<le> 60) then Inl range_error
             else if base_url = [] then
               Inr \<lparr>cc_base_url = [], cc_token = [], cc_timeout_seconds = timeout, cc_ca_file = []\<rparr>
             else (case urlsplit base_url of
                None \<Rightarrow> Inl url_error
              | Some u \<Rightarrow> (case url_port u of
                  None \<Rightarrow> Inl url_error
                | Some port \<Rightarrow>
                    if \<not> controller_url_ok base_url u port then
                      Inl (OtherException ''DEALHOST_RUNTIME_CONTROLLER_URL must be an HTTP(S) URL without credentials, query or fragment.'')
                    else if require_tls \<and> lower (u_scheme u) \<noteq> ''https'' then
                      Inl (OtherException ''DEALHOST_RUNTIME_CONTROLLER_URL must use HTTPS in production.'')
                    else bindE (check_ca_file is_file require_tls u ca_file) (\<lambda>_.
                      if \<not> controller_token_ok token then
                        Inl (OtherException ''DEALHOST_RUNTIME_CONTROLLER_TOKEN must contain 32-256 visible ASCII characters when the runtime controller URL is set.'')
                      else Inr \<lparr>cc_base_url = base_url, cc_token = token, cc_timeout_seconds = timeout,
                                cc_ca_file = ca_file\<rparr>))))"


section \<open>Snapshots\<close>

record runtime_snapshot =
  n_controller_id :: string
  n_state :: string
  n_message :: string
  n_observed_generation :: int
  n_components :: "component_result list"

record runtime_logs =
  g_lines :: "string list"
  g_cursor :: string
  g_truncated :: bool

definition ALLOWED_RUNTIME_STATES :: "string list" where
  "ALLOWED_RUNTIME_STATES = [''pending'', ''reconciling'', ''running'', ''stopped'', ''degraded'', ''failed'',
     ''deleting'', ''deleted'', ''unknown'']"

definition is_identifier_char :: "char \<Rightarrow> bool" where
  "is_identifier_char c \<longleftrightarrow> is_alnum c \<or> c \<in> set ''._-''"

definition path_identifier :: "string \<Rightarrow> wexn + string" where
  "path_identifier v =
     (if v \<noteq> [] \<and> is_alnum (hd v) \<and> list_all is_identifier_char (tl v) \<and> length v \<le> 128
         \<and> v \<notin> {''.'', ''..''} \<and> CHR ''%'' \<notin> set v
      then Inr (quote v) else Inl (controller_error ''Runtime controller identifier is invalid.''))"

text \<open>\<open>s.split()\<close>: the words between runs of white space; \<open>squeeze\<close> is \<open>" ".join(s.split())\<close>.\<close>

fun words_from :: "string \<Rightarrow> string \<Rightarrow> string list" where
  "words_from cur [] = (if cur = [] then [] else [rev cur])"
| "words_from cur (c # cs) =
     (if isspace_char c then (if cur = [] then words_from [] cs else rev cur # words_from [] cs)
      else words_from (c # cur) cs)"

definition squeeze :: "string \<Rightarrow> string" where
  "squeeze s = join_with '' '' (words_from [] s)"

definition invalid_components :: wexn where
  "invalid_components = controller_error ''Runtime controller returned invalid components.''"

definition component_fields :: "string list" where
  "component_fields = [''slug'', ''image_digest'', ''desired_replicas'', ''ready_replicas'', ''available_replicas'',
     ''state'', ''health'', ''restart_count'']"

definition count_in_range :: "json \<Rightarrow> bool" where
  "count_in_range v = (case v of JInt n \<Rightarrow> 0 \<le> n \<and> n \<le> 100000 | _ \<Rightarrow> False)"

definition int_of_json :: "json \<Rightarrow> int" where
  "int_of_json v = (case v of JInt n \<Rightarrow> n | _ \<Rightarrow> 0)"

definition component_snapshot :: "json \<Rightarrow> wexn + component_result" where
  "component_snapshot v = (case v of
     JObj d \<Rightarrow>
       if \<not> set component_fields \<subseteq> set (keys d) then Inl invalid_components
       else (case (dget d ''slug'', dget d ''image_digest'', dget d ''state'', dget d ''health'',
                   dget_or (JStr []) d ''last_error'') of
          (JStr slug, JStr image_digest, JStr state, JStr health, JStr last_error) \<Rightarrow>
            if \<not> is_component_slug slug \<or> length image_digest > 255 \<or> length state > 32 \<or> length health > 32
              \<or> \<not> list_all count_in_range [dget d ''desired_replicas'', dget d ''ready_replicas'',
                    dget d ''available_replicas'', dget d ''restart_count'']
            then Inl invalid_components
            else Inr \<lparr>cr_slug = slug, cr_image_digest = image_digest,
              cr_desired_replicas = int_of_json (dget d ''desired_replicas''),
              cr_ready_replicas = int_of_json (dget d ''ready_replicas''),
              cr_available_replicas = int_of_json (dget d ''available_replicas''),
              cr_state = take 32 (squeeze state), cr_health = take 32 (squeeze health),
              cr_restart_count = int_of_json (dget d ''restart_count''),
              cr_last_error = take 500 (squeeze last_error)\<rparr>
        | _ \<Rightarrow> Inl invalid_components)
   | _ \<Rightarrow> Inl invalid_components)"

definition snapshot_id :: "json dict \<Rightarrow> string \<Rightarrow> bool \<Rightarrow> string \<Rightarrow> wexn + string" where
  "snapshot_id data fallback_id require_id expected_id =
     (let omitted = controller_error ''Runtime controller omitted its deployment identifier.'' in
      case dget_or (JStr fallback_id) data ''id'' of
        JStr controller_id \<Rightarrow>
          if controller_id = [] \<or> length controller_id > 128
            \<or> require_id \<and> controller_id = fallback_id \<and> fallback_id = [] then Inl omitted
          else (case path_identifier controller_id of
             Inl _ \<Rightarrow> Inl (controller_error ''Runtime controller returned an invalid deployment identifier.'')
           | Inr _ \<Rightarrow>
               if expected_id \<noteq> [] \<and> controller_id \<noteq> expected_id then
                 Inl (controller_error ''Runtime controller returned an inconsistent deployment identifier.'')
               else Inr controller_id)
      | _ \<Rightarrow> Inl omitted)"

definition snapshot_state :: "json dict \<Rightarrow> wexn + string" where
  "snapshot_state data =
     (let invalid = controller_error ''Runtime controller returned an invalid state.'' in
      if \<not> hashable (dget data ''state'') then Inl (OtherException ''TypeError'')
      else case dget data ''state'' of
        JStr s \<Rightarrow> if s \<in> set ALLOWED_RUNTIME_STATES then Inr s else Inl invalid
      | _ \<Rightarrow> Inl invalid)"

definition snapshot_components :: "json \<Rightarrow> wexn + component_result list" where
  "snapshot_components v = (case v of
     JList vs \<Rightarrow>
       if length vs > 100 then Inl invalid_components
       else bindE (mapE component_snapshot vs) (\<lambda>cs.
         if distinct (map cr_slug cs) then Inr cs
         else Inl (controller_error ''Runtime controller returned duplicate runtime components.''))
   | _ \<Rightarrow> Inl invalid_components)"

definition snapshot :: "json dict \<Rightarrow> string \<Rightarrow> bool \<Rightarrow> string \<Rightarrow> wexn + runtime_snapshot" where
  "snapshot data fallback_id require_id expected_id =
     bindE (snapshot_id data fallback_id require_id expected_id) (\<lambda>controller_id.
     bindE (snapshot_state data) (\<lambda>state.
     case dget_or (JStr []) data ''message'' of
       JStr message \<Rightarrow>
         (case dget data ''observed_generation'' of
            JInt g \<Rightarrow>
              if g < 0 then Inl (controller_error ''Runtime controller returned an invalid observed generation.'')
              else bindE (snapshot_components (dget data ''components'')) (\<lambda>cs.
                Inr \<lparr>n_controller_id = controller_id, n_state = state, n_message = take 500 (squeeze message),
                     n_observed_generation = g, n_components = cs\<rparr>)
          | _ \<Rightarrow> Inl (controller_error ''Runtime controller returned an invalid observed generation.''))
     | _ \<Rightarrow> Inl (controller_error ''Runtime controller returned an invalid status message.'')))"


section \<open>Requests\<close>

record client_request =
  q_method :: string
  q_path :: string
  q_headers :: "string dict"
  q_json :: "json option"
  q_params :: "(string \<times> json) list"

datatype client_outcome =
    Unreachable
  | Answered http_response

type_synonym http_client = "client_request \<Rightarrow> client_outcome"

definition MAX_CONTROLLER_RESPONSE_BYTES :: nat where
  "MAX_CONTROLLER_RESPONSE_BYTES = 2 * 1024 * 1024"

fun collect_chunks :: "string \<Rightarrow> string list \<Rightarrow> wexn + string" where
  "collect_chunks content [] = Inr content"
| "collect_chunks content (chunk # rest) =
     (if length content + length chunk > MAX_CONTROLLER_RESPONSE_BYTES
      then Inl (controller_error ''Runtime controller response is too large.'')
      else collect_chunks (content @ chunk) rest)"

definition read_answer :: "int set \<Rightarrow> http_response \<Rightarrow> wexn + json dict" where
  "read_answer expected resp =
     (if h_status resp \<notin> expected then
        Inl (ControllerError (''Runtime controller rejected the request (HTTP '' @ str_int (h_status resp) @ '').'')
               (Some (h_status resp)))
      else if strip (media_type resp) \<noteq> ''application/json'' then
        Inl (controller_error ''Runtime controller returned a non-JSON response.'')
      else bindE (collect_chunks [] (h_chunks resp)) (\<lambda>content.
        case Option.bind (utf8_decode content) json_loads of
          None \<Rightarrow> Inl (controller_error ''Runtime controller returned malformed JSON.'')
        | Some (JObj d) \<Rightarrow> Inr d
        | Some _ \<Rightarrow> Inl (controller_error ''Runtime controller returned an invalid response.'')))"

definition send_client ::
  "controller_config \<Rightarrow> http_client \<Rightarrow> string \<Rightarrow> string \<Rightarrow> string \<Rightarrow> int set \<Rightarrow> json option
   \<Rightarrow> (string \<times> json) list \<Rightarrow> wexn + json dict" where
  "send_client cfg http mth path request_id expected payload params =
     (if \<not> configured cfg then
        Inl (ControllerUnavailable ''Runtime deployment is unavailable until an isolated controller is configured.'')
      else (case http \<lparr>q_method = mth, q_path = path,
               q_headers = [(''Accept'', ''application/json''), (''Authorization'', ''Bearer '' @ cc_token cfg),
                  (''Idempotency-Key'', request_id), (''X-Request-ID'', request_id)],
               q_json = payload, q_params = params\<rparr> of
          Unreachable \<Rightarrow> Inl (controller_error ''Runtime controller could not be reached.'')
        | Answered resp \<Rightarrow> read_answer expected resp))"

definition client_deploy :: "controller_config \<Rightarrow> http_client \<Rightarrow> json dict \<Rightarrow> string \<Rightarrow> wexn + runtime_snapshot" where
  "client_deploy cfg http payload request_id =
     bindE (send_client cfg http ''POST'' ''/v1/deployments'' request_id {200, 201, 202} (Some (JObj payload)) []) (\<lambda>data.
     snapshot data [] True (case dget payload ''deployment_id'' of JStr s \<Rightarrow> s | _ \<Rightarrow> []))"

definition client_on ::
  "controller_config \<Rightarrow> http_client \<Rightarrow> string \<Rightarrow> string \<Rightarrow> string \<Rightarrow> int set \<Rightarrow> json option \<Rightarrow> string
   \<Rightarrow> wexn + runtime_snapshot" where
  "client_on cfg http mth controller_id tail expected payload request_id =
     bindE (path_identifier controller_id) (\<lambda>seg.
     bindE (send_client cfg http mth (''/v1/deployments/'' @ seg @ tail) request_id expected payload []) (\<lambda>data.
     snapshot data controller_id False controller_id))"

definition client_update ::
  "controller_config \<Rightarrow> http_client \<Rightarrow> string \<Rightarrow> json dict \<Rightarrow> string \<Rightarrow> wexn + runtime_snapshot" where
  "client_update cfg http controller_id payload request_id =
     client_on cfg http ''PUT'' controller_id [] {200, 202} (Some (JObj payload)) request_id"

definition client_action ::
  "controller_config \<Rightarrow> http_client \<Rightarrow> string \<Rightarrow> string \<Rightarrow> json dict \<Rightarrow> string \<Rightarrow> wexn + runtime_snapshot" where
  "client_action cfg http controller_id act payload request_id =
     (if act \<notin> {''start'', ''stop'', ''restart'', ''redeploy''} then Inl (OtherException ''Unsupported runtime action.'')
      else client_on cfg http ''POST'' controller_id (''/actions/'' @ act) {200, 202} (Some (JObj payload)) request_id)"

definition client_undeploy ::
  "controller_config \<Rightarrow> http_client \<Rightarrow> string \<Rightarrow> json dict \<Rightarrow> string \<Rightarrow> wexn + runtime_snapshot" where
  "client_undeploy cfg http controller_id payload request_id =
     client_on cfg http ''DELETE'' controller_id [] {200, 202} (Some (JObj payload)) request_id"

definition client_status :: "controller_config \<Rightarrow> http_client \<Rightarrow> string \<Rightarrow> string \<Rightarrow> wexn + runtime_snapshot" where
  "client_status cfg http controller_id request_id =
     client_on cfg http ''GET'' controller_id [] {200} None request_id"

text \<open>The loop over the log lines: NUL characters removed, each cut, all together bounded.\<close>

fun collect_lines :: "nat \<Rightarrow> json list \<Rightarrow> wexn + string list" where
  "collect_lines used [] = Inr []"
| "collect_lines used (v # vs) = (case v of
     JStr s \<Rightarrow>
       (let line = take 16384 (filter (\<lambda>c. c \<noteq> CHR 0x00) s); used' = used + length line in
        if used' > 1000000 then Inl (controller_error ''Runtime controller log response is too large.'')
        else bindE (collect_lines used' vs) (\<lambda>ls. Inr (line # ls)))
   | _ \<Rightarrow> Inl (controller_error ''Runtime controller returned an invalid log response.''))"

definition client_logs ::
  "controller_config \<Rightarrow> http_client \<Rightarrow> string \<Rightarrow> json \<Rightarrow> json \<Rightarrow> json \<Rightarrow> string \<Rightarrow> wexn + runtime_logs" where
  "client_logs cfg http controller_id component tail since_seconds request_id =
     (let invalid = controller_error ''Runtime controller returned an invalid log response.'' in
      case (component, tail, since_seconds) of
        (JStr c, JInt t, JInt s) \<Rightarrow>
          if \<not> is_component_slug c \<or> \<not> (1 \<le> t \<and> t \<le> 1000) \<or> \<not> (1 \<le> s \<and> s \<le> 604800)
          then Inl (controller_error ''Runtime log request is invalid.'')
          else bindE (path_identifier controller_id) (\<lambda>seg.
            bindE (send_client cfg http ''GET'' (''/v1/deployments/'' @ seg @ ''/logs'') request_id {200} None
              [(''component'', component), (''tail'', tail), (''since_seconds'', since_seconds)]) (\<lambda>data.
            case dget data ''lines'' of
              JList raw \<Rightarrow>
                if int (length raw) > t then Inl invalid
                else bindE (collect_lines 0 raw) (\<lambda>lns.
                  case dget_or (JStr []) data ''cursor'' of
                    JStr cursor \<Rightarrow>
                      if length cursor > 500 then Inl (controller_error ''Runtime controller returned an invalid log cursor.'')
                      else (case dget_or (JBool False) data ''truncated'' of
                         JBool b \<Rightarrow> Inr \<lparr>g_lines = lns, g_cursor = cursor, g_truncated = b\<rparr>
                       | _ \<Rightarrow> Inl invalid)
                  | _ \<Rightarrow> Inl (controller_error ''Runtime controller returned an invalid log cursor.''))
            | _ \<Rightarrow> Inl invalid))
      | (JStr c, _, _) \<Rightarrow> Inl (controller_error ''Runtime log request is invalid.'')
      | _ \<Rightarrow> Inl (OtherException ''TypeError''))"

end
