(* ===== verification/Runtime_Models.thy ===== *)
theory Runtime_Models
  imports Client
begin

text \<open>
  The tables behind the runtime API: the runtime models of
  \<open>src/components/DEALHost/apps/hosting/models.py\<close>.

  A row is a record, a table a list of rows (the order of the list is the order in which the
  database returns rows that compare equal), and \<open>db\<close> collects the tables and the log cache.
  A one-to-one relation (a module's profile, a deployment's release) is a field. Times are
  microseconds since the epoch. Column lengths are not modelled.
\<close>

section \<open>Rows\<close>

datatype op_status = QUEUED | RUNNING | SUCCEEDED | FAILED

record operation_row =
  o_id :: string
  o_deployment :: string
  o_type :: string
  o_status :: op_status
  o_payload :: "json dict"
  o_progress :: json
  o_result :: json
  o_error :: json
  o_idempotency_key :: string
  o_request_hash :: string
  o_target_generation :: int
  o_actor_label :: string
  o_attempts :: nat
  o_controller_failures :: nat
  o_next_attempt_at :: "int option"
  o_leased_by :: string
  o_lease_token :: "string option"
  o_lease_expires_at :: "int option"
  o_requested_at :: int
  o_started_at :: "int option"
  o_finished_at :: "int option"

record component_row =
  k_module_id :: json
  k_slug :: string
  k_image_digest :: string
  k_desired_replicas :: int
  k_ready_replicas :: int
  k_available_replicas :: int
  k_state :: string
  k_health :: string
  k_restart_count :: int
  k_last_error :: string

record release_row =
  rl_version :: int
  rl_manifest :: json
  rl_manifest_digest :: string

record deployment_row =
  dp_id :: string
  dp_application :: int
  dp_environment :: string
  dp_release :: release_row
  dp_desired_state :: string
  dp_observed_state :: string
  dp_controller_id :: string
  dp_configuration :: json
  dp_secret_refs :: json
  dp_scaling :: json
  dp_generation :: int
  dp_observed_generation :: int
  dp_revision :: int
  dp_last_error :: string
  dp_last_reconciled_at :: "int option"
  dp_created_by_label :: string
  dp_deleted_at :: "int option"
  dp_components :: "component_row list"

record environment_row =
  ev_slug :: string
  ev_name :: string
  ev_description :: string
  ev_orchestrator :: string
  ev_enabled :: bool
  ev_capabilities :: json
  ev_policy :: json
  ev_revision :: int

record profile_row =
  pf_schema_version :: int
  pf_spec :: json
  pf_spec_digest :: string
  pf_enabled :: bool
  pf_verified_at :: "int option"

record module_row =
  mo_id :: int
  mo_slug :: string
  mo_image :: string
  mo_enabled :: bool
  mo_target :: string
  mo_profile :: "profile_row option"

record application_row =
  ap_id :: int
  ap_slug :: string
  ap_revision :: int
  ap_modules :: "module_row list"

record version_row =
  vr_id :: int
  vr_application :: int
  vr_version :: string
  vr_source :: string
  vr_snapshot :: json
  vr_digest :: string

record db =
  db_operations :: "operation_row list"
  db_deployments :: "deployment_row list"
  db_environments :: "environment_row list"
  db_applications :: "application_row list"
  db_versions :: "version_row list"
  db_releases :: "release_row list"
  db_cache :: "json dict"

definition get_operation :: "db \<Rightarrow> string \<Rightarrow> operation_row option" where
  "get_operation db i = find (\<lambda>op. o_id op = i) (db_operations db)"

definition get_deployment :: "db \<Rightarrow> string \<Rightarrow> deployment_row option" where
  "get_deployment db i = find (\<lambda>d. dp_id d = i) (db_deployments db)"

definition get_environment :: "db \<Rightarrow> string \<Rightarrow> environment_row option" where
  "get_environment db s = find (\<lambda>e. ev_slug e = s) (db_environments db)"

definition save_operation :: "operation_row \<Rightarrow> db \<Rightarrow> db" where
  "save_operation op db = db\<lparr>db_operations := map (\<lambda>x. if o_id x = o_id op then op else x) (db_operations db)\<rparr>"

definition save_deployment :: "deployment_row \<Rightarrow> db \<Rightarrow> db" where
  "save_deployment d db = db\<lparr>db_deployments := map (\<lambda>x. if dp_id x = dp_id d then d else x) (db_deployments db)\<rparr>"

text \<open>\<open>objects.get(pk=...)\<close>.\<close>

definition the_row :: "'a option \<Rightarrow> wexn + 'a" where
  "the_row r = (case r of None \<Rightarrow> Inl (OtherException ''DoesNotExist'') | Some x \<Rightarrow> Inr x)"

definition seconds :: "int \<Rightarrow> int" where
  "seconds n = n * 1000000"

definition progress :: "string \<Rightarrow> json \<Rightarrow> json" where
  "progress stage percent = JObj [(''stage'', JStr stage), (''percent'', percent)]"

definition failure :: "string \<Rightarrow> string \<Rightarrow> bool \<Rightarrow> json" where
  "failure code detail retryable =
     JObj [(''code'', JStr code), (''detail'', JStr detail), (''retryable'', JBool retryable)]"

text \<open>The assignments that give a lease up, as the source repeats them.\<close>

definition unlease :: "operation_row \<Rightarrow> operation_row" where
  "unlease op = op\<lparr>o_leased_by := [], o_lease_token := None, o_lease_expires_at := None\<rparr>"


section \<open>Tables\<close>

lemma find_key: "distinct (map key xs) \<Longrightarrow> find (\<lambda>x. key x = k) xs = Some r \<longleftrightarrow> r \<in> set xs \<and> key r = k"
  by (induction xs) (auto simp: image_iff)

text \<open>A table of rows with a key: saving replaces the row with the same key.\<close>

locale table =
  fixes rows :: "'d \<Rightarrow> 'r list" and save :: "'r \<Rightarrow> 'd \<Rightarrow> 'd" and get :: "'d \<Rightarrow> 'k \<Rightarrow> 'r option" and key :: "'r \<Rightarrow> 'k"
  assumes rows_save: "rows (save r d) = map (\<lambda>x. if key x = key r then r else x) (rows d)"
    and get_find: "get d k = find (\<lambda>x. key x = k) (rows d)"
begin

lemma get_SomeD: "get d k = Some r \<Longrightarrow> r \<in> set (rows d) \<and> key r = k"
  by (auto simp: get_find find_Some_iff)

lemma get_iff: "distinct (map key (rows d)) \<Longrightarrow> get d k = Some r \<longleftrightarrow> r \<in> set (rows d) \<and> key r = k"
  unfolding get_find by (rule find_key)

lemma get_save: "get d k = Some r0 \<Longrightarrow> key r = k \<Longrightarrow> get (save r d) k = Some r"
  unfolding get_find rows_save by (induction "rows d") (auto simp: find_Some_iff)

lemma keys_save: "map key (rows (save r d)) = map key (rows d)"
  by (auto simp: rows_save)

lemma set_save: "x \<in> set (rows (save r d)) \<longleftrightarrow> x \<in> set (rows d) \<and> key x \<noteq> key r \<or> x = r \<and> key r \<in> key ` set (rows d)"
  by (auto simp: rows_save image_iff) metis+

end

interpretation ops: table db_operations save_operation get_operation o_id
  by unfold_locales (simp_all add: save_operation_def get_operation_def)

interpretation deps: table db_deployments save_deployment get_deployment dp_id
  by unfold_locales (simp_all add: save_deployment_def get_deployment_def)

lemma save_simps [simp]:
  "db_deployments (save_operation op db) = db_deployments db" "db_operations (save_deployment d db) = db_operations db"
  by (simp_all add: save_operation_def save_deployment_def)

end
