(* ===== verification/Serializers.thy ===== *)
theory Serializers
  imports Runtime_Models
begin

text \<open>
  Validation of what an API client may set on a deployment:
  \<open>src/components/DEALHost/apps/hosting/serializers.py\<close> (the runtime part).

  \<open>validate_runtime_configuration\<close>, \<open>validate_runtime_secret_references\<close> and
  \<open>validate_runtime_scaling\<close> return the normalized mapping or the message of the
  ValidationError. The runtime handlers always pass the manifest of the release, which is
  the case modelled. The type checks of the framework's serializer fields are the types of
  the request records of \<open>Runtime_Views\<close>.
\<close>

section \<open>Rules of a release\<close>

definition contract_invalid :: string where
  "contract_invalid = ''The immutable runtime release has an invalid module contract.''"

definition module_rules :: "string \<Rightarrow> json dict \<Rightarrow> string + string list \<times> string list" where
  "module_rules slug spec = (case dget_or (JObj []) spec ''configuration'' of
     JObj c \<Rightarrow>
       (case (dget_or (JList []) c ''plain'', dget_or (JList []) c ''secret'') of
          (JList plain, JList secret) \<Rightarrow>
            (case (strings_of plain, strings_of secret) of
               (Some p, Some s) \<Rightarrow> Inr (p, s)
             | _ \<Rightarrow> Inl (''Runtime release for '' @ slug @ '' has invalid configuration keys.''))
        | _ \<Rightarrow> Inl (''Runtime release for '' @ slug @ '' has invalid configuration keys.''))
   | _ \<Rightarrow> Inl (''Runtime release for '' @ slug @ '' has an invalid configuration contract.''))"

type_synonym rules = "(string list \<times> string list) dict"

definition add_rules :: "json \<Rightarrow> rules \<Rightarrow> string + rules" where
  "add_rules raw rules = (case raw of
     JObj m \<Rightarrow>
       (case (dget m ''slug'', dget m ''spec'') of
          (JStr slug, JObj spec) \<Rightarrow>
            if slug = [] \<or> map_of rules slug \<noteq> None then Inl contract_invalid
            else bindE (module_rules slug spec) (\<lambda>r. Inr (dput slug r rules))
        | _ \<Rightarrow> Inl contract_invalid)
   | _ \<Rightarrow> Inl contract_invalid)"

definition runtime_profile_rules :: "json dict \<Rightarrow> string + rules" where
  "runtime_profile_rules manifest = (case dget manifest ''modules'' of
     JList modules \<Rightarrow> foldE add_rules modules []
   | _ \<Rightarrow> Inl contract_invalid)"


section \<open>Configuration and secret references\<close>

definition SECRET_WORDS :: "string list" where
  "SECRET_WORDS = [''PASSWORD'', ''PASSWD'', ''TOKEN'', ''SECRET'', ''PRIVATE'', ''CREDENTIAL'', ''API_KEY'', ''ACCESS_KEY'']"

fun contains_word :: "string \<Rightarrow> string \<Rightarrow> bool" where
  "contains_word w [] = (w = [])"
| "contains_word w (c # cs) = (starts_with w (c # cs) \<or> contains_word w cs)"

text \<open>The pattern is searched without regard to case.\<close>

definition looks_sensitive :: "string \<Rightarrow> bool" where
  "looks_sensitive key = list_ex (\<lambda>w. contains_word (lower w) (lower key)) SECRET_WORDS"

definition values_label :: "bool \<Rightarrow> string" where
  "values_label secret = (if secret then ''Secret references'' else ''Configuration'')"

text \<open>One entry of a component; the total size runs over all components.\<close>

definition component_value ::
  "bool \<Rightarrow> string \<Rightarrow> string list \<Rightarrow> string \<times> json \<Rightarrow> nat \<times> string dict \<Rightarrow> string + nat \<times> string dict" where
  "component_value secret slug allowed kv acc = (case (kv, acc) of ((key, v), (used, values)) \<Rightarrow>
     if \<not> is_env_key key \<or> key \<notin> set allowed then
       Inl (key @ '' is not allowed by the runtime profile for '' @ slug @ ''.'')
     else (case v of
       JStr s \<Rightarrow>
         if secret \<and> \<not> is_secret_name s then Inl (key @ '' must reference one canonical logical secret name.'')
         else if \<not> secret \<and> looks_sensitive key then Inl (key @ '' looks sensitive and must use secret_refs.'')
         else if length s > 2048 then Inl (key @ '' is too long.'')
         else let used' = used + length key + length s in
           if used' > 16384 then Inl (values_label secret @ '' is limited to 16 KiB.'')
           else Inr (used', dput key s values)
     | _ \<Rightarrow> Inl (key @ '' must contain a string.'')))"

definition component_values ::
  "bool \<Rightarrow> rules \<Rightarrow> string \<times> json \<Rightarrow> nat \<times> string dict dict \<Rightarrow> string + nat \<times> string dict dict" where
  "component_values secret rules item acc = (case (item, acc) of ((slug, raw), (used, normalized)) \<Rightarrow>
     (let invalid = values_label secret @ '' for '' @ slug @ '' must be an object with at most 50 entries.'' in
      case raw of
        JObj kvs \<Rightarrow>
          if length kvs > 50 then Inl invalid
          else (let allowed = (case map_of rules slug of None \<Rightarrow> [] | Some (p, s) \<Rightarrow> if secret then s else p) in
            bindE (foldE (component_value secret slug allowed) kvs (used, [])) (\<lambda>(used', values).
            Inr (used', dput slug values normalized)))
      | _ \<Rightarrow> Inl invalid))"

definition validate_component_values :: "json \<Rightarrow> bool \<Rightarrow> json dict \<Rightarrow> string + string dict dict" where
  "validate_component_values v secret manifest = (case v of
     JObj entries \<Rightarrow>
       bindE (runtime_profile_rules manifest) (\<lambda>rules.
       let unknown = sort (filter (\<lambda>k. map_of rules k = None) (keys entries)) in
       if unknown \<noteq> [] then
         Inl (values_label secret @ '' contains modules outside the application: '' @ join_with '', '' unknown)
       else bindE (foldE (component_values secret rules) entries (0, [])) (\<lambda>(_, normalized). Inr normalized))
   | _ \<Rightarrow> Inl (values_label secret @ '' must be keyed by module slug.''))"

definition validate_runtime_configuration :: "json \<Rightarrow> json dict \<Rightarrow> string + string dict dict" where
  "validate_runtime_configuration v manifest = validate_component_values v False manifest"

definition allowed_secret_refs :: "environment_row \<Rightarrow> string list option" where
  "allowed_secret_refs ev = (case ev_policy ev of
     JObj policy \<Rightarrow> (case dget policy ''allowed_secret_refs'' of
        JList vs \<Rightarrow> if length vs > 100 then None
          else (case strings_of vs of
            Some ss \<Rightarrow> if list_all is_secret_name ss \<and> distinct ss then Some ss else None
          | None \<Rightarrow> None)
      | _ \<Rightarrow> None)
   | _ \<Rightarrow> None)"

definition validate_runtime_secret_references ::
  "json \<Rightarrow> json dict \<Rightarrow> environment_row \<Rightarrow> string + string dict dict" where
  "validate_runtime_secret_references v manifest ev =
     bindE (validate_component_values v True manifest) (\<lambda>normalized.
     case allowed_secret_refs ev of
       None \<Rightarrow> Inl ''The runtime environment has an invalid secret-reference policy.''
     | Some allowed \<Rightarrow>
         (let unknown = sort (remdups (filter (\<lambda>r. r \<notin> set allowed) (concat (map (\<lambda>(_, c). map snd c) normalized)))) in
          if unknown \<noteq> [] then
            Inl (''Secret references are not allowed in this environment: '' @ join_with '', '' unknown)
          else Inr normalized))"


section \<open>Scaling\<close>

definition manifest_slugs :: "json dict \<Rightarrow> string + string list" where
  "manifest_slugs manifest = (case dget manifest ''modules'' of
     JList modules \<Rightarrow>
       (let slugs = remdups (List.map_filter (\<lambda>m. case m of
              JObj d \<Rightarrow> (case dget d ''slug'' of JStr s \<Rightarrow> if s = [] then None else Some s | _ \<Rightarrow> None)
            | _ \<Rightarrow> None) modules)
        in if length slugs \<noteq> length modules then Inl contract_invalid else Inr slugs)
   | _ \<Rightarrow> Inl contract_invalid)"

definition within_limits :: "json dict \<Rightarrow> int \<Rightarrow> int \<Rightarrow> bool" where
  "within_limits limits lo hi = (case (dget limits ''min_replicas'', dget limits ''max_replicas'') of
     (JInt a, JInt b) \<Rightarrow> a \<le> lo \<and> hi \<le> b | _ \<Rightarrow> False)"

definition fixed_policy :: "string \<Rightarrow> json dict \<Rightarrow> json dict \<Rightarrow> string + scaling_policy" where
  "fixed_policy slug capabilities policy =
     (if \<not> set (keys policy) \<subseteq> {''mode'', ''replicas''} then
        Inl (''Scaling for '' @ slug @ '' contains unsupported fixed-mode fields.'')
      else (let invalid = ''Fixed replicas for '' @ slug @ '' must be between 1 and 50.'' in
        case dget policy ''replicas'' of
          JInt r \<Rightarrow>
            if \<not> (1 \<le> r \<and> r \<le> 50) then Inl invalid
            else if \<not> (case dget capabilities ''fixed'' of JObj fixed \<Rightarrow> within_limits fixed r r | _ \<Rightarrow> False) then
              Inl (''Fixed scaling for '' @ slug @ '' exceeds the environment limits.'')
            else Inr (Fixed r)
        | _ \<Rightarrow> Inl invalid))"

definition autoscale_policy :: "string \<Rightarrow> json dict \<Rightarrow> json dict \<Rightarrow> string + scaling_policy" where
  "autoscale_policy slug capabilities policy =
     (if \<not> set (keys policy) \<subseteq> {''mode'', ''min_replicas'', ''max_replicas'', ''target_cpu_utilization''} then
        Inl (''Scaling for '' @ slug @ '' contains unsupported autoscale fields.'')
      else (case (dget policy ''min_replicas'', dget policy ''max_replicas'',
                  dget_or (JInt 70) policy ''target_cpu_utilization'') of
        (JInt lo, JInt hi, JInt target) \<Rightarrow>
          if \<not> (1 \<le> lo \<and> lo \<le> hi \<and> hi \<le> 50) \<or> \<not> (10 \<le> target \<and> target \<le> 90) then
            Inl (''Autoscaling for '' @ slug @ '' must use 1-50 replicas and a 10-90 CPU target.'')
          else if \<not> (case dget capabilities ''autoscaling'' of
                JObj a \<Rightarrow> dget a ''enabled'' = JBool True \<and> within_limits a lo hi | _ \<Rightarrow> False) then
            Inl (''Autoscaling for '' @ slug @ '' is unavailable or exceeds the environment limits.'')
          else Inr (Autoscale lo hi target)
      | _ \<Rightarrow> Inl (''Autoscaling values for '' @ slug @ '' must be integers.'')))"

definition default_policy :: json where
  "default_policy = JObj [(''mode'', JStr ''fixed''), (''replicas'', JInt 1)]"

definition scaling_for :: "json dict \<Rightarrow> json dict \<Rightarrow> string \<Rightarrow> string + string \<times> scaling_policy" where
  "scaling_for capabilities entries slug = (case dget_or default_policy entries slug of
     JObj policy \<Rightarrow>
       if dget policy ''mode'' = JStr ''fixed'' then
         bindE (fixed_policy slug capabilities policy) (\<lambda>p. Inr (slug, p))
       else if dget policy ''mode'' = JStr ''autoscale'' then
         bindE (autoscale_policy slug capabilities policy) (\<lambda>p. Inr (slug, p))
       else Inl (''Scaling mode for '' @ slug @ '' must be fixed or autoscale.'')
   | _ \<Rightarrow> Inl (''Scaling for '' @ slug @ '' must be an object.''))"

definition validate_runtime_scaling ::
  "json \<Rightarrow> json dict \<Rightarrow> environment_row \<Rightarrow> string + scaling_policy dict" where
  "validate_runtime_scaling v manifest ev = (case v of
     JObj entries \<Rightarrow>
       bindE (manifest_slugs manifest) (\<lambda>slugs.
       let unknown = sort (filter (\<lambda>k. k \<notin> set slugs) (keys entries)) in
       if unknown \<noteq> [] then
         Inl (''Scaling contains modules outside the application: '' @ join_with '', '' unknown)
       else (case ev_capabilities ev of
          JObj capabilities \<Rightarrow>
            (case dget capabilities ''scaling'' of
               JObj scaling \<Rightarrow> mapE (scaling_for scaling entries) (sort slugs)
             | _ \<Rightarrow> Inl ''The runtime environment has an invalid scaling contract.'')
        | _ \<Rightarrow> Inl ''The runtime environment has an invalid scaling contract.''))
   | _ \<Rightarrow> Inl ''Scaling must be a JSON object keyed by module slug.'')"

text \<open>The normalized mappings as JSON, as the deployment row stores them.\<close>

definition values_json :: "string dict dict \<Rightarrow> json" where
  "values_json m = JObj (map (\<lambda>(slug, c). (slug, str_dict c)) m)"

definition scaling_json :: "scaling_policy dict \<Rightarrow> json" where
  "scaling_json m = JObj (map (\<lambda>(slug, p). (slug, scaling_dict p)) m)"

end
