(* ===== verification/Worker.thy ===== *)
theory Worker
  imports Runtime_Models Timestamps
begin

text \<open>
  The worker that executes the durable operations:
  \<open>src/components/DEALHost/apps/hosting/runtime_worker.py\<close>.

  An atomic block is one function from \<open>db\<close> to its result: an exception inside it leaves the
  database unchanged. The worker's method
  \<open>process_next\<close> is split where its transactions end, because other workers and the API run
  between them: \<open>claim\<close>, the controller call \<open>execute_call\<close>, and \<open>record_outcome\<close>.
\<close>

section \<open>Claiming\<close>

definition claimable :: "int \<Rightarrow> operation_row \<Rightarrow> bool" where
  "claimable now op \<longleftrightarrow>
     (o_status op = QUEUED
      \<or> o_status op = RUNNING \<and> (case o_lease_expires_at op of None \<Rightarrow> True | Some t \<Rightarrow> t \<le> now))
     \<and> (case o_next_attempt_at op of None \<Rightarrow> True | Some t \<Rightarrow> t \<le> now)"

definition lease_to :: "string \<Rightarrow> string \<Rightarrow> int \<Rightarrow> operation_row \<Rightarrow> operation_row" where
  "lease_to worker_id token now op =
     op\<lparr>o_status := RUNNING,
        o_started_at := (case o_started_at op of None \<Rightarrow> Some now | Some t \<Rightarrow> Some t),
        o_attempts := o_attempts op + 1, o_leased_by := worker_id, o_lease_token := Some token,
        o_lease_expires_at := Some (now + seconds 90), o_next_attempt_at := None,
        o_progress := progress ''dispatching'' (JInt 10)\<rparr>"

definition claim :: "string \<Rightarrow> string \<Rightarrow> int \<Rightarrow> db \<Rightarrow> (string \<times> db) option" where
  "claim worker_id token now db =
     (case sort_key o_requested_at (filter (claimable now) (db_operations db)) of
        [] \<Rightarrow> None
      | op # _ \<Rightarrow> Some (o_id op, save_operation (lease_to (take 128 worker_id) token now op) db))"


section \<open>Calling the controller\<close>

definition controller_payload :: "deployment_row \<Rightarrow> operation_row \<Rightarrow> json dict" where
  "controller_payload d op =
     [(''deployment_id'', JStr (dp_id d)), (''environment'', JStr (dp_environment d)),
      (''generation'', JInt (o_target_generation op)),
      (''desired_state'', dget_or (JStr (dp_desired_state d)) (o_payload op) ''desired_state''),
      (''release'', JObj [(''digest'', JStr (rl_manifest_digest (dp_release d))),
         (''manifest'', rl_manifest (dp_release d))]),
      (''configuration'', dp_configuration d), (''secret_refs'', dp_secret_refs d), (''scaling'', dp_scaling d)]"

datatype outcome =
    GotLogs runtime_logs
  | GotSnapshot runtime_snapshot

definition already_dispatched :: "operation_row \<Rightarrow> bool" where
  "already_dispatched op = (case o_result op of JObj r \<Rightarrow> truthy (dget r ''dispatched'') | _ \<Rightarrow> False)"

text \<open>\<open>operation.payload[k]\<close>, a KeyError when the key is missing.\<close>

definition payload_item :: "operation_row \<Rightarrow> string \<Rightarrow> wexn + json" where
  "payload_item op k = (case map_of (o_payload op) k of None \<Rightarrow> Inl (OtherException ''KeyError'') | Some v \<Rightarrow> Inr v)"

definition undeploy_id :: "deployment_row \<Rightarrow> string" where
  "undeploy_id d = (if dp_controller_id d \<noteq> [] then dp_controller_id d else dp_id d)"

definition dispatch_operation ::
  "controller_config \<Rightarrow> http_client \<Rightarrow> deployment_row \<Rightarrow> operation_row \<Rightarrow> wexn + runtime_snapshot" where
  "dispatch_operation cfg http d op =
     (let payload = controller_payload d op; t = o_type op in
      if t = ''deploy'' then client_deploy cfg http payload (o_id op)
      else if t \<in> {''configure'', ''scale''} then client_update cfg http (dp_controller_id d) payload (o_id op)
      else if t \<in> {''start'', ''stop'', ''restart''} then
        client_action cfg http (dp_controller_id d) t payload (o_id op)
      else if t = ''undeploy'' then client_undeploy cfg http (undeploy_id d) payload (o_id op)
      else Inl (controller_error ''Unsupported queued runtime operation.''))"

text \<open>The two requests of a poll whose status answer was 404 may get different answers.\<close>

definition poll_operation ::
  "controller_config \<Rightarrow> http_client \<Rightarrow> http_client \<Rightarrow> deployment_row \<Rightarrow> operation_row \<Rightarrow> wexn + runtime_snapshot" where
  "poll_operation cfg http http' d op =
     (case client_status cfg http (dp_controller_id d) (o_id op) of
        Inr s \<Rightarrow> Inr s
      | Inl (ControllerError m st) \<Rightarrow>
          if o_type op \<noteq> ''undeploy'' \<or> st \<noteq> Some 404 then Inl (ControllerError m st)
          else client_undeploy cfg http' (undeploy_id d) (controller_payload d op) (o_id op)
      | Inl e \<Rightarrow> Inl e)"

definition execute_call ::
  "controller_config \<Rightarrow> http_client \<Rightarrow> http_client \<Rightarrow> deployment_row \<Rightarrow> operation_row \<Rightarrow> wexn + outcome" where
  "execute_call cfg http http' d op =
     (if o_type op = ''log_snapshot'' then
        bindE (payload_item op ''component'') (\<lambda>c.
        bindE (payload_item op ''tail_lines'') (\<lambda>t.
        bindE (payload_item op ''since_seconds'') (\<lambda>s.
        bindE (client_logs cfg http (dp_controller_id d) c t s (o_id op)) (\<lambda>l. Inr (GotLogs l)))))
      else if dp_generation d \<noteq> o_target_generation op then
        Inl (ControllerError ''The queued operation no longer matches the deployment generation.'' (Some 409))
      else bindE (if already_dispatched op then poll_operation cfg http http' d op
                  else dispatch_operation cfg http d op) (\<lambda>s. Inr (GotSnapshot s)))"


section \<open>Recording a snapshot\<close>

definition TRANSITIONAL_STATES :: "string list" where
  "TRANSITIONAL_STATES = [''pending'', ''reconciling'', ''deleting'']"

definition validate_snapshot_generation :: "deployment_row \<Rightarrow> runtime_snapshot \<Rightarrow> int \<Rightarrow> wexn + unit" where
  "validate_snapshot_generation d s target_generation =
     (if n_observed_generation s > target_generation then
        Inl (controller_error ''Runtime controller reported a generation newer than the queued operation.'')
      else if n_observed_generation s < dp_observed_generation d then
        Inl (controller_error ''Runtime controller reported an observed generation older than DEALHost state.'')
      else Inr ())"

definition apply_snapshot :: "int \<Rightarrow> deployment_row \<Rightarrow> runtime_snapshot \<Rightarrow> int \<Rightarrow> wexn + deployment_row" where
  "apply_snapshot now d s target_generation =
     bindE (validate_snapshot_generation d s target_generation) (\<lambda>_.
     Inr (d\<lparr>dp_controller_id := n_controller_id s, dp_observed_state := n_state s,
            dp_observed_generation := n_observed_generation s,
            dp_last_error := (if n_state s \<in> {''degraded'', ''failed'', ''unknown''} then n_message s else []),
            dp_deleted_at := (if n_state s = ''deleted'' then Some now else dp_deleted_at d)\<rparr>))"

definition terminal_state_error :: "operation_row \<Rightarrow> deployment_row \<Rightarrow> runtime_snapshot \<Rightarrow> string" where
  "terminal_state_error op d s =
     (let desired = dget_or (JStr (dp_desired_state d)) (o_payload op) ''desired_state'';
          expected = (if desired = JStr ''running'' then [''running'', ''degraded'']
                      else if desired = JStr ''stopped'' then [''stopped''] else [''deleted''])
      in if n_state s \<in> {''failed'', ''unknown''} then []
         else if n_state s \<in> set expected then []
         else ''Runtime controller reported terminal state '' @ n_state s
              @ '' while the desired state is '' @ py_str desired @ ''.'')"

definition reset_component :: "component_row \<Rightarrow> component_row" where
  "reset_component k = k\<lparr>k_desired_replicas := 0, k_ready_replicas := 0, k_available_replicas := 0,
     k_state := ''deleted'', k_health := ''stopped'', k_last_error := []\<rparr>"

definition observe_component :: "component_result \<Rightarrow> component_row \<Rightarrow> component_row" where
  "observe_component r k = k\<lparr>k_desired_replicas := cr_desired_replicas r, k_ready_replicas := cr_ready_replicas r,
     k_available_replicas := cr_available_replicas r, k_state := cr_state r, k_health := cr_health r,
     k_restart_count := cr_restart_count r, k_last_error := cr_last_error r\<rparr>"

definition image_mismatch :: wexn where
  "image_mismatch = controller_error ''Runtime controller reported an image outside the immutable release.''"

definition find_component :: "component_row list \<Rightarrow> string \<Rightarrow> component_row option" where
  "find_component ks slug = find (\<lambda>k. k_slug k = slug) ks"

definition apply_components ::
  "component_row list \<Rightarrow> runtime_snapshot \<Rightarrow> bool \<Rightarrow> wexn + component_row list" where
  "apply_components ks s mutate =
     (let received = map cr_slug (n_components s) in
      if n_state s = ''deleted'' \<and> received = [] then Inr (if mutate then map reset_component ks else ks)
      else if set received \<noteq> set (map k_slug ks) then
        Inl (controller_error ''Runtime controller component set does not match the immutable release.'')
      else foldE (\<lambda>r acc. case find_component acc (cr_slug r) of
             None \<Rightarrow> Inl (OtherException ''KeyError'')
           | Some k \<Rightarrow>
               if cr_image_digest r \<noteq> k_image_digest k then Inl image_mismatch
               else Inr (if mutate then map (\<lambda>x. if k_slug x = cr_slug r then observe_component r x else x) acc else acc))
           (n_components s) ks)"

definition MAX_RECONCILIATION_AGE :: int where
  "MAX_RECONCILIATION_AGE = seconds (30 * 60)"

definition waiting_for_generation :: "operation_row \<Rightarrow> runtime_snapshot \<Rightarrow> bool" where
  "waiting_for_generation op s \<longleftrightarrow> n_observed_generation s < o_target_generation op
     \<and> n_state s \<notin> {''failed'', ''unknown''}"

definition finish :: "op_status \<Rightarrow> string \<Rightarrow> int \<Rightarrow> operation_row \<Rightarrow> operation_row" where
  "finish st stage now op =
     unlease (op\<lparr>o_status := st, o_progress := progress stage (JInt 100), o_finished_at := Some now,
                 o_next_attempt_at := None\<rparr>)"

text \<open>The branch for a state that is still moving.\<close>

definition record_transitional ::
  "int \<Rightarrow> operation_row \<Rightarrow> deployment_row \<Rightarrow> runtime_snapshot \<Rightarrow> db \<Rightarrow> wexn + db" where
  "record_transitional now op d s db =
     bindE (validate_snapshot_generation d s (o_target_generation op)) (\<lambda>_.
     bindE (apply_components (dp_components d) s False) (\<lambda>_.
     let d1 = d\<lparr>dp_controller_id := n_controller_id s, dp_revision := dp_revision d + 1,
               dp_last_reconciled_at := Some now\<rparr>;
         detail = ''Runtime reconciliation timed out.'';
         start = (case o_started_at op of Some t \<Rightarrow> t | None \<Rightarrow> o_requested_at op)
     in if now - start \<ge> MAX_RECONCILIATION_AGE then
          Inr (save_operation (finish FAILED ''failed'' now
                 (op\<lparr>o_error := failure ''runtime_reconciliation_timeout'' detail True\<rparr>))
               (save_deployment (d1\<lparr>dp_observed_state := ''failed'', dp_last_error := detail\<rparr>) db))
        else
          Inr (save_operation (unlease (op\<lparr>o_status := RUNNING, o_result := JObj [(''dispatched'', JBool True)],
                 o_progress := progress (if waiting_for_generation op s then ''waiting_for_generation'' else n_state s) (JInt 50),
                 o_next_attempt_at := Some (now + seconds 2)\<rparr>))
               (save_deployment d1 db))))"

definition record_terminal ::
  "int \<Rightarrow> operation_row \<Rightarrow> operation_row \<Rightarrow> deployment_row \<Rightarrow> runtime_snapshot \<Rightarrow> db \<Rightarrow> wexn + db" where
  "record_terminal now stale op d s db =
     bindE (apply_snapshot now d s (o_target_generation op)) (\<lambda>d1.
     bindE (apply_components (dp_components d1) s True) (\<lambda>ks.
     let d2 = d1\<lparr>dp_revision := dp_revision d1 + 1, dp_last_reconciled_at := Some now, dp_components := ks\<rparr>;
         err = terminal_state_error stale d2 s;
         failed = n_state s \<in> {''failed'', ''unknown''} \<or> err \<noteq> [];
         detail = (if err \<noteq> [] then err else if n_message s \<noteq> [] then n_message s else ''Runtime reconciliation failed.'');
         d3 = (if err \<noteq> [] then d2\<lparr>dp_observed_state := ''failed'', dp_last_error := err\<rparr> else d2);
         op1 = (if failed then op\<lparr>o_error := failure ''runtime_reconciliation_failed'' detail True\<rparr>
                else op\<lparr>o_result := JObj [(''state'', JStr (n_state s)),
                         (''observed_generation'', JInt (n_observed_generation s))], o_error := JNull\<rparr>)
     in Inr (save_operation (finish (if failed then FAILED else SUCCEEDED) (n_state s) now op1)
               (save_deployment d3 db))))"

definition record_snapshot ::
  "int \<Rightarrow> operation_row \<Rightarrow> string \<Rightarrow> runtime_snapshot \<Rightarrow> db \<Rightarrow> wexn + db" where
  "record_snapshot now stale token s db =
     bindE (the_row (get_operation db (o_id stale))) (\<lambda>op.
     if o_lease_token op \<noteq> Some token then Inr db
     else bindE (the_row (get_deployment db (o_deployment op))) (\<lambda>d.
       if n_state s \<in> set TRANSITIONAL_STATES \<or> waiting_for_generation op s
       then record_transitional now op d s db
       else record_terminal now stale op d s db))"


section \<open>Recording logs\<close>

definition LOG_TTL_SECONDS :: int where
  "LOG_TTL_SECONDS = 300"

definition maximum_log_bytes :: "json \<Rightarrow> nat" where
  "maximum_log_bytes capabilities = (case capabilities of
     JObj c \<Rightarrow> (case dget c ''logs'' of
        JObj l \<Rightarrow> (case dget_or (JInt 262144) l ''max_bytes'' of
           JInt n \<Rightarrow> nat (min (max n 1) 262144) | _ \<Rightarrow> 262144)
      | _ \<Rightarrow> 262144)
   | _ \<Rightarrow> 262144)"

text \<open>
  \<open>bytes.decode("utf-8", errors="ignore")\<close> of a prefix of an encoded text: a last character
  that was cut in two is dropped.
\<close>

definition decode_ignore :: "string \<Rightarrow> string" where
  "decode_ignore b = (case utf8_decode b of
     Some s \<Rightarrow> s | None \<Rightarrow> (case utf8_decode (butlast b) of Some s \<Rightarrow> s | None \<Rightarrow> []))"

definition log_content :: "nat \<Rightarrow> runtime_logs \<Rightarrow> string \<times> bool" where
  "log_content maximum_bytes l =
     (let content = join_with [CHR 0x0A] (g_lines l); encoded = utf8_encode content in
      if length encoded > maximum_bytes then (decode_ignore (take maximum_bytes encoded), True)
      else (content, g_truncated l))"

definition log_key :: "operation_row \<Rightarrow> string" where
  "log_key op = ''dealhost:runtime-log:'' @ o_id op"

text \<open>\<open>isoformat()\<close> of a UTC time: the fraction only when it is not zero.\<close>

definition isoformat :: "int \<Rightarrow> string" where
  "isoformat t = (if t mod 1000000 = 0 then take 19 (iso_prefix t) else iso_prefix t) @ ''+00:00''"

definition log_snapshot :: "int \<Rightarrow> json \<Rightarrow> operation_row \<Rightarrow> runtime_logs \<Rightarrow> json dict" where
  "log_snapshot now capabilities op l =
     (let (content, truncated) = log_content (maximum_log_bytes capabilities) l in
      [(''component'', dget (o_payload op) ''component''), (''container'', JStr ''main''),
       (''content'', JStr content), (''truncated'', JBool truncated),
       (''line_count'', JInt (int (length (splitlines content)))),
       (''captured_at'', JStr (isoformat now)),
       (''expires_at'', JStr (isoformat (now + seconds LOG_TTL_SECONDS)))])"

definition complete_logs ::
  "int \<Rightarrow> json \<Rightarrow> operation_row \<Rightarrow> string \<Rightarrow> runtime_logs \<Rightarrow> db \<Rightarrow> wexn + db" where
  "complete_logs now capabilities stale token l db =
     (let snap = log_snapshot now capabilities stale l;
          db1 = db\<lparr>db_cache := dput (log_key stale) (JObj snap) (db_cache db)\<rparr>
      in bindE (the_row (get_operation db1 (o_id stale))) (\<lambda>op.
         if o_lease_token op \<noteq> Some token then
           Inr (db1\<lparr>db_cache := AList.delete (log_key stale) (db_cache db1)\<rparr>)
         else Inr (save_operation (unlease (op\<lparr>o_status := SUCCEEDED, o_progress := progress ''captured'' (JInt 100),
                o_result := JObj [(''ephemeral'', JBool True), (''expires_at'', dget snap ''expires_at'')],
                o_error := JNull, o_finished_at := Some now\<rparr>)) db1)))"


section \<open>Recording failures\<close>

definition MAX_CONTROLLER_FAILURES :: nat where
  "MAX_CONTROLLER_FAILURES = 5"

definition retryable :: "wexn \<Rightarrow> bool" where
  "retryable e = (case e of
     ControllerError _ (Some st) \<Rightarrow> \<not> (400 \<le> st \<and> st < 500 \<and> st \<notin> {408, 429})
   | _ \<Rightarrow> True)"

definition fail_deployment :: "string \<Rightarrow> deployment_row \<Rightarrow> deployment_row" where
  "fail_deployment detail d = d\<lparr>dp_observed_state := ''failed'', dp_last_error := detail, dp_revision := dp_revision d + 1\<rparr>"

text \<open>The end of both failure handlers: the deployment fails with a mutation, not with a log request.\<close>

definition fail_with_deployment :: "operation_row \<Rightarrow> string \<Rightarrow> db \<Rightarrow> wexn + db" where
  "fail_with_deployment op detail db =
     (if o_type op = ''log_snapshot'' then Inr (save_operation op db)
      else bindE (the_row (get_deployment db (o_deployment op))) (\<lambda>d.
        Inr (save_deployment (fail_deployment detail d) (save_operation op db))))"

definition finish_keeping_attempt :: "int \<Rightarrow> operation_row \<Rightarrow> operation_row" where
  "finish_keeping_attempt now op =
     unlease (op\<lparr>o_status := FAILED, o_progress := progress ''failed'' (JInt 100), o_finished_at := Some now\<rparr>)"

definition record_controller_failure ::
  "int \<Rightarrow> operation_row \<Rightarrow> string \<Rightarrow> wexn \<Rightarrow> db \<Rightarrow> wexn + db" where
  "record_controller_failure now stale token e db =
     bindE (the_row (get_operation db (o_id stale))) (\<lambda>op.
     if o_lease_token op \<noteq> Some token then Inr db
     else let op1 = op\<lparr>o_controller_failures := o_controller_failures op + 1\<rparr> in
       if retryable e \<and> o_controller_failures op1 < MAX_CONTROLLER_FAILURES then
         Inr (save_operation (unlease (op1\<lparr>o_status := QUEUED, o_progress := progress ''retrying'' JNull,
                o_next_attempt_at := Some (now + seconds (min (2 ^ o_attempts op1) 60))\<rparr>)) db)
       else fail_with_deployment (finish_keeping_attempt now
              (op1\<lparr>o_error := failure ''runtime_controller_error'' (take 500 (wexn_message e)) (retryable e)\<rparr>))
              (take 500 (wexn_message e)) db)"

definition record_unexpected_failure :: "int \<Rightarrow> operation_row \<Rightarrow> string \<Rightarrow> db \<Rightarrow> wexn + db" where
  "record_unexpected_failure now stale token db =
     (let detail = ''The runtime worker failed unexpectedly.'' in
      bindE (the_row (get_operation db (o_id stale))) (\<lambda>op.
      if o_lease_token op \<noteq> Some token then Inr db
      else fail_with_deployment (finish_keeping_attempt now
             (op\<lparr>o_error := failure ''runtime_worker_error'' detail True\<rparr>)) detail db))"


section \<open>One operation\<close>

text \<open>The writes of \<open>_execute\<close>, and what \<open>process_next\<close> does with its exceptions.\<close>

definition record_result ::
  "int \<Rightarrow> operation_row \<Rightarrow> string \<Rightarrow> wexn + outcome \<Rightarrow> db \<Rightarrow> wexn + db" where
  "record_result now stale token r db = (case r of
     Inl e \<Rightarrow> Inl e
   | Inr (GotSnapshot s) \<Rightarrow> record_snapshot now stale token s db
   | Inr (GotLogs l) \<Rightarrow>
       bindE (the_row (get_deployment db (o_deployment stale))) (\<lambda>d.
       bindE (the_row (get_environment db (dp_environment d))) (\<lambda>ev.
       complete_logs now (ev_capabilities ev) stale token l db)))"

definition record_outcome ::
  "int \<Rightarrow> operation_row \<Rightarrow> string \<Rightarrow> wexn + outcome \<Rightarrow> db \<Rightarrow> wexn + db" where
  "record_outcome now stale token r db = (case record_result now stale token r db of
     Inr db' \<Rightarrow> Inr db'
   | Inl (OtherException m) \<Rightarrow> record_unexpected_failure now stale token db
   | Inl e \<Rightarrow> record_controller_failure now stale token e db)"

definition process_claimed ::
  "controller_config \<Rightarrow> http_client \<Rightarrow> http_client \<Rightarrow> int \<Rightarrow> string \<Rightarrow> string \<Rightarrow> db \<Rightarrow> wexn + db" where
  "process_claimed cfg http http' now i token db =
     bindE (the_row (get_operation db i)) (\<lambda>op.
     bindE (the_row (get_deployment db (o_deployment op))) (\<lambda>d.
     record_outcome now op token (execute_call cfg http http' d op) db))"

definition process_next ::
  "controller_config \<Rightarrow> http_client \<Rightarrow> http_client \<Rightarrow> string \<Rightarrow> string \<Rightarrow> int \<Rightarrow> int \<Rightarrow> db \<Rightarrow> wexn + bool \<times> db" where
  "process_next cfg http http' worker_id token now now' db = (case claim worker_id token now db of
     None \<Rightarrow> Inr (False, db)
   | Some (i, db1) \<Rightarrow> bindE (process_claimed cfg http http' now' i token db1) (\<lambda>db2. Inr (True, db2)))"

text \<open>
  The loop of \<open>run\<close> over the iterations it gets to do: the token, the times and the controller's
  answers of each. It ends with the first iteration when \<open>once\<close> is set, and with an exception
  that leaves \<open>process_next\<close>.
\<close>

record iteration =
  it_token :: string
  it_claimed_at :: int
  it_recorded_at :: int
  it_http :: http_client
  it_http_again :: http_client

fun run :: "controller_config \<Rightarrow> string \<Rightarrow> bool \<Rightarrow> iteration list \<Rightarrow> db \<Rightarrow> wexn + db" where
  "run cfg worker_id once [] db = Inr db"
| "run cfg worker_id once (it # its) db =
     bindE (process_next cfg (it_http it) (it_http_again it) worker_id (it_token it) (it_claimed_at it) (it_recorded_at it) db)
       (\<lambda>(processed, db'). if once then Inr db' else run cfg worker_id once its db')"

end
