(* ===== verification/Release.thy ===== *)
theory Release
  imports Runtime_Models Worker
begin

text \<open>
  Immutable runtime releases:
  \<open>src/components/DEALHost/apps/hosting/runtime_release.py\<close>.

  The catalog of an application is captured into a version's snapshot, the snapshot is
  validated into a manifest, and the manifest is stored once as the version's release.
  \<open>NotDeployable\<close> is \<open>RuntimeReleaseNotDeployable\<close> with its message.
\<close>

datatype rexn = NotDeployable string

section \<open>Patterns and digests\<close>

definition IMAGE_DIGEST_PATTERN :: "string \<Rightarrow> bool" where
  "IMAGE_DIGEST_PATTERN s \<longleftrightarrow> is_image s \<and> 74 \<le> length s"

text \<open>A word of the given characters that begins and ends with a letter or digit.\<close>

definition registry_word :: "char set \<Rightarrow> string \<Rightarrow> bool" where
  "registry_word extra s \<longleftrightarrow> s \<noteq> [] \<and> is_lower_alnum (hd s) \<and> is_lower_alnum (last s)
     \<and> list_all (\<lambda>c. is_lower_alnum c \<or> c \<in> extra) s"

definition registry_host :: "string \<Rightarrow> bool" where
  "registry_host s = (case partition CHR '':'' s of (host, has_port, port) \<Rightarrow>
     registry_word (set ''.-'') host
     \<and> (has_port \<longrightarrow> port \<noteq> [] \<and> length port \<le> 5 \<and> list_all is_digit port))"

definition REGISTRY_PREFIX_PATTERN :: "string \<Rightarrow> bool" where
  "REGISTRY_PREFIX_PATTERN s \<longleftrightarrow> ends_with ''/'' s
     \<and> (case split_on CHR ''/'' (butlast s) of
          host # segments \<Rightarrow> registry_host host \<and> list_all (registry_word (set ''._-'')) segments
        | [] \<Rightarrow> False)"

definition sha256_json :: "json \<Rightarrow> string" where
  "sha256_json v = sha256_hexdigest (canonical_json v)"

text \<open>\<open>json.loads(canonical_json(v))\<close>.\<close>

definition reload_json :: "json \<Rightarrow> json" where
  "reload_json v = (case json_loads (decoded (canonical_json v)) of Some w \<Rightarrow> w | None \<Rightarrow> JNull)"

text \<open>\<open>v == n\<close> for an integer \<open>n\<close>: booleans and whole floats compare equal.\<close>

definition equals_int :: "json \<Rightarrow> int \<Rightarrow> bool" where
  "equals_int v n \<longleftrightarrow> v = JInt n \<or> v = JFloat (str_int n @ ''.0'') \<or> v = JBool True \<and> n = 1 \<or> v = JBool False \<and> n = 0"


section \<open>Capturing the catalog\<close>

definition verified_json :: "int option \<Rightarrow> json" where
  "verified_json t = (case t of None \<Rightarrow> JNull | Some x \<Rightarrow> JStr (isoformat x))"

definition profile_snapshot :: "profile_row \<Rightarrow> json" where
  "profile_snapshot p = JObj [(''schema_version'', JInt (pf_schema_version p)), (''spec'', reload_json (pf_spec p)),
     (''spec_digest'', JStr (pf_spec_digest p)), (''enabled'', JBool (pf_enabled p)),
     (''verified_at'', verified_json (pf_verified_at p))]"

definition module_snapshot :: "module_row \<Rightarrow> json" where
  "module_snapshot m = JObj [(''module_id'', JInt (mo_id m)), (''slug'', JStr (mo_slug m)), (''image'', JStr (mo_image m)),
     (''enabled'', JBool (mo_enabled m)), (''deployment_target'', JStr (mo_target m)),
     (''profile'', (case mo_profile m of None \<Rightarrow> JNull | Some p \<Rightarrow> profile_snapshot p))]"

definition snapshot_application_runtime :: "application_row \<Rightarrow> json" where
  "snapshot_application_runtime ap = JObj [(''schema_version'', JInt 1),
     (''application'', JObj [(''id'', JInt (ap_id ap)), (''slug'', JStr (ap_slug ap))]),
     (''modules'', JList (map module_snapshot (sort_key mo_slug (ap_modules ap))))]"


section \<open>Validating a profile\<close>

definition profile_error :: "string \<Rightarrow> string \<Rightarrow> rexn" where
  "profile_error slug what = NotDeployable (''Runtime profile for '' @ slug @ '' '' @ what)"

definition resource_values_ok :: "json \<Rightarrow> bool option" where
  "resource_values_ok v = (case v of
     JObj d \<Rightarrow> if set (keys d) \<noteq> {''cpu'', ''memory''} then None
       else Some (case (dget d ''cpu'', dget d ''memory'') of
         (JStr cpu, JStr memory) \<Rightarrow> is_cpu cpu \<and> is_memory memory | _ \<Rightarrow> False)
   | _ \<Rightarrow> None)"

definition check_resource_group :: "string \<Rightarrow> json \<Rightarrow> rexn + unit" where
  "check_resource_group slug v = (case resource_values_ok v of
     None \<Rightarrow> Inl (profile_error slug ''has incomplete resources.'')
   | Some ok \<Rightarrow> guardE ok (profile_error slug ''has invalid resource values.''))"

definition resource_text :: "json dict \<Rightarrow> string \<Rightarrow> string \<Rightarrow> string" where
  "resource_text resources g k = (case dget resources g of
     JObj d \<Rightarrow> (case dget d k of JStr s \<Rightarrow> s | _ \<Rightarrow> []) | _ \<Rightarrow> [])"

definition check_resources :: "string \<Rightarrow> json \<Rightarrow> rexn + unit" where
  "check_resources slug v = (case v of
     JObj resources \<Rightarrow>
       if set (keys resources) \<noteq> {''requests'', ''limits''} then
         Inl (profile_error slug ''must declare requests and limits.'')
       else bindE (check_resource_group slug (dget resources ''requests'')) (\<lambda>_.
         bindE (check_resource_group slug (dget resources ''limits'')) (\<lambda>_.
         raise_if (cpu_millis (resource_text resources ''requests'' ''cpu'') > cpu_millis (resource_text resources ''limits'' ''cpu'')
             \<or> memory_kib (resource_text resources ''requests'' ''memory'') > memory_kib (resource_text resources ''limits'' ''memory''))
           (profile_error slug ''has requests above its limits.'')))
   | _ \<Rightarrow> Inl (profile_error slug ''must declare requests and limits.''))"

definition config_keys :: "json \<Rightarrow> string list option" where
  "config_keys v = (case v of
     JList vs \<Rightarrow> if length vs > 50 then None
       else (case strings_of vs of
         Some ks \<Rightarrow> if list_all is_env_key ks \<and> distinct ks then Some ks else None
       | None \<Rightarrow> None)
   | _ \<Rightarrow> None)"

definition check_configuration :: "string \<Rightarrow> json \<Rightarrow> rexn + unit" where
  "check_configuration slug v = (case v of
     JObj c \<Rightarrow>
       if \<not> set (keys c) \<subseteq> {''plain'', ''secret''} then
         Inl (profile_error slug ''has an invalid configuration schema.'')
       else (case (config_keys (dget_or (JList []) c ''plain''), config_keys (dget_or (JList []) c ''secret'')) of
         (Some plain, Some secret) \<Rightarrow>
           raise_if (set plain \<inter> set secret \<noteq> {}) (profile_error slug ''reuses plain keys as secrets.'')
       | _ \<Rightarrow> Inl (profile_error slug ''has invalid configuration keys.''))
   | _ \<Rightarrow> Inl (profile_error slug ''has an invalid configuration schema.''))"

definition egress_ok :: "json \<Rightarrow> bool" where
  "egress_ok v = (case v of
     JObj d \<Rightarrow> set (keys d) = {''host'', ''port''}
       \<and> (case dget d ''host'' of JStr h \<Rightarrow> h \<noteq> [] \<and> length h \<le> 253 \<and> \<not> list_ex isspace_char h | _ \<Rightarrow> False)
       \<and> (case dget d ''port'' of JInt p \<Rightarrow> 1 \<le> p \<and> p \<le> 65535 | _ \<Rightarrow> False)
   | _ \<Rightarrow> False)"

definition spec_fields :: "string list" where
  "spec_fields = [''kind'', ''container_port'', ''healthcheck_path'', ''resources'', ''configuration'', ''network_egress'']"

definition check_spec :: "string \<Rightarrow> json dict \<Rightarrow> rexn + unit" where
  "check_spec slug spec =
     bindE (guardE (set (keys spec) \<subseteq> set spec_fields) (profile_error slug ''contains unsupported fields.'')) (\<lambda>_.
     bindE (guardE (dget spec ''kind'' = JStr ''deployment'') (profile_error slug ''is not a stateless deployment.'')) (\<lambda>_.
     bindE (guardE (case dget spec ''container_port'' of JInt p \<Rightarrow> 1 \<le> p \<and> p \<le> 65535 | _ \<Rightarrow> False)
       (profile_error slug ''has an invalid container port.'')) (\<lambda>_.
     bindE (guardE (case dget spec ''healthcheck_path'' of
          JStr h \<Rightarrow> starts_with ''/'' h \<and> \<not> starts_with ''//'' h \<and> length h \<le> 255 \<and> \<not> list_ex isspace_char h | _ \<Rightarrow> False)
       (profile_error slug ''has an invalid healthcheck path.'')) (\<lambda>_.
     bindE (check_resources slug (dget spec ''resources'')) (\<lambda>_.
     bindE (check_configuration slug (dget_or (JObj []) spec ''configuration'')) (\<lambda>_.
     guardE (case dget_or (JList []) spec ''network_egress'' of JList items \<Rightarrow> list_all egress_ok items | _ \<Rightarrow> False)
       (profile_error slug ''has invalid egress rules.'')))))))"

definition validate_profile_snapshot :: "string \<Rightarrow> json dict \<Rightarrow> rexn + json" where
  "validate_profile_snapshot slug profile =
     bindE (guardE (dget profile ''enabled'' = JBool True
          \<and> (case dget profile ''verified_at'' of JStr t \<Rightarrow> t \<noteq> [] | _ \<Rightarrow> False))
       (profile_error slug ''is not enabled and verified.'')) (\<lambda>_.
     case dget profile ''spec'' of
       JObj spec \<Rightarrow>
         bindE (guardE (equals_one (dget profile ''schema_version'')) (profile_error slug ''uses an unsupported schema.'')) (\<lambda>_.
         bindE (guardE (dget profile ''spec_digest'' = JStr (sha256_json (JObj spec)))
           (NotDeployable (''Runtime profile digest for '' @ slug @ '' does not match its spec.''))) (\<lambda>_.
         bindE (check_spec slug spec) (\<lambda>_. Inr (reload_json (JObj spec)))))
     | _ \<Rightarrow> Inl (profile_error slug ''uses an unsupported schema.''))"

definition validate_runtime_profile :: "string \<Rightarrow> profile_row \<Rightarrow> rexn + json" where
  "validate_runtime_profile slug p =
     validate_profile_snapshot slug [(''schema_version'', JInt (pf_schema_version p)), (''spec'', pf_spec p),
       (''spec_digest'', JStr (pf_spec_digest p)), (''enabled'', JBool (pf_enabled p)),
       (''verified_at'', verified_json (pf_verified_at p))]"


section \<open>From a snapshot to a manifest\<close>

definition catalog_error :: rexn where
  "catalog_error = NotDeployable ''The published runtime snapshot has an invalid module catalog.''"

definition module_error :: "string \<Rightarrow> string \<Rightarrow> rexn" where
  "module_error slug what = NotDeployable (''Module '' @ slug @ '' '' @ what)"

definition module_body :: "int \<Rightarrow> string \<Rightarrow> json dict \<Rightarrow> rexn + json" where
  "module_body mid slug raw =
     bindE (guardE (dget raw ''enabled'' = JBool True) (module_error slug ''is disabled.'')) (\<lambda>_.
     bindE (guardE (dget raw ''deployment_target'' = JStr ''kubernetes'')
       (module_error slug ''is not declared for Kubernetes.'')) (\<lambda>_.
     case dget raw ''image'' of
       JStr img \<Rightarrow>
         if \<not> IMAGE_DIGEST_PATTERN img then Inl (module_error slug ''must use an immutable sha256 image digest.'')
         else (case dget raw ''profile'' of
           JObj profile \<Rightarrow>
             bindE (validate_profile_snapshot slug profile) (\<lambda>spec.
             Inr (JObj [(''module_id'', JInt mid), (''slug'', JStr slug), (''image'', JStr img),
               (''profile_schema_version'', dget profile ''schema_version''),
               (''profile_digest'', dget profile ''spec_digest''), (''spec'', spec)]))
         | _ \<Rightarrow> Inl (module_error slug ''has no reviewed runtime profile.''))
     | _ \<Rightarrow> Inl (module_error slug ''must use an immutable sha256 image digest.'')))"

text \<open>One turn of the loop over the modules: the identifiers seen and the modules built so far.\<close>

definition add_module :: "json \<Rightarrow> int list \<times> string list \<times> json list \<Rightarrow> rexn + int list \<times> string list \<times> json list" where
  "add_module raw_module acc = (case acc of (ids, slugs, built) \<Rightarrow>
     let invalid = NotDeployable ''The published runtime snapshot has invalid component identifiers.'' in
     case raw_module of
       JObj raw \<Rightarrow>
         (case (dget raw ''module_id'', dget raw ''slug'') of
            (JInt mid, JStr slug) \<Rightarrow>
              if mid < 1 \<or> mid \<in> set ids \<or> \<not> is_component_slug slug \<or> slug \<in> set slugs then Inl invalid
              else bindE (module_body mid slug raw) (\<lambda>m. Inr (mid # ids, slug # slugs, built @ [m]))
          | _ \<Rightarrow> Inl invalid)
     | _ \<Rightarrow> Inl catalog_error)"

definition manifest_from_snapshot :: "version_row \<Rightarrow> application_row \<Rightarrow> json dict \<Rightarrow> rexn + json dict" where
  "manifest_from_snapshot vr ap snap =
     (case (dget snap ''application'', dget snap ''modules'') of
        (JObj app, JList raw_modules) \<Rightarrow>
          if \<not> equals_one (dget snap ''schema_version'') \<or> \<not> equals_int (dget app ''id'') (ap_id ap)
            \<or> (case dget app ''slug'' of JStr _ \<Rightarrow> False | _ \<Rightarrow> True)
            \<or> raw_modules = [] \<or> length raw_modules > 20
          then Inl catalog_error
          else bindE (foldE add_module raw_modules ([], [], [])) (\<lambda>(_, _, built).
            Inr [(''schema_version'', JInt 1), (''application'', JObj app), (''version'', JStr (vr_version vr)),
                 (''version_source'', JStr (vr_source vr)), (''modules'', JList built)])
      | _ \<Rightarrow> Inl catalog_error)"


section \<open>Integrity and policy\<close>

definition check_snapshot :: "json \<Rightarrow> string \<Rightarrow> rexn + json dict" where
  "check_snapshot snap digest = (case snap of
     JObj d \<Rightarrow> if is_hex_digest digest \<and> sha256_json snap = digest then Inr d
       else Inl (NotDeployable ''The published runtime snapshot failed its integrity check.'')
   | _ \<Rightarrow> Inl (NotDeployable ''The published runtime snapshot failed its integrity check.''))"

definition save_version :: "version_row \<Rightarrow> db \<Rightarrow> db" where
  "save_version v db = db\<lparr>db_versions := map (\<lambda>x. if vr_id x = vr_id v then v else x) (db_versions db)\<rparr>"

text \<open>A version without a snapshot gets the current catalog, once.\<close>

definition version_runtime_snapshot :: "version_row \<Rightarrow> application_row \<Rightarrow> db \<Rightarrow> (rexn + json dict) \<times> db" where
  "version_runtime_snapshot vr ap db =
     (if \<not> truthy (vr_snapshot vr) \<and> vr_digest vr = [] then
        (let snap = snapshot_application_runtime ap; digest = sha256_json snap
         in (check_snapshot snap digest, save_version (vr\<lparr>vr_snapshot := snap, vr_digest := digest\<rparr>) db))
      else (check_snapshot (vr_snapshot vr) (vr_digest vr), db))"

definition validate_release_integrity :: "release_row \<Rightarrow> version_row \<Rightarrow> application_row \<Rightarrow> rexn + unit" where
  "validate_release_integrity rl vr ap = (case rl_manifest rl of
     JObj manifest \<Rightarrow>
       if sha256_json (JObj manifest) \<noteq> rl_manifest_digest rl \<or> \<not> equals_one (dget manifest ''schema_version'')
         \<or> dget manifest ''version'' \<noteq> JStr (vr_version vr)
       then Inl (NotDeployable ''The immutable runtime release failed its integrity check.'')
       else guardE (vr_application vr = ap_id ap
           \<and> (case dget manifest ''application'' of
                JObj app \<Rightarrow> equals_int (dget app ''id'') (ap_id ap)
                  \<and> (case dget app ''slug'' of JStr _ \<Rightarrow> True | _ \<Rightarrow> False)
              | _ \<Rightarrow> False)
           \<and> (case dget manifest ''modules'' of JList ms \<Rightarrow> ms \<noteq> [] | _ \<Rightarrow> False))
         (NotDeployable ''The immutable runtime release has an invalid application catalog.'')
   | _ \<Rightarrow> Inl (NotDeployable ''The immutable runtime release failed its integrity check.''))"

definition check_registries :: "json \<Rightarrow> rexn + string list" where
  "check_registries v = (case v of
     JList vs \<Rightarrow> (case strings_of vs of
        Some ps \<Rightarrow> if list_all REGISTRY_PREFIX_PATTERN ps then Inr ps
          else Inl (NotDeployable ''The runtime registry policy is invalid.'')
      | None \<Rightarrow> Inl (NotDeployable ''The runtime registry policy is invalid.''))
   | _ \<Rightarrow> Inl (NotDeployable ''The runtime registry policy is invalid.''))"

definition secret_policy_ok :: "json \<Rightarrow> bool" where
  "secret_policy_ok v = (case v of
     JList vs \<Rightarrow> length vs \<le> 100 \<and> (case strings_of vs of
        Some ss \<Rightarrow> list_all is_secret_name ss \<and> distinct ss | None \<Rightarrow> False)
   | _ \<Rightarrow> False)"

definition check_module_policy :: "string list \<Rightarrow> json dict \<Rightarrow> json \<Rightarrow> rexn + unit" where
  "check_module_policy registries capabilities v = (case v of
     JObj m \<Rightarrow>
       (let slug = py_str (dget_or (JStr ''module'') m ''slug'') in
        if \<not> (case dget m ''image'' of JStr img \<Rightarrow> list_ex (\<lambda>p. starts_with p img) registries | _ \<Rightarrow> False)
        then Inl (NotDeployable (''Image registry for '' @ slug @ '' is not allowed.''))
        else raise_if ((case dget m ''spec'' of JObj spec \<Rightarrow> truthy (dget spec ''network_egress'') | _ \<Rightarrow> False)
             \<and> dget capabilities ''network_egress'' \<noteq> JBool True)
           (NotDeployable (''Network egress requested by '' @ slug @ '' is not supported in this environment.'')))
   | _ \<Rightarrow> Inl (NotDeployable ''The immutable runtime release has an invalid module catalog.''))"

definition validate_environment_policy :: "json dict \<Rightarrow> environment_row \<Rightarrow> rexn + unit" where
  "validate_environment_policy manifest ev =
     bindE (guardE (ev_enabled ev \<and> ev_orchestrator ev = ''kubernetes'')
       (NotDeployable ''The runtime environment is not enabled.'')) (\<lambda>_.
     case (ev_policy ev, ev_capabilities ev) of
       (JObj policy, JObj capabilities) \<Rightarrow>
         bindE (check_registries (dget_or (JList []) policy ''allowed_registries'')) (\<lambda>registries.
         bindE (guardE (dget policy ''requires_image_digest'' = JBool True)
           (NotDeployable ''The runtime environment must require immutable image digests.'')) (\<lambda>_.
         bindE (guardE (dget policy ''stateless_only'' = JBool True)
           (NotDeployable ''The runtime environment must enforce stateless workloads.'')) (\<lambda>_.
         bindE (guardE (secret_policy_ok (dget policy ''allowed_secret_refs''))
           (NotDeployable ''The runtime environment secret-reference policy is invalid.'')) (\<lambda>_.
         case dget manifest ''modules'' of
           JList modules \<Rightarrow> foldE (\<lambda>m _. check_module_policy registries capabilities m) modules ()
         | _ \<Rightarrow> Inl (NotDeployable ''The immutable runtime release has an invalid module catalog.'')))))
     | _ \<Rightarrow> Inl (NotDeployable ''The runtime environment policy is invalid.''))"


section \<open>The release of a version\<close>

definition find_release :: "db \<Rightarrow> int \<Rightarrow> release_row option" where
  "find_release db version_id = find (\<lambda>r. rl_version r = version_id) (db_releases db)"

text \<open>
  \<open>get_or_create\<close> and the comparison after it. Dictionaries compare without regard to the
  order of their keys.
\<close>

definition get_or_create_release :: "int \<Rightarrow> json dict \<Rightarrow> db \<Rightarrow> rexn + release_row \<times> db" where
  "get_or_create_release version_id manifest db =
     (let digest = sha256_json (JObj manifest) in
      case find_release db version_id of
        Some r \<Rightarrow>
          if rl_manifest_digest r \<noteq> digest \<or> jsort (rl_manifest r) \<noteq> jsort (JObj manifest)
          then Inl (NotDeployable ''The immutable runtime release conflicts with its published snapshot.'')
          else Inr (r, db)
      | None \<Rightarrow>
          (let r = \<lparr>rl_version = version_id, rl_manifest = JObj manifest, rl_manifest_digest = digest\<rparr>
           in Inr (r, db\<lparr>db_releases := db_releases db @ [r]\<rparr>)))"

definition manifest_dict :: "json \<Rightarrow> json dict" where
  "manifest_dict v = (case v of JObj d \<Rightarrow> d | _ \<Rightarrow> [])"

definition create_release ::
  "version_row \<Rightarrow> application_row \<Rightarrow> environment_row \<Rightarrow> db \<Rightarrow> (rexn + release_row) \<times> db" where
  "create_release vr ap ev db =
     (case version_runtime_snapshot vr ap db of
        (Inl e, db1) \<Rightarrow> (Inl e, db1)
      | (Inr snap, db1) \<Rightarrow>
          (case bindE (manifest_from_snapshot vr ap snap) (\<lambda>manifest.
                bindE (validate_environment_policy manifest ev) (\<lambda>_.
                bindE (get_or_create_release (vr_id vr) manifest db1) (\<lambda>(r, db2).
                bindE (validate_release_integrity r vr ap) (\<lambda>_. Inr (r, db2))))) of
             Inl e \<Rightarrow> (Inl e, db1)
           | Inr (r, db2) \<Rightarrow> (Inr r, db2)))"

definition runtime_release_for ::
  "application_row \<Rightarrow> string \<Rightarrow> environment_row \<Rightarrow> db \<Rightarrow> (rexn + release_row) \<times> db" where
  "runtime_release_for ap version ev db =
     (case find (\<lambda>v. vr_application v = ap_id ap \<and> vr_version v = version) (db_versions db) of
        None \<Rightarrow> (Inl (NotDeployable ''Only published application versions can be deployed.''), db)
      | Some vr \<Rightarrow>
          (case find_release db (vr_id vr) of
             Some r \<Rightarrow>
               (bindE (validate_release_integrity r vr ap) (\<lambda>_.
                bindE (validate_environment_policy (manifest_dict (rl_manifest r)) ev) (\<lambda>_. Inr r)), db)
           | None \<Rightarrow> create_release vr ap ev db))"

end
