(* ===== verification/Runtime_Views.thy ===== *)
theory Runtime_Views
  imports Serializers Release
begin

text \<open>
  The runtime API: \<open>src/components/DEALHost/apps/hosting/runtime_views.py\<close>.

  A handler reads the database before its transaction (argument \<open>db0\<close>) and then runs one
  atomic transaction on the database as it is by then (argument \<open>db\<close>), so \<open>db0\<close> and \<open>db\<close> may
  differ by what other requests and the worker did in between. It returns the response and the
  database. A response that is returned inside the transaction commits what was written before
  it; \<open>RuntimeIdempotencyConflict\<close> rolls the transaction back. The data of the request is
  what the framework's serializers pass on; new identifiers and the time are arguments.
\<close>

section \<open>Requests and responses\<close>

record api_request =
  rq_idempotency_key :: "string option"
  rq_if_match :: "string option"
  rq_user :: string

datatype api_response =
    Problem (problem_detail: string) (problem_code: string) (problem_status: int)
  | ValidationFailed string
  | MutationReply deployment_row operation_row int bool
  | OperationReply operation_row int bool

definition not_found_response :: api_response where
  "not_found_response = Problem ''Not found.'' ''not_found'' 404"

definition actor_label :: "api_request \<Rightarrow> string" where
  "actor_label rq = take 255 (rq_user rq)"

definition request_hash :: "string \<Rightarrow> json \<Rightarrow> string" where
  "request_hash scope_name payload =
     sha256_hexdigest (canonical_json (JObj [(''scope'', JStr scope_name), (''payload'', payload)]))"

definition idempotency_key :: "api_request \<Rightarrow> string option" where
  "idempotency_key rq = (case rq_idempotency_key rq of
     None \<Rightarrow> None | Some v \<Rightarrow> if v = [] then None else Some (strip v))"

definition idempotency_replay ::
  "api_request \<Rightarrow> string \<Rightarrow> db \<Rightarrow> operation_row option \<times> api_response option" where
  "idempotency_replay rq hash db = (case idempotency_key rq of
     None \<Rightarrow> (None, Some (Problem ''Idempotency-Key is required for runtime mutations.'' ''idempotency_key_required'' 428))
   | Some key \<Rightarrow>
       if \<not> is_request_id key then
         (None, Some (Problem ''Idempotency-Key must contain 8-128 safe characters.'' ''invalid_idempotency_key'' 400))
       else (case find (\<lambda>op. o_idempotency_key op = key) (db_operations db) of
         None \<Rightarrow> (None, None)
       | Some op \<Rightarrow>
           if o_request_hash op \<noteq> hash then
             (None, Some (Problem ''The idempotency key was already used for a different request.'' ''idempotency_conflict'' 409))
           else (Some op, None)))"

definition replay :: "api_request \<Rightarrow> string \<Rightarrow> db \<Rightarrow> api_response option" where
  "replay rq hash db = (case idempotency_replay rq hash db of
     (_, Some error) \<Rightarrow> Some error
   | (None, None) \<Rightarrow> None
   | (Some op, None) \<Rightarrow> (case get_deployment db (o_deployment op) of
       Some d \<Rightarrow> Some (MutationReply d op 200 True) | None \<Rightarrow> Some not_found_response))"

definition replay_operation :: "api_request \<Rightarrow> string \<Rightarrow> db \<Rightarrow> api_response option" where
  "replay_operation rq hash db = (case idempotency_replay rq hash db of
     (_, Some error) \<Rightarrow> Some error
   | (None, None) \<Rightarrow> None
   | (Some op, None) \<Rightarrow> Some (OperationReply op 200 True))"

definition runtime_unavailable :: "bool \<Rightarrow> api_response option" where
  "runtime_unavailable runtime_enabled =
     (if runtime_enabled then None
      else Some (Problem ''Runtime operations require an isolated controller configuration.'' ''runtime_backend_unavailable'' 503))"

definition revision_precondition :: "api_request \<Rightarrow> int \<Rightarrow> string \<Rightarrow> api_response option" where
  "revision_precondition rq revision resource = (case rq_if_match rq of
     None \<Rightarrow> Some (Problem (''If-Match is required for runtime '' @ resource @ '' mutations.'') ''precondition_required'' 428)
   | Some v \<Rightarrow>
       (let s = strip v; inner = butlast (tl s) in
        if \<not> (3 \<le> length s \<and> hd s = CHR 0x22 \<and> last s = CHR 0x22 \<and> is_positive_dec inner) then
          Some (Problem (''If-Match must contain a strong revision ETag such as '' @ [CHR 0x22] @ ''3'' @ [CHR 0x22] @ ''.'')
            ''invalid_precondition'' 400)
        else if int (nat_of_dec inner) \<noteq> revision then
          Some (Problem (''The runtime '' @ resource @ '' changed after it was loaded.'') ''stale_revision'' 412)
        else None))"

definition is_active :: "operation_row \<Rightarrow> bool" where
  "is_active op \<longleftrightarrow> o_status op \<in> {QUEUED, RUNNING}"

definition busy_response :: "db \<Rightarrow> deployment_row \<Rightarrow> api_response option" where
  "busy_response db d =
     (if list_ex (\<lambda>op. o_deployment op = dp_id d \<and> is_active op \<and> o_type op \<noteq> ''log_snapshot'') (db_operations db)
      then Some (Problem ''Another runtime operation is already in progress.'' ''operation_in_progress'' 409)
      else None)"

definition environment_of :: "db \<Rightarrow> deployment_row \<Rightarrow> environment_row" where
  "environment_of db d = (case get_environment db (dp_environment d) of
     Some ev \<Rightarrow> ev
   | None \<Rightarrow> \<lparr>ev_slug = dp_environment d, ev_name = [], ev_description = [], ev_orchestrator = [], ev_enabled = False,
        ev_capabilities = JNull, ev_policy = JNull, ev_revision = 0\<rparr>)"

definition environment_unavailable :: "db \<Rightarrow> deployment_row \<Rightarrow> api_response option" where
  "environment_unavailable db d =
     (if ev_enabled (environment_of db d) then None
      else Some (Problem ''The runtime environment is disabled for operational requests.'' ''runtime_environment_disabled'' 409))"

text \<open>The first response of a list of checks, as the chains of early returns compute it.\<close>

fun first_response :: "api_response option list \<Rightarrow> api_response option" where
  "first_response [] = None"
| "first_response (None # rest) = first_response rest"
| "first_response (Some r # rest) = Some r"


section \<open>Operations\<close>

definition new_operation ::
  "api_request \<Rightarrow> deployment_row \<Rightarrow> string \<Rightarrow> string \<Rightarrow> json dict \<Rightarrow> string \<Rightarrow> int \<Rightarrow> operation_row" where
  "new_operation rq d otype hash payload new_id now =
     \<lparr>o_id = new_id, o_deployment = dp_id d, o_type = otype, o_status = QUEUED,
      o_payload = (if otype \<noteq> ''log_snapshot'' then dput ''desired_state'' (JStr (dp_desired_state d)) payload else payload),
      o_progress = progress ''queued'' JNull, o_result = JNull, o_error = JNull,
      o_idempotency_key = (case idempotency_key rq of None \<Rightarrow> [] | Some k \<Rightarrow> k),
      o_request_hash = hash, o_target_generation = dp_generation d, o_actor_label = actor_label rq,
      o_attempts = 0, o_controller_failures = 0, o_next_attempt_at = None, o_leased_by = [],
      o_lease_token = None, o_lease_expires_at = None, o_requested_at = now, o_started_at = None, o_finished_at = None\<rparr>"

definition violates_unique :: "operation_row \<Rightarrow> db \<Rightarrow> bool" where
  "violates_unique op db \<longleftrightarrow>
     list_ex (\<lambda>x. o_idempotency_key x = o_idempotency_key op \<or> o_id x = o_id op
        \<or> o_type op = ''log_snapshot'' \<and> o_type x = ''log_snapshot'' \<and> o_deployment x = o_deployment op \<and> is_active x)
       (db_operations db)"

definition idempotency_conflict :: api_response where
  "idempotency_conflict = Problem ''The idempotency key was claimed by a concurrent runtime request.'' ''idempotency_conflict'' 409"

definition create_operation :: "operation_row \<Rightarrow> db \<Rightarrow> db option" where
  "create_operation op db =
     (if violates_unique op db then None else Some (db\<lparr>db_operations := db_operations db @ [op]\<rparr>))"

text \<open>
  The end of every mutation: save the deployment, create its operation, answer 202. A failure
  of the unique keys rolls back to the database \<open>db\<close> at the start of the transaction.
\<close>

definition commit_mutation ::
  "api_request \<Rightarrow> deployment_row \<Rightarrow> string \<Rightarrow> string \<Rightarrow> json dict \<Rightarrow> string \<Rightarrow> int \<Rightarrow> db \<Rightarrow> db \<Rightarrow> api_response \<times> db" where
  "commit_mutation rq d otype hash payload new_id now db_saved db =
     (let op = new_operation rq d otype hash payload new_id now in
      case create_operation op db_saved of
        None \<Rightarrow> (idempotency_conflict, db)
      | Some db' \<Rightarrow> (MutationReply d op 202 False, db'))"

definition bump :: "deployment_row \<Rightarrow> deployment_row" where
  "bump d = d\<lparr>dp_generation := dp_generation d + 1, dp_revision := dp_revision d + 1, dp_last_error := []\<rparr>"


section \<open>Removing a deployment\<close>

definition destroy ::
  "bool \<Rightarrow> api_request \<Rightarrow> string \<Rightarrow> string \<Rightarrow> int \<Rightarrow> db \<Rightarrow> db \<Rightarrow> api_response \<times> db" where
  "destroy runtime_enabled rq pk new_id now db0 db =
     (case get_deployment db0 pk of
        None \<Rightarrow> (not_found_response, db)
      | Some _ \<Rightarrow>
          (let hash = request_hash (''undeploy:'' @ pk) (JObj []) in
           case first_response [replay rq hash db0, runtime_unavailable runtime_enabled] of
             Some r \<Rightarrow> (r, db)
           | None \<Rightarrow>
               (case get_deployment db pk of
                  None \<Rightarrow> (not_found_response, db)
                | Some locked \<Rightarrow>
                    (case first_response [replay rq hash db, revision_precondition rq (dp_revision locked) ''deployment'',
                        busy_response db locked,
                        (if dp_deleted_at locked \<noteq> None
                         then Some (Problem ''The deployment is already deleted.'' ''deployment_deleted'' 409) else None)] of
                       Some r \<Rightarrow> (r, db)
                     | None \<Rightarrow>
                         (let d = bump (locked\<lparr>dp_desired_state := ''absent'', dp_observed_state := ''deleting''\<rparr>)
                          in commit_mutation rq d ''undeploy'' hash [] new_id now (save_deployment d db) db)))))"


section \<open>Configuring a deployment\<close>

record update_fields =
  uf_scaling :: "json option"
  uf_configuration :: "json option"
  uf_secret_refs :: "json option"

record validated_fields =
  vf_scaling :: "json option"
  vf_configuration :: "json option"
  vf_secret_refs :: "json option"

definition validate_field :: "(json \<Rightarrow> string + json) \<Rightarrow> json option \<Rightarrow> string + json option" where
  "validate_field f v = (case v of None \<Rightarrow> Inr None | Some x \<Rightarrow> bindE (f x) (\<lambda>y. Inr (Some y)))"

definition validate_update :: "db \<Rightarrow> deployment_row \<Rightarrow> update_fields \<Rightarrow> string + validated_fields" where
  "validate_update db d uf =
     (let manifest = manifest_dict (rl_manifest (dp_release d)); ev = environment_of db d in
      if uf_scaling uf = None \<and> uf_configuration uf = None \<and> uf_secret_refs uf = None then
        Inl ''At least one runtime field is required.''
      else
        bindE (validate_field (\<lambda>v. bindE (validate_runtime_scaling v manifest ev) (\<lambda>m. Inr (scaling_json m))) (uf_scaling uf)) (\<lambda>sc.
        bindE (validate_field (\<lambda>v. bindE (validate_runtime_configuration v manifest) (\<lambda>m. Inr (values_json m))) (uf_configuration uf)) (\<lambda>conf.
        bindE (validate_field (\<lambda>v. bindE (validate_runtime_secret_references v manifest ev) (\<lambda>m. Inr (values_json m))) (uf_secret_refs uf)) (\<lambda>refs.
        Inr \<lparr>vf_scaling = sc, vf_configuration = conf, vf_secret_refs = refs\<rparr>))))"

definition field_items :: "validated_fields \<Rightarrow> json dict" where
  "field_items vf = concat (map (\<lambda>(k, v). case v of None \<Rightarrow> [] | Some x \<Rightarrow> [(k, x)])
     [(''scaling'', vf_scaling vf), (''configuration'', vf_configuration vf), (''secret_refs'', vf_secret_refs vf)])"

definition set_fields :: "validated_fields \<Rightarrow> deployment_row \<Rightarrow> deployment_row" where
  "set_fields vf d = d\<lparr>
     dp_scaling := (case vf_scaling vf of None \<Rightarrow> dp_scaling d | Some v \<Rightarrow> v),
     dp_configuration := (case vf_configuration vf of None \<Rightarrow> dp_configuration d | Some v \<Rightarrow> v),
     dp_secret_refs := (case vf_secret_refs vf of None \<Rightarrow> dp_secret_refs d | Some v \<Rightarrow> v)\<rparr>"

text \<open>The replicas a component starts with under a policy.\<close>

definition policy_replicas :: "json \<Rightarrow> string \<Rightarrow> int" where
  "policy_replicas scaling slug = (case scaling of
     JObj m \<Rightarrow> (case dget m slug of
        JObj p \<Rightarrow> int_of_json (if dget p ''mode'' = JStr ''fixed'' then dget p ''replicas'' else dget p ''min_replicas'')
      | _ \<Rightarrow> 0)
   | _ \<Rightarrow> 0)"

definition sync_component_scaling :: "deployment_row \<Rightarrow> deployment_row" where
  "sync_component_scaling d = d\<lparr>dp_components :=
     map (\<lambda>k. k\<lparr>k_desired_replicas := policy_replicas (dp_scaling d) (k_slug k)\<rparr>) (dp_components d)\<rparr>"

definition partial_update ::
  "bool \<Rightarrow> api_request \<Rightarrow> string \<Rightarrow> update_fields \<Rightarrow> string \<Rightarrow> int \<Rightarrow> db \<Rightarrow> db \<Rightarrow> api_response \<times> db" where
  "partial_update runtime_enabled rq pk uf new_id now db0 db =
     (case get_deployment db0 pk of
        None \<Rightarrow> (not_found_response, db)
      | Some d0 \<Rightarrow>
          (case validate_update db0 d0 uf of
             Inl e \<Rightarrow> (ValidationFailed e, db)
           | Inr vf \<Rightarrow>
               (let hash = request_hash (''configure:'' @ pk) (JObj (field_items vf)) in
                case first_response [replay rq hash db0, runtime_unavailable runtime_enabled] of
                  Some r \<Rightarrow> (r, db)
                | None \<Rightarrow>
                    (case get_deployment db pk of
                       None \<Rightarrow> (not_found_response, db)
                     | Some locked \<Rightarrow>
                         (case first_response [replay rq hash db,
                             revision_precondition rq (dp_revision locked) ''deployment'',
                             environment_unavailable db locked, busy_response db locked,
                             (if dp_deleted_at locked \<noteq> None
                              then Some (Problem ''A deleted deployment cannot be configured.'' ''deployment_deleted'' 409) else None),
                             (if dp_desired_state locked = ''absent''
                              then Some (Problem ''A deployment pending removal cannot be configured.'' ''deployment_deleting'' 409)
                              else None)] of
                            Some r \<Rightarrow> (r, db)
                          | None \<Rightarrow>
                              (let d = sync_component_scaling (bump ((set_fields vf locked)\<lparr>dp_observed_state := ''reconciling''\<rparr>))
                               in commit_mutation rq d (if dp_controller_id locked \<noteq> [] then ''configure'' else ''deploy'') hash
                                    [(''changed_fields'', JList (map JStr (sort (keys (field_items vf)))))]
                                    new_id now (save_deployment d db) db))))))"


section \<open>Actions\<close>

record action_data =
  ad_action :: string
  ad_component :: "string option"
  ad_replicas :: "int option"

definition action_items :: "action_data \<Rightarrow> json dict" where
  "action_items ad = [(''action'', JStr (ad_action ad))]
     @ (case ad_component ad of None \<Rightarrow> [] | Some c \<Rightarrow> [(''component'', JStr c)])
     @ (case ad_replicas ad of None \<Rightarrow> [] | Some r \<Rightarrow> [(''replicas'', JInt r)])"

text \<open>\<open>RuntimeActionSerializer\<close>.\<close>

definition validate_action :: "action_data \<Rightarrow> string option" where
  "validate_action ad =
     (if ad_action ad \<notin> {''start'', ''stop'', ''restart'', ''scale''} then Some ''Not a valid choice.''
      else if (case ad_replicas ad of None \<Rightarrow> False | Some r \<Rightarrow> r < 1 \<or> r > 50) then Some ''Replicas are out of range.''
      else if ad_action ad = ''scale'' then
        (if ad_component ad = None \<or> ad_replicas ad = None then Some ''Scale requires a component and replicas.'' else None)
      else if ad_component ad \<noteq> None \<or> ad_replicas ad \<noteq> None then
        Some ''Component and replicas are accepted only for scale.''
      else None)"

definition allowed_states :: "string \<Rightarrow> string list" where
  "allowed_states act =
     (if act = ''start'' then [''stopped'', ''failed'', ''unknown'']
      else if act = ''stop'' then [''running'', ''degraded'', ''failed'', ''unknown'']
      else if act = ''restart'' then [''running'', ''degraded'']
      else [''running'', ''degraded'', ''stopped''])"

definition validate_transition :: "deployment_row \<Rightarrow> string \<Rightarrow> api_response option" where
  "validate_transition d act =
     (if dp_deleted_at d \<noteq> None then
        Some (Problem ''A deleted deployment cannot accept runtime actions.'' ''deployment_deleted'' 409)
      else if dp_observed_state d \<notin> set (allowed_states act) then
        Some (Problem (''Action '' @ act @ '' is not valid while the deployment is '' @ dp_observed_state d @ ''.'')
          ''invalid_runtime_transition'' 409)
      else None)"

definition action_supported :: "json \<Rightarrow> string \<Rightarrow> bool" where
  "action_supported capabilities act = (case capabilities of
     JObj c \<Rightarrow>
       if act \<in> {''start'', ''stop''} then dget c ''start_stop'' = JBool True
       else if act = ''restart'' then dget c ''restart'' = JBool True
       else (case dget c ''scaling'' of
          JObj s \<Rightarrow> (case dget s ''fixed'' of JObj _ \<Rightarrow> True | _ \<Rightarrow> False) | _ \<Rightarrow> False)
   | _ \<Rightarrow> False)"

definition validate_action_capability :: "db \<Rightarrow> deployment_row \<Rightarrow> string \<Rightarrow> api_response option" where
  "validate_action_capability db d act =
     (if action_supported (ev_capabilities (environment_of db d)) act then None
      else Some (Problem (''Action '' @ act @ '' is not supported by this environment.'') ''runtime_capability_unavailable'' 409))"

text \<open>What an action changes besides the counters: the deployment and the payload, or a response.\<close>

definition apply_scale :: "db \<Rightarrow> deployment_row \<Rightarrow> string \<Rightarrow> int \<Rightarrow> api_response + deployment_row \<times> json dict" where
  "apply_scale db locked slug replicas =
     (if slug \<notin> set (map k_slug (dp_components locked)) then
        Inl (Problem ''The requested component is not part of the deployment.'' ''component_not_found'' 400)
      else
        (let entries = (case dp_scaling locked of JObj m \<Rightarrow> m | _ \<Rightarrow> []);
             scaling = JObj (dput slug (JObj [(''mode'', JStr ''fixed''), (''replicas'', JInt replicas)]) entries)
         in case validate_runtime_scaling scaling (manifest_dict (rl_manifest (dp_release locked))) (environment_of db locked) of
              Inl e \<Rightarrow> Inl (ValidationFailed e)
            | Inr m \<Rightarrow> Inr (locked\<lparr>dp_scaling := scaling_json m,
                dp_components := map (\<lambda>k. if k_slug k = slug then k\<lparr>k_desired_replicas := replicas\<rparr> else k) (dp_components locked)\<rparr>,
                [(''component'', JStr slug), (''replicas'', JInt replicas)])))"

definition apply_action :: "db \<Rightarrow> deployment_row \<Rightarrow> action_data \<Rightarrow> api_response + deployment_row \<times> json dict" where
  "apply_action db locked ad =
     (if ad_action ad = ''start'' then Inr (locked\<lparr>dp_desired_state := ''running''\<rparr>, [])
      else if ad_action ad = ''stop'' then Inr (locked\<lparr>dp_desired_state := ''stopped''\<rparr>, [])
      else if ad_action ad = ''scale'' then
        (case (ad_component ad, ad_replicas ad) of
           (Some slug, Some replicas) \<Rightarrow> apply_scale db locked slug replicas
         | _ \<Rightarrow> Inl (ValidationFailed ''Scale requires a component and replicas.''))
      else Inr (locked, []))"

definition actions ::
  "bool \<Rightarrow> api_request \<Rightarrow> string \<Rightarrow> action_data \<Rightarrow> string \<Rightarrow> int \<Rightarrow> db \<Rightarrow> db \<Rightarrow> api_response \<times> db" where
  "actions runtime_enabled rq pk ad new_id now db0 db =
     (case (get_deployment db0 pk, validate_action ad) of
        (None, _) \<Rightarrow> (not_found_response, db)
      | (Some _, Some e) \<Rightarrow> (ValidationFailed e, db)
      | (Some _, None) \<Rightarrow>
          (let hash = request_hash (''action:'' @ pk) (JObj (action_items ad)); act = ad_action ad in
           case first_response [replay rq hash db0, runtime_unavailable runtime_enabled] of
             Some r \<Rightarrow> (r, db)
           | None \<Rightarrow>
               (case get_deployment db pk of
                  None \<Rightarrow> (not_found_response, db)
                | Some locked \<Rightarrow>
                    (case first_response [replay rq hash db,
                        revision_precondition rq (dp_revision locked) ''deployment'',
                        environment_unavailable db locked, busy_response db locked,
                        validate_action_capability db locked act, validate_transition locked act,
                        (if dp_controller_id locked = [] \<and> act \<noteq> ''start''
                         then Some (Problem ''Retry the deployment before requesting this action.'' ''runtime_identity_unavailable'' 409)
                         else None)] of
                       Some r \<Rightarrow> (r, db)
                     | None \<Rightarrow>
                         (case apply_action db locked ad of
                            Inl r \<Rightarrow> (r, db)
                          | Inr (d1, payload) \<Rightarrow>
                              (let d = bump (d1\<lparr>dp_observed_state := ''reconciling''\<rparr>)
                               in commit_mutation rq d
                                    (if act = ''start'' \<and> dp_controller_id locked = [] then ''deploy'' else act)
                                    hash payload new_id now (save_deployment d db) db))))))"


section \<open>Log requests\<close>

record log_data =
  ld_component :: string
  ld_tail_lines :: int
  ld_since_seconds :: int

definition log_items :: "log_data \<Rightarrow> json dict" where
  "log_items ld = [(''component'', JStr (ld_component ld)), (''tail_lines'', JInt (ld_tail_lines ld)),
     (''since_seconds'', JInt (ld_since_seconds ld))]"

text \<open>\<open>RuntimeLogRequestSerializer\<close>.\<close>

definition validate_log :: "log_data \<Rightarrow> string option" where
  "validate_log ld =
     (if \<not> (1 \<le> ld_tail_lines ld \<and> ld_tail_lines ld \<le> 1000) \<or> \<not> (1 \<le> ld_since_seconds ld \<and> ld_since_seconds ld \<le> 604800)
      then Some ''A value is out of range.'' else None)"

definition log_limit_response :: "json \<Rightarrow> int \<Rightarrow> api_response option" where
  "log_limit_response capabilities tail_lines =
     (let log_limits = (case capabilities of JObj c \<Rightarrow> dget_or (JObj []) c ''logs'' | _ \<Rightarrow> JObj [])
      in case log_limits of
        JObj l \<Rightarrow>
          (case dget l ''max_lines'' of
             JInt maximum \<Rightarrow>
               if \<not> (1 \<le> maximum \<and> maximum \<le> 1000) then
                 Some (Problem ''The runtime environment has an invalid log contract.'' ''runtime_environment_invalid'' 503)
               else if tail_lines > maximum then
                 Some (Problem ''The requested log tail exceeds the environment limit.'' ''log_limit_exceeded'' 400)
               else None
           | _ \<Rightarrow> Some (Problem ''The runtime environment has an invalid log contract.'' ''runtime_environment_invalid'' 503))
      | _ \<Rightarrow> Some (Problem ''Logs are not supported by this environment.'' ''runtime_capability_unavailable'' 409))"

definition log_checks :: "db \<Rightarrow> deployment_row \<Rightarrow> log_data \<Rightarrow> api_response option list" where
  "log_checks db locked ld =
     [environment_unavailable db locked,
      (if list_ex (\<lambda>op. o_deployment op = dp_id locked \<and> o_type op = ''log_snapshot'' \<and> is_active op) (db_operations db)
       then Some (Problem ''Another log snapshot is already in progress for this deployment.'' ''log_snapshot_in_progress'' 409)
       else None),
      (if dp_controller_id locked = []
       then Some (Problem ''Logs are unavailable until the deployment has a runtime identity.'' ''runtime_identity_unavailable'' 409)
       else None),
      (if dp_observed_state locked \<notin> {''running'', ''degraded'', ''stopped'', ''failed'', ''unknown''}
       then Some (Problem ''Logs are unavailable during this runtime transition.'' ''invalid_runtime_transition'' 409)
       else None),
      (if ld_component ld \<notin> set (map k_slug (dp_components locked))
       then Some (Problem ''The requested log component is not part of the deployment.'' ''component_not_found'' 400)
       else None),
      log_limit_response (ev_capabilities (environment_of db locked)) (ld_tail_lines ld)]"

definition log_requests ::
  "bool \<Rightarrow> api_request \<Rightarrow> string \<Rightarrow> log_data \<Rightarrow> string \<Rightarrow> int \<Rightarrow> db \<Rightarrow> db \<Rightarrow> api_response \<times> db" where
  "log_requests runtime_enabled rq pk ld new_id now db0 db =
     (case (get_deployment db0 pk, validate_log ld) of
        (None, _) \<Rightarrow> (not_found_response, db)
      | (Some _, Some e) \<Rightarrow> (ValidationFailed e, db)
      | (Some _, None) \<Rightarrow>
          (let hash = request_hash (''logs:'' @ pk) (JObj (log_items ld)) in
           case first_response [replay_operation rq hash db0, runtime_unavailable runtime_enabled] of
             Some r \<Rightarrow> (r, db)
           | None \<Rightarrow>
               (case get_deployment db pk of
                  None \<Rightarrow> (not_found_response, db)
                | Some locked \<Rightarrow>
                    (case first_response ([replay_operation rq hash db,
                         revision_precondition rq (dp_revision locked) ''deployment''] @ log_checks db locked ld) of
                       Some r \<Rightarrow> (r, db)
                     | None \<Rightarrow>
                         (let op = new_operation rq locked ''log_snapshot'' hash (log_items ld) new_id now in
                          case create_operation op db of
                            None \<Rightarrow> (idempotency_conflict, db)
                          | Some db' \<Rightarrow> (OperationReply op 202 False, db'))))))"


section \<open>Creating a deployment\<close>

record create_data =
  cd_application :: int
  cd_environment :: string
  cd_version :: string
  cd_configuration :: json
  cd_secret_refs :: json
  cd_scaling :: json

definition create_items :: "create_data \<Rightarrow> json dict" where
  "create_items cd = [(''application_id'', JInt (cd_application cd)), (''environment'', JStr (cd_environment cd)),
     (''version'', JStr (cd_version cd)), (''configuration'', cd_configuration cd),
     (''secret_refs'', cd_secret_refs cd), (''scaling'', cd_scaling cd)]"

definition get_application :: "db \<Rightarrow> int \<Rightarrow> application_row option" where
  "get_application db i = find (\<lambda>a. ap_id a = i) (db_applications db)"

definition manifest_components :: "json dict \<Rightarrow> json \<Rightarrow> component_row list" where
  "manifest_components manifest scaling = (case dget manifest ''modules'' of
     JList ms \<Rightarrow> map (\<lambda>m.
       let d = manifest_dict m; slug = (case dget d ''slug'' of JStr s \<Rightarrow> s | _ \<Rightarrow> []) in
       \<lparr>k_module_id = dget d ''module_id'', k_slug = slug,
        k_image_digest = (case dget d ''image'' of JStr i \<Rightarrow> i | _ \<Rightarrow> []),
        k_desired_replicas = policy_replicas scaling slug, k_ready_replicas = 0, k_available_replicas = 0,
        k_state = ''pending'', k_health = ''unknown'', k_restart_count = 0, k_last_error = []\<rparr>) ms
   | _ \<Rightarrow> [])"

definition new_deployment ::
  "api_request \<Rightarrow> create_data \<Rightarrow> release_row \<Rightarrow> json \<Rightarrow> json \<Rightarrow> json \<Rightarrow> string \<Rightarrow> deployment_row" where
  "new_deployment rq cd rl configuration secret_refs scaling new_id =
     \<lparr>dp_id = new_id, dp_application = cd_application cd, dp_environment = cd_environment cd, dp_release = rl,
      dp_desired_state = ''running'', dp_observed_state = ''pending'', dp_controller_id = [],
      dp_configuration = configuration, dp_secret_refs = secret_refs, dp_scaling = scaling,
      dp_generation = 1, dp_observed_generation = 0, dp_revision = 1, dp_last_error = [],
      dp_last_reconciled_at = None, dp_created_by_label = actor_label rq, dp_deleted_at = None,
      dp_components = manifest_components (manifest_dict (rl_manifest rl)) scaling\<rparr>"

definition deployment_exists :: "create_data \<Rightarrow> db \<Rightarrow> bool" where
  "deployment_exists cd db = list_ex (\<lambda>d. dp_application d = cd_application cd
     \<and> dp_environment d = cd_environment cd \<and> dp_deleted_at d = None) (db_deployments db)"

definition validate_create :: "create_data \<Rightarrow> release_row \<Rightarrow> environment_row \<Rightarrow> string + json \<times> json \<times> json" where
  "validate_create cd rl ev =
     (let manifest = manifest_dict (rl_manifest rl) in
      bindE (validate_runtime_scaling (cd_scaling cd) manifest ev) (\<lambda>scaling.
      bindE (validate_runtime_configuration (cd_configuration cd) manifest) (\<lambda>configuration.
      bindE (validate_runtime_secret_references (cd_secret_refs cd) manifest ev) (\<lambda>secret_refs.
      Inr (values_json configuration, values_json secret_refs, scaling_json scaling)))))"

definition create_locked ::
  "api_request \<Rightarrow> create_data \<Rightarrow> string \<Rightarrow> string \<Rightarrow> string \<Rightarrow> int \<Rightarrow> application_row \<Rightarrow> environment_row \<Rightarrow> db \<Rightarrow> api_response \<times> db" where
  "create_locked rq cd hash new_dp new_op now ap ev db =
     (case first_response [replay rq hash db, revision_precondition rq (ap_revision ap) ''application'',
         (if deployment_exists cd db
          then Some (Problem ''This application already has an active deployment in that environment.'' ''deployment_exists'' 409)
          else None)] of
        Some r \<Rightarrow> (r, db)
      | None \<Rightarrow>
          (case runtime_release_for ap (cd_version cd) ev db of
             (Inl (NotDeployable e), db1) \<Rightarrow> (Problem e ''release_not_deployable'' 409, db1)
           | (Inr rl, db1) \<Rightarrow>
               (case validate_create cd rl ev of
                  Inl e \<Rightarrow> (ValidationFailed e, db1)
                | Inr (configuration, secret_refs, scaling) \<Rightarrow>
                    (let d = new_deployment rq cd rl configuration secret_refs scaling new_dp;
                         db2 = db1\<lparr>db_deployments := db_deployments db1 @ [d]\<rparr>
                     in commit_mutation rq d ''deploy'' hash [] new_op now db2 db))))"

definition create_deployment ::
  "bool \<Rightarrow> api_request \<Rightarrow> create_data \<Rightarrow> string \<Rightarrow> string \<Rightarrow> int \<Rightarrow> db \<Rightarrow> db \<Rightarrow> api_response \<times> db" where
  "create_deployment runtime_enabled rq cd new_dp new_op now db0 db =
     (let hash = request_hash ''create'' (JObj (create_items cd)) in
      case (get_application db0 (cd_application cd), get_environment db0 (cd_environment cd)) of
        (Some ap0, Some ev) \<Rightarrow>
          (case first_response [replay rq hash db0, runtime_unavailable runtime_enabled,
              revision_precondition rq (ap_revision ap0) ''application''] of
             Some r \<Rightarrow> (r, db)
           | None \<Rightarrow> (case get_application db (cd_application cd) of
               None \<Rightarrow> (not_found_response, db)
             | Some ap \<Rightarrow> create_locked rq cd hash new_dp new_op now ap ev db))
      | _ \<Rightarrow> (ValidationFailed ''Object does not exist.'', db))"

end
