(* ===== verification/Reconciler_Facts.thy ===== *)
theory Reconciler_Facts
  imports Reconciler
begin

text \<open>
  What the reconciler does to the cluster, for every API server and every failure.

  Every request of an operation stays in the controller's own namespace, apart from the read
  of the secret catalog in the namespace the settings give for it.
\<close>

section \<open>Requests stay in the namespace\<close>

definition own_path :: "controller_settings \<Rightarrow> string \<Rightarrow> bool" where
  "own_path settings p \<longleftrightarrow>
     (\<exists>pre plural seg. (pre, plural) \<in> snd ` set RESOURCE_ENDPOINTS \<and> CHR ''/'' \<notin> set seg
        \<and> (let base = pre @ ''/namespaces/'' @ quote (s_namespace settings) @ ''/'' @ quote plural
           in p = base \<or> p = base @ ''/'' @ seg \<or> p = base @ ''/'' @ seg @ ''/log''))"

definition confined :: "controller_settings \<Rightarrow> event \<Rightarrow> bool" where
  "confined settings ev = (case ev of
     Sleep _ \<Rightarrow> True
   | Request r \<Rightarrow> own_path settings (r_path r)
       \<or> r_method r = ''GET'' \<and> r_path r = object_path settings ''ConfigMap'' (s_secret_catalog_name settings)
            (Some (s_secret_catalog_namespace settings)))"

lemma own_path_resource:
  assumes "map_of RESOURCE_ENDPOINTS kind = Some (pre, plural)"
  shows "own_path settings (resource_path settings pre plural name None)"
    and "name \<noteq> [] \<Longrightarrow> own_path settings (resource_path settings pre plural name None @ ''/log'')"
proof -
  have ep: "(pre, plural) \<in> snd ` set RESOURCE_ENDPOINTS" using map_of_SomeD [OF assms] by force
  show "own_path settings (resource_path settings pre plural name None)"
    unfolding own_path_def
    by (intro exI [of _ pre] exI [of _ plural] exI [of _ "quote name"] conjI ep slash_not_quoted)
      (auto simp: resource_path_def Let_def)
  show "own_path settings (resource_path settings pre plural name None @ ''/log'')" if "name \<noteq> []"
    unfolding own_path_def
    by (intro exI [of _ pre] exI [of _ plural] exI [of _ "quote name"] conjI ep slash_not_quoted)
      (use that in \<open>auto simp: resource_path_def Let_def\<close>)
qed

lemma own_path_object: "kind \<in> kinds \<Longrightarrow> own_path settings (object_path settings kind name None)"
  using own_path_resource(1) [of kind] by (auto simp: object_path_def endpoint_eq_Inr dest!: endpoint_kinds)

named_theorems confined_intros \<open>computations whose requests stay in the namespace\<close>

lemma confined_send [confined_intros]:
  "own_path settings path \<Longrightarrow> does (confined settings) (send_request mth path ex ps c ct)"
  by (rule does_send_request) (simp add: confined_def)

lemma confined_get [confined_intros]:
  "kind \<in> kinds \<Longrightarrow> does (confined settings) (kube_get settings kind name None)"
  by (rule does_kube_get) (simp add: confined_def own_path_object)

lemma confined_catalog [confined_intros]:
  "does (confined settings) (kube_get settings ''ConfigMap'' (s_secret_catalog_name settings)
     (Some (s_secret_catalog_namespace settings)))"
  by (rule does_kube_get) (simp add: confined_def)

lemma confined_list [confined_intros]:
  "kind \<in> kinds \<Longrightarrow> does (confined settings) (kube_list settings kind sel)"
  by (rule does_kube_list) (simp add: confined_def own_path_object)

lemma confined_delete [confined_intros]:
  "kind \<in> kinds \<Longrightarrow> does (confined settings) (kube_delete settings kind name)"
  by (rule does_kube_delete) (simp add: confined_def own_path_object)

lemma confined_apply:
  "named_resource kind name r \<Longrightarrow> does (confined settings) (apply_resource settings r)"
  by (frule does_apply_resource [where P = "confined settings"])
    (simp_all add: confined_def own_path_object named_resource_def)

lemma confined_emit_sleep [confined_intros]: "does (confined settings) (emitK (Sleep t))"
  by (rule does_emitK) (simp add: confined_def)

lemma confined_create_lease [confined_intros]: "does (confined settings) (create_lease settings r)"
  unfolding create_lease_def
  by (auto split: json.splits intro!: does_intros does_endpoint confined_send own_path_resource(1))

lemma confined_replace_lease [confined_intros]: "does (confined settings) (replace_lease settings r)"
  unfolding replace_lease_def
  by (auto split: json.splits intro!: does_intros does_endpoint confined_send own_path_resource(1))

lemma confined_release_lease [confined_intros]: "does (confined settings) (release_lease settings name holder)"
  unfolding release_lease_def
  by (auto split: json.splits intro!: does_intros confined_get does_endpoint confined_send own_path_resource(1))

lemma confined_pod_logs [confined_intros]:
  "pod \<noteq> [] \<Longrightarrow> does (confined settings) (pod_logs settings pod c t s)"
  unfolding pod_logs_def
  by (intro does_intros does_endpoint confined_send own_path_resource(2)) assumption+


lemma confined_try_acquire [confined_intros]: "does (confined settings) (try_acquire settings name did holder)"
  unfolding try_acquire_def by (intro does_intros confined_intros) simp_all

lemma confined_acquire_loop [confined_intros]:
  "does (confined settings) (acquire_loop n settings deadline name did holder)"
proof (induction n)
  case 0
  show ?case unfolding acquire_loop.simps by (rule does_raiseK)
next
  case (Suc n)
  show ?case unfolding acquire_loop.simps Let_def by (intro does_intros confined_intros Suc)
qed

lemma confined_acquire [confined_intros]: "does (confined settings) (acquire settings name did holder)"
  unfolding acquire_def by (intro does_intros confined_intros)

lemma does_hold_outcome:
  assumes "\<And>e. does P (f e)" "\<And>x. does P (g x)"
  shows "does P (case r of Inl e \<Rightarrow> f e | Inr x \<Rightarrow> g x)"
  using assms by (cases r) simp_all

lemma confined_release_after_failure [confined_intros]:
  "does (confined settings) (release_after_failure settings name holder e)"
  unfolding release_after_failure_def Let_def
  by (intro does_intros confined_intros) (auto split: exn.splits intro: does_intros)

lemma confined_release_after_success [confined_intros]:
  "does (confined settings) (release_after_success settings name holder)"
  unfolding release_after_success_def by (intro does_intros confined_intros)

lemma confined_hold [confined_intros]:
  "does (confined settings) body \<Longrightarrow> does (confined settings) (hold settings did body)"
  unfolding hold_def Let_def
  by (intro does_intros confined_intros does_hold_outcome)


subsection \<open>The objects the reconciler applies\<close>

lemma names_not_empty [simp]: "state_name did \<noteq> []" "component_name did sl suf \<noteq> []"
  by (simp_all add: state_name_def component_name_def Let_def)

lemma named_state [simp]:
  "named_resource ''ConfigMap'' (state_name (d_deployment_id d)) (state_config_map d settings ph rid)"
  by (simp add: named_resource_def state_config_map_def)

lemma named_component_config [simp]:
  "named_resource ''ConfigMap'' (component_name (d_deployment_id d) (c_slug c) ''-cfg'') (component_config_map d c settings)"
  by (simp add: named_resource_def component_config_map_def)

lemma named_deployment [simp]:
  "named_resource ''Deployment'' (component_name (d_deployment_id d) (c_slug c) []) (deployment_resource d c settings rr)"
  by (simp add: named_resource_def deployment_resource_def Let_def)

lemma named_service [simp]:
  "named_resource ''Service'' (component_name (d_deployment_id d) (c_slug c) []) (service_resource d c settings)"
  by (simp add: named_resource_def service_resource_def Let_def)

lemma named_hpa:
  "hpa_resource d c settings = Inr r \<Longrightarrow>
   named_resource ''HorizontalPodAutoscaler'' (component_name (d_deployment_id d) (c_slug c) []) r"
  by (auto simp: named_resource_def hpa_resource_def Let_def split: scaling_policy.splits)

lemma does_liftK_bind:
  "(\<And>x. r = Inr x \<Longrightarrow> does P (f x)) \<Longrightarrow> does P (bindK (liftK r) f)"
  by (cases r) (auto simp: does_def bindK_def)


lemmas confined_applies [confined_intros] =
  confined_apply [OF named_state] confined_apply [OF named_component_config]
  confined_apply [OF named_deployment] confined_apply [OF named_service]

lemma confined_apply_hpa [confined_intros]:
  "does (confined settings) (bindK (liftK (hpa_resource d c settings)) (\<lambda>hpa.
     bindK (apply_resource settings hpa) (\<lambda>_. retK ())))"
  by (intro does_liftK_bind does_bindK does_retK confined_apply) (erule named_hpa)


subsection \<open>The operations\<close>

lemma confined_state_of [confined_intros]: "does (confined settings) (state_of settings did)"
  unfolding state_of_def by (intro does_intros confined_intros) simp_all

lemma confined_any_remaining [confined_intros]:
  "(\<And>kind name. (kind, name) \<in> set targets \<Longrightarrow> kind \<in> kinds) \<Longrightarrow>
   does (confined settings) (any_remaining settings targets)"
  unfolding any_remaining_def by (intro does_intros confined_intros) auto

lemma confined_observe [confined_intros]: "does (confined settings) (observe settings did)"
  unfolding observe_def observe_deleting_def observe_components_def
  by (intro does_intros confined_intros) (auto simp: owned_kinds_def Let_def)

lemma confined_assert_owned [confined_intros]:
  "kind \<in> kinds \<Longrightarrow> does (confined settings) (assert_owned settings kind name d sl)"
  unfolding assert_owned_def by (intro does_intros confined_intros)

lemma confined_assert_owned_resources [confined_intros]:
  "does (confined settings) (assert_owned_resources settings d)"
  unfolding assert_owned_resources_def
  by (intro does_intros confined_intros) (auto simp: owned_targets_def Let_def)

lemma confined_cleanup [confined_intros]: "does (confined settings) (cleanup_legacy_tombstones settings)"
  unfolding cleanup_legacy_tombstones_def by (intro does_intros confined_intros) simp_all

lemma confined_preflight [confined_intros]: "does (confined settings) (preflight_deploy settings d)"
  unfolding preflight_deploy_def validate_secret_catalog_def Let_def
  by (intro does_intros confined_intros)

lemma confined_apply_component [confined_intros]:
  "does (confined settings) (apply_component settings d rr c)"
  unfolding apply_component_def Let_def
  by (intro does_bindK confined_intros; intro does_intros confined_intros; simp)

lemma confined_deploy_unlocked [confined_intros]:
  "does (confined settings) (deploy_unlocked settings d rid ex rr)"
  unfolding deploy_unlocked_def by (intro does_intros confined_intros)

lemma confined_delete_component [confined_intros]:
  "does (confined settings) (delete_component settings did c)"
  unfolding delete_component_def Let_def by (intro does_intros confined_intros) simp_all

lemma confined_remove_all [confined_intros]:
  "does (confined settings) (remove_all_resources settings did rid d)"
  unfolding remove_all_resources_def by (intro does_intros confined_intros)

lemma confined_undeploy_unlocked [confined_intros]:
  "does (confined settings) (undeploy_unlocked settings did rid desired)"
  unfolding undeploy_unlocked_def by (intro does_intros confined_intros) simp_all

lemma confined_logs [confined_intros]: "does (confined settings) (logs settings did sl t s)"
  unfolding logs_def Let_def
  by (intro does_intros confined_intros) (auto split: json.splits intro!: does_intros confined_intros)

theorem confined_operations:
  "does (confined settings) (deploy settings d rid ex rr)"
  "does (confined settings) (action settings d act rid)"
  "does (confined settings) (undeploy settings did rid desired)"
  "does (confined settings) (observe settings did)"
  "does (confined settings) (logs settings did sl t s)"
  unfolding deploy_def action_def undeploy_def
  by (intro does_intros confined_intros)+

end
