(* ===== verification/Reconciler_Plans.thy ===== *)
theory Reconciler_Plans
  imports Reconciler_Facts
begin

text \<open>
  The writes of a run, for every API server and every failure.

  \<open>emits L m\<close> says that a run of \<open>m\<close> that returns performs one of the sequences of writes of
  \<open>L\<close>, and that a run that raises performs a prefix of one. The plans \<open>deploy_plan\<close> and
  \<open>removal_plan\<close> are the sequences of the loops of the source.
\<close>

section \<open>The writes of a run\<close>

definition emits :: "kube_write list set \<Rightarrow> 'a kube \<Rightarrow> bool" where
  "emits L m \<longleftrightarrow> (\<forall>env h r h'. m env h = (r, h') \<longrightarrow>
     (\<exists>es. h' = es @ h \<and> (case r of Inl _ \<Rightarrow> \<exists>w \<in> L. prefix (writes es) w | Inr _ \<Rightarrow> writes es \<in> L)))"

definition seqs :: "kube_write list set \<Rightarrow> kube_write list set \<Rightarrow> kube_write list set" where
  "seqs A B = {a @ b | a b. a \<in> A \<and> b \<in> B}"

lemma seqsI [intro]: "a \<in> A \<Longrightarrow> b \<in> B \<Longrightarrow> a @ b \<in> seqs A B"
  by (auto simp: seqs_def)

named_theorems emits_intros \<open>rules for the writes of a run\<close>

lemma emits_InrD: "emits L m \<Longrightarrow> m env h = (Inr x, h') \<Longrightarrow> \<exists>es. h' = es @ h \<and> writes es \<in> L"
  unfolding emits_def by fastforce

lemma emits_InlD: "emits L m \<Longrightarrow> m env h = (Inl e, h') \<Longrightarrow> \<exists>es. h' = es @ h \<and> (\<exists>w \<in> L. prefix (writes es) w)"
  unfolding emits_def by fastforce

lemma emits_nonempty: assumes "emits L m" shows "\<exists>w. w \<in> L"
proof -
  obtain r h' where m: "m undefined [] = (r, h')" by (cases "m undefined []")
  with assms show ?thesis by (cases r) (auto dest: emits_InlD emits_InrD)
qed

lemma emits_performs: "performs ws m \<Longrightarrow> emits {ws} m"
  unfolding emits_def performs_def by (fastforce split: sum.splits)

lemma emits_mono: "emits L m \<Longrightarrow> L \<subseteq> L' \<Longrightarrow> emits L' m"
  unfolding emits_def by (fastforce split: sum.splits)

lemma emits_bindK:
  assumes m: "emits A m" and f: "\<And>x. emits B (f x)"
  shows "emits (seqs A B) (bindK m f)"
  unfolding emits_def
proof (intro allI impI)
  fix env h r h'' assume "bindK m f env h = (r, h'')"
  then show "\<exists>es. h'' = es @ h \<and> (case r of Inl _ \<Rightarrow> \<exists>w \<in> seqs A B. prefix (writes es) w | Inr _ \<Rightarrow> writes es \<in> seqs A B)"
  proof (cases rule: bindK_cases)
    case (raised e)
    obtain b where b: "b \<in> B" using emits_nonempty [OF f] by blast
    from emits_InlD [OF m raised(1)] obtain es w where "h'' = es @ h" "w \<in> A" "prefix (writes es) w" by blast
    then show ?thesis using raised(2) b
      by (auto intro!: bexI [of _ "w @ b"] prefix_prefix)
  next
    case (continued x h')
    from emits_InrD [OF m continued(1)] obtain es where es: "h' = es @ h" "writes es \<in> A" by blast
    show ?thesis
    proof (cases r)
      case (Inl e)
      with emits_InlD [OF f] continued(2) obtain fs w
        where "h'' = fs @ h'" "w \<in> B" "prefix (writes fs) w" by blast
      then show ?thesis using es Inl by (auto intro!: bexI [of _ "writes es @ w"])
    next
      case (Inr y)
      with emits_InrD [OF f] continued(2) obtain fs where "h'' = fs @ h'" "writes fs \<in> B" by blast
      then show ?thesis using es Inr by auto
    qed
  qed
qed

lemma seqs_simps [simp]: "seqs {[]} B = B" "seqs A {[]} = A" "seqs {ws} {vs} = {ws @ vs}"
  by (auto simp: seqs_def)

lemma emits_read_bind [emits_intros]:
  "performs [] m \<Longrightarrow> (\<And>x. emits B (f x)) \<Longrightarrow> emits B (bindK m f)"
  using emits_bindK [OF emits_performs, of "[]" m B f] by simp

lemma emits_raiseK [emits_intros]: "w \<in> L \<Longrightarrow> emits L (raiseK e)"
  unfolding emits_def by auto

lemma emits_retK [emits_intros]: "[] \<in> L \<Longrightarrow> emits L (retK x)"
  unfolding emits_def by auto

lemma emits_if [emits_intros]: "(b \<Longrightarrow> emits L m) \<Longrightarrow> (\<not> b \<Longrightarrow> emits L m') \<Longrightarrow> emits L (if b then m else m')"
  by simp

lemma emits_case_option [emits_intros]:
  "(v = None \<Longrightarrow> emits L m) \<Longrightarrow> (\<And>x. v = Some x \<Longrightarrow> emits L (f x)) \<Longrightarrow>
   emits L (case v of None \<Rightarrow> m | Some x \<Rightarrow> f x)"
  by (cases v) simp_all

lemma emits_liftK_bind: "w \<in> L \<Longrightarrow> (\<And>x. r = Inr x \<Longrightarrow> emits L (f x)) \<Longrightarrow> emits L (bindK (liftK r) f)"
  by (cases r) (auto simp: emits_def bindK_def)

lemma emits_forK:
  assumes "\<And>x. x \<in> set xs \<Longrightarrow> emits {ws. \<forall>w \<in> set ws. Q w} (f x)"
  shows "emits {ws. \<forall>w \<in> set ws. Q w} (forK f xs)"
  using assms
proof (induction xs)
  case Nil
  show ?case unfolding forK.simps by (rule emits_retK) simp
next
  case (Cons x xs)
  have "seqs {ws. \<forall>w \<in> set ws. Q w} {ws. \<forall>w \<in> set ws. Q w} \<subseteq> {ws. \<forall>w \<in> set ws. Q w}"
    by (auto simp: seqs_def)
  then show ?case unfolding forK.simps
    using emits_mono [OF emits_bindK [OF Cons.prems [of x] Cons.IH]] Cons.prems by simp
qed

lemma emits_tryK:
  assumes m: "emits L m" and f: "\<And>e. emits {[]} (f e)" and pre: "\<And>w v. w \<in> L \<Longrightarrow> prefix v w \<Longrightarrow> v \<in> L"
  shows "emits L (tryK m f)"
  unfolding emits_def
proof (intro allI impI)
  fix env h r h'' assume run: "tryK m f env h = (r, h'')"
  obtain r1 h1 where m1: "m env h = (r1, h1)" by (cases "m env h")
  show "\<exists>es. h'' = es @ h \<and> (case r of Inl _ \<Rightarrow> \<exists>w \<in> L. prefix (writes es) w | Inr _ \<Rightarrow> writes es \<in> L)"
  proof (cases r1)
    case (Inr x)
    with run m1 m show ?thesis by (auto dest: emits_InrD)
  next
    case (Inl e)
    with m m1 obtain es w where es: "h1 = es @ h" "w \<in> L" "prefix (writes es) w" by (blast dest: emits_InlD)
    have f1: "f e env h1 = (r, h'')" using run m1 Inl by simp
    have "\<exists>fs. h'' = fs @ h1 \<and> writes fs = []"
      using emits_InlD [OF f] emits_InrD [OF f] f1 by (cases r) fastforce+
    then obtain fs where "h'' = fs @ h1" "writes fs = []" by blast
    with es pre show ?thesis by (auto split: sum.splits intro!: exI [of _ "fs @ es"])
  qed
qed


subsection \<open>Observation writes at most one thing: the removal of a finished state object\<close>

definition state_removal :: "controller_settings \<Rightarrow> string \<Rightarrow> kube_write list set" where
  "state_removal settings did = {[], [delete_write settings ''ConfigMap'' (state_name did)]}"

lemma performs_state_of [performs_intros]: "performs [] (state_of settings did)"
  unfolding state_of_def by (intro performs_intros)

lemma performs_any_remaining [performs_intros]: "performs [] (any_remaining settings ts)"
  unfolding any_remaining_def by (intro performs_intros)

lemma emits_delete: "kind \<in> kinds \<Longrightarrow> emits {[delete_write settings kind name]} (kube_delete settings kind name)"
  by (intro emits_performs performs_delete)

lemma emits_then_ret: "emits L m \<Longrightarrow> emits L (bindK m (\<lambda>_. retK x))"
  using emits_bindK [of L m "{[]}" "\<lambda>_. retK x"] by (simp add: emits_retK)

lemma emits_remove_state:
  "emits (state_removal settings did) (bindK (kube_delete settings ''ConfigMap'' (state_name did)) (\<lambda>_. retK x))"
  by (intro emits_then_ret emits_mono [OF emits_delete]) (simp_all add: state_removal_def)

lemma emits_observe: "emits (state_removal settings did) (observe settings did)"
  unfolding observe_def observe_deleting_def observe_components_def
  by (intro emits_intros performs_intros emits_remove_state) (auto simp: state_removal_def)


lemma state_removal_prefix: "w \<in> state_removal settings did \<Longrightarrow> prefix v w \<Longrightarrow> v \<in> state_removal settings did"
  by (auto simp: state_removal_def prefix_Cons)


subsection \<open>The plan of a deployment\<close>

definition fixed_scaling :: "component \<Rightarrow> bool" where
  "fixed_scaling c = (case c_scaling c of Fixed _ \<Rightarrow> True | _ \<Rightarrow> False)"

definition component_plan :: "controller_settings \<Rightarrow> desired_deployment \<Rightarrow> string \<Rightarrow> component \<Rightarrow> kube_write list" where
  "component_plan settings d restart_request c =
     (let name = component_name (d_deployment_id d) (c_slug c) [] in
      (if d_desired_state d = ''stopped'' \<or> fixed_scaling c
       then [delete_write settings ''HorizontalPodAutoscaler'' name] else [])
      @ [patch_write settings ''ConfigMap'' (component_name (d_deployment_id d) (c_slug c) ''-cfg'')
           (component_config_map d c settings),
         patch_write settings ''Deployment'' name (deployment_resource d c settings restart_request),
         patch_write settings ''Service'' name (service_resource d c settings)]
      @ (if d_desired_state d = ''running'' \<and> \<not> fixed_scaling c
         then (case hpa_resource d c settings of
                 Inl _ \<Rightarrow> [] | Inr hpa \<Rightarrow> [patch_write settings ''HorizontalPodAutoscaler'' name hpa])
         else []))"

definition state_write :: "controller_settings \<Rightarrow> desired_deployment \<Rightarrow> string \<Rightarrow> string \<Rightarrow> kube_write" where
  "state_write settings d phase request_id =
     patch_write settings ''ConfigMap'' (state_name (d_deployment_id d)) (state_config_map d settings phase request_id)"

definition deploy_plan :: "controller_settings \<Rightarrow> desired_deployment \<Rightarrow> string \<Rightarrow> string \<Rightarrow> kube_write list" where
  "deploy_plan settings d request_id restart_request =
     state_write settings d ''reconciling'' request_id
     # concat (map (component_plan settings d restart_request) (d_components d))
     @ [state_write settings d (if d_desired_state d = ''running'' then ''active'' else ''stopped'') request_id]"

definition tombstone_removals :: "controller_settings \<Rightarrow> kube_write list set" where
  "tombstone_removals settings =
     {ws. \<forall>w \<in> set ws. \<exists>did. w = delete_write settings ''ConfigMap'' (state_name did)}"

lemma performs_apply_hpa:
  "performs (case hpa_resource d c settings of
       Inl _ \<Rightarrow> [] | Inr hpa \<Rightarrow> [patch_write settings ''HorizontalPodAutoscaler''
         (component_name (d_deployment_id d) (c_slug c) []) hpa])
     (bindK (liftK (hpa_resource d c settings)) (\<lambda>hpa. bindK (apply_resource settings hpa) (\<lambda>_. retK ())))"
proof (cases "hpa_resource d c settings")
  case (Inl e)
  then show ?thesis by (auto simp: performs_def bindK_def)
next
  case (Inr hpa)
  from performs_bind_last [OF performs_apply [OF named_hpa [OF Inr], of settings], of "\<lambda>_. retK ()"]
  show ?thesis using Inr by (simp add: performs_def bindK_def)
qed

lemmas performs_applies =
  performs_apply [OF named_state] performs_apply [OF named_component_config]
  performs_apply [OF named_deployment] performs_apply [OF named_service]

lemma performs_apply_component:
  "performs (component_plan settings d rr c) (apply_component settings d rr c)"
  unfolding apply_component_def component_plan_def Let_def fixed_scaling_def [symmetric] append_Cons append_Nil
  by (intro performs_bindK [of "if b then u else v" for b u v] performs_bind_write performs_applies)
    (auto intro: performs_delete performs_retK performs_apply_hpa)

lemma performs_assert_owned [performs_intros]: "performs [] (assert_owned settings kind name d sl)"
  unfolding assert_owned_def by (intro performs_intros)

lemma performs_assert_owned_resources [performs_intros]: "performs [] (assert_owned_resources settings d)"
  unfolding assert_owned_resources_def by (intro performs_intros)

lemma performs_preflight [performs_intros]: "performs [] (preflight_deploy settings d)"
  unfolding preflight_deploy_def validate_secret_catalog_def Let_def by (intro performs_intros)

lemma tombstone_name: "tombstone r = Some name \<Longrightarrow> \<exists>did. name = state_name did"
  by (auto simp: tombstone_def split: json.splits if_splits)

lemma emits_cleanup: "emits (tombstone_removals settings) (cleanup_legacy_tombstones settings)"
  unfolding cleanup_legacy_tombstones_def tombstone_removals_def
  by (intro emits_intros performs_intros emits_forK)
    (auto intro!: emits_mono [OF emits_delete] dest!: tombstone_name)

lemma emits_deploy_unlocked:
  "emits {ts @ deploy_plan settings d rid rr @ rs | ts rs.
        ts \<in> tombstone_removals settings \<and> rs \<in> state_removal settings (d_deployment_id d)}
     (deploy_unlocked settings d rid ex rr)"
proof -
  let ?T = "tombstone_removals settings" and ?R = "state_removal settings (d_deployment_id d)"
  let ?mid = "concat (map (component_plan settings d rr) (d_components d))"
  have "emits (seqs ?T (seqs {[state_write settings d ''reconciling'' rid]}
      (seqs {?mid} (seqs {[state_write settings d (if d_desired_state d = ''running'' then ''active'' else ''stopped'') rid]} ?R))))
      (deploy_unlocked settings d rid ex rr)"
    unfolding deploy_unlocked_def state_write_def
    by (intro emits_read_bind performs_intros emits_bindK emits_cleanup emits_observe
        emits_performs [OF performs_forK] emits_performs [OF performs_applies(1)] performs_apply_component)
  then show ?thesis by (rule emits_mono) (auto simp: seqs_def deploy_plan_def)
qed


subsection \<open>The plan of a removal\<close>

definition component_removals :: "controller_settings \<Rightarrow> string \<Rightarrow> component \<Rightarrow> kube_write list" where
  "component_removals settings did c =
     (let name = component_name did (c_slug c) [] in
      [delete_write settings ''HorizontalPodAutoscaler'' name, delete_write settings ''Deployment'' name,
       delete_write settings ''Service'' name,
       delete_write settings ''ConfigMap'' (component_name did (c_slug c) ''-cfg'')])"

definition removal_plan :: "controller_settings \<Rightarrow> string \<Rightarrow> string \<Rightarrow> desired_deployment \<Rightarrow> kube_write list" where
  "removal_plan settings did request_id d =
     state_write settings d ''deleting'' request_id # concat (map (component_removals settings did) (d_components d))"

lemma performs_delete_component: "performs (component_removals settings did c) (delete_component settings did c)"
  unfolding delete_component_def component_removals_def Let_def
  by (intro performs_bind_write performs_delete) simp_all

lemma emits_remove_all:
  "emits {removal_plan settings did rid d @ rs | rs. rs \<in> state_removal settings did}
     (remove_all_resources settings did rid d)"
proof -
  have obs: "emits (state_removal settings did) (tryK (observe settings did)
      (\<lambda>e. if e = RuntimeNotFound then retK (deleted_result d) else raiseK e))"
    by (rule emits_tryK [OF emits_observe], intro emits_intros) (auto elim: state_removal_prefix)
  have "emits (seqs {[state_write settings d ''deleting'' rid]}
      (seqs {concat (map (component_removals settings did) (d_components d))} (state_removal settings did)))
      (remove_all_resources settings did rid d)"
    unfolding remove_all_resources_def state_write_def
    by (intro emits_bindK obs emits_performs [OF performs_forK] emits_performs [OF performs_applies(1)]
        performs_delete_component)
  then show ?thesis by (rule emits_mono) (auto simp: seqs_def removal_plan_def)
qed

lemma emits_undeploy_unlocked:
  "emits (state_removal settings did \<union>
      {removal_plan settings did rid d @ rs | d rs. rs \<in> state_removal settings did})
     (undeploy_unlocked settings did rid desired)"
  unfolding undeploy_unlocked_def
  by (intro emits_intros performs_intros emits_mono [OF emits_remove_state] emits_mono [OF emits_remove_all])
    (auto simp: state_removal_def)


section \<open>Writes under the Lease\<close>

lemma send_request_Inr:
  assumes "send_request mth path ex ps c ct env h = (Inr resp, h')"
  shows "\<exists>hs raw. h' = Request \<lparr>r_method = mth, r_path = path, r_params = ps, r_content = c, r_headers = hs\<rparr> # h
    \<and> e_transport env h' = HttpReply raw \<and> read_response raw = Inr resp \<and> h_status resp \<in> ex"
  using assms unfolding send_request_def Let_def
  by (auto simp: bindK_def split: option.splits sum.splits if_splits http_outcome.splits)

lemma read_response_status: "read_response raw = Inr resp \<Longrightarrow> h_status resp = h_status raw"
  by (auto simp: read_response_def bindE_eq_Inr)

definition lease_path :: "controller_settings \<Rightarrow> string \<Rightarrow> string" where
  "lease_path settings name = object_path settings ''Lease'' name None"

text \<open>The newest event is a request that wrote the Lease, and the server accepted it.\<close>

definition lease_granted :: "controller_settings \<Rightarrow> string \<Rightarrow> env \<Rightarrow> history \<Rightarrow> bool" where
  "lease_granted settings name env h = (case h of
     Request q # _ \<Rightarrow> (\<exists>raw. e_transport env h = HttpReply raw
        \<and> (r_method q = ''POST'' \<and> r_path q = lease_path settings [] \<and> h_status raw = 201
           \<or> r_method q = ''PUT'' \<and> r_path q = lease_path settings name \<and> h_status raw = 200))
   | _ \<Rightarrow> False)"

definition lease_write :: "controller_settings \<Rightarrow> string \<Rightarrow> event \<Rightarrow> bool" where
  "lease_write settings name ev = (case ev of
     Sleep _ \<Rightarrow> True
   | Request q \<Rightarrow> r_method q = ''GET'' \<or> r_path q \<in> {lease_path settings [], lease_path settings name})"

lemma lease_endpoint: "map_of RESOURCE_ENDPOINTS ''Lease'' = Some (''/apis/coordination.k8s.io/v1'', ''leases'')"
  by (simp add: RESOURCE_ENDPOINTS_def)

lemma lease_path_eq: "lease_path settings name = resource_path settings ''/apis/coordination.k8s.io/v1'' ''leases'' name None"
  by (simp add: lease_path_def object_path_def lease_endpoint)

lemma create_lease_eq:
  assumes "named_resource ''Lease'' name r"
  shows "create_lease settings r = bindK (send_request ''POST'' (lease_path settings []) {201, 409} []
     (Some (body_of r)) (Some ''application/json'')) (\<lambda>resp. retK (h_status resp = 201))"
  using assms
  by (auto simp: named_resource_def create_lease_def lease_path_eq endpoint_def lease_endpoint bindK_def fun_eq_iff)

lemma replace_lease_eq:
  assumes "named_resource ''Lease'' name r" "dget r ''metadata'' = JObj m" "dget m ''resourceVersion'' = JStr v" "v \<noteq> []"
  shows "replace_lease settings r = bindK (send_request ''PUT'' (lease_path settings name) {200, 404, 409} []
     (Some (body_of r)) (Some ''application/json'')) (\<lambda>resp. retK (h_status resp = 200))"
  using assms
  by (auto simp: named_resource_def replace_lease_def lease_path_eq endpoint_def lease_endpoint bindK_def fun_eq_iff)

lemma lease_granted_send:
  assumes "bindK (send_request mth path ex ps c ct) (\<lambda>resp. retK (h_status resp = n)) env h = (Inr True, h')"
    and "mth = ''POST'' \<and> path = lease_path settings [] \<and> n = 201 \<or> mth = ''PUT'' \<and> path = lease_path settings name \<and> n = 200"
  shows "lease_granted settings name env h'"
  using assms(1)
proof (rule bindK_InrE)
  fix resp h1
  assume "send_request mth path ex ps c ct env h = (Inr resp, h1)" "retK (h_status resp = n) env h1 = (Inr True, h')"
  with send_request_Inr [of mth path ex ps c ct env h resp h1] show ?thesis
    using assms(2) by (auto simp: lease_granted_def dest!: read_response_status)
qed

lemma named_new_lease: "name \<noteq> [] \<Longrightarrow> named_resource ''Lease'' name (new_lease settings name did holder now)"
  by (simp add: named_resource_def new_lease_def)

lemma validated_leaseD:
  assumes "validated_lease settings lease name did = Inr (m, sp)"
  shows "dget lease ''metadata'' = JObj m" "dget lease ''spec'' = JObj sp" "dget m ''name'' = JStr name"
    "\<exists>v. dget m ''resourceVersion'' = JStr v \<and> v \<noteq> []"
  using assms by (auto simp: validated_lease_def Let_def split: json.splits if_splits)

lemma replacement_leaseD:
  assumes "validated_lease settings lease name did = Inr (m, sp)" "name \<noteq> []"
    and "replacement_lease settings m sp did holder now takeover = Inr r"
  shows "named_resource ''Lease'' name r"
    and "\<exists>m' v. dget r ''metadata'' = JObj m' \<and> dget m' ''resourceVersion'' = JStr v \<and> v \<noteq> []"
  using validated_leaseD(3,4) [OF assms(1)] assms(2,3)
  by (auto simp: replacement_lease_def named_resource_def Let_def split: json.splits if_splits)

lemma replace_granted:
  assumes "validated_lease settings lease name did = Inr (m, sp)" "name \<noteq> []"
    and "replacement_lease settings m sp did holder now takeover = Inr r"
    and "replace_lease settings r env h = (Inr True, h')"
  shows "lease_granted settings name env h'"
proof -
  from replacement_leaseD [OF assms(1-3)] obtain m' v where
    "named_resource ''Lease'' name r" "dget r ''metadata'' = JObj m'" "dget m' ''resourceVersion'' = JStr v" "v \<noteq> []"
    by blast
  from assms(4) [unfolded replace_lease_eq [OF this]] show ?thesis
    by (rule lease_granted_send) simp
qed

lemma try_acquire_granted:
  assumes "try_acquire settings name did holder env h = (Inr True, h')" "name \<noteq> []"
  shows "lease_granted settings name env h'"
  using assms(1) unfolding try_acquire_def
proof (elim bindK_InrE)
  fix now h1 current h2
  assume *: "(case current of
       None \<Rightarrow> create_lease settings (new_lease settings name did holder now)
     | Some lease \<Rightarrow>
         bindK (liftK (validated_lease settings lease name did)) (\<lambda>(metadata, spec).
         bindK (if truthy (dget spec ''holderIdentity'')
                then bindK (liftK (expired spec now)) (\<lambda>x. retK (\<not> x)) else retK False) (\<lambda>held.
         if held then retK False
         else bindK (liftK (replacement_lease settings metadata spec did holder now
                (truthy (dget spec ''holderIdentity'')))) (\<lambda>replacement.
           replace_lease settings replacement)))) env h2 = (Inr True, h')"
  show ?thesis
  proof (cases current)
    case None
    with * have "create_lease settings (new_lease settings name did holder now) env h2 = (Inr True, h')" by simp
    then show ?thesis unfolding create_lease_eq [OF named_new_lease [OF assms(2)]]
      by (rule lease_granted_send) simp
  next
    case (Some lease)
    with * show ?thesis
      by (auto elim!: bindK_InrE split: if_splits prod.splits) (erule (2) replace_granted [OF _ assms(2)])+
  qed
qed

lemma acquire_loop_granted:
  "acquire_loop n settings deadline name did holder env h = (Inr (), h') \<Longrightarrow> name \<noteq> [] \<Longrightarrow>
   lease_granted settings name env h'"
  by (induction n arbitrary: h)
    (auto elim!: bindK_InrE simp: Let_def split: if_splits dest: try_acquire_granted)

lemma acquire_granted:
  "acquire settings name did holder env h = (Inr (), h') \<Longrightarrow> name \<noteq> [] \<Longrightarrow> lease_granted settings name env h'"
  unfolding acquire_def by (auto elim!: bindK_InrE dest: acquire_loop_granted)

lemma lease_get [does_intros]: "does (lease_write settings name) (kube_get settings kind n ns)"
  by (rule does_kube_get) (simp add: lease_write_def)

lemma lease_create: "n \<noteq> [] \<Longrightarrow> does (lease_write settings name) (create_lease settings (new_lease settings n did holder now))"
  unfolding create_lease_eq [OF named_new_lease]
  by (intro does_intros does_send_request) (simp add: lease_write_def)

lemma lease_replace:
  assumes "validated_lease settings lease name did = Inr (m, sp)" "name \<noteq> []"
  shows "does (lease_write settings name) (bindK (liftK (replacement_lease settings m sp did holder now takeover))
    (\<lambda>r. replace_lease settings r))"
proof (rule does_liftK_bind)
  fix r assume r: "replacement_lease settings m sp did holder now takeover = Inr r"
  from replacement_leaseD [OF assms r] obtain m' v where
    "named_resource ''Lease'' name r" "dget r ''metadata'' = JObj m'" "dget m' ''resourceVersion'' = JStr v" "v \<noteq> []"
    by blast
  from replace_lease_eq [OF this] show "does (lease_write settings name) (replace_lease settings r)"
    by (auto intro!: does_intros does_send_request simp: lease_write_def)
qed

lemma does_liftK_prod:
  "(\<And>a b. r = Inr (a, b) \<Longrightarrow> does P (f a b)) \<Longrightarrow> does P (bindK (liftK r) (\<lambda>(a, b). f a b))"
  by (rule does_liftK_bind) (auto split: prod.splits)

lemma lease_try_acquire: "name \<noteq> [] \<Longrightarrow> does (lease_write settings name) (try_acquire settings name did holder)"
  unfolding try_acquire_def
  by (intro does_bindK does_askK lease_get does_case_option lease_create does_liftK_prod does_if does_retK does_liftK
      lease_replace) assumption+

lemma lease_acquire_loop:
  "name \<noteq> [] \<Longrightarrow> does (lease_write settings name) (acquire_loop n settings deadline name did holder)"
proof (induction n)
  case 0
  show ?case unfolding acquire_loop.simps by (rule does_raiseK)
next
  case (Suc n)
  have "lease_write settings name (Sleep t)" for t by (simp add: lease_write_def)
  then show ?case unfolding acquire_loop.simps Let_def
    by (intro does_intros lease_try_acquire Suc)
qed

lemma lease_acquire: "name \<noteq> [] \<Longrightarrow> does (lease_write settings name) (acquire settings name did holder)"
  unfolding acquire_def by (intro does_intros lease_acquire_loop)

lemma lease_release: "does (lease_write settings name) (release_lease settings name holder)"
  unfolding release_lease_def
  by (auto split: json.splits
      intro!: does_intros does_endpoint does_send_request simp: lease_write_def lease_path_eq lease_endpoint)

lemma lease_after_failure: "does (lease_write settings name) (release_after_failure settings name holder e)"
  unfolding release_after_failure_def Let_def
  by (intro does_intros lease_release) (auto split: exn.splits intro: does_intros)

lemma lease_after_success: "does (lease_write settings name) (release_after_success settings name holder)"
  unfolding release_after_success_def by (intro does_intros lease_release)

lemma failure_raises: "release_after_failure settings name holder e env h = (r, h') \<Longrightarrow> \<exists>e'. r = Inl e'"
  unfolding release_after_failure_def Let_def
  by (auto elim!: bindK_cases simp: tryK_def bindK_def split: prod.splits sum.splits exn.splits)

text \<open>
  A run of \<open>hold\<close>: requests on the Lease only, or an accepted write of the Lease, then the body,
  then requests on the Lease; the run returns only when the body did.
\<close>

definition locked_run ::
  "controller_settings \<Rightarrow> string \<Rightarrow> env \<Rightarrow> 'a kube \<Rightarrow> exn + 'a \<Rightarrow> history \<Rightarrow> history \<Rightarrow> bool" where
  "locked_run settings name env body r h es \<longleftrightarrow>
     (\<exists>before run after rb. es = after @ run @ before
        \<and> list_all (lease_write settings name) before \<and> list_all (lease_write settings name) after
        \<and> lease_granted settings name env (before @ h)
        \<and> body env (before @ h) = (rb, run @ before @ h)
        \<and> (\<forall>x. r = Inr x \<longrightarrow> rb = Inr x))"

lemma hold_runs:
  assumes "hold settings did body env h = (r, h')" and body: "does P body"
  shows "\<exists>es. h' = es @ h \<and> (list_all (lease_write settings (lease_name did)) es \<and> (\<exists>e. r = Inl e)
     \<or> locked_run settings (lease_name did) env body r h es)"
proof -
  let ?n = "lease_name did"
  define holder where "holder = e_uuid4 env h"
  have ne: "?n \<noteq> []" by (simp add: lease_name_def)
  have run: "bindK (acquire settings ?n did holder) (\<lambda>_.
      bindK (tryK (bindK body (\<lambda>x. retK (Inr x))) (\<lambda>e. retK (Inl e))) (\<lambda>outcome.
      case outcome of
        Inl e \<Rightarrow> release_after_failure settings ?n holder e
      | Inr x \<Rightarrow> bindK (release_after_success settings ?n holder) (\<lambda>_. retK x))) env h = (r, h')"
    using assms(1) unfolding hold_def Let_def holder_def by simp
  obtain ra ha where a: "acquire settings ?n did holder env h = (ra, ha)" by (cases "acquire settings ?n did holder env h")
  obtain ea where ea: "ha = ea @ h" "list_all (lease_write settings ?n) ea"
    using doesD [OF lease_acquire [OF ne] a] by blast
  show ?thesis
  proof (cases ra)
    case (Inl e)
    then show ?thesis using run a ea by auto
  next
    case (Inr u)
    then have granted: "lease_granted settings ?n env (ea @ h)" using acquire_granted [OF _ ne] a ea by simp
    obtain rb hb where b: "body env ha = (rb, hb)" by (cases "body env ha")
    obtain eb where eb: "hb = eb @ ha" using doesD [OF body b] by blast
    have "\<exists>ec. h' = ec @ hb \<and> list_all (lease_write settings ?n) ec \<and> (\<forall>x. r = Inr x \<longrightarrow> rb = Inr x)"
    proof (cases rb)
      case (Inl e)
      then have "release_after_failure settings ?n holder e env hb = (r, h')"
        using run a Inr b \<open>ra = Inr u\<close> by (simp add: bindK_def tryK_def)
      then show ?thesis using doesD [OF lease_after_failure] failure_raises by fastforce
    next
      case (Inr y)
      then have "bindK (release_after_success settings ?n holder) (\<lambda>_. retK y) env hb = (r, h')"
        using run a Inr b \<open>ra = Inr u\<close> by (simp add: bindK_def tryK_def)
      then show ?thesis using Inr doesD [OF lease_after_success]
        by (auto elim!: bindK_cases)
    qed
    then obtain ec where ec: "h' = ec @ hb" "list_all (lease_write settings ?n) ec" "\<forall>x. r = Inr x \<longrightarrow> rb = Inr x"
      by blast
    have "locked_run settings ?n env body r h (ec @ eb @ ea)"
      unfolding locked_run_def using ea eb ec b granted by blast
    then show ?thesis using ea eb ec by auto
  qed
qed


text \<open>
  \<open>under_lease\<close>: between requests on the Lease only, and after an accepted write of it, the
  run of the body satisfies \<open>Q\<close> with its own outcome; it is the run's outcome when the run returns.
\<close>

definition under_lease ::
  "controller_settings \<Rightarrow> string \<Rightarrow> env \<Rightarrow> (exn + 'a \<Rightarrow> history \<Rightarrow> history \<Rightarrow> bool) \<Rightarrow> exn + 'a \<Rightarrow> history \<Rightarrow> history \<Rightarrow> bool" where
  "under_lease settings name env Q r h es \<longleftrightarrow>
     (\<exists>before run after rb. es = after @ run @ before
        \<and> list_all (lease_write settings name) before \<and> list_all (lease_write settings name) after
        \<and> lease_granted settings name env (before @ h)
        \<and> Q rb (before @ h) run \<and> (case r of Inl _ \<Rightarrow> True | Inr x \<Rightarrow> rb = Inr x))"

text \<open>Requests on the Lease only, and an exception.\<close>

definition not_acquired :: "controller_settings \<Rightarrow> string \<Rightarrow> exn + 'a \<Rightarrow> history \<Rightarrow> bool" where
  "not_acquired settings name r es \<longleftrightarrow> list_all (lease_write settings name) es \<and> isl r"

lemma hold_under_lease:
  assumes "hold settings did body env h = (r, h')" and body: "does P body"
    and Q: "\<And>h rb run. body env h = (rb, run @ h) \<Longrightarrow> Q rb h run"
  shows "\<exists>es. h' = es @ h \<and> (not_acquired settings (lease_name did) r es
    \<or> under_lease settings (lease_name did) env Q r h es)"
proof -
  obtain es where es: "h' = es @ h" "list_all (lease_write settings (lease_name did)) es \<and> (\<exists>e. r = Inl e)
     \<or> locked_run settings (lease_name did) env body r h es"
    using hold_runs [OF assms(1,2)] by blast
  from es(2) have "not_acquired settings (lease_name did) r es \<or> under_lease settings (lease_name did) env Q r h es"
  proof
    assume "locked_run settings (lease_name did) env body r h es"
    then obtain before run after rb where run: "es = after @ run @ before"
      "list_all (lease_write settings (lease_name did)) before" "list_all (lease_write settings (lease_name did)) after"
      "lease_granted settings (lease_name did) env (before @ h)"
      "body env (before @ h) = (rb, run @ before @ h)" "\<forall>x. r = Inr x \<longrightarrow> rb = Inr x"
      unfolding locked_run_def by blast
    have "case r of Inl _ \<Rightarrow> True | Inr x \<Rightarrow> rb = Inr x" using run(6) by (simp split: sum.splits)
    then show ?thesis unfolding under_lease_def using run(1-4) Q [OF run(5)] by blast
  qed (auto simp: not_acquired_def)
  then show ?thesis using es(1) by blast
qed

text \<open>The writes of a run in a language of plans.\<close>

definition follows :: "kube_write list set \<Rightarrow> exn + 'a \<Rightarrow> history \<Rightarrow> bool" where
  "follows L r run \<longleftrightarrow> (case r of Inl _ \<Rightarrow> \<exists>w \<in> L. prefix (writes run) w | Inr _ \<Rightarrow> writes run \<in> L)"

lemma emits_follows: "emits L m \<Longrightarrow> m env h = (r, run @ h) \<Longrightarrow> follows L r run"
  unfolding emits_def follows_def by fastforce

definition deploy_language :: "controller_settings \<Rightarrow> desired_deployment \<Rightarrow> string \<Rightarrow> string \<Rightarrow> kube_write list set" where
  "deploy_language settings d request_id restart_request =
     {ts @ deploy_plan settings d request_id restart_request @ rs | ts rs.
        ts \<in> tombstone_removals settings \<and> rs \<in> state_removal settings (d_deployment_id d)}"

definition removal_language :: "controller_settings \<Rightarrow> string \<Rightarrow> string \<Rightarrow> kube_write list set" where
  "removal_language settings did request_id = state_removal settings did \<union>
     {removal_plan settings did request_id d @ rs | d rs. rs \<in> state_removal settings did}"

lemma deploy_under_lease:
  assumes "deploy settings d rid ex rr env h = (r, h')"
  shows "\<exists>es. h' = es @ h \<and> (not_acquired settings (lease_name (d_deployment_id d)) r es
    \<or> under_lease settings (lease_name (d_deployment_id d)) env (\<lambda>rb _. follows (deploy_language settings d rid rr) rb) r h es)"
  by (rule hold_under_lease [OF assms [unfolded deploy_def] confined_deploy_unlocked])
    (rule emits_follows [OF emits_deploy_unlocked [folded deploy_language_def]])

lemma undeploy_under_lease:
  assumes "undeploy settings did rid desired env h = (r, h')"
  shows "\<exists>es. h' = es @ h \<and> (not_acquired settings (lease_name did) r es
    \<or> under_lease settings (lease_name did) env (\<lambda>rb _. follows (removal_language settings did rid) rb) r h es)"
  by (rule hold_under_lease [OF assms [unfolded undeploy_def] confined_undeploy_unlocked])
    (rule emits_follows [OF emits_undeploy_unlocked [folded removal_language_def]])

end
