(* ===== verification/Reconciler_State.thy ===== *)
theory Reconciler_State
  imports Reconciler_Plans Samples
begin

text \<open>
  What the reconciler relies on before it writes, and what it reports.

  The state object it wrote reads back as the deployment it stands for, so that the decision
  of \<open>admit_over\<close> is one on generations and payloads; nothing is patched before every target
  was read in the same run as absent or as owned by the deployment; a runtime is reported
  deleted only after each of its objects was read as absent.
\<close>

section \<open>The state object reads back\<close>

lemma desired_from_written:
  assumes "storable settings d"
  shows "desired_from_state settings (state_config_map d settings ph rid) = Inr (canonical_desired d)"
  using parse_canonical_payload [OF assms] json_loads_dumps [OF json_wf_jsort [OF json_wf_payload [OF assms]]]
  by (simp add: desired_from_state_def state_config_map_def decoded_canonical)

lemma phase_of_written: "ph \<in> set phases \<Longrightarrow> phase_of (state_config_map d settings ph rid) = Inr ph"
  by (simp add: phase_of_def state_config_map_def)

lemma metadata_of_written:
  "\<exists>m. metadata_of (state_config_map d settings ph rid) = Inr m
     \<and> state_identity_ok (d_deployment_id d) (dget_or (JObj []) m ''labels'')"
  by (simp add: metadata_of_def state_config_map_def state_identity_ok_def)

lemma admit_over_written:
  assumes "storable settings cur" "ph \<in> set phases"
  shows "admit_over settings d (state_config_map cur settings ph rid) =
    (if ph \<in> {''deleting'', ''deleted''} then Inl (RuntimeConflict ''A deleted runtime identifier cannot be reused.'')
     else if d_generation d < d_generation cur then Inl stale_generation
     else if d_generation d = d_generation cur
        \<and> payload_digest (JObj (d_normalized_payload d)) \<noteq> payload_digest (JObj (d_normalized_payload cur))
       then Inl (RuntimeConflict ''The runtime generation was already used for another desired state.'')
     else Inr ())"
  using assms
  by (simp add: admit_over_def desired_from_written phase_of_written canonical_desired_digest raise_if_def)


lemma deletion_desired_storable:
  assumes "storable settings d" "1 \<le> g"
  shows "storable settings (deletion_desired d g)"
  using assms by (auto simp: storable_def desired_ok_def deletion_desired_def payload_of_def)

lemma desired_from_state_storable:
  assumes "desired_from_state settings s = Inr d"
  shows "storable settings d"
proof -
  from assms obtain raw v where "json_loads raw = Some v" "parse_desired_deployment v settings True = Inr d"
    by (auto simp: desired_from_state_def Let_def split: json.splits option.splits)
  then show ?thesis using parse_desired_deployment_storable json_loads_wf by blast
qed

lemma removal_of_storable:
  assumes "removal_of settings s desired = Inr d"
  shows "storable settings d"
proof -
  from assms obtain cur where cur: "desired_from_state settings s = Inr cur"
    and d: "\<exists>g. d = deletion_desired cur g \<and> d_generation cur \<le> g"
    unfolding removal_of_def bindE_eq_Inr
    by (cases desired) (force split: if_split_asm)+
  have st: "storable settings cur" by (rule desired_from_state_storable [OF cur])
  then have "1 \<le> d_generation cur" by (simp add: storable_def desired_ok_def)
  then show ?thesis using d deletion_desired_storable [OF st] by auto
qed


section \<open>What a run has read\<close>

text \<open>An earlier request of the history read the object, and this was the answer.\<close>

definition got ::
  "env \<Rightarrow> controller_settings \<Rightarrow> string \<Rightarrow> string \<Rightarrow> json dict option \<Rightarrow> history \<Rightarrow> bool" where
  "got env settings kind name v h \<longleftrightarrow>
     (\<exists>q h1 raw resp. suffix (Request q # h1) h \<and> r_method q = ''GET'' \<and> r_path q = object_path settings kind name None
        \<and> e_transport env (Request q # h1) = HttpReply raw \<and> read_response raw = Inr resp
        \<and> (case v of None \<Rightarrow> h_status resp = 404 | Some r \<Rightarrow> h_status resp = 200 \<and> response_json resp = Inr r))"

lemma got_mono: "got env settings kind name v h \<Longrightarrow> suffix h h' \<Longrightarrow> got env settings kind name v h'"
  unfolding got_def by (meson suffix_order.trans)

lemma kube_get_got:
  assumes "kube_get settings kind name None env h = (Inr v, h')"
  shows "got env settings kind name v h' \<and> suffix h h'"
  using assms unfolding kube_get_def
proof (elim bindK_InrE)
  fix ep h1
  assume ep: "liftK (endpoint kind) env h = (Inr ep, h1)"
    and run: "(case ep of (pre, plural) \<Rightarrow>
       bindK (send_request ''GET'' (resource_path settings pre plural name None) {200, 404} [] None None) (\<lambda>resp.
       if h_status resp = 404 then retK None else bindK (liftK (response_json resp)) (\<lambda>d. retK (Some d)))) env h1 = (Inr v, h')"
  obtain pre plural where p: "ep = (pre, plural)" by (cases ep)
  have path: "object_path settings kind name None = resource_path settings pre plural name None" and "h1 = h"
    using ep p by (auto simp: endpoint_eq_Inr object_path_def)
  from run [unfolded p prod.case] show ?thesis
  proof (rule bindK_InrE)
    fix resp h2
    assume s: "send_request ''GET'' (resource_path settings pre plural name None) {200, 404} [] None None env h1 = (Inr resp, h2)"
      and v: "(if h_status resp = 404 then retK None else bindK (liftK (response_json resp)) (\<lambda>d. retK (Some d))) env h2 = (Inr v, h')"
    from v have h2: "h2 = h'" "case v of None \<Rightarrow> h_status resp = 404 | Some r \<Rightarrow> h_status resp \<noteq> 404 \<and> response_json resp = Inr r"
      by (auto elim!: bindK_InrE split: if_splits)
    with send_request_Inr [OF s] show ?thesis
      unfolding got_def path \<open>h1 = h\<close>
      by (auto split: option.splits simp: suffix_Cons intro!: exI suffix_order.refl)
  qed
qed

lemma mapK_history:
  assumes "\<And>x env h y h'. x \<in> set xs \<Longrightarrow> f x env h = (Inr y, h') \<Longrightarrow> P x y env h' \<and> suffix h h'"
    and "\<And>x y env h h'. P x y env h \<Longrightarrow> suffix h h' \<Longrightarrow> P x y env h'"
  shows "mapK f xs env h = (Inr ys, h') \<Longrightarrow> list_all2 (\<lambda>x y. P x y env h') xs ys \<and> suffix h h'"
  using assms(1)
proof (induction xs arbitrary: h ys)
  case (Cons x xs)
  from Cons.prems(1) obtain y h1 zs where y: "f x env h = (Inr y, h1)" and zs: "mapK f xs env h1 = (Inr zs, h')"
    and ys: "ys = y # zs"
    by (auto elim!: bindK_InrE)
  have "P x y env h1" "suffix h h1" using Cons.prems(2) [OF _ y] by auto
  moreover have "list_all2 (\<lambda>x y. P x y env h') xs zs \<and> suffix h1 h'"
    by (rule Cons.IH [OF zs]) (rule Cons.prems(2), simp_all)
  ultimately show ?case using ys assms(2) by (auto intro: suffix_order.trans)
qed simp


subsection \<open>Ownership\<close>

text \<open>The target was read as absent, or as an object that carries the deployment's identity.\<close>

definition cleared ::
  "env \<Rightarrow> controller_settings \<Rightarrow> desired_deployment \<Rightarrow> string \<times> string \<times> string \<Rightarrow> history \<Rightarrow> bool" where
  "cleared env settings d t h = (case t of (kind, name, component_slug) \<Rightarrow>
     got env settings kind name None h
     \<or> (\<exists>r. got env settings kind name (Some r) h \<and> owned_by settings d name component_slug r))"

definition deploy_targets :: "desired_deployment \<Rightarrow> (string \<times> string \<times> string) list" where
  "deploy_targets d = (''ConfigMap'', state_name (d_deployment_id d), [])
     # concat (map (owned_targets (d_deployment_id d)) (d_components d))"

lemma cleared_mono: "cleared env settings d t h \<Longrightarrow> suffix h h' \<Longrightarrow> cleared env settings d t h'"
  by (auto simp: cleared_def split: prod.splits intro: got_mono)

lemma assert_owned_cleared:
  assumes "assert_owned settings kind name d sl env h = (Inr b, h')"
  shows "cleared env settings d (kind, name, sl) h' \<and> suffix h h'"
  using assms unfolding assert_owned_def
proof (rule bindK_InrE)
  fix v h1
  assume "kube_get settings kind name None env h = (Inr v, h1)"
    and v: "(case v of None \<Rightarrow> retK False | Some r \<Rightarrow> if owned_by settings d name sl r then retK True
      else raiseK (RuntimeConflict ''A target Kubernetes resource is not owned by this runtime deployment.'')) env h1 = (Inr b, h')"
  from kube_get_got [OF this(1)] v show ?thesis
    by (auto simp: cleared_def split: option.splits if_splits)
qed

lemma assert_owned_resources_cleared:
  assumes "assert_owned_resources settings d env h = (Inr b, h')"
  shows "\<forall>t \<in> set (deploy_targets d). cleared env settings d t h'"
proof -
  from assms obtain ys where run:
    "mapK (\<lambda>(kind, name, sl). assert_owned settings kind name d sl) (deploy_targets d) env h = (Inr ys, h')"
    by (auto simp: assert_owned_resources_def deploy_targets_def [symmetric] elim!: bindK_InrE)
  have "list_all2 (\<lambda>t y. cleared env settings d t h') (deploy_targets d) ys \<and> suffix h h'"
  proof (rule mapK_history [where P = "\<lambda>t y env h. cleared env settings d t h", OF _ _ run])
    show "cleared env settings d t h' \<and> suffix h h'"
      if "(case t of (kind, name, sl) \<Rightarrow> assert_owned settings kind name d sl) env h = (Inr b, h')" for t env h b h'
      using that assert_owned_cleared by (cases t) auto
  qed (rule cleared_mono)
  then show ?thesis by (auto simp: list_all2_conv_all_nth all_set_conv_all_nth)
qed


text \<open>No write of these events creates or changes an object.\<close>

definition no_patch :: "history \<Rightarrow> bool" where
  "no_patch es \<longleftrightarrow> (\<forall>w \<in> set (writes es). fst w \<noteq> ''PATCH'')"

lemma no_patch_append [simp]: "no_patch (fs @ es) \<longleftrightarrow> no_patch es \<and> no_patch fs"
  by (auto simp: no_patch_def)

lemma no_patch_performs: "performs [] m \<Longrightarrow> m env h = (r, h') \<Longrightarrow> \<exists>es. h' = es @ h \<and> no_patch es"
  by (drule (1) performs_prefixD) (auto simp: no_patch_def)

lemma tombstone_removals_no_patch: "w \<in> tombstone_removals settings \<Longrightarrow> prefix v w \<Longrightarrow> x \<in> set v \<Longrightarrow> fst x \<noteq> ''PATCH''"
  by (fastforce simp: tombstone_removals_def delete_write_def dest: set_mono_prefix)

lemma no_patch_cleanup:
  "cleanup_legacy_tombstones settings env h = (r, h') \<Longrightarrow> \<exists>es. h' = es @ h \<and> no_patch es"
proof (cases r)
  case (Inl e)
  then show "cleanup_legacy_tombstones settings env h = (r, h') \<Longrightarrow> ?thesis"
    using emits_InlD [OF emits_cleanup] tombstone_removals_no_patch unfolding no_patch_def by blast
next
  case (Inr x)
  then show "cleanup_legacy_tombstones settings env h = (r, h') \<Longrightarrow> ?thesis"
    using emits_InrD [OF emits_cleanup] tombstone_removals_no_patch [OF _ prefix_order.refl] unfolding no_patch_def by blast
qed

definition admit :: "controller_settings \<Rightarrow> desired_deployment \<Rightarrow> bool \<Rightarrow> json dict option \<Rightarrow> unit kube" where
  "admit settings d require_existing current = (case current of
     None \<Rightarrow> if require_existing then raiseK RuntimeNotFound else retK ()
   | Some s \<Rightarrow> liftK (admit_over settings d s))"

lemma admit_history: "admit settings d ex cur env h = (r, h') \<Longrightarrow> h' = h"
  by (auto simp: admit_def split: option.splits if_splits)

text \<open>
  A run of \<open>deploy_unlocked\<close> either patches nothing, or it has admitted the request over the
  state it read and has read every target as absent or owned before its first patch.
\<close>

definition checked_first ::
  "env \<Rightarrow> controller_settings \<Rightarrow> desired_deployment \<Rightarrow> bool \<Rightarrow> history \<Rightarrow> history \<Rightarrow> bool" where
  "checked_first env settings d require_existing h es \<longleftrightarrow>
     no_patch es
     \<or> (\<exists>checks rest current. es = rest @ checks \<and> no_patch checks
          \<and> got env settings ''ConfigMap'' (state_name (d_deployment_id d)) current (checks @ h)
          \<and> (case current of None \<Rightarrow> \<not> require_existing | Some s \<Rightarrow> admit_over settings d s = Inr ())
          \<and> (\<forall>t \<in> set (deploy_targets d). cleared env settings d t (checks @ h)))"

lemma state_of_got:
  assumes "state_of settings did env h = (Inr v, h')"
  shows "got env settings ''ConfigMap'' (state_name did) v h'"
  using assms unfolding state_of_def
  by (auto elim!: bindK_InrE dest!: kube_get_got split: option.splits if_splits)

lemma performs_extends: "performs ws m \<Longrightarrow> m env h = (r, h') \<Longrightarrow> \<exists>es. h' = es @ h"
  using performs_prefixD by fastforce

lemma preflight_checked:
  assumes "bindK (cleanup_legacy_tombstones settings) (\<lambda>_. bindK (preflight_deploy settings d) rest) env h = (r, h')"
    and rest: "\<And>u. does P (rest u)"
  shows "\<exists>es. h' = es @ h \<and> (no_patch es \<or> (\<exists>checks later. es = later @ checks \<and> no_patch checks
    \<and> (\<forall>t \<in> set (deploy_targets d). cleared env settings d t (checks @ h))))"
  using assms(1)
proof (cases rule: bindK_cases)
  case (raised e)
  then show ?thesis using no_patch_cleanup [of settings env h] by blast
next
  case (continued u h1)
  from no_patch_cleanup [OF continued(1)] obtain e1 where e1: "h1 = e1 @ h" "no_patch e1" by blast
  from continued(2) show ?thesis
  proof (cases rule: bindK_cases)
    case (raised e)
    from no_patch_performs [OF performs_preflight raised(1)] obtain e2 where "h' = e2 @ h1" "no_patch e2" by blast
    then show ?thesis using e1 by (auto intro!: exI [of _ "e2 @ e1"])
  next
    case (continued u2 h2)
    from no_patch_performs [OF performs_preflight continued(1)] obtain e2 where e2: "h2 = (e2 @ e1) @ h" "no_patch (e2 @ e1)"
      using e1 by auto
    have "\<forall>t \<in> set (deploy_targets d). cleared env settings d t h2"
      using continued(1) unfolding preflight_deploy_def
      by (auto elim!: bindK_InrE dest: assert_owned_resources_cleared)
    moreover obtain e3 where "h' = e3 @ h2" using doesD [OF rest continued(2)] by blast
    ultimately show ?thesis
      using e2 by (intro exI [of _ "e3 @ e2 @ e1"] conjI disjI2 exI [of _ "e2 @ e1"] exI [of _ e3]) simp_all
  qed
qed

theorem deploy_unlocked_checked:
  assumes "deploy_unlocked settings d rid ex rr env h = (r, h')"
  shows "\<exists>es. h' = es @ h \<and> checked_first env settings d ex h es"
proof -
  let ?rest = "\<lambda>_. bindK (apply_resource settings (state_config_map d settings ''reconciling'' rid)) (\<lambda>_.
     bindK (forK (apply_component settings d rr) (d_components d)) (\<lambda>_.
     bindK (apply_resource settings (state_config_map d settings
              (if d_desired_state d = ''running'' then ''active'' else ''stopped'') rid)) (\<lambda>_.
     observe settings (d_deployment_id d))))"
  have "bindK (state_of settings (d_deployment_id d)) (\<lambda>cur. bindK (admit settings d ex cur) (\<lambda>_.
      bindK (cleanup_legacy_tombstones settings) (\<lambda>_. bindK (preflight_deploy settings d) ?rest))) env h = (r, h')"
    using assms unfolding deploy_unlocked_def admit_def .
  moreover have quiet: "checked_first env settings d ex h es" if "no_patch es" for es
    using that by (simp add: checked_first_def)
  ultimately show ?thesis
  proof (cases rule: bindK_cases)
    case (raised e)
    then show ?thesis using no_patch_performs [OF performs_state_of] quiet by blast
  next
    case (continued cur h1)
    note got = state_of_got [OF continued(1)]
    from no_patch_performs [OF performs_state_of continued(1)] obtain e1 where e1: "h1 = e1 @ h" "no_patch e1" by blast
    from continued(2) show ?thesis
    proof (cases rule: bindK_cases)
      case (raised e)
      then have "h' = e1 @ h" using admit_history [OF raised(1)] e1 by simp
      then show ?thesis using e1 quiet by blast
    next
      case (continued u h1')
      have adm: "case cur of None \<Rightarrow> \<not> ex | Some s \<Rightarrow> admit_over settings d s = Inr ()" and h1': "h1' = h1"
        using continued(1) by (auto simp: admit_def split: option.splits if_splits)
      have "does (confined settings) (?rest u)" for u by (intro does_intros confined_intros)
      from preflight_checked [OF continued(2) this] h1' obtain es where h': "h' = (es @ e1) @ h" and
        es: "no_patch es \<or> (\<exists>checks later. es = later @ checks \<and> no_patch checks
           \<and> (\<forall>t \<in> set (deploy_targets d). cleared env settings d t (checks @ h1)))" using e1 by auto
      have state: "got env settings ''ConfigMap'' (state_name (d_deployment_id d)) cur ((checks @ e1) @ h)" for checks
        using got_mono [OF got] e1 by (simp add: suffix_def)
      from es have "checked_first env settings d ex h (es @ e1)"
      proof (elim disjE exE conjE)
        fix checks later
        assume "es = later @ checks" "no_patch checks"
          "\<forall>t \<in> set (deploy_targets d). cleared env settings d t (checks @ h1)"
        then show ?thesis unfolding checked_first_def using e1 state adm
          by (intro disjI2 exI [of _ "checks @ e1"] exI [of _ later] exI [of _ cur]) simp
      qed (simp add: quiet e1)
      then show ?thesis using h' by blast
    qed
  qed
qed


lemma deploy_checked:
  assumes "deploy settings d rid ex rr env h = (r, h')"
  shows "\<exists>es. h' = es @ h \<and> (not_acquired settings (lease_name (d_deployment_id d)) r es
    \<or> under_lease settings (lease_name (d_deployment_id d)) env (\<lambda>_. checked_first env settings d ex) r h es)"
  by (rule hold_under_lease [OF assms [unfolded deploy_def] confined_deploy_unlocked])
    (use deploy_unlocked_checked in fastforce)

end
