(* ===== verification/Reconciler_Observe.thy ===== *)
theory Reconciler_Observe
  imports Reconciler_State
begin

text \<open>
  What an observation means.

  \<open>reported c r\<close> are the bounds every component result keeps; \<open>observe_running\<close> and
  \<open>observe_deleted\<close> give the evidence in the run for the two reports the web application
  acts on; \<open>logs_bounded\<close> bounds what a log request returns.
\<close>

section \<open>Component results\<close>

definition reported :: "component \<Rightarrow> component_result \<Rightarrow> bool" where
  "reported c r \<longleftrightarrow> cr_slug r = c_slug c
     \<and> 0 \<le> cr_desired_replicas r \<and> cr_desired_replicas r \<le> 65535
     \<and> 0 \<le> cr_ready_replicas r \<and> cr_ready_replicas r \<le> 65535
     \<and> 0 \<le> cr_available_replicas r \<and> cr_available_replicas r \<le> 65535
     \<and> 0 \<le> cr_restart_count r \<and> cr_restart_count r \<le> 100000
     \<and> cr_state r \<in> {''running'', ''reconciling'', ''degraded'', ''stopped'', ''deleting'', ''deleted''}
     \<and> cr_health r \<in> {''healthy'', ''progressing'', ''unhealthy'', ''stopped'', ''stopping'', ''pending'', ''unknown''}
     \<and> cr_last_error r \<in> {[], ''Runtime image drift was detected.'',
          ''Kubernetes could not create a runtime replica.'', ''The runtime rollout did not progress.''}"

lemma count_of_nonneg [simp]: "0 \<le> count_of v"
  by (simp add: count_of_def split: json.splits)

lemma pod_restarts_nonneg: "0 \<le> sum_list (map pod_restarts pods)"
proof -
  have "0 \<le> container_restarts v" for v by (simp add: container_restarts_def split: json.splits)
  then have "0 \<le> pod_restarts p" for p
    by (auto simp: pod_restarts_def intro!: sum_list_nonneg split: json.splits)
  then show ?thesis by (auto intro!: sum_list_nonneg)
qed

lemma first_failure_texts:
  "first_failure cs \<in> {[], ''Kubernetes could not create a runtime replica.'', ''The runtime rollout did not progress.''}"
  by (induction cs rule: first_failure.induct) auto

lemma deployment_failure_texts:
  "deployment_failure s \<in> {[], ''Kubernetes could not create a runtime replica.'', ''The runtime rollout did not progress.''}"
  using first_failure_texts by (auto simp: deployment_failure_def split: json.splits)

lemma reported_make:
  assumes "0 \<le> n" "0 \<le> rdy" "0 \<le> av" "0 \<le> rs"
    and "st \<in> {''running'', ''reconciling'', ''degraded'', ''stopped'', ''deleting'', ''deleted''}"
    and "hl \<in> {''healthy'', ''progressing'', ''unhealthy'', ''stopped'', ''stopping'', ''pending'', ''unknown''}"
    and "er \<in> {[], ''Runtime image drift was detected.'', ''Kubernetes could not create a runtime replica.'',
      ''The runtime rollout did not progress.''}"
  shows "reported c (make_component_result c n rdy av st hl rs er)"
    and "reported c ((make_component_result c n rdy av st hl rs er)\<lparr>cr_image_digest := i\<rparr>)"
  using assms by (simp_all add: reported_def make_component_result_def)

lemma component_status_deployed:
  assumes "component_status d c (Some dep) pods = Inr r"
  obtains n rdy av er i st hl where
    "r = (make_component_result c n rdy av st hl (sum_list (map pod_restarts pods)) er)\<lparr>cr_image_digest := i\<rparr>"
    "0 \<le> n" "0 \<le> rdy" "0 \<le> av"
    "er = ''Runtime image drift was detected.'' \<or> i = c_image c \<and> er \<in> range deployment_failure"
    "if d_desired_state d = ''stopped'' then
       (st, hl) = (if n = 0 \<and> av = 0 then (''stopped'', ''stopped'') else (''reconciling'', ''stopping''))
     else if er \<noteq> [] then (st, hl) = (''degraded'', ''unhealthy'')
     else (st, hl) \<in> {(''running'', ''healthy''), (''reconciling'', ''progressing'')}
       \<and> (st = ''running'' \<longrightarrow> 1 \<le> n \<and> n \<le> rdy \<and> n \<le> av)"
proof -
  let ?status = "dict_or_empty (dget dep ''status'')" and ?spec = "dict_or_empty (dget dep ''spec'')"
  from assms obtain cs where cs: "containers_of ?spec = Inr cs"
    by (auto simp: component_status_def bindE_eq_Inr Let_def)
  define i where "i = actual_image c cs"
  define er where "er = (if i \<noteq> c_image c then ''Runtime image drift was detected.'' else deployment_failure ?status)"
  define n where "n = count_of (dget_or (JInt 0) ?spec ''replicas'')"
  define rdy where "rdy = count_of (dget_or (JInt 0) ?status ''readyReplicas'')"
  define av where "av = count_of (dget_or (JInt 0) ?status ''availableReplicas'')"
  define t where "t = (if d_desired_state d = ''stopped'' then
       (if n = 0 \<and> av = 0 then (''stopped'', ''stopped'') else (''reconciling'', ''stopping''))
     else if er \<noteq> [] then (''degraded'', ''unhealthy'')
     else if n > 0 \<and> rdy \<ge> n \<and> av \<ge> n
        \<and> count_of (dget_or (JInt 0) ?status ''observedGeneration'')
          \<ge> count_of (dget_or (JInt 0) (dict_or_empty (dget dep ''metadata'')) ''generation'')
       then (''running'', ''healthy'') else (''reconciling'', ''progressing''))"
  have "r = (make_component_result c n rdy av (fst t) (snd t) (sum_list (map pod_restarts pods)) er)\<lparr>cr_image_digest := i\<rparr>"
    using assms
    by (simp only: component_status_def option.case Let_def cs bindE_simps split_def sum.inject
        i_def er_def n_def rdy_def av_def t_def)
  then show ?thesis
    by (rule that) (auto simp: n_def rdy_def av_def er_def t_def)
qed

lemma component_status_reported:
  assumes "component_status d c dep pods = Inr r"
  shows "reported c r"
proof (cases dep)
  case None
  then show ?thesis using assms pod_restarts_nonneg
    by (auto simp: component_status_def intro!: reported_make)
next
  case (Some dp)
  show ?thesis
  proof (rule component_status_deployed [OF assms [unfolded Some]])
    fix n rdy av er i st hl
    assume r: "r = (make_component_result c n rdy av st hl (sum_list (map pod_restarts pods)) er)\<lparr>cr_image_digest := i\<rparr>"
      and n: "0 \<le> n" "0 \<le> rdy" "0 \<le> av"
      and er: "er = ''Runtime image drift was detected.'' \<or> i = c_image c \<and> er \<in> range deployment_failure"
      and st: "if d_desired_state d = ''stopped'' then
       (st, hl) = (if n = 0 \<and> av = 0 then (''stopped'', ''stopped'') else (''reconciling'', ''stopping''))
     else if er \<noteq> [] then (st, hl) = (''degraded'', ''unhealthy'')
     else (st, hl) \<in> {(''running'', ''healthy''), (''reconciling'', ''progressing'')}
       \<and> (st = ''running'' \<longrightarrow> 1 \<le> n \<and> n \<le> rdy \<and> n \<le> av)"
    have er': "er \<in> {[], ''Runtime image drift was detected.'', ''Kubernetes could not create a runtime replica.'',
        ''The runtime rollout did not progress.''}"
      using er deployment_failure_texts by (elim disjE conjE rangeE) (simp, simp only: insert_iff, blast)
    show ?thesis
      unfolding r by (rule reported_make(2) [OF n pod_restarts_nonneg _ _ er']) (use st in \<open>auto split: if_split_asm\<close>)
  qed
qed

text \<open>What "running" means for one component.\<close>

definition serves :: "component \<Rightarrow> component_result \<Rightarrow> bool" where
  "serves c r \<longleftrightarrow> cr_slug r = c_slug c \<and> cr_state r = ''running'' \<and> cr_health r = ''healthy''
     \<and> cr_image_digest r = c_image c \<and> cr_last_error r = []
     \<and> 1 \<le> cr_desired_replicas r \<and> cr_desired_replicas r \<le> cr_ready_replicas r
     \<and> cr_desired_replicas r \<le> cr_available_replicas r"

lemma component_status_running:
  assumes "component_status d c dep pods = Inr r" "cr_state r = ''running''"
  shows "serves c r \<and> d_desired_state d \<noteq> ''stopped''"
proof (cases dep)
  case None
  then show ?thesis using assms by (auto simp: component_status_def make_component_result_def)
next
  case (Some dp)
  show ?thesis
    by (rule component_status_deployed [OF assms(1) [unfolded Some]])
      (use assms(2) in \<open>auto simp: serves_def make_component_result_def split: if_split_asm\<close>)
qed

lemma component_status_stopped:
  assumes "component_status d c dep pods = Inr r" "cr_state r = ''stopped''"
  shows "d_desired_state d = ''stopped'' \<and> cr_desired_replicas r = 0 \<and> cr_available_replicas r = 0"
proof (cases dep)
  case None
  then show ?thesis using assms by (auto simp: component_status_def make_component_result_def)
next
  case (Some dp)
  show ?thesis
    by (rule component_status_deployed [OF assms(1) [unfolded Some]])
      (use assms(2) in \<open>auto simp: make_component_result_def split: if_split_asm\<close>)
qed


section \<open>Observations\<close>

lemma list_all2_mono_set:
  "list_all2 P xs ys \<Longrightarrow> (\<And>x y. y \<in> set ys \<Longrightarrow> P x y \<Longrightarrow> Q x y) \<Longrightarrow> list_all2 Q xs ys"
  by (auto simp: list_all2_conv_all_nth)

lemma mapK_results:
  assumes "mapK f xs env h = (Inr ys, h')" "\<And>x env h y h'. x \<in> set xs \<Longrightarrow> f x env h = (Inr y, h') \<Longrightarrow> P x y"
  shows "list_all2 P xs ys"
  using assms
proof (induction xs arbitrary: h ys)
  case (Cons x xs)
  from Cons.prems(1) obtain y h1 zs where y: "f x env h = (Inr y, h1)" and zs: "mapK f xs env h1 = (Inr zs, h')"
    and ys: "ys = y # zs"
    by (auto elim!: bindK_InrE)
  have "list_all2 P xs zs" by (rule Cons.IH [OF zs]) (rule Cons.prems(2), simp_all)
  then show ?case using ys Cons.prems(2) [OF _ y] by simp
qed simp

lemma observe_components_results:
  assumes "observe_components settings did d env h = (Inr r, h')"
  shows "rr_deployment_id r = did" "rr_observed_generation r = d_generation d"
    "rr_state r = aggregate_state (d_desired_state d) (map cr_state (rr_components r))"
    "list_all2 (\<lambda>c x. \<exists>dep pods. component_status d c dep pods = Inr x) (d_components d) (rr_components r)"
proof -
  from assms obtain groups hg observed where
    m: "mapK (\<lambda>c. bindK (kube_get settings ''Deployment'' (component_name did (c_slug c) []) None) (\<lambda>dep.
        liftK (component_status d c dep (case map_of groups (c_slug c) of None \<Rightarrow> [] | Some ps \<Rightarrow> ps))))
        (d_components d) env hg = (Inr observed, h')"
    and r: "r = \<lparr>rr_deployment_id = did, rr_state = aggregate_state (d_desired_state d) (map cr_state observed),
       rr_message = first_message observed, rr_observed_generation = d_generation d, rr_components = observed\<rparr>"
    by (auto simp: observe_components_def elim!: bindK_InrE)
  show "rr_deployment_id r = did" "rr_observed_generation r = d_generation d"
    "rr_state r = aggregate_state (d_desired_state d) (map cr_state (rr_components r))"
    using r by simp_all
  show "list_all2 (\<lambda>c x. \<exists>dep pods. component_status d c dep pods = Inr x) (d_components d) (rr_components r)"
    unfolding r runtime_result.simps by (rule mapK_results [OF m], elim bindK_InrE) (simp, blast)
qed

lemma aggregate_running:
  assumes "aggregate_state st states = ''running''"
  shows "st \<noteq> ''stopped''" "states \<noteq> []" "\<forall>s \<in> set states. s = ''running''"
proof -
  have *: "st \<noteq> ''stopped'' \<and> set states = {''running''}"
    using assms unfolding aggregate_state_def by (simp split: if_split_asm)
  then show "st \<noteq> ''stopped''" by (rule conjunct1)
  show "\<forall>s \<in> set states. s = ''running''" unfolding conjunct2 [OF *] by simp
  have "set states \<noteq> {}" unfolding conjunct2 [OF *] by simp
  then show "states \<noteq> []" by (rule contrapos_nn) simp
qed

lemma aggregate_not_deleted: "aggregate_state st states \<notin> {''deleting'', ''deleted''}"
  by (simp add: aggregate_state_def)

text \<open>The state object an observation has read, and the deployment it stands for.\<close>

definition observed_state ::
  "env \<Rightarrow> controller_settings \<Rightarrow> string \<Rightarrow> history \<Rightarrow> desired_deployment \<Rightarrow> string \<Rightarrow> bool" where
  "observed_state env settings did h d phase \<longleftrightarrow>
     (\<exists>s. got env settings ''ConfigMap'' (state_name did) (Some s) h
        \<and> desired_from_state settings s = Inr d \<and> phase_of s = Inr phase)"

lemma observe_cases:
  assumes "observe settings did env h = (Inr r, h')"
  obtains (tombstone) d h1 where "observed_state env settings did h1 d ''deleted''" "suffix h1 h'" "r = deleted_result d"
    | (deleting) d h1 where "observed_state env settings did h1 d ''deleting''" "suffix h1 h'"
        "observe_deleting settings did d env h1 = (Inr r, h')"
    | (live) d h1 phase where "observed_state env settings did h1 d phase" "suffix h1 h'"
        "observe_components settings did d env h1 = (Inr r, h')"
proof -
  from assms obtain s d phase h1 where s: "state_of settings did env h = (Inr (Some s), h1)"
      "desired_from_state settings s = Inr d" "phase_of s = Inr phase"
    and rest: "(if phase = ''deleted'' then
           bindK (kube_delete settings ''ConfigMap'' (state_name did)) (\<lambda>_. retK (deleted_result d))
         else if phase = ''deleting'' then observe_deleting settings did d
         else observe_components settings did d) env h1 = (Inr r, h')"
    unfolding observe_def by (auto elim!: bindK_InrE split: option.split_asm)
  have st: "observed_state env settings did h1 d phase"
    using state_of_got [OF s(1)] s(2,3) by (auto simp: observed_state_def)
  have "does (confined settings) (if phase = ''deleted'' then
           bindK (kube_delete settings ''ConfigMap'' (state_name did)) (\<lambda>_. retK (deleted_result d))
         else if phase = ''deleting'' then observe_deleting settings did d
         else observe_components settings did d)"
    unfolding observe_deleting_def observe_components_def
    by (intro does_intros confined_intros) (auto simp: owned_kinds_def Let_def)
  from doesD [OF this rest] have "suffix h1 h'" by (auto simp: suffix_def)
  with st rest show ?thesis
    using tombstone deleting live by (auto split: if_split_asm elim!: bindK_InrE)
qed


lemma phase_of_phases: "phase_of s = Inr p \<Longrightarrow> p \<in> set phases"
  by (auto simp: phase_of_def Let_def split: json.split_asm if_split_asm)

theorem observe_running:
  assumes "observe settings did env h = (Inr r, h')" "rr_state r = ''running''"
  shows "\<exists>d phase h1. observed_state env settings did h1 d phase \<and> suffix h1 h' \<and> phase \<in> set phases
    \<and> d_desired_state d \<noteq> ''stopped'' \<and> rr_observed_generation r = d_generation d
    \<and> d_components d \<noteq> [] \<and> list_all2 serves (d_components d) (rr_components r)"
  using assms(1)
proof (cases rule: observe_cases)
  case (tombstone d h1)
  then show ?thesis using assms(2) by (simp add: deleted_result_def)
next
  case (deleting d h1)
  then show ?thesis using assms(2)
    by (auto simp: observe_deleting_def deleted_result_def elim!: bindK_InrE split: if_split_asm)
next
  case (live d h1 phase)
  note res = observe_components_results [OF live(3)]
  note run = aggregate_running [OF res(3) [symmetric, unfolded assms(2)]]
  have "list_all2 serves (d_components d) (rr_components r)"
    by (rule list_all2_mono_set [OF res(4)]) (use run(3) component_status_running in fastforce)
  moreover have "d_components d \<noteq> []" using run(2) list_all2_lengthD [OF res(4)] by auto
  moreover have "phase \<in> set phases"
    using live(1) by (auto simp: observed_state_def dest: phase_of_phases)
  ultimately show ?thesis using live(1,2) run(1) res(2) by blast
qed

lemma any_remaining_absent:
  assumes "any_remaining settings ts env h = (Inr False, h')"
  shows "\<forall>(kind, name) \<in> set ts. got env settings kind name None h'"
proof -
  from assms obtain ys where
    run: "mapK (\<lambda>(kind, name). bindK (kube_get settings kind name None) (\<lambda>r. retK (r \<noteq> None))) ts env h = (Inr ys, h')"
    and ys: "\<not> list_ex id ys"
    by (auto simp: any_remaining_def elim!: bindK_InrE)
  have "list_all2 (\<lambda>t y. y \<or> got env settings (fst t) (snd t) None h') ts ys \<and> suffix h h'"
  proof (rule mapK_history [where P = "\<lambda>t y env h. y \<or> got env settings (fst t) (snd t) None h", OF _ _ run])
    fix t env h y h'
    assume "(case t of (kind, name) \<Rightarrow> bindK (kube_get settings kind name None) (\<lambda>r. retK (r \<noteq> None))) env h = (Inr y, h')"
    then show "(y \<or> got env settings (fst t) (snd t) None h') \<and> suffix h h'"
      by (cases t) (auto elim!: bindK_InrE dest!: kube_get_got)
  qed (auto intro: got_mono)
  then have "\<forall>t \<in> set ts. got env settings (fst t) (snd t) None h'"
    using ys by (auto simp: list_all2_conv_all_nth all_set_conv_all_nth list_ex_length)
  then show ?thesis by auto
qed

theorem observe_deleted:
  assumes "observe settings did env h = (Inr r, h')" "rr_state r = ''deleted''"
  shows "\<exists>d h1 phase. observed_state env settings did h1 d phase \<and> suffix h1 h' \<and> r = deleted_result d
    \<and> (phase = ''deleted'' \<or> phase = ''deleting''
       \<and> (\<forall>c \<in> set (d_components d). \<forall>(kind, name) \<in> set (owned_kinds did c). got env settings kind name None h'))"
  using assms(1)
proof (cases rule: observe_cases)
  case (tombstone d h1)
  then show ?thesis by blast
next
  case (live d h1 phase)
  then show ?thesis
    using assms(2) observe_components_results(3) [OF live(3)] aggregate_not_deleted [of "d_desired_state d"] by fastforce
next
  case (deleting d h1)
  from deleting(3) obtain h2 where rem: "any_remaining settings (concat (map (owned_kinds did) (d_components d))) env h1 = (Inr False, h2)"
    and del: "kube_delete settings ''ConfigMap'' (state_name did) env h2 = (Inr (), h')" and r: "r = deleted_result d"
    using assms(2) by (auto simp: observe_deleting_def elim!: bindK_InrE split: if_split_asm)
  have "suffix h2 h'"
    using performs_extends [OF performs_delete [OF known_kinds(1)] del] by (auto simp: suffix_def)
  then have "\<forall>c \<in> set (d_components d). \<forall>(kind, name) \<in> set (owned_kinds did c). got env settings kind name None h'"
    using any_remaining_absent [OF rem] by (fastforce intro: got_mono)
  then show ?thesis using deleting(1,2) r by blast
qed

theorem observe_reported:
  assumes "observe settings did env h = (Inr r, h')"
  shows "\<exists>d h1 phase. observed_state env settings did h1 d phase \<and> rr_observed_generation r = d_generation d
    \<and> rr_state r \<in> {''running'', ''stopped'', ''degraded'', ''reconciling'', ''deleting'', ''deleted''}
    \<and> list_all2 reported (d_components d) (rr_components r)"
  using assms
proof (cases rule: observe_cases)
  case (tombstone d h1)
  have "list_all2 reported (d_components d) (rr_components (deleted_result d))"
    by (auto simp: deleted_result_def list_all2_conv_all_nth intro!: reported_make)
  then show ?thesis using tombstone by (auto simp: deleted_result_def)
next
  case (deleting d h1)
  have "list_all2 reported (d_components d) (map deleting_component (d_components d))"
    "list_all2 reported (d_components d) (rr_components (deleted_result d))"
    by (auto simp: deleted_result_def deleting_component_def list_all2_conv_all_nth intro!: reported_make)
  then have "rr_observed_generation r = d_generation d \<and> rr_state r \<in> {''deleting'', ''deleted''}
      \<and> list_all2 reported (d_components d) (rr_components r)"
    using deleting(3)
    by (auto simp: observe_deleting_def deleted_result_def elim!: bindK_InrE split: if_split_asm)
  then show ?thesis using deleting(1) by blast
next
  case (live d h1 phase)
  note res = observe_components_results [OF live(3)]
  have "list_all2 reported (d_components d) (rr_components r)"
    by (rule list_all2_mono [OF res(4)]) (auto dest: component_status_reported)
  moreover have "rr_state r \<in> {''running'', ''stopped'', ''degraded'', ''reconciling'', ''deleting'', ''deleted''}"
    unfolding res(3) by (simp add: aggregate_state_def)
  ultimately show ?thesis using live(1) res(2) by blast
qed


section \<open>Logs\<close>

lemma slice_from_last: "n \<ge> 1 \<Longrightarrow> int (length xs) > n \<Longrightarrow> slice_from (- n) xs = drop (length xs - nat n) xs"
  by (simp add: slice_from_def)

definition tail_of :: "int \<Rightarrow> string \<Rightarrow> string \<Rightarrow> log_result" where
  "tail_of tail_lines content cursor =
     \<lparr>lr_lines = (if tail_lines < int (length (splitlines content))
         then slice_from (- tail_lines) (splitlines content) else splitlines content),
      lr_cursor = cursor, lr_truncated = (tail_lines < int (length (splitlines content)))\<rparr>"

theorem logs_bounded:
  assumes "logs settings did sl tail_lines since env h = (Inr r, h')" "1 \<le> tail_lines"
  shows "int (length (lr_lines r)) \<le> tail_lines \<and> length (lr_cursor r) \<le> 500
    \<and> (\<exists>content. lr_lines r = drop (length (splitlines content) - nat tail_lines) (splitlines content)
         \<and> (lr_truncated r \<longleftrightarrow> tail_lines < int (length (splitlines content))))"
proof -
  from assms(1) obtain content pod v where r: "r = tail_of tail_lines content (take 500 (pod @ '':'' @ v))"
    unfolding logs_def Let_def tail_of_def [symmetric]
    by (auto elim!: bindK_InrE split: option.split_asm if_split_asm json.split_asm simp del: take_append)
  then show ?thesis
    using assms(2) slice_from_last [OF assms(2), of "splitlines content"]
    by (intro conjI exI [of _ content]) (auto simp: tail_of_def split: if_split_asm)
qed

end
