(* ===== verification/Lease_Requests.thy ===== *)
theory Lease_Requests
  imports Reconciler_Plans
begin

text \<open>
  The decisions of \<open>lease.py\<close> between the read of the Lease and the write.

  \<open>acquire_request\<close>, \<open>renew_request\<close> and \<open>release_request\<close> are what \<open>try_acquire\<close>, \<open>renew\<close> and
  \<open>release_lease\<close> do with the Lease they read; the equations show that the computations are
  these decisions followed by \<open>send_lease\<close>.
\<close>

section \<open>The decision between read and write\<close>

datatype lease_request =
    Keep
  | Create "json dict"
  | Replace "json dict"
  | Remove string string

definition acquire_request ::
  "controller_settings \<Rightarrow> string \<Rightarrow> string \<Rightarrow> string \<Rightarrow> int \<Rightarrow> json dict option \<Rightarrow> exn + lease_request" where
  "acquire_request settings name did holder now current = (case current of
     None \<Rightarrow> Inr (Create (new_lease settings name did holder now))
   | Some lease \<Rightarrow>
       bindE (validated_lease settings lease name did) (\<lambda>(metadata, spec).
       bindE (if truthy (dget spec ''holderIdentity'') then bindE (expired spec now) (\<lambda>x. Inr (\<not> x)) else Inr False) (\<lambda>held.
       if held then Inr Keep
       else bindE (replacement_lease settings metadata spec did holder now (truthy (dget spec ''holderIdentity'')))
         (\<lambda>r. Inr (Replace r)))))"

definition renew_request ::
  "controller_settings \<Rightarrow> string \<Rightarrow> string \<Rightarrow> string \<Rightarrow> int \<Rightarrow> json dict option \<Rightarrow> exn + lease_request" where
  "renew_request settings name did holder now current = (case current of
     None \<Rightarrow> Inr Keep
   | Some lease \<Rightarrow>
       bindE (validated_lease settings lease name did) (\<lambda>(metadata, spec).
       if dget spec ''holderIdentity'' \<noteq> JStr holder then Inr Keep
       else bindE (replacement_lease settings metadata spec did holder now False) (\<lambda>r. Inr (Replace r))))"

definition release_request :: "string \<Rightarrow> json dict option \<Rightarrow> exn + lease_request" where
  "release_request holder current = (case current of
     None \<Rightarrow> Inr Keep
   | Some lease \<Rightarrow>
       (case (dget lease ''metadata'', dget lease ''spec'') of
          (JObj metadata, JObj spec) \<Rightarrow>
            if dget spec ''holderIdentity'' \<noteq> JStr holder then Inr Keep
            else (case (dget metadata ''uid'', dget metadata ''resourceVersion'') of
               (JStr uid, JStr resource_version) \<Rightarrow>
                 if uid = [] \<or> resource_version = [] then
                   Inl (KubernetesApiError ''Kubernetes returned an invalid Lease identity.'' None)
                 else Inr (Remove uid resource_version)
             | _ \<Rightarrow> Inl (KubernetesApiError ''Kubernetes returned an invalid Lease identity.'' None))
        | _ \<Rightarrow> Inl (KubernetesApiError ''Kubernetes returned an invalid Lease.'' None)))"

definition send_lease :: "controller_settings \<Rightarrow> string \<Rightarrow> lease_request \<Rightarrow> bool kube" where
  "send_lease settings name req = (case req of
     Keep \<Rightarrow> retK False
   | Create r \<Rightarrow> create_lease settings r
   | Replace r \<Rightarrow> replace_lease settings r
   | Remove uid rv \<Rightarrow>
       bindK (liftK (endpoint ''Lease'')) (\<lambda>(pre, plural).
       bindK (send_request ''DELETE'' (resource_path settings pre plural name None) {200, 202, 404, 409} []
          (Some (body_of [(''apiVersion'', JStr ''v1''), (''kind'', JStr ''DeleteOptions''),
             (''preconditions'', JObj [(''uid'', JStr uid), (''resourceVersion'', JStr rv)])]))
          (Some ''application/json'')) (\<lambda>resp.
       retK (h_status resp \<in> {200, 202}))))"

lemma bindK_assoc: "bindK (bindK m f) g = bindK m (\<lambda>x. bindK (f x) g)"
  by (auto simp: fun_eq_iff bindK_def split: prod.splits sum.splits)

lemma liftK_bindE: "liftK (bindE m f) = bindK (liftK m) (\<lambda>x. liftK (f x))"
  by (cases m) (auto simp: fun_eq_iff bindK_def)

lemma liftK_Inr: "liftK (Inr x) = retK x"
  by (simp add: fun_eq_iff)

lemma try_acquire_request:
  "try_acquire settings name did holder =
     bindK (askK e_now) (\<lambda>now.
     bindK (kube_get settings ''Lease'' name None) (\<lambda>current.
     bindK (liftK (acquire_request settings name did holder now current)) (send_lease settings name)))"
proof -
  have "(case cur of
       None \<Rightarrow> create_lease settings (new_lease settings name did holder now)
     | Some lease \<Rightarrow>
         bindK (liftK (validated_lease settings lease name did)) (\<lambda>(metadata, spec).
         bindK (if truthy (dget spec ''holderIdentity'')
                then bindK (liftK (expired spec now)) (\<lambda>x. retK (\<not> x)) else retK False) (\<lambda>held.
         if held then retK False
         else bindK (liftK (replacement_lease settings metadata spec did holder now
                (truthy (dget spec ''holderIdentity'')))) (\<lambda>replacement.
           replace_lease settings replacement)))) env h =
     bindK (liftK (acquire_request settings name did holder now cur)) (send_lease settings name) env h" for cur now env h
    by (auto simp: acquire_request_def send_lease_def bindK_def bindE_def split: option.splits sum.splits prod.splits)
  then show ?thesis unfolding try_acquire_def fun_eq_iff by (simp add: bindK_def split: prod.splits sum.splits)
qed

lemma renew_request_eq:
  "renew settings name did holder env h =
     bindK (kube_get settings ''Lease'' name None) (\<lambda>current.
     bindK (askK e_now) (\<lambda>now.
     bindK (liftK (renew_request settings name did holder now current)) (send_lease settings name))) env h"
  unfolding renew_def
  by (auto simp: renew_request_def send_lease_def bindK_def bindE_def split: option.splits sum.splits prod.splits)

lemma release_request_eq:
  "release_lease settings name holder =
     bindK (kube_get settings ''Lease'' name None) (\<lambda>current.
     bindK (liftK (release_request holder current)) (send_lease settings name))"
proof -
  have "(case lease of
       None \<Rightarrow> retK False
     | Some lease \<Rightarrow>
         (case (dget lease ''metadata'', dget lease ''spec'') of
            (JObj metadata, JObj spec) \<Rightarrow>
              if dget spec ''holderIdentity'' \<noteq> JStr holder then retK False
              else (case (dget metadata ''uid'', dget metadata ''resourceVersion'') of
                 (JStr uid, JStr resource_version) \<Rightarrow>
                   if uid = [] \<or> resource_version = [] then
                     raiseK (KubernetesApiError ''Kubernetes returned an invalid Lease identity.'' None)
                   else send_lease settings name (Remove uid resource_version)
               | _ \<Rightarrow> raiseK (KubernetesApiError ''Kubernetes returned an invalid Lease identity.'' None))
          | _ \<Rightarrow> raiseK (KubernetesApiError ''Kubernetes returned an invalid Lease.'' None))) =
      bindK (liftK (release_request holder lease)) (send_lease settings name)" for lease
    by (auto simp: release_request_def liftK_Inr bindK_retK send_lease_def fun_eq_iff split: option.splits json.splits)
  from this [symmetric] show ?thesis
    unfolding release_lease_def by (simp only: send_lease_def lease_request.case)
qed

end
