(* ===== verification/Lease_Protocol.thy ===== *)
theory Lease_Protocol
  imports Lease_Requests Samples
begin

text \<open>
  Mutual exclusion of the Lease of \<open>lease.py\<close>.

  Any number of holders interleave the reads and writes of \<open>Lease_Requests\<close> against one API
  server. The server is a parameter: \<open>optimistic\<close> states what Kubernetes documents of it,
  that a write takes effect only on the \<open>resourceVersion\<close> it names and that versions are never
  reused. The local clock of a holder is ahead of the reference clock by at most \<open>skew\<close>.

  \<open>lease_exclusive\<close>: two holders never hold at the same time, when each counts its Lease from
  its last successful write until the duration, less the skew, has passed.
\<close>

section \<open>Holders and the API server\<close>

record 's lease_api =
  la_get :: "'s \<Rightarrow> json dict option"
  la_create :: "'s \<Rightarrow> json dict \<Rightarrow> bool \<times> 's"
  la_replace :: "'s \<Rightarrow> json dict \<Rightarrow> bool \<times> 's"
  la_delete :: "'s \<Rightarrow> string \<Rightarrow> string \<Rightarrow> bool \<times> 's"
  la_issued :: "'s \<Rightarrow> string set"

definition lease_version :: "json dict \<Rightarrow> string" where
  "lease_version lease = (case dget lease ''metadata'' of
     JObj m \<Rightarrow> (case dget m ''resourceVersion'' of JStr v \<Rightarrow> v | _ \<Rightarrow> []) | _ \<Rightarrow> [])"

text \<open>The server stored \<open>r\<close> under a version it had not issued before.\<close>

definition stored :: "('s, 'x) lease_api_scheme \<Rightarrow> 's \<Rightarrow> 's \<Rightarrow> json dict \<Rightarrow> bool" where
  "stored api s s' r \<longleftrightarrow> (\<exists>lease. la_get api s' = Some lease \<and> dget lease ''spec'' = dget r ''spec''
     \<and> lease_version lease \<notin> la_issued api s \<and> la_issued api s' = insert (lease_version lease) (la_issued api s))"

definition at_version :: "('s, 'x) lease_api_scheme \<Rightarrow> 's \<Rightarrow> string \<Rightarrow> bool" where
  "at_version api s v \<longleftrightarrow> (\<exists>lease. la_get api s = Some lease \<and> lease_version lease = v)"

definition optimistic :: "('s, 'x) lease_api_scheme \<Rightarrow> bool" where
  "optimistic api \<longleftrightarrow>
     (\<forall>s lease. la_get api s = Some lease \<longrightarrow> lease_version lease \<in> la_issued api s)
     \<and> (\<forall>s r b s'. la_create api s r = (b, s') \<longrightarrow> (if b then la_get api s = None \<and> stored api s s' r else s' = s))
     \<and> (\<forall>s r b s'. la_replace api s r = (b, s') \<longrightarrow>
          (if b then at_version api s (lease_version r) \<and> stored api s s' r else s' = s))
     \<and> (\<forall>s uid v b s'. la_delete api s uid v = (b, s') \<longrightarrow>
          (if b then at_version api s v \<and> la_get api s' = None \<and> la_issued api s' = la_issued api s else s' = s))"

definition serve :: "('s, 'x) lease_api_scheme \<Rightarrow> lease_request \<Rightarrow> 's \<Rightarrow> bool \<times> 's" where
  "serve api req s = (case req of
     Keep \<Rightarrow> (False, s) | Create r \<Rightarrow> la_create api s r | Replace r \<Rightarrow> la_replace api s r
   | Remove uid v \<Rightarrow> la_delete api s uid v)"

datatype holding =
    Waiting
  | Asked int
  | Acquiring int "json dict option"
  | Held int
  | Renewing int "json dict option"
  | Finishing
  | Releasing "json dict option"
  | Finished

record 's lease_system =
  ls_server :: 's
  ls_clock :: int
  ls_holders :: "string \<Rightarrow> holding"

definition set_holder :: "string \<Rightarrow> holding \<Rightarrow> 's lease_system \<Rightarrow> 's lease_system" where
  "set_holder p x sys = sys\<lparr>ls_holders := (ls_holders sys)(p := x)\<rparr>"

definition near :: "int \<Rightarrow> 's lease_system \<Rightarrow> int \<Rightarrow> bool" where
  "near skew sys n \<longleftrightarrow> datetime_range n \<and> n \<le> ls_clock sys + skew"

text \<open>
  A write whose answer is lost still takes effect: \<open>acquire_lost\<close> and \<open>renew_lost\<close>. A holder that
  raised in \<open>acquire\<close> is finished; one that ends its body, or that lost its Lease, releases.
\<close>

inductive lease_step ::
  "controller_settings \<Rightarrow> string \<Rightarrow> string \<Rightarrow> int \<Rightarrow> 's lease_api \<Rightarrow> 's lease_system \<Rightarrow> 's lease_system \<Rightarrow> bool"
  for settings name did skew api where
  tick: "ls_clock sys \<le> t \<Longrightarrow> lease_step settings name did skew api sys (sys\<lparr>ls_clock := t\<rparr>)"
| ask: "ls_holders sys p = Waiting \<Longrightarrow> p \<noteq> [] \<Longrightarrow> near skew sys n \<Longrightarrow>
    lease_step settings name did skew api sys (set_holder p (Asked n) sys)"
| read: "ls_holders sys p = Asked n \<Longrightarrow>
    lease_step settings name did skew api sys (set_holder p (Acquiring n (la_get api (ls_server sys))) sys)"
| acquire_write: "ls_holders sys p = Acquiring n cur \<Longrightarrow>
    acquire_request settings name did p n cur = Inr req \<Longrightarrow> serve api req (ls_server sys) = (b, srv) \<Longrightarrow>
    lease_step settings name did skew api sys (set_holder p (if b then Held n else Waiting) (sys\<lparr>ls_server := srv\<rparr>))"
| acquire_lost: "ls_holders sys p = Acquiring n cur \<Longrightarrow>
    acquire_request settings name did p n cur = Inr req \<Longrightarrow> serve api req (ls_server sys) = (b, srv) \<Longrightarrow>
    lease_step settings name did skew api sys (set_holder p Finished (sys\<lparr>ls_server := srv\<rparr>))"
| acquire_failed: "ls_holders sys p \<in> {Waiting, Asked n, Acquiring n cur} \<Longrightarrow>
    lease_step settings name did skew api sys (set_holder p Finished sys)"
| renew_read: "ls_holders sys p = Held t \<Longrightarrow>
    lease_step settings name did skew api sys (set_holder p (Renewing t (la_get api (ls_server sys))) sys)"
| renew_write: "ls_holders sys p = Renewing t cur \<Longrightarrow> near skew sys n \<Longrightarrow>
    renew_request settings name did p n cur = Inr req \<Longrightarrow> serve api req (ls_server sys) = (b, srv) \<Longrightarrow>
    lease_step settings name did skew api sys (set_holder p (if b then Held n else Finishing) (sys\<lparr>ls_server := srv\<rparr>))"
| renew_lost: "ls_holders sys p = Renewing t cur \<Longrightarrow> near skew sys n \<Longrightarrow>
    renew_request settings name did p n cur = Inr req \<Longrightarrow> serve api req (ls_server sys) = (b, srv) \<Longrightarrow>
    lease_step settings name did skew api sys (set_holder p Finishing (sys\<lparr>ls_server := srv\<rparr>))"
| finish: "ls_holders sys p \<in> {Held t, Renewing t cur} \<Longrightarrow>
    lease_step settings name did skew api sys (set_holder p Finishing sys)"
| release_read: "ls_holders sys p = Finishing \<Longrightarrow>
    lease_step settings name did skew api sys (set_holder p (Releasing (la_get api (ls_server sys))) sys)"
| release_write: "ls_holders sys p = Releasing cur \<Longrightarrow> release_request p cur = Inr req \<Longrightarrow>
    serve api req (ls_server sys) = (b, srv) \<Longrightarrow>
    lease_step settings name did skew api sys (set_holder p Finished (sys\<lparr>ls_server := srv\<rparr>))"
| release_failed: "ls_holders sys p \<in> {Finishing, Releasing cur} \<Longrightarrow>
    lease_step settings name did skew api sys (set_holder p Finished sys)"

definition lease_start :: "'s lease_system \<Rightarrow> bool" where
  "lease_start sys \<longleftrightarrow> (\<forall>p. ls_holders sys p = Waiting)"

definition holds_lease :: "controller_settings \<Rightarrow> int \<Rightarrow> 's lease_system \<Rightarrow> string \<Rightarrow> bool" where
  "holds_lease settings skew sys p = (case ls_holders sys p of
     Held t \<Rightarrow> ls_clock sys + skew < t + s_lease_duration_seconds settings * 1000000
   | Renewing t _ \<Rightarrow> ls_clock sys + skew < t + s_lease_duration_seconds settings * 1000000
   | _ \<Rightarrow> False)"


section \<open>The invariant\<close>

text \<open>The Lease names the holder and the time of its last successful write.\<close>

definition names_holder :: "controller_settings \<Rightarrow> json dict \<Rightarrow> string \<Rightarrow> int \<Rightarrow> bool" where
  "names_holder settings lease p t \<longleftrightarrow>
     (\<exists>spec. dget lease ''spec'' = JObj spec \<and> dget spec ''holderIdentity'' = JStr p
        \<and> dget spec ''renewTime'' = JStr (timestamp t) \<and> datetime_range t
        \<and> dget spec ''leaseDurationSeconds'' = JInt (s_lease_duration_seconds settings))"

fun held_since :: "holding \<Rightarrow> int option" where
  "held_since (Held t) = Some t"
| "held_since (Renewing t _) = Some t"
| "held_since _ = None"

fun lease_read :: "holding \<Rightarrow> json dict option" where
  "lease_read (Acquiring _ cur) = cur"
| "lease_read (Renewing _ cur) = cur"
| "lease_read (Releasing cur) = cur"
| "lease_read _ = None"

fun asked_at :: "holding \<Rightarrow> int option" where
  "asked_at (Asked n) = Some n"
| "asked_at (Acquiring n _) = Some n"
| "asked_at _ = None"

definition holder_ok :: "controller_settings \<Rightarrow> int \<Rightarrow> 's lease_api \<Rightarrow> 's lease_system \<Rightarrow> string \<Rightarrow> holding \<Rightarrow> bool" where
  "holder_ok settings skew api sys p x \<longleftrightarrow>
     (x \<noteq> Waiting \<and> x \<noteq> Finished \<longrightarrow> p \<noteq> [])
     \<and> (\<forall>t. held_since x = Some t \<longrightarrow>
          t + s_lease_duration_seconds settings * 1000000 \<le> ls_clock sys + skew
          \<or> (\<exists>lease. la_get api (ls_server sys) = Some lease \<and> names_holder settings lease p t))
     \<and> (\<forall>lease. lease_read x = Some lease \<longrightarrow> lease_version lease \<in> la_issued api (ls_server sys)
          \<and> (\<forall>cur. la_get api (ls_server sys) = Some cur \<longrightarrow> lease_version cur = lease_version lease \<longrightarrow> cur = lease))
     \<and> (\<forall>n. asked_at x = Some n \<longrightarrow> near skew sys n)"

definition lease_inv :: "controller_settings \<Rightarrow> int \<Rightarrow> 's lease_api \<Rightarrow> 's lease_system \<Rightarrow> bool" where
  "lease_inv settings skew api sys \<longleftrightarrow> (\<forall>p. holder_ok settings skew api sys p (ls_holders sys p))"

lemma set_holder_simps [simp]:
  "ls_server (set_holder p x sys) = ls_server sys" "ls_clock (set_holder p x sys) = ls_clock sys"
  "ls_holders (set_holder p x sys) = (ls_holders sys)(p := x)"
  by (simp_all add: set_holder_def)

lemma holder_ok_cong:
  "ls_server sys = ls_server sys' \<Longrightarrow> ls_clock sys = ls_clock sys' \<Longrightarrow>
   holder_ok settings skew api sys p x = holder_ok settings skew api sys' p x"
  by (simp add: holder_ok_def near_def)

lemma lease_inv_set:
  assumes "lease_inv settings skew api sys" "holder_ok settings skew api sys p x"
  shows "lease_inv settings skew api (set_holder p x sys)"
  using assms holder_ok_cong [of "set_holder p x sys" sys] by (simp add: lease_inv_def)

lemma optimisticD:
  assumes "optimistic api"
  shows "la_get api s = Some lease \<Longrightarrow> lease_version lease \<in> la_issued api s"
    and "la_create api s r = (b, s') \<Longrightarrow> if b then la_get api s = None \<and> stored api s s' r else s' = s"
    and "la_replace api s r = (b, s') \<Longrightarrow> if b then at_version api s (lease_version r) \<and> stored api s s' r else s' = s"
    and "la_delete api s uid v = (b, s') \<Longrightarrow>
      if b then at_version api s v \<and> la_get api s' = None \<and> la_issued api s' = la_issued api s else s' = s"
  using assms unfolding optimistic_def by blast+

text \<open>
  The effect of a write on the other holders. \<open>displaces\<close> lists the holders a successful write
  displaces: none but those the condition allows.
\<close>

lemma serve_keeps:
  assumes api: "optimistic api" and srv: "serve api req (ls_server sys) = (b, srv)"
    and ok: "holder_ok settings skew api sys q x"
    and safe: "\<And>t lease. b \<Longrightarrow> held_since x = Some t \<Longrightarrow> la_get api (ls_server sys) = Some lease \<Longrightarrow>
      names_holder settings lease q t \<Longrightarrow> t + s_lease_duration_seconds settings * 1000000 \<le> ls_clock sys + skew"
  shows "holder_ok settings skew api (sys\<lparr>ls_server := srv\<rparr>) q x"
proof (cases b)
  case False
  then have "srv = ls_server sys"
    using srv api by (cases req) (auto simp: serve_def dest: optimisticD(2-4))
  then show ?thesis using ok holder_ok_cong [of "sys\<lparr>ls_server := srv\<rparr>" sys] by simp
next
  case True
  have issued: "la_issued api (ls_server sys) \<subseteq> la_issued api srv
    \<and> (\<forall>cur. la_get api srv = Some cur \<longrightarrow> lease_version cur \<notin> la_issued api (ls_server sys))"
    using srv True optimisticD(2-4) [OF api]
    by (cases req) (fastforce simp: serve_def stored_def)+
  have expired: "t + s_lease_duration_seconds settings * 1000000 \<le> ls_clock sys + skew" if "held_since x = Some t" for t
    using ok safe [OF True] that by (auto simp: holder_ok_def)
  then show ?thesis using ok issued by (auto simp: holder_ok_def near_def)
qed

lemma stored_serves:
  assumes "stored api s s' r" "dget r ''spec'' = JObj spec" "dget spec ''holderIdentity'' = JStr p"
    "dget spec ''renewTime'' = JStr (timestamp n)" "datetime_range n"
    "dget spec ''leaseDurationSeconds'' = JInt (s_lease_duration_seconds settings)"
  shows "\<exists>lease. la_get api s' = Some lease \<and> names_holder settings lease p n"
  using assms by (auto simp: stored_def names_holder_def)

lemma new_lease_spec:
  "\<exists>spec. dget (new_lease settings name did p n) ''spec'' = JObj spec \<and> dget spec ''holderIdentity'' = JStr p
     \<and> dget spec ''renewTime'' = JStr (timestamp n)
     \<and> dget spec ''leaseDurationSeconds'' = JInt (s_lease_duration_seconds settings)"
  by (simp add: new_lease_def)

lemma replacement_lease_spec:
  assumes "replacement_lease settings m sp did p n takeover = Inr r"
  shows "\<exists>spec. dget r ''spec'' = JObj spec \<and> dget spec ''holderIdentity'' = JStr p
     \<and> dget spec ''renewTime'' = JStr (timestamp n)
     \<and> dget spec ''leaseDurationSeconds'' = JInt (s_lease_duration_seconds settings)"
  using assms by (auto simp: replacement_lease_def Let_def split: json.splits if_splits)

lemma replacement_version:
  assumes "validated_lease settings lease name did = Inr (m, sp)"
    "replacement_lease settings m sp did p n takeover = Inr r"
  shows "lease_version r = lease_version lease"
  using assms validated_leaseD [OF assms(1)]
  by (auto simp: replacement_lease_def lease_version_def Let_def split: json.splits if_splits)

lemma expired_since:
  assumes "names_holder settings lease p t" "dget lease ''spec'' = JObj spec" "expired spec n = Inr True"
  shows "t + s_lease_duration_seconds settings * 1000000 \<le> n"
  using assms fromisoformat_timestamp [of t]
  by (auto simp: names_holder_def expired_def timestamp_eq Let_def split: if_splits)


section \<open>Every step keeps the invariant\<close>

text \<open>A request is built from the Lease read before, so a successful one finds that Lease.\<close>

lemma acquire_request_cases:
  assumes "acquire_request settings name did p n cur = Inr req"
  obtains "req = Keep"
    | "cur = None" "req = Create (new_lease settings name did p n)"
    | lease m sp r where "cur = Some lease" "validated_lease settings lease name did = Inr (m, sp)"
        "truthy (dget sp ''holderIdentity'') \<Longrightarrow> expired sp n = Inr True"
        "replacement_lease settings m sp did p n (truthy (dget sp ''holderIdentity'')) = Inr r" "req = Replace r"
proof (cases cur)
  case None
  then show ?thesis using assms that(2) by (simp add: acquire_request_def)
next
  case (Some lease)
  from assms obtain m sp where v: "validated_lease settings lease name did = Inr (m, sp)"
    and rest: "bindE (if truthy (dget sp ''holderIdentity'') then bindE (expired sp n) (\<lambda>x. Inr (\<not> x)) else Inr False) (\<lambda>held.
       if held then Inr Keep
       else bindE (replacement_lease settings m sp did p n (truthy (dget sp ''holderIdentity''))) (\<lambda>r. Inr (Replace r)))
      = Inr req"
    by (auto simp: acquire_request_def Some bindE_eq_Inr [of "validated_lease _ _ _ _"])
  from rest obtain held where h: "(if truthy (dget sp ''holderIdentity'') then bindE (expired sp n) (\<lambda>x. Inr (\<not> x)) else Inr False) = Inr held"
    and r: "(if held then Inr Keep else bindE (replacement_lease settings m sp did p n (truthy (dget sp ''holderIdentity'')))
      (\<lambda>r. Inr (Replace r))) = Inr req"
    unfolding bindE_eq_Inr [of "if _ then _ else _"] by blast
  show ?thesis
  proof (cases held)
    case True
    then show ?thesis using r that(1) by simp
  next
    case False
    then obtain r' where r': "replacement_lease settings m sp did p n (truthy (dget sp ''holderIdentity'')) = Inr r'" "req = Replace r'"
      using r by (auto simp: bindE_eq_Inr)
    have "truthy (dget sp ''holderIdentity'') \<Longrightarrow> expired sp n = Inr True"
      using h False by (auto simp: bindE_eq_Inr)
    then show ?thesis using that(3) Some v r' by blast
  qed
qed

lemma renew_request_cases:
  assumes "renew_request settings name did p n cur = Inr req"
  obtains "req = Keep"
    | lease m sp r where "cur = Some lease" "validated_lease settings lease name did = Inr (m, sp)"
        "dget sp ''holderIdentity'' = JStr p" "replacement_lease settings m sp did p n False = Inr r" "req = Replace r"
proof (cases cur)
  case (Some lease)
  from assms obtain m sp where "validated_lease settings lease name did = Inr (m, sp)"
    and "(if dget sp ''holderIdentity'' \<noteq> JStr p then Inr Keep
       else bindE (replacement_lease settings m sp did p n False) (\<lambda>r. Inr (Replace r))) = Inr req"
    by (auto simp: renew_request_def Some bindE_eq_Inr [of "validated_lease _ _ _ _"])
  then show ?thesis using that Some by (auto simp: bindE_eq_Inr split: if_split_asm)
qed (use assms that in \<open>simp add: renew_request_def\<close>)

lemma release_request_cases:
  assumes "release_request p cur = Inr req"
  obtains "req = Keep"
    | lease sp uid where "cur = Some lease" "dget lease ''spec'' = JObj sp" "dget sp ''holderIdentity'' = JStr p"
        "req = Remove uid (lease_version lease)"
  using assms
  by (auto simp: release_request_def lease_version_def split: option.split_asm json.split_asm if_split_asm)

text \<open>The current Lease is the one the holder read.\<close>

lemma same_lease:
  assumes "holder_ok settings skew api sys p x" "lease_read x = Some lease"
    and "at_version api (ls_server sys) (lease_version lease)"
  shows "la_get api (ls_server sys) = Some lease"
  using assms by (auto simp: holder_ok_def at_version_def)

lemma acquire_write_safe:
  assumes api: "optimistic api" and req: "acquire_request settings name did p n cur = Inr req"
    and srv: "serve api req (ls_server sys) = (True, srv)"
    and ok: "holder_ok settings skew api sys p (Acquiring n cur)"
  shows "la_get api (ls_server sys) = Some lease \<Longrightarrow> names_holder settings lease q t \<Longrightarrow> q \<noteq> [] \<Longrightarrow>
      t + s_lease_duration_seconds settings * 1000000 \<le> ls_clock sys + skew"
    and "\<exists>lease. la_get api srv = Some lease \<and> names_holder settings lease p n"
proof -
  have n: "near skew sys n" using ok by (simp add: holder_ok_def)
  have ne: "req \<noteq> Keep" using srv by (auto simp: serve_def)
  from req have "(la_get api (ls_server sys) = Some lease \<longrightarrow> names_holder settings lease q t \<longrightarrow> q \<noteq> [] \<longrightarrow>
      t + s_lease_duration_seconds settings * 1000000 \<le> ls_clock sys + skew)
    \<and> (\<exists>lease. la_get api srv = Some lease \<and> names_holder settings lease p n)"
  proof (cases rule: acquire_request_cases)
    case 1
    then show ?thesis using ne by simp
  next
    case 2
    then have none: "la_get api (ls_server sys) = None" and st: "stored api (ls_server sys) srv (new_lease settings name did p n)"
      using srv optimisticD(2) [OF api] by (fastforce simp: serve_def)+
    have "\<exists>lease. la_get api srv = Some lease \<and> names_holder settings lease p n"
      using new_lease_spec [of settings name did p n] stored_serves [OF st] n by (auto simp: near_def)
    then show ?thesis using none by simp
  next
    case 2: (3 l m sp r)
    then have "at_version api (ls_server sys) (lease_version r)" and st: "stored api (ls_server sys) srv r"
      using srv optimisticD(3) [OF api] by (fastforce simp: serve_def)+
    then have cur: "la_get api (ls_server sys) = Some l"
      using same_lease [OF ok] 2 replacement_version [OF 2(2,4)] by simp
    have "t + s_lease_duration_seconds settings * 1000000 \<le> ls_clock sys + skew"
      if "la_get api (ls_server sys) = Some lease" and names: "names_holder settings lease q t" "q \<noteq> []"
    proof -
      have "lease = l" using that cur by simp
      then have "dget sp ''holderIdentity'' = JStr q"
        using names validated_leaseD(2) [OF 2(2)] by (auto simp: names_holder_def)
      then have "t + s_lease_duration_seconds settings * 1000000 \<le> n"
        using expired_since [OF names(1)] \<open>lease = l\<close> validated_leaseD(2) [OF 2(2)] 2(3) names(2) by simp
      then show ?thesis using n by (simp add: near_def)
    qed
    moreover have "\<exists>lease. la_get api srv = Some lease \<and> names_holder settings lease p n"
      using replacement_lease_spec [OF 2(4)] stored_serves [OF st] n by (auto simp: near_def)
    ultimately show ?thesis by blast
  qed
  then show "la_get api (ls_server sys) = Some lease \<Longrightarrow> names_holder settings lease q t \<Longrightarrow> q \<noteq> [] \<Longrightarrow>
      t + s_lease_duration_seconds settings * 1000000 \<le> ls_clock sys + skew"
    and "\<exists>lease. la_get api srv = Some lease \<and> names_holder settings lease p n" by blast+
qed

lemma renew_write_safe:
  assumes api: "optimistic api" and req: "renew_request settings name did p n cur = Inr req"
    and srv: "serve api req (ls_server sys) = (True, srv)"
    and ok: "holder_ok settings skew api sys p (Renewing s cur)" and n: "near skew sys n"
  shows "la_get api (ls_server sys) = Some lease \<Longrightarrow> names_holder settings lease q t \<Longrightarrow> q = p"
    and "\<exists>lease. la_get api srv = Some lease \<and> names_holder settings lease p n"
proof -
  obtain l m sp r where 2: "cur = Some l" "validated_lease settings l name did = Inr (m, sp)"
        "dget sp ''holderIdentity'' = JStr p" "replacement_lease settings m sp did p n False = Inr r" "req = Replace r"
    by (rule renew_request_cases [OF req]) (use srv in \<open>auto simp: serve_def\<close>)
  then have "at_version api (ls_server sys) (lease_version r)" and st: "stored api (ls_server sys) srv r"
    using srv optimisticD(3) [OF api] by (fastforce simp: serve_def)+
  then have cur: "la_get api (ls_server sys) = Some l"
    using same_lease [OF ok] 2 replacement_version [OF 2(2,4)] by simp
  then show "la_get api (ls_server sys) = Some lease \<Longrightarrow> names_holder settings lease q t \<Longrightarrow> q = p"
    using 2(3) validated_leaseD(2) [OF 2(2)] by (auto simp: names_holder_def)
  show "\<exists>lease. la_get api srv = Some lease \<and> names_holder settings lease p n"
    using replacement_lease_spec [OF 2(4)] stored_serves [OF st] n by (auto simp: near_def)
qed

lemma release_write_safe:
  assumes api: "optimistic api" and req: "release_request p cur = Inr req"
    and srv: "serve api req (ls_server sys) = (True, srv)"
    and ok: "holder_ok settings skew api sys p (Releasing cur)"
    and "la_get api (ls_server sys) = Some lease" "names_holder settings lease q t"
  shows "q = p"
proof -
  obtain l sp uid where 2: "cur = Some l" "dget l ''spec'' = JObj sp" "dget sp ''holderIdentity'' = JStr p"
      "req = Remove uid (lease_version l)"
    by (rule release_request_cases [OF req]) (use srv in \<open>auto simp: serve_def\<close>)
  then have "at_version api (ls_server sys) (lease_version l)"
    using srv optimisticD(4) [OF api] by (fastforce simp: serve_def)
  then have "la_get api (ls_server sys) = Some l" using same_lease [OF ok] 2 by simp
  then show ?thesis using 2 assms(5,6) by (auto simp: names_holder_def)
qed


lemma write_keeps_inv:
  assumes api: "optimistic api" and inv: "lease_inv settings skew api sys"
    and srv: "serve api req (ls_server sys) = (b, srv)"
    and others: "\<And>q t lease. b \<Longrightarrow> q \<noteq> p \<Longrightarrow> q \<noteq> [] \<Longrightarrow> la_get api (ls_server sys) = Some lease \<Longrightarrow>
      names_holder settings lease q t \<Longrightarrow> t + s_lease_duration_seconds settings * 1000000 \<le> ls_clock sys + skew"
    and own: "holder_ok settings skew api (sys\<lparr>ls_server := srv\<rparr>) p x"
  shows "lease_inv settings skew api (set_holder p x (sys\<lparr>ls_server := srv\<rparr>))"
  unfolding lease_inv_def
proof (rule allI)
  fix q
  let ?sys = "sys\<lparr>ls_server := srv\<rparr>"
  have cong: "holder_ok settings skew api (set_holder p x ?sys) q y = holder_ok settings skew api ?sys q y" for y
    by (rule holder_ok_cong) simp_all
  show "holder_ok settings skew api (set_holder p x ?sys) q (ls_holders (set_holder p x ?sys) q)"
  proof (cases "q = p")
    case False
    have ok: "holder_ok settings skew api sys q (ls_holders sys q)" using inv by (simp add: lease_inv_def)
    have "holder_ok settings skew api ?sys q (ls_holders sys q)"
    proof (rule serve_keeps [OF api srv ok])
      fix t lease assume "held_since (ls_holders sys q) = Some t"
      then have ne: "q \<noteq> []" using ok by (cases "ls_holders sys q") (auto simp: holder_ok_def)
      show "b \<Longrightarrow> la_get api (ls_server sys) = Some lease \<Longrightarrow> names_holder settings lease q t \<Longrightarrow>
          t + s_lease_duration_seconds settings * 1000000 \<le> ls_clock sys + skew" by (rule others [OF _ False ne])
    qed
    then show ?thesis using False cong by simp
  qed (use own cong in simp)
qed

lemma holder_ok_idle: "x \<in> {Waiting, Finished} \<Longrightarrow> holder_ok settings skew api sys p x"
  "p \<noteq> [] \<Longrightarrow> holder_ok settings skew api sys p Finishing"
  by (auto simp: holder_ok_def)

lemma holder_ok_held:
  "p \<noteq> [] \<Longrightarrow> \<exists>lease. la_get api srv = Some lease \<and> names_holder settings lease p n \<Longrightarrow>
   holder_ok settings skew api (sys\<lparr>ls_server := srv\<rparr>) p (Held n)"
  by (auto simp: holder_ok_def)

lemma holder_named: "holder_ok settings skew api sys p x \<Longrightarrow> x \<noteq> Waiting \<Longrightarrow> x \<noteq> Finished \<Longrightarrow> p \<noteq> []"
  by (simp add: holder_ok_def)

lemma lease_step_inv:
  assumes "lease_step settings name did skew api sys sys'" and api: "optimistic api"
    and inv: "lease_inv settings skew api sys"
  shows "lease_inv settings skew api sys'"
  using assms(1)
proof cases
  case (tick t)
  have "holder_ok settings skew api sys p x \<Longrightarrow> holder_ok settings skew api (sys\<lparr>ls_clock := t\<rparr>) p x" for p x
    using tick(2) by (fastforce simp: holder_ok_def near_def)
  then show ?thesis using inv tick(1) by (simp add: lease_inv_def)
next
  case (ask p n)
  then show ?thesis using inv by (auto intro!: lease_inv_set simp: holder_ok_def)
next
  case (read p n)
  then have "holder_ok settings skew api sys p (Asked n)" using inv by (metis lease_inv_def)
  then show ?thesis using inv read optimisticD(1) [OF api] by (auto intro!: lease_inv_set simp: holder_ok_def)
next
  case (acquire_write p n cur req b srv)
  then have ok: "holder_ok settings skew api sys p (Acquiring n cur)" using inv by (metis lease_inv_def)
  note safe = acquire_write_safe [OF api acquire_write(3) _ ok]
  have "holder_ok settings skew api (sys\<lparr>ls_server := srv\<rparr>) p (if b then Held n else Waiting)"
    using safe(2) acquire_write(4) holder_named [OF ok] by (cases b) (simp_all add: holder_ok_idle holder_ok_held)
  then show ?thesis
    unfolding acquire_write(1) using safe(1) acquire_write(4) by (intro write_keeps_inv [OF api inv acquire_write(4)]) auto
next
  case (acquire_lost p n cur req b srv)
  then have ok: "holder_ok settings skew api sys p (Acquiring n cur)" using inv by (metis lease_inv_def)
  show ?thesis
    unfolding acquire_lost(1) using acquire_write_safe(1) [OF api acquire_lost(3) _ ok] acquire_lost(4)
    by (intro write_keeps_inv [OF api inv acquire_lost(4)] holder_ok_idle) auto
next
  case (acquire_failed p n cur)
  then show ?thesis using inv by (auto intro!: lease_inv_set holder_ok_idle)
next
  case (renew_read p t)
  then have "holder_ok settings skew api sys p (Held t)" using inv by (metis lease_inv_def)
  then show ?thesis using inv renew_read optimisticD(1) [OF api] by (auto intro!: lease_inv_set simp: holder_ok_def)
next
  case (renew_write p t cur n req b srv)
  then have ok: "holder_ok settings skew api sys p (Renewing t cur)" using inv by (metis lease_inv_def)
  note safe = renew_write_safe [OF api renew_write(4) _ ok renew_write(3)]
  have "holder_ok settings skew api (sys\<lparr>ls_server := srv\<rparr>) p (if b then Held n else Finishing)"
    using safe(2) renew_write(5) holder_named [OF ok] by (cases b) (simp_all add: holder_ok_idle holder_ok_held)
  then show ?thesis
    unfolding renew_write(1) using safe(1) renew_write(5) by (intro write_keeps_inv [OF api inv renew_write(5)]) auto
next
  case (renew_lost p t cur n req b srv)
  then have ok: "holder_ok settings skew api sys p (Renewing t cur)" using inv by (metis lease_inv_def)
  show ?thesis
    unfolding renew_lost(1) using renew_write_safe(1) [OF api renew_lost(4) _ ok renew_lost(3)] renew_lost(5) holder_named [OF ok]
    by (intro write_keeps_inv [OF api inv renew_lost(5)] holder_ok_idle) auto
next
  case (finish p t cur)
  then have "holder_ok settings skew api sys p (ls_holders sys p)" using inv by (metis lease_inv_def)
  then show ?thesis using inv finish by (auto intro!: lease_inv_set holder_ok_idle dest: holder_named)
next
  case (release_read p)
  then have "holder_ok settings skew api sys p Finishing" using inv by (metis lease_inv_def)
  then show ?thesis using inv release_read optimisticD(1) [OF api] by (auto intro!: lease_inv_set simp: holder_ok_def)
next
  case (release_write p cur req b srv)
  then have ok: "holder_ok settings skew api sys p (Releasing cur)" using inv by (metis lease_inv_def)
  show ?thesis
    unfolding release_write(1) using release_write_safe [OF api release_write(3) _ ok] release_write(4)
    by (intro write_keeps_inv [OF api inv release_write(4)] holder_ok_idle) auto
next
  case (release_failed p cur)
  then show ?thesis using inv by (auto intro!: lease_inv_set holder_ok_idle)
qed

interpretation lease: inductive_invariant
  "\<lambda>sys. optimistic api \<and> lease_start sys" "lease_step settings name did skew api"
  "\<lambda>sys. optimistic api \<and> lease_inv settings skew api sys"
  for settings name did skew api
  by unfold_locales (simp add: lease_start_def lease_inv_def holder_ok_idle, blast intro: lease_step_inv)

lemma lease_inv_exclusive:
  assumes "lease_inv settings skew api sys" "holds_lease settings skew sys p" "holds_lease settings skew sys q"
  shows "p = q"
proof -
  have "\<exists>t lease. la_get api (ls_server sys) = Some lease \<and> names_holder settings lease r t"
    if r: "holds_lease settings skew sys r" for r
  proof -
    obtain t where "held_since (ls_holders sys r) = Some t" "ls_clock sys + skew < t + s_lease_duration_seconds settings * 1000000"
      using r by (cases "ls_holders sys r") (auto simp: holds_lease_def)
    then show ?thesis using assms(1) by (fastforce simp: lease_inv_def holder_ok_def)
  qed
  from this [OF assms(2)] this [OF assms(3)] show ?thesis by (auto simp: names_holder_def)
qed

theorem lease_exclusive:
  assumes "optimistic api" "lease_start sys0" "(lease_step settings name did skew api)\<^sup>*\<^sup>* sys0 sys"
    and "holds_lease settings skew sys p" "holds_lease settings skew sys q"
  shows "p = q"
  using lease.reachable_inv [OF conjI [OF assms(1,2)] assms(3)] lease_inv_exclusive assms(4,5) by blast


section \<open>A server that satisfies the laws\<close>

text \<open>The Leases written so far, newest first, and whether the newest still exists; the version counts them.\<close>

type_synonym lease_store = "json dict list \<times> bool"

definition version_text :: "nat \<Rightarrow> string" where
  "version_text n = str_int (int n)"

definition with_version :: "nat \<Rightarrow> json dict \<Rightarrow> json dict" where
  "with_version n r = [(''apiVersion'', dget r ''apiVersion''), (''kind'', dget r ''kind''),
     (''metadata'', JObj (dput ''uid'' (JStr ''lease'') (dput ''resourceVersion'' (JStr (version_text n))
        (case dget r ''metadata'' of JObj m \<Rightarrow> m | _ \<Rightarrow> [])))),
     (''spec'', dget r ''spec'')]"

definition store_get :: "lease_store \<Rightarrow> json dict option" where
  "store_get s = (case s of (r # rs, True) \<Rightarrow> Some (with_version (length (r # rs)) r) | _ \<Rightarrow> None)"

definition store_at :: "lease_store \<Rightarrow> string \<Rightarrow> bool" where
  "store_at s v = (case store_get s of None \<Rightarrow> False | Some l \<Rightarrow> lease_version l = v)"

definition store_api :: "lease_store lease_api" where
  "store_api = \<lparr>la_get = store_get,
     la_create = (\<lambda>s r. if store_get s = None then (True, (r # fst s, True)) else (False, s)),
     la_replace = (\<lambda>s r. if store_at s (lease_version r) then (True, (r # fst s, True)) else (False, s)),
     la_delete = (\<lambda>s uid v. if store_at s v then (True, (fst s, False)) else (False, s)),
     la_issued = (\<lambda>s. version_text ` {..length (fst s)})\<rparr>"

lemma version_text_inject [simp]: "version_text m = version_text n \<longleftrightarrow> m = n"
  using parse_number_str_int by (metis json.inject(2) of_nat_eq_iff option.inject prod.inject version_text_def)

lemma with_version_simps [simp]:
  "lease_version (with_version n r) = version_text n" "dget (with_version n r) ''spec'' = dget r ''spec''"
  by (simp_all add: with_version_def lease_version_def dget_or_def map_of_dput)

lemma store_get_version: "store_get s = Some l \<Longrightarrow> lease_version l = version_text (length (fst s))"
  by (auto simp: store_get_def split: prod.splits list.splits bool.splits)

lemma store_written: "stored store_api s (r # fst s, True) r"
proof -
  have "version_text (Suc (length (fst s))) \<notin> version_text ` {..length (fst s)}" by auto
  moreover have "version_text ` {..Suc n} = insert (version_text (Suc n)) (version_text ` {..n})" for n
    by (simp add: atMost_Suc)
  ultimately show ?thesis
    unfolding stored_def by (intro exI [of _ "with_version (Suc (length (fst s))) r"]) (simp add: store_api_def store_get_def)
qed

lemma store_optimistic: "optimistic store_api"
proof -
  have "lease_version l \<in> version_text ` {..length (fst s)}" if "store_get s = Some l" for s l
    using store_get_version [OF that] by simp
  moreover have "at_version store_api s v \<longleftrightarrow> store_at s v" for s v
    by (auto simp: at_version_def store_at_def store_api_def split: option.splits)
  moreover have "store_get (fst s, False) = None" for s by (cases s; cases "fst s") (simp_all add: store_get_def)
  ultimately show ?thesis
    unfolding optimistic_def using store_written
    by (auto simp: store_api_def split: if_split_asm)
qed


text \<open>Two holders at the reference time zero; the first has acquired the Lease.\<close>

definition sample_lease_start :: "lease_store lease_system" where
  "sample_lease_start = \<lparr>ls_server = ([], False), ls_clock = 0, ls_holders = (\<lambda>_. Waiting)\<rparr>"

definition sample_lease_held :: "lease_store lease_system" where
  "sample_lease_held = sample_lease_start
     \<lparr>ls_server := ([new_lease sample_settings (lease_name sample_id) sample_id ''replica-a'' 0], True),
      ls_holders := (\<lambda>_. Waiting)(''replica-a'' := Held 0)\<rparr>"

lemma sample_lease_run:
  "(lease_step sample_settings (lease_name sample_id) sample_id 1000 store_api)\<^sup>*\<^sup>* sample_lease_start sample_lease_held"
proof -
  let ?step = "lease_step sample_settings (lease_name sample_id) sample_id 1000 store_api"
  let ?a = "''replica-a''"
  let ?s1 = "set_holder ?a (Asked 0) sample_lease_start"
  let ?s2 = "set_holder ?a (Acquiring 0 None) ?s1"
  have s1: "?step sample_lease_start ?s1"
    by (rule ask) (simp_all add: sample_lease_start_def near_def datetime_range_def EPOCH_ORDINAL_def)
  have s2: "?step ?s1 ?s2"
    using read [of ?s1 ?a 0 sample_settings "lease_name sample_id" sample_id 1000 store_api]
    by (simp add: store_api_def store_get_def sample_lease_start_def)
  have s3: "?step ?s2 sample_lease_held"
  proof -
    let ?new = "new_lease sample_settings (lease_name sample_id) sample_id ?a 0"
    have "serve store_api (Create ?new) (ls_server ?s2) = (True, ([?new], True))"
      by (simp add: serve_def store_api_def store_get_def sample_lease_start_def)
    from acquire_write [of ?s2 ?a 0 None sample_settings "lease_name sample_id" sample_id "Create ?new", OF _ _ this]
    show ?thesis
      by (simp add: acquire_request_def set_holder_def sample_lease_held_def sample_lease_start_def)
  qed
  show ?thesis
    by (rule converse_rtranclp_into_rtranclp [where r = ?step, OF s1],
        rule converse_rtranclp_into_rtranclp [where r = ?step, OF s2], rule r_into_rtranclp [where r = ?step, OF s3])
qed

lemma sample_lease_holds: "holds_lease sample_settings 1000 sample_lease_held ''replica-a''"
  by (simp add: holds_lease_def sample_lease_held_def sample_lease_start_def sample_settings_def)

end
