(* ===== verification/Runtime_System.thy ===== *)
theory Runtime_System
  imports Worker Runtime_Views
begin

text \<open>
  The runtime API and the workers over one database.

  \<open>runtime_step\<close> is one transaction: a handler of \<open>runtime_views.py\<close>, a claim or a recorded
  outcome of \<open>runtime_worker.py\<close>, or a change of the catalogue by another part of the
  application. What a handler read before its transaction (\<open>db0\<close>), the stale row a worker
  works on, its token and the controller's answer are arbitrary, so the relation contains every
  interleaving of requests and workers. \<open>db_ok\<close> is the invariant of the tables.
\<close>

section \<open>The invariant\<close>

definition mutating :: "operation_row \<Rightarrow> bool" where
  "mutating op \<longleftrightarrow> is_active op \<and> o_type op \<noteq> ''log_snapshot''"

definition reading :: "operation_row \<Rightarrow> bool" where
  "reading op \<longleftrightarrow> is_active op \<and> o_type op = ''log_snapshot''"

definition operation_ok :: "operation_row \<Rightarrow> bool" where
  "operation_ok op \<longleftrightarrow> (o_lease_token op \<noteq> None \<longrightarrow> o_status op = RUNNING)
     \<and> (is_active op \<longleftrightarrow> o_finished_at op = None)
     \<and> o_controller_failures op \<le> MAX_CONTROLLER_FAILURES
     \<and> (is_active op \<longrightarrow> o_controller_failures op < MAX_CONTROLLER_FAILURES)"

definition deployment_ok :: "deployment_row \<Rightarrow> bool" where
  "deployment_ok d \<longleftrightarrow> 1 \<le> dp_generation d \<and> 1 \<le> dp_revision d \<and> dp_observed_generation d \<le> dp_generation d"

text \<open>An operation and the deployment it belongs to.\<close>

definition belongs :: "operation_row \<Rightarrow> deployment_row \<Rightarrow> bool" where
  "belongs op d \<longleftrightarrow> dp_id d = o_deployment op \<and> o_target_generation op \<le> dp_generation d
     \<and> (mutating op \<longrightarrow> o_target_generation op = dp_generation d)"

definition one_each :: "(operation_row \<Rightarrow> bool) \<Rightarrow> operation_row list \<Rightarrow> bool" where
  "one_each P os \<longleftrightarrow> (\<forall>x \<in> set os. \<forall>y \<in> set os. P x \<and> P y \<and> o_deployment x = o_deployment y \<longrightarrow> o_id x = o_id y)"

definition one_live :: "deployment_row list \<Rightarrow> bool" where
  "one_live ds \<longleftrightarrow> (\<forall>x \<in> set ds. \<forall>y \<in> set ds. dp_deleted_at x = None \<and> dp_deleted_at y = None
     \<and> dp_application x = dp_application y \<and> dp_environment x = dp_environment y \<longrightarrow> dp_id x = dp_id y)"

definition db_ok :: "db \<Rightarrow> bool" where
  "db_ok db \<longleftrightarrow>
     distinct (map o_id (db_operations db)) \<and> distinct (map o_idempotency_key (db_operations db))
     \<and> distinct (map dp_id (db_deployments db))
     \<and> list_all operation_ok (db_operations db) \<and> list_all deployment_ok (db_deployments db)
     \<and> (\<forall>op \<in> set (db_operations db). \<exists>d \<in> set (db_deployments db). belongs op d)
     \<and> one_each mutating (db_operations db) \<and> one_each reading (db_operations db)
     \<and> one_live (db_deployments db)"

lemma db_okD:
  assumes "db_ok db"
  shows "distinct (map o_id (db_operations db))" "distinct (map o_idempotency_key (db_operations db))"
    "distinct (map dp_id (db_deployments db))"
    "op \<in> set (db_operations db) \<Longrightarrow> operation_ok op" "d \<in> set (db_deployments db) \<Longrightarrow> deployment_ok d"
    "op \<in> set (db_operations db) \<Longrightarrow> \<exists>d \<in> set (db_deployments db). belongs op d"
    "one_each mutating (db_operations db)" "one_each reading (db_operations db)" "one_live (db_deployments db)"
  using assms by (auto simp: db_ok_def list_all_iff)

lemma same_id:
  "distinct (map f xs) \<Longrightarrow> x \<in> set xs \<Longrightarrow> y \<in> set xs \<Longrightarrow> f x = f y \<Longrightarrow> x = y"
  by (auto simp: distinct_map inj_on_def)

lemma belongs_deployment:
  assumes "db_ok db" "op \<in> set (db_operations db)" "d \<in> set (db_deployments db)" "dp_id d = o_deployment op"
  shows "belongs op d"
proof -
  obtain e where "e \<in> set (db_deployments db)" "belongs op e" using db_okD(6) [OF assms(1,2)] by blast
  moreover have "e = d" using calculation assms same_id [OF db_okD(3) [OF assms(1)]] by (auto simp: belongs_def)
  ultimately show ?thesis by simp
qed


section \<open>Updates that keep the invariant\<close>

text \<open>What a worker may change of an operation: never its identity, never back to active.\<close>

definition evolves :: "operation_row \<Rightarrow> operation_row \<Rightarrow> bool" where
  "evolves op op' \<longleftrightarrow> o_id op' = o_id op \<and> o_deployment op' = o_deployment op \<and> o_type op' = o_type op
     \<and> o_idempotency_key op' = o_idempotency_key op \<and> o_request_hash op' = o_request_hash op
     \<and> o_target_generation op' = o_target_generation op
     \<and> o_requested_at op' = o_requested_at op \<and> o_payload op' = o_payload op
     \<and> is_active op \<and> operation_ok op'"

lemma evolves_mutating: "evolves op op' \<Longrightarrow> mutating op' \<Longrightarrow> mutating op" "evolves op op' \<Longrightarrow> reading op' \<Longrightarrow> reading op"
  by (auto simp: evolves_def mutating_def reading_def)

lemma evolves_belongs: "evolves op op' \<Longrightarrow> belongs op d \<Longrightarrow> belongs op' d"
  using evolves_mutating by (auto simp: belongs_def evolves_def)

lemma one_each_save:
  assumes "one_each P (db_operations db)" "op \<in> set (db_operations db)" "evolves op op'" "P op' \<Longrightarrow> P op"
  shows "one_each P (db_operations (save_operation op' db))"
proof -
  have id: "o_id op' = o_id op" "o_deployment op' = o_deployment op" using assms(3) by (simp_all add: evolves_def)
  have "\<exists>x0 \<in> set (db_operations db). P x0 \<and> o_id x0 = o_id x \<and> o_deployment x0 = o_deployment x"
    if "x \<in> set (db_operations (save_operation op' db))" "P x" for x
    using that assms(2,4) id by (auto simp: ops.set_save)
  then show ?thesis using assms(1) unfolding one_each_def by metis
qed

lemma map_key_save:
  assumes "distinct (map o_id (db_operations db))" "op \<in> set (db_operations db)" "o_id op' = o_id op" "f op' = f op"
  shows "map f (db_operations (save_operation op' db)) = map f (db_operations db)"
  using assms same_id [OF assms(1)] by (auto simp: save_operation_def)

lemma db_ok_save_operation:
  assumes ok: "db_ok db" and op: "op \<in> set (db_operations db)" and ev: "evolves op op'"
  shows "db_ok (save_operation op' db)"
proof -
  note D = db_okD [OF ok]
  have f: "o_id op' = o_id op" "o_idempotency_key op' = o_idempotency_key op" "operation_ok op'"
    using ev by (simp_all add: evolves_def)
  have "map o_id (db_operations (save_operation op' db)) = map o_id (db_operations db)"
      "map o_idempotency_key (db_operations (save_operation op' db)) = map o_idempotency_key (db_operations db)"
    by (rule map_key_save [OF D(1) op f(1)], fact f)+
  moreover have "operation_ok x \<and> (\<exists>d \<in> set (db_deployments db). belongs x d)"
    if "x \<in> set (db_operations (save_operation op' db))" for x
    using that [unfolded ops.set_save] D(4,6) f(3) D(6) [OF op] evolves_belongs [OF ev] by blast
  ultimately show ?thesis
    using D one_each_save [OF _ op ev] evolves_mutating [OF ev] by (simp add: db_ok_def list_all_iff)
qed

text \<open>What a worker may change of a deployment.\<close>

definition reports :: "deployment_row \<Rightarrow> deployment_row \<Rightarrow> bool" where
  "reports d d' \<longleftrightarrow> dp_id d' = dp_id d \<and> dp_application d' = dp_application d \<and> dp_environment d' = dp_environment d
     \<and> dp_generation d' = dp_generation d \<and> dp_revision d \<le> dp_revision d' \<and> dp_desired_state d' = dp_desired_state d
     \<and> dp_release d' = dp_release d
     \<and> (dp_deleted_at d' = None \<longrightarrow> dp_deleted_at d = None) \<and> deployment_ok d'"

lemma one_live_save:
  assumes "one_live (db_deployments db)" "d \<in> set (db_deployments db)" "dp_id d' = dp_id d"
    "dp_application d' = dp_application d" "dp_environment d' = dp_environment d"
    "dp_deleted_at d' = None \<Longrightarrow> dp_deleted_at d = None"
  shows "one_live (db_deployments (save_deployment d' db))"
proof -
  have "\<exists>x0 \<in> set (db_deployments db). dp_id x0 = dp_id x \<and> dp_deleted_at x0 = None
      \<and> dp_application x0 = dp_application x \<and> dp_environment x0 = dp_environment x"
    if "x \<in> set (db_deployments (save_deployment d' db))" "dp_deleted_at x = None" for x
    using that assms(2-) by (auto simp: deps.set_save)
  then show ?thesis using assms(1) unfolding one_live_def by metis
qed

lemma db_ok_replace_deployment:
  assumes ok: "db_ok db" and d: "d \<in> set (db_deployments db)"
    and f: "dp_id d' = dp_id d" "dp_application d' = dp_application d" "dp_environment d' = dp_environment d"
      "dp_deleted_at d' = None \<Longrightarrow> dp_deleted_at d = None" "deployment_ok d'"
    and b: "\<And>op. op \<in> set (db_operations db) \<Longrightarrow> belongs op d \<Longrightarrow> belongs op d'"
  shows "db_ok (save_deployment d' db)"
proof -
  note D = db_okD [OF ok]
  have "\<exists>x \<in> set (db_deployments (save_deployment d' db)). belongs op x" if op: "op \<in> set (db_operations db)" for op
  proof -
    obtain e where e: "e \<in> set (db_deployments db)" "belongs op e" using D(6) [OF op] by blast
    show ?thesis
    proof (cases "dp_id e = dp_id d")
      case True
      then have "belongs op d'" using e b [OF op] same_id [OF D(3) e(1) d] by simp
      then show ?thesis using f(1) d by (auto simp: deps.set_save)
    next
      case False
      then show ?thesis using e f(1) by (auto simp: deps.set_save)
    qed
  qed
  moreover have "\<forall>x \<in> set (db_deployments (save_deployment d' db)). deployment_ok x"
    using D(5) f(5) by (auto simp: deps.set_save)
  moreover have "one_live (db_deployments (save_deployment d' db))"
    by (rule one_live_save [OF D(9) d f(1-4)])
  ultimately show ?thesis
    using D by (simp add: db_ok_def list_all_iff deps.keys_save)
qed

lemma db_ok_save_deployment:
  assumes "db_ok db" "d \<in> set (db_deployments db)" "reports d d'"
  shows "db_ok (save_deployment d' db)"
  by (rule db_ok_replace_deployment [OF assms(1,2)]) (use assms(3) in \<open>simp_all add: reports_def belongs_def\<close>)

lemma db_ok_frame:
  assumes "db_operations db' = db_operations db" "db_deployments db' = db_deployments db"
  shows "db_ok db' = db_ok db"
  by (simp add: db_ok_def assms)


section \<open>What a transaction may do to existing rows\<close>

definition op_after :: "operation_row \<Rightarrow> operation_row \<Rightarrow> bool" where
  "op_after op op' \<longleftrightarrow> op' = op \<or> evolves op op'"

definition dep_after :: "deployment_row \<Rightarrow> deployment_row \<Rightarrow> bool" where
  "dep_after d d' \<longleftrightarrow> dp_id d' = dp_id d \<and> dp_application d' = dp_application d \<and> dp_environment d' = dp_environment d
     \<and> dp_release d' = dp_release d
     \<and> dp_generation d \<le> dp_generation d' \<and> dp_revision d \<le> dp_revision d'
     \<and> (dp_generation d' = dp_generation d \<longrightarrow> dp_desired_state d' = dp_desired_state d)
     \<and> (dp_deleted_at d' = None \<longrightarrow> dp_deleted_at d = None)"

definition db_after :: "db \<Rightarrow> db \<Rightarrow> bool" where
  "db_after db db' \<longleftrightarrow> (\<forall>op \<in> set (db_operations db). \<exists>op' \<in> set (db_operations db'). op_after op op')
     \<and> (\<forall>d \<in> set (db_deployments db). \<exists>d' \<in> set (db_deployments db'). dep_after d d')"

definition sound :: "db \<Rightarrow> db \<Rightarrow> bool" where
  "sound db db' \<longleftrightarrow> db_ok db' \<and> db_after db db'"

lemma op_after_trans: "op_after a b \<Longrightarrow> op_after b c \<Longrightarrow> op_after a c"
  by (auto simp: op_after_def evolves_def)

lemma dep_after_trans:
  assumes "dep_after a b" "dep_after b c"
  shows "dep_after a c"
proof -
  note u = assms [unfolded dep_after_def]
  have "dp_desired_state c = dp_desired_state a" if "dp_generation c = dp_generation a"
  proof -
    have "dp_generation b = dp_generation a" "dp_generation c = dp_generation b" using u that by linarith+
    then show ?thesis using u by metis
  qed
  moreover have "dp_generation a \<le> dp_generation c" "dp_revision a \<le> dp_revision c" using u by linarith+
  ultimately show ?thesis unfolding dep_after_def using u by metis
qed

lemma db_after_trans: "db_after a b \<Longrightarrow> db_after b c \<Longrightarrow> db_after a c"
  unfolding db_after_def by (meson op_after_trans dep_after_trans)

lemma db_after_frame:
  "db_operations db' = db_operations db \<Longrightarrow> db_deployments db' = db_deployments db \<Longrightarrow> db_after db db'"
  by (auto simp: db_after_def op_after_def dep_after_def)

lemma sound_frame:
  "db_ok db \<Longrightarrow> db_operations db' = db_operations db \<Longrightarrow> db_deployments db' = db_deployments db \<Longrightarrow> sound db db'"
  unfolding sound_def using db_ok_frame [of db' db] db_after_frame [of db' db] by simp

lemma sound_trans: "sound a b \<Longrightarrow> sound b c \<Longrightarrow> sound a c"
  unfolding sound_def using db_after_trans [of a b c] by simp

lemma sound_ok: "sound db db' \<Longrightarrow> db_ok db'"
  by (simp add: sound_def)

lemma sound_save_operation:
  assumes "db_ok db" "op \<in> set (db_operations db)" "evolves op op'"
  shows "sound db (save_operation op' db)"
proof -
  have "\<exists>y \<in> set (db_operations (save_operation op' db)). op_after x y" if x: "x \<in> set (db_operations db)" for x
  proof (cases "o_id x = o_id op")
    case True
    then have "x = op" using same_id [OF db_okD(1) [OF assms(1)] x assms(2)] by simp
    then show ?thesis using assms(2,3) by (auto simp: ops.set_save op_after_def evolves_def)
  next
    case False
    then show ?thesis using x assms(3) by (auto simp: ops.set_save op_after_def evolves_def)
  qed
  then show ?thesis
    using db_ok_save_operation [OF assms] by (auto simp: sound_def db_after_def dep_after_def)
qed

lemma after_save_deployment:
  assumes "db_ok db" "d \<in> set (db_deployments db)" "dep_after d d'"
  shows "db_after db (save_deployment d' db)"
proof -
  have "\<exists>y \<in> set (db_deployments (save_deployment d' db)). dep_after x y" if x: "x \<in> set (db_deployments db)" for x
  proof (cases "dp_id x = dp_id d")
    case True
    then have "x = d" using same_id [OF db_okD(3) [OF assms(1)] x assms(2)] by simp
    then show ?thesis using assms(2,3) by (auto simp: deps.set_save dep_after_def)
  next
    case False
    then show ?thesis using x assms(3) by (auto simp: deps.set_save dep_after_def)
  qed
  then show ?thesis by (auto simp: db_after_def op_after_def)
qed

lemma sound_save_deployment:
  assumes "db_ok db" "d \<in> set (db_deployments db)" "reports d d'"
  shows "sound db (save_deployment d' db)"
proof -
  have "dep_after d d'" using assms(3) by (simp add: reports_def dep_after_def)
  then show ?thesis
    unfolding sound_def using after_save_deployment [OF assms(1,2)] db_ok_save_deployment [OF assms] by simp
qed

lemma sound_save_both:
  assumes "db_ok db" "op \<in> set (db_operations db)" "evolves op op'" "d \<in> set (db_deployments db)" "reports d d'"
  shows "sound db (save_operation op' (save_deployment d' db))" "sound db (save_deployment d' (save_operation op' db))"
proof -
  have d: "sound db (save_deployment d' db)" by (rule sound_save_deployment [OF assms(1,4,5)])
  show "sound db (save_operation op' (save_deployment d' db))"
    by (rule sound_trans [OF d sound_save_operation [OF sound_ok [OF d] _ assms(3)]]) (simp add: assms(2))
  have o: "sound db (save_operation op' db)" by (rule sound_save_operation [OF assms(1-3)])
  show "sound db (save_deployment d' (save_operation op' db))"
    by (rule sound_trans [OF o sound_save_deployment [OF sound_ok [OF o] _ assms(5)]]) (simp add: assms(4))
qed


section \<open>The workers\<close>

lemma the_row_Inr [simp]: "the_row r = Inr x \<longleftrightarrow> r = Some x"
  by (simp add: the_row_def split: option.splits)

text \<open>An operation whose lease is held is active.\<close>

lemma leased_active: "operation_ok op \<Longrightarrow> o_lease_token op = Some token \<Longrightarrow> is_active op"
  by (simp add: operation_ok_def is_active_def)

lemma claim_sound:
  assumes ok: "db_ok db" and c: "claim worker_id token now db = Some (i, db')"
  shows "sound db db'"
proof -
  obtain op rest where s: "sort_key o_requested_at (filter (claimable now) (db_operations db)) = op # rest"
    and db': "db' = save_operation (lease_to (take 128 worker_id) token now op) db"
    using c by (auto simp: claim_def split: list.split_asm)
  have "op \<in> set (filter (claimable now) (db_operations db))" using s by (metis list.set_intros(1) set_sort)
  then have op: "op \<in> set (db_operations db)" and cl: "claimable now op" by auto
  have "is_active op" using cl by (auto simp: claimable_def is_active_def)
  then have "evolves op (lease_to (take 128 worker_id) token now op)"
    using db_okD(4) [OF ok op] by (simp add: evolves_def lease_to_def operation_ok_def is_active_def)
  then show ?thesis unfolding db' by (rule sound_save_operation [OF ok op])
qed

lemma evolves_finish:
  assumes "operation_ok op" "is_active op" "st \<in> {SUCCEEDED, FAILED}"
  shows "evolves op (finish st stage now (op\<lparr>o_error := e\<rparr>))"
    "evolves op (finish st stage now (op\<lparr>o_result := res, o_error := e\<rparr>))"
  using assms by (auto simp: evolves_def finish_def unlease_def operation_ok_def is_active_def)

lemma record_transitional_sound:
  assumes ok: "db_ok db" and op: "op \<in> set (db_operations db)" "is_active op" and d: "d \<in> set (db_deployments db)"
    and r: "record_transitional now op d s db = Inr db'"
  shows "sound db db'"
proof -
  have dok: "deployment_ok d" and ook: "operation_ok op" using db_okD(4,5) [OF ok] op d by auto
  let ?d1 = "d\<lparr>dp_controller_id := n_controller_id s, dp_revision := dp_revision d + 1, dp_last_reconciled_at := Some now\<rparr>"
  have rep: "reports d ?d1" "reports d (?d1\<lparr>dp_observed_state := st, dp_last_error := det\<rparr>)" for st det
    using dok by (simp_all add: reports_def deployment_ok_def)
  have ev: "evolves op (unlease (op\<lparr>o_status := RUNNING, o_result := res, o_progress := p, o_next_attempt_at := n\<rparr>))" for res p n
    using op(2) ook by (simp add: evolves_def unlease_def operation_ok_def is_active_def)
  show ?thesis
    using r sound_save_both(1) [OF ok op(1) _ d] rep ev evolves_finish(1) [OF ook op(2)]
    by (auto simp: record_transitional_def bindE_eq_Inr Let_def split: if_split_asm)
qed

lemma apply_snapshot_reports:
  assumes "apply_snapshot now d s g = Inr d'" "deployment_ok d" "g \<le> dp_generation d"
  shows "reports d (d'\<lparr>dp_revision := dp_revision d' + 1, dp_last_reconciled_at := t, dp_components := ks\<rparr>)"
    and "reports d (d'\<lparr>dp_revision := dp_revision d' + 1, dp_last_reconciled_at := t, dp_components := ks,
      dp_observed_state := st, dp_last_error := e\<rparr>)"
  using assms
  by (auto simp: apply_snapshot_def validate_snapshot_generation_def bindE_eq_Inr reports_def deployment_ok_def
      split: if_split_asm)

lemma record_terminal_sound:
  assumes ok: "db_ok db" and op: "op \<in> set (db_operations db)" "is_active op"
    and d: "d \<in> set (db_deployments db)" "dp_id d = o_deployment op"
    and r: "record_terminal now stale op d s db = Inr db'"
  shows "sound db db'"
proof -
  have dok: "deployment_ok d" and ook: "operation_ok op" using db_okD(4,5) [OF ok] op d by auto
  have "o_target_generation op \<le> dp_generation d"
    using belongs_deployment [OF ok op(1) d] by (simp add: belongs_def)
  moreover obtain d1 ks where d1: "apply_snapshot now d s (o_target_generation op) = Inr d1"
    and ks: "apply_components (dp_components d1) s True = Inr ks"
    using r by (auto simp: record_terminal_def bindE_eq_Inr)
  ultimately have rep:
    "reports d (d1\<lparr>dp_revision := dp_revision d1 + 1, dp_last_reconciled_at := Some now, dp_components := ks\<rparr>)"
    "reports d (d1\<lparr>dp_revision := dp_revision d1 + 1, dp_last_reconciled_at := Some now, dp_components := ks,
      dp_observed_state := st, dp_last_error := e\<rparr>)" for st e
    using apply_snapshot_reports [OF d1 dok] by blast+
  show ?thesis
    using r unfolding record_terminal_def d1 bindE_simps ks Let_def sum.inject
    by (elim subst, intro sound_save_both(1) [OF ok op(1) _ d(1)])
      (simp_all add: rep evolves_finish [OF ook op(2)])
qed

text \<open>A failure handler writes an operation that evolved and, for a mutation, a failed deployment.\<close>

lemma fail_with_deployment_sound:
  assumes ok: "db_ok db" and op: "op \<in> set (db_operations db)" and ev: "evolves op op'"
    and r: "fail_with_deployment op' detail db = Inr db'"
  shows "sound db db'"
proof (cases "o_type op' = ''log_snapshot''")
  case True
  then have "db' = save_operation op' db" using r by (simp add: fail_with_deployment_def)
  then show ?thesis using sound_save_operation [OF ok op ev] by simp
next
  case False
  then obtain d where d: "get_deployment db (o_deployment op') = Some d"
    and db': "db' = save_deployment (fail_deployment detail d) (save_operation op' db)"
    using r by (auto simp: fail_with_deployment_def bindE_eq_Inr)
  have "d \<in> set (db_deployments db)" using deps.get_SomeD [OF d] by simp
  moreover have "reports d (fail_deployment detail d)"
    using db_okD(5) [OF ok calculation] by (simp add: reports_def fail_deployment_def deployment_ok_def)
  ultimately show ?thesis unfolding db' by (rule sound_save_both(2) [OF ok op ev])
qed

lemma evolves_finish_keeping_attempt:
  assumes "operation_ok op" "is_active op" "n \<le> Suc (o_controller_failures op)"
  shows "evolves op (finish_keeping_attempt now (op\<lparr>o_controller_failures := n, o_error := e\<rparr>))"
    "evolves op (finish_keeping_attempt now (op\<lparr>o_error := e\<rparr>))"
  using assms by (auto simp: evolves_def finish_keeping_attempt_def unlease_def operation_ok_def is_active_def)

text \<open>A write fenced by the lease token: either nothing changes or an active operation is at hand.\<close>

lemma fenced:
  assumes "db_ok db" "bindE (the_row (get_operation db i)) (\<lambda>op. if o_lease_token op \<noteq> Some token then Inr db else f op) = Inr db'"
    and "\<And>op. op \<in> set (db_operations db) \<Longrightarrow> is_active op \<Longrightarrow> operation_ok op \<Longrightarrow> f op = Inr db' \<Longrightarrow> sound db db'"
  shows "sound db db'"
proof -
  obtain op where g: "get_operation db i = Some op" and c: "(if o_lease_token op \<noteq> Some token then Inr db else f op) = Inr db'"
    using assms(2) by (auto simp: bindE_eq_Inr)
  have op: "op \<in> set (db_operations db)" using ops.get_SomeD [OF g] by simp
  show ?thesis
  proof (cases "o_lease_token op = Some token")
    case True
    then show ?thesis
      using assms(3) [OF op leased_active [OF db_okD(4) [OF assms(1) op] True] db_okD(4) [OF assms(1) op]] c by simp
  next
    case False
    then show ?thesis using c sound_frame [OF assms(1), of db] by simp
  qed
qed

lemma record_controller_failure_sound:
  assumes ok: "db_ok db" and r: "record_controller_failure now stale token e db = Inr db'"
  shows "sound db db'"
proof (rule fenced [OF ok r [unfolded record_controller_failure_def]])
  fix op :: operation_row
  let ?op1 = "op\<lparr>o_controller_failures := o_controller_failures op + 1\<rparr>"
  assume op: "op \<in> set (db_operations db)" "is_active op" "operation_ok op"
    and c: "(let op1 = ?op1 in
       if retryable e \<and> o_controller_failures op1 < MAX_CONTROLLER_FAILURES then
         Inr (save_operation (unlease (op1\<lparr>o_status := QUEUED, o_progress := progress ''retrying'' JNull,
                o_next_attempt_at := Some (now + seconds (min (2 ^ o_attempts op1) 60))\<rparr>)) db)
       else fail_with_deployment (finish_keeping_attempt now
              (op1\<lparr>o_error := failure ''runtime_controller_error'' (take 500 (wexn_message e)) (retryable e)\<rparr>))
              (take 500 (wexn_message e)) db) = Inr db'"
  show "sound db db'"
  proof (cases "retryable e \<and> o_controller_failures op + 1 < MAX_CONTROLLER_FAILURES")
    case True
    have "evolves op (unlease (?op1\<lparr>o_status := QUEUED, o_progress := p, o_next_attempt_at := t\<rparr>))" for p t
      using op(2,3) True by (simp add: evolves_def unlease_def operation_ok_def is_active_def)
    then show ?thesis using c True sound_save_operation [OF ok op(1)] by (auto simp: Let_def)
  next
    case False
    then have "fail_with_deployment (finish_keeping_attempt now (op\<lparr>o_controller_failures := o_controller_failures op + 1,
        o_error := failure ''runtime_controller_error'' (take 500 (wexn_message e)) (retryable e)\<rparr>))
        (take 500 (wexn_message e)) db = Inr db'"
      using c by (auto simp: Let_def)
    then show ?thesis
      by (rule fail_with_deployment_sound [OF ok op(1) evolves_finish_keeping_attempt(1) [OF op(3,2)], rotated]) simp
  qed
qed

lemma record_unexpected_failure_sound:
  assumes ok: "db_ok db" and r: "record_unexpected_failure now stale token db = Inr db'"
  shows "sound db db'"
  by (rule fenced [OF ok r [unfolded record_unexpected_failure_def Let_def]])
    (rule fail_with_deployment_sound [OF ok _ evolves_finish_keeping_attempt(2) [where n = 0]]; simp)

lemma record_snapshot_sound:
  assumes ok: "db_ok db" and r: "record_snapshot now stale token s db = Inr db'"
  shows "sound db db'"
proof (rule fenced [OF ok r [unfolded record_snapshot_def]])
  fix op :: operation_row
  assume op: "op \<in> set (db_operations db)" "is_active op" "operation_ok op"
    and c: "bindE (the_row (get_deployment db (o_deployment op))) (\<lambda>d.
       if n_state s \<in> set TRANSITIONAL_STATES \<or> waiting_for_generation op s
       then record_transitional now op d s db
       else record_terminal now stale op d s db) = Inr db'"
  obtain d where d: "get_deployment db (o_deployment op) = Some d" using c by (auto simp: bindE_eq_Inr)
  show "sound db db'"
    using c d deps.get_SomeD [OF d] record_transitional_sound [OF ok op(1,2)] record_terminal_sound [OF ok op(1,2)]
    by (auto simp: bindE_eq_Inr split: if_split_asm)
qed

lemma complete_logs_sound:
  assumes ok: "db_ok db" and r: "complete_logs now c stale token l db = Inr db'"
  shows "sound db db'"
proof -
  let ?db1 = "db\<lparr>db_cache := dput (log_key stale) (JObj (log_snapshot now c stale l)) (db_cache db)\<rparr>"
  obtain op where g: "get_operation ?db1 (o_id stale) = Some op"
    using r by (auto simp: complete_logs_def bindE_eq_Inr Let_def)
  have s1: "sound db ?db1" by (rule sound_frame [OF ok]) simp_all
  note ok1 = sound_ok [OF s1]
  have op: "op \<in> set (db_operations ?db1)" using ops.get_SomeD [OF g] by simp
  show ?thesis
  proof (cases "o_lease_token op = Some token")
    case True
    let ?op' = "unlease (op\<lparr>o_status := SUCCEEDED, o_progress := progress ''captured'' (JInt 100),
                o_result := JObj [(''ephemeral'', JBool True), (''expires_at'', dget (log_snapshot now c stale l) ''expires_at'')],
                o_error := JNull, o_finished_at := Some now\<rparr>)"
    have ook: "operation_ok op" by (rule db_okD(4) [OF ok1 op])
    have "evolves op ?op'"
      using ook leased_active [OF ook True]
      by (simp add: evolves_def unlease_def operation_ok_def is_active_def)
    moreover have "db' = save_operation ?op' ?db1" using r g True by (simp add: complete_logs_def Let_def bindE_eq_Inr)
    ultimately show ?thesis using sound_trans [OF s1 sound_save_operation [OF ok1 op]] by simp
  next
    case False
    then have "db' = ?db1\<lparr>db_cache := AList.delete (log_key stale) (db_cache ?db1)\<rparr>"
      using r g by (simp add: complete_logs_def Let_def bindE_eq_Inr)
    then show ?thesis using sound_frame [OF ok, of db'] by simp
  qed
qed

theorem record_outcome_sound:
  assumes ok: "db_ok db" and r: "record_outcome now stale token out db = Inr db'"
  shows "sound db db'"
proof -
  have "sound db db'" if "record_result now stale token out db = Inr db'"
    using that record_snapshot_sound [OF ok] complete_logs_sound [OF ok]
    by (auto simp: record_result_def bindE_eq_Inr split: sum.split_asm outcome.split_asm)
  then show ?thesis
    using r record_controller_failure_sound [OF ok] record_unexpected_failure_sound [OF ok]
    by (auto simp: record_outcome_def split: sum.split_asm wexn.split_asm)
qed


section \<open>The API\<close>

lemma first_response_None [simp]: "first_response xs = None \<longleftrightarrow> list_all (\<lambda>x. x = None) xs"
  by (induction xs rule: first_response.induct) auto

lemma db_after_append:
  "db_after db (db\<lparr>db_operations := db_operations db @ os\<rparr>)" "db_after db (db\<lparr>db_deployments := db_deployments db @ ds\<rparr>)"
  by (auto simp: db_after_def op_after_def dep_after_def)

lemma sound_append_operation:
  assumes ok: "db_ok db" and u: "\<not> violates_unique op db" and o: "operation_ok op"
    and d: "d \<in> set (db_deployments db)" "belongs op d"
    and m: "\<And>x. x \<in> set (db_operations db) \<Longrightarrow> mutating op \<Longrightarrow> mutating x \<Longrightarrow> o_deployment x \<noteq> o_deployment op"
  shows "sound db (db\<lparr>db_operations := db_operations db @ [op]\<rparr>)"
proof -
  note D = db_okD [OF ok]
  have fresh: "o_id x \<noteq> o_id op" "o_idempotency_key x \<noteq> o_idempotency_key op"
    "reading op \<Longrightarrow> reading x \<Longrightarrow> o_deployment x \<noteq> o_deployment op" if "x \<in> set (db_operations db)" for x
    using u that by (auto simp: violates_unique_def list_ex_iff reading_def)
  have one: "one_each P (db_operations db @ [op])"
    if p: "one_each P (db_operations db)" and f: "\<And>x. x \<in> set (db_operations db) \<Longrightarrow> P op \<Longrightarrow> P x \<Longrightarrow> o_deployment x \<noteq> o_deployment op" for P
    unfolding one_each_def
  proof (intro ballI impI)
    fix x y :: operation_row
    assume "x \<in> set (db_operations db @ [op])" "y \<in> set (db_operations db @ [op])" and h: "P x \<and> P y \<and> o_deployment x = o_deployment y"
    then consider "x \<in> set (db_operations db)" "y \<in> set (db_operations db)" | "x = op" "y = op"
      | "x = op" "y \<in> set (db_operations db)" | "y = op" "x \<in> set (db_operations db)" by auto
    then show "o_id x = o_id y"
    proof cases
      case 1 then show ?thesis using p h unfolding one_each_def by blast
    next
      case 3 then show ?thesis using f [of y] h by metis
    next
      case 4 then show ?thesis using f [of x] h by metis
    qed simp
  qed
  have "\<forall>x \<in> set (db_operations db @ [op]). \<exists>e \<in> set (db_deployments db). belongs x e"
    using D(6) d by auto
  moreover have "distinct (map o_id (db_operations db @ [op]))" "distinct (map o_idempotency_key (db_operations db @ [op]))"
    using D(1,2) fresh(1,2) by (simp_all add: image_iff) metis+
  moreover have "one_each mutating (db_operations db @ [op])" by (rule one [OF D(7) m])
  moreover have "one_each reading (db_operations db @ [op])" by (rule one [OF D(8) fresh(3)])
  ultimately have "db_ok (db\<lparr>db_operations := db_operations db @ [op]\<rparr>)"
    using D(3,9) ok o by (simp add: db_ok_def)
  then show ?thesis by (simp add: sound_def db_after_append)
qed

text \<open>What a mutation does to its deployment.\<close>

definition advances :: "deployment_row \<Rightarrow> deployment_row \<Rightarrow> bool" where
  "advances d d' \<longleftrightarrow> dp_id d' = dp_id d \<and> dp_application d' = dp_application d \<and> dp_environment d' = dp_environment d
     \<and> dp_release d' = dp_release d \<and> dp_generation d' = dp_generation d + 1 \<and> dp_revision d' = dp_revision d + 1
     \<and> dp_observed_generation d' = dp_observed_generation d \<and> dp_deleted_at d' = dp_deleted_at d"

lemma not_busy:
  "busy_response db d = None \<Longrightarrow> x \<in> set (db_operations db) \<Longrightarrow> mutating x \<Longrightarrow> o_deployment x \<noteq> dp_id d"
  by (auto simp: busy_response_def list_ex_iff mutating_def split: if_split_asm)

lemma advance_sound:
  assumes ok: "db_ok db" and d: "d \<in> set (db_deployments db)" and b: "busy_response db d = None" and a: "advances d d'"
  shows "sound db (save_deployment d' db)"
proof -
  have "db_ok (save_deployment d' db)"
  proof (rule db_ok_replace_deployment [OF ok d])
    show "deployment_ok d'" using db_okD(5) [OF ok d] a by (simp add: advances_def deployment_ok_def)
    show "belongs op d'" if "op \<in> set (db_operations db)" "belongs op d" for op
      using not_busy [OF b that(1)] that(2) a by (auto simp: belongs_def advances_def)
  qed (use a in \<open>simp_all add: advances_def\<close>)
  moreover have "dep_after d d'" using a by (simp add: dep_after_def advances_def)
  ultimately show ?thesis unfolding sound_def using after_save_deployment [OF ok d] by simp
qed

lemma new_operation_ok: "operation_ok (new_operation rq d t h p i now)"
  by (simp add: operation_ok_def new_operation_def is_active_def MAX_CONTROLLER_FAILURES_def)

lemma new_operation_belongs: "belongs (new_operation rq d t h p i now) d"
  by (simp add: belongs_def new_operation_def)

lemma commit_mutation_sound:
  assumes ok: "db_ok db" and s: "sound db db1" and d: "d \<in> set (db_deployments db1)"
    and m: "\<And>x. x \<in> set (db_operations db1) \<Longrightarrow> mutating x \<Longrightarrow> o_deployment x \<noteq> dp_id d"
  shows "sound db (snd (commit_mutation rq d t h p i now db1 db))"
proof (cases "violates_unique (new_operation rq d t h p i now) db1")
  case True
  then show ?thesis using sound_frame [OF ok, of db] by (simp add: commit_mutation_def create_operation_def Let_def)
next
  case False
  have "sound db1 (db1\<lparr>db_operations := db_operations db1 @ [new_operation rq d t h p i now]\<rparr>)"
    by (rule sound_append_operation [OF sound_ok [OF s] False new_operation_ok d new_operation_belongs])
      (use m in \<open>auto simp: new_operation_def\<close>)
  then show ?thesis using sound_trans [OF s] False by (simp add: commit_mutation_def create_operation_def Let_def)
qed

lemma advance_commit_sound:
  assumes ok: "db_ok db" and g: "get_deployment db pk = Some d" and b: "busy_response db d = None" and a: "advances d d'"
  shows "sound db (snd (commit_mutation rq d' t h p i now (save_deployment d' db) db))"
proof (rule commit_mutation_sound [OF ok advance_sound [OF ok _ b a]])
  show d: "d \<in> set (db_deployments db)" using deps.get_SomeD [OF g] by simp
  show "d' \<in> set (db_deployments (save_deployment d' db))" using d a by (auto simp: deps.set_save advances_def)
  show "\<And>x. x \<in> set (db_operations (save_deployment d' db)) \<Longrightarrow> mutating x \<Longrightarrow> o_deployment x \<noteq> dp_id d'"
    using not_busy [OF b] a by (auto simp: advances_def)
qed

lemma unchanged_sound: "db_ok db \<Longrightarrow> sound db db"
  by (rule sound_frame) simp_all

lemma destroy_sound:
  assumes ok: "db_ok db"
  shows "sound db (snd (destroy en rq pk i now db0 db))"
  unfolding destroy_def
  by (auto simp: Let_def unchanged_sound [OF ok] advances_def bump_def split: option.split intro!: advance_commit_sound [OF ok])

lemma partial_update_sound:
  assumes ok: "db_ok db"
  shows "sound db (snd (partial_update en rq pk uf i now db0 db))"
  unfolding partial_update_def
  by (auto simp: Let_def unchanged_sound [OF ok] advances_def bump_def sync_component_scaling_def set_fields_def
      split: option.split sum.split intro!: advance_commit_sound [OF ok])

lemma apply_action_advances:
  "apply_action db d ad = Inr (d1, payload) \<Longrightarrow> advances d (bump (d1\<lparr>dp_observed_state := st\<rparr>))"
  by (auto simp: apply_action_def apply_scale_def advances_def bump_def Let_def
      split: if_split_asm option.split_asm sum.split_asm)

lemma actions_sound:
  assumes ok: "db_ok db"
  shows "sound db (snd (actions en rq pk ad i now db0 db))"
  unfolding actions_def
  by (auto simp: Let_def unchanged_sound [OF ok] apply_action_advances
      split: option.split sum.split intro!: advance_commit_sound [OF ok])

lemma log_operation_sound:
  assumes ok: "db_ok db" and g: "get_deployment db pk = Some d"
    and c: "create_operation (new_operation rq d ''log_snapshot'' h p i now) db = Some db'"
  shows "sound db db'"
proof -
  let ?op = "new_operation rq d ''log_snapshot'' h p i now"
  have u: "\<not> violates_unique ?op db" and db': "db' = db\<lparr>db_operations := db_operations db @ [?op]\<rparr>"
    using c by (auto simp: create_operation_def split: if_split_asm)
  have d: "d \<in> set (db_deployments db)" using deps.get_SomeD [OF g] by simp
  have "\<not> mutating ?op" by (simp add: mutating_def new_operation_def)
  then show ?thesis
    unfolding db' using sound_append_operation [OF ok u new_operation_ok d new_operation_belongs] by blast
qed

lemma log_requests_sound:
  assumes ok: "db_ok db"
  shows "sound db (snd (log_requests en rq pk ld i now db0 db))"
  unfolding log_requests_def
  by (auto simp: Let_def unchanged_sound [OF ok] simp del: first_response_None split: option.split
      intro: log_operation_sound [OF ok])

lemma release_frames:
  assumes "same = (\<lambda>a b. db_operations a = db_operations b \<and> db_deployments a = db_deployments b)"
  shows "same (snd (version_runtime_snapshot vr ap db)) db"
    "get_or_create_release v m db = Inr (r, db2) \<Longrightarrow> same db2 db"
  by (auto simp: assms version_runtime_snapshot_def save_version_def get_or_create_release_def Let_def
      split: option.split_asm if_split_asm)

lemma runtime_release_for_frame:
  assumes "runtime_release_for ap version ev db = (r, db1)"
  shows "db_operations db1 = db_operations db \<and> db_deployments db1 = db_deployments db"
proof -
  have "db_operations db1 = db_operations db \<and> db_deployments db1 = db_deployments db"
    if "create_release vr ap ev db = (r, db1)" for vr
    using that release_frames(1) [OF refl, of vr ap db]
    by (auto simp: create_release_def bindE_eq_Inr dest!: release_frames(2) [OF refl] split: prod.split_asm sum.split_asm)
  then show ?thesis using assms by (auto simp: runtime_release_for_def split: option.split_asm)
qed

lemma sound_append_deployment:
  assumes ok: "db_ok db" and f: "dp_id d \<notin> dp_id ` set (db_deployments db)" and o: "deployment_ok d"
    and l: "\<And>x. x \<in> set (db_deployments db) \<Longrightarrow> dp_deleted_at x = None \<Longrightarrow> dp_application x = dp_application d \<Longrightarrow> dp_environment x \<noteq> dp_environment d"
  shows "sound db (db\<lparr>db_deployments := db_deployments db @ [d]\<rparr>)"
proof -
  note D = db_okD [OF ok]
  have "one_live (db_deployments db @ [d])"
    unfolding one_live_def
  proof (intro ballI impI)
    fix x y :: deployment_row
    assume "x \<in> set (db_deployments db @ [d])" "y \<in> set (db_deployments db @ [d])"
      and h: "dp_deleted_at x = None \<and> dp_deleted_at y = None \<and> dp_application x = dp_application y \<and> dp_environment x = dp_environment y"
    then consider "x \<in> set (db_deployments db)" "y \<in> set (db_deployments db)" | "x = d" "y = d"
      | "x = d" "y \<in> set (db_deployments db)" | "y = d" "x \<in> set (db_deployments db)" by auto
    then show "dp_id x = dp_id y"
    proof cases
      case 1 then show ?thesis using D(9) h unfolding one_live_def by blast
    next
      case 3 then show ?thesis using l [of y] h by metis
    next
      case 4 then show ?thesis using l [of x] h by metis
    qed simp
  qed
  moreover have "\<forall>op \<in> set (db_operations db). \<exists>e \<in> set (db_deployments db @ [d]). belongs op e"
    using D(6) by auto
  ultimately have "db_ok (db\<lparr>db_deployments := db_deployments db @ [d]\<rparr>)"
    using D(1-3,7,8) ok f o by (simp add: db_ok_def)
  then show ?thesis by (simp add: sound_def db_after_append)
qed

lemma create_locked_sound:
  assumes ok: "db_ok db" and f: "new_dp \<notin> dp_id ` set (db_deployments db)"
  shows "sound db (snd (create_locked rq cd h new_dp new_op now ap ev db))"
proof -
  obtain r db1 where rel: "runtime_release_for ap (cd_version cd) ev db = (r, db1)" by (cases "runtime_release_for ap (cd_version cd) ev db")
  have fr: "db_operations db1 = db_operations db" "db_deployments db1 = db_deployments db"
    using runtime_release_for_frame [OF rel] by simp_all
  have s1: "sound db db1" by (rule sound_frame [OF ok fr])
  have s2: "sound db (snd (commit_mutation rq (new_deployment rq cd rl a b c new_dp) ''deploy'' h [] new_op now
      (db1\<lparr>db_deployments := db_deployments db1 @ [new_deployment rq cd rl a b c new_dp]\<rparr>) db))"
    if e: "\<not> deployment_exists cd db" for rl a b c
  proof (rule commit_mutation_sound [OF ok sound_trans [OF s1 sound_append_deployment [OF sound_ok [OF s1]]]])
    show "dp_id (new_deployment rq cd rl a b c new_dp) \<notin> dp_id ` set (db_deployments db1)"
      using f fr(2) by (simp add: new_deployment_def)
    show "dp_environment x \<noteq> dp_environment (new_deployment rq cd rl a b c new_dp)"
      if "x \<in> set (db_deployments db1)" "dp_deleted_at x = None"
        "dp_application x = dp_application (new_deployment rq cd rl a b c new_dp)" for x
      using e that fr(2) by (auto simp: deployment_exists_def list_ex_iff new_deployment_def)
    show "o_deployment x \<noteq> dp_id (new_deployment rq cd rl a b c new_dp)"
      if "x \<in> set (db_operations (db1\<lparr>db_deployments := db_deployments db1 @ [new_deployment rq cd rl a b c new_dp]\<rparr>))" for x
      using that fr f db_okD(6) [OF ok, of x] by (auto simp: belongs_def new_deployment_def image_iff)
  qed (simp_all add: deployment_ok_def new_deployment_def)
  show ?thesis
    unfolding create_locked_def
    by (auto simp: Let_def rel s1 unchanged_sound [OF ok] s2 split: option.split sum.split rexn.split)
qed

lemma create_deployment_sound:
  assumes "db_ok db" "new_dp \<notin> dp_id ` set (db_deployments db)"
  shows "sound db (snd (create_deployment en rq cd new_dp new_op now db0 db))"
  unfolding create_deployment_def
  by (auto simp: Let_def unchanged_sound create_locked_sound assms simp del: first_response_None split: option.split)


section \<open>Transactions\<close>

text \<open>
  One committed transaction on the runtime tables. A new deployment's identifier is a random
  UUID that no row has yet; everything else a handler or a worker works with is arbitrary.
\<close>

inductive runtime_step :: "db \<Rightarrow> db \<Rightarrow> bool" where
  created: "new_dp \<notin> dp_id ` set (db_deployments db) \<Longrightarrow>
    runtime_step db (snd (create_deployment enabled rq cd new_dp new_op now db0 db))"
| updated: "runtime_step db (snd (partial_update enabled rq pk uf new_id now db0 db))"
| acted: "runtime_step db (snd (actions enabled rq pk ad new_id now db0 db))"
| destroyed: "runtime_step db (snd (destroy enabled rq pk new_id now db0 db))"
| logged: "runtime_step db (snd (log_requests enabled rq pk ld new_id now db0 db))"
| claimed: "claim worker_id token now db = Some (i, db') \<Longrightarrow> runtime_step db db'"
| recorded: "record_outcome now stale token outcome db = Inr db' \<Longrightarrow> runtime_step db db'"
| catalogued: "db_operations db' = db_operations db \<Longrightarrow> db_deployments db' = db_deployments db \<Longrightarrow> runtime_step db db'"

lemma runtime_step_sound: "runtime_step db db' \<Longrightarrow> db_ok db \<Longrightarrow> sound db db'"
  by (induction rule: runtime_step.induct)
    (simp_all add: create_deployment_sound partial_update_sound actions_sound destroy_sound log_requests_sound
      claim_sound record_outcome_sound sound_frame)

definition empty_runtime :: "db \<Rightarrow> bool" where
  "empty_runtime db \<longleftrightarrow> db_operations db = [] \<and> db_deployments db = []"

lemma empty_runtime_ok: "empty_runtime db \<Longrightarrow> db_ok db"
  by (simp add: empty_runtime_def db_ok_def one_each_def one_live_def)

interpretation runtime: inductive_invariant empty_runtime runtime_step db_ok
  by unfold_locales (rule empty_runtime_ok, assumption, rule sound_ok [OF runtime_step_sound])

lemma runtime_steps_sound: "runtime_step\<^sup>*\<^sup>* db db' \<Longrightarrow> db_ok db \<Longrightarrow> sound db db'"
  by (induction rule: rtranclp_induct) (auto intro: unchanged_sound sound_trans runtime_step_sound sound_ok)

text \<open>The rows of a database, found again in every later one.\<close>

lemma operation_later:
  assumes "runtime_step\<^sup>*\<^sup>* db db'" "db_ok db" "op \<in> set (db_operations db)"
  obtains op' where "op' \<in> set (db_operations db')" "op_after op op'"
  using runtime_steps_sound [OF assms(1,2)] assms(3) by (auto simp: sound_def db_after_def)

lemma deployment_later:
  assumes "runtime_step\<^sup>*\<^sup>* db db'" "db_ok db" "d \<in> set (db_deployments db)"
  obtains d' where "d' \<in> set (db_deployments db')" "dep_after d d'"
  using runtime_steps_sound [OF assms(1,2)] assms(3) by (auto simp: sound_def db_after_def)

end
