(* ===== verification/Runtime_Facts.thy ===== *)
theory Runtime_Facts
  imports Runtime_System
begin

text \<open>
  Consequences of the invariant of the runtime tables: what one accepted mutation is, fencing
  of workers that lost their lease, the replay of idempotency keys, and the bound on the
  failures of an operation.
\<close>

section \<open>Mutations of an existing deployment\<close>

datatype mutation =
    Configure update_fields
  | Act action_data
  | Remove

definition mutate :: "bool \<Rightarrow> api_request \<Rightarrow> string \<Rightarrow> mutation \<Rightarrow> string \<Rightarrow> int \<Rightarrow> db \<Rightarrow> db \<Rightarrow> api_response \<times> db" where
  "mutate enabled rq pk m new_id now db0 db = (case m of
     Configure uf \<Rightarrow> partial_update enabled rq pk uf new_id now db0 db
   | Act ad \<Rightarrow> actions enabled rq pk ad new_id now db0 db
   | Remove \<Rightarrow> destroy enabled rq pk new_id now db0 db)"

lemma mutate_step: "runtime_step db (snd (mutate enabled rq pk m new_id now db0 db))"
  by (cases m) (auto simp: mutate_def intro: runtime_step.intros)

lemma first_response_member: "first_response xs = Some r \<Longrightarrow> Some r \<in> set xs"
  by (induction xs rule: first_response.induct) auto

lemma commit_accepted:
  assumes "commit_mutation rq d t h p i now db1 db = (MutationReply d' op 202 False, db')"
  shows "d' = d \<and> op = new_operation rq d t h p i now \<and> db' = db1\<lparr>db_operations := db_operations db1 @ [op]\<rparr>"
  using assms by (auto simp: commit_mutation_def create_operation_def idempotency_conflict_def Let_def split: if_split_asm)

text \<open>The checks never answer as an accepted mutation does.\<close>

definition plain :: "api_response option \<Rightarrow> bool" where
  "plain r \<longleftrightarrow> (\<forall>d op. r \<noteq> Some (MutationReply d op 202 False))"

lemma plain_checks [simp]:
  "plain (replay rq h db)" "plain (runtime_unavailable en)" "plain (revision_precondition rq n s)"
  "plain (busy_response db d)" "plain (environment_unavailable db d)" "plain (validate_action_capability db d a)"
  "plain (validate_transition d a)" "plain (Some (Problem x y z))" "plain None"
  by (auto simp: plain_def replay_def idempotency_replay_def runtime_unavailable_def revision_precondition_def
      busy_response_def environment_unavailable_def validate_action_capability_def validate_transition_def
      not_found_response_def Let_def split: option.split prod.split)

lemma plain_action: "apply_action db d ad \<noteq> Inl (MutationReply d' op 202 False)"
  by (auto simp: apply_action_def apply_scale_def Let_def split: option.split sum.split)

lemma first_response_plain: "list_all plain xs \<Longrightarrow> first_response xs \<noteq> Some (MutationReply d op 202 False)"
  by (induction xs rule: first_response.induct) (auto simp: plain_def)

text \<open>An accepted mutation is the locked row with the next generation and revision, and a new operation.\<close>

definition accepted :: "api_request \<Rightarrow> string \<Rightarrow> db \<Rightarrow> deployment_row \<Rightarrow> operation_row \<Rightarrow> db \<Rightarrow> bool" where
  "accepted rq pk db d op db' \<longleftrightarrow> (\<exists>locked. get_deployment db pk = Some locked
     \<and> revision_precondition rq (dp_revision locked) ''deployment'' = None \<and> busy_response db locked = None
     \<and> replay rq (o_request_hash op) db = None
     \<and> dp_deleted_at locked = None \<and> advances locked d
     \<and> db' = (save_deployment d db)\<lparr>db_operations := db_operations db @ [op]\<rparr>)"

lemma accepted_commit:
  assumes c: "commit_mutation rq d t h p i now (save_deployment d db) db = (MutationReply d' op 202 False, db')"
    and g: "get_deployment db pk = Some locked"
    and p: "revision_precondition rq (dp_revision locked) ''deployment'' = None" "busy_response db locked = None"
      "replay rq h db = None" "dp_deleted_at locked = None" "advances locked d"
  shows "accepted rq pk db d' op db'"
proof -
  have "o_request_hash op = h" "d' = d" "db' = (save_deployment d db)\<lparr>db_operations := db_operations db @ [op]\<rparr>"
    using commit_accepted [OF c] by (simp_all add: new_operation_def)
  then show ?thesis unfolding accepted_def using g p by auto
qed

lemma destroy_accepted:
  assumes "destroy en rq pk i now db0 db = (MutationReply d op 202 False, db')"
  shows "accepted rq pk db d op db'"
  using assms unfolding destroy_def
  by (auto simp: Let_def not_found_response_def first_response_plain advances_def bump_def
      split: option.split_asm if_split_asm intro!: accepted_commit)

lemma partial_update_accepted:
  assumes "partial_update en rq pk uf i now db0 db = (MutationReply d op 202 False, db')"
  shows "accepted rq pk db d op db'"
  using assms unfolding partial_update_def
  by (auto simp: Let_def not_found_response_def first_response_plain advances_def bump_def
      sync_component_scaling_def set_fields_def
      split: option.split_asm if_split_asm sum.split_asm intro!: accepted_commit)

lemma actions_accepted:
  assumes "actions en rq pk ad i now db0 db = (MutationReply d op 202 False, db')"
  shows "accepted rq pk db d op db'"
  using assms unfolding actions_def
  by (auto simp: Let_def not_found_response_def first_response_plain plain_action apply_action_advances
      validate_transition_def
      split: option.split_asm if_split_asm sum.split_asm intro!: accepted_commit)

lemma mutate_accepted:
  "mutate en rq pk m i now db0 db = (MutationReply d op 202 False, db') \<Longrightarrow> accepted rq pk db d op db'"
  by (cases m) (auto simp: mutate_def intro: destroy_accepted partial_update_accepted actions_accepted)

text \<open>An If-Match header names one revision.\<close>

lemma precondition_revision:
  "revision_precondition rq n s = None \<Longrightarrow> revision_precondition rq' n' s' = None \<Longrightarrow> rq_if_match rq' = rq_if_match rq \<Longrightarrow> n' = n"
  by (auto simp: revision_precondition_def Let_def split: option.split_asm if_split_asm)

lemma accepted_revision:
  assumes ok: "db_ok db" and a: "accepted rq pk db d op db'"
  obtains locked where "get_deployment db pk = Some locked" "revision_precondition rq (dp_revision locked) ''deployment'' = None"
    "d \<in> set (db_deployments db')" "dp_id d = pk" "dp_revision d = dp_revision locked + 1"
proof -
  obtain locked where g: "get_deployment db pk = Some locked"
    and p: "revision_precondition rq (dp_revision locked) ''deployment'' = None" and adv: "advances locked d"
    and db': "db' = (save_deployment d db)\<lparr>db_operations := db_operations db @ [op]\<rparr>"
    using a by (auto simp: accepted_def)
  have l: "locked \<in> set (db_deployments db)" "dp_id locked = pk" using deps.get_SomeD [OF g] by simp_all
  show thesis
    by (rule that [OF g p]) (use l adv db' in \<open>auto simp: advances_def deps.set_save\<close>)
qed

lemma second_edit_rejected:
  assumes ok: "db_ok db" and a: "accepted rq pk db d op db1" and s: "runtime_step\<^sup>*\<^sup>* db1 db2" and ok1: "db_ok db1"
    and m: "rq_if_match rq' = rq_if_match rq"
  shows "\<not> accepted rq' pk db2 d' op' db3"
proof
  assume a': "accepted rq' pk db2 d' op' db3"
  obtain l where "get_deployment db pk = Some l" and l: "revision_precondition rq (dp_revision l) ''deployment'' = None"
    "d \<in> set (db_deployments db1)" "dp_id d = pk" "dp_revision d = dp_revision l + 1"
    by (rule accepted_revision [OF ok a])
  have ok2: "db_ok db2" using sound_ok [OF runtime_steps_sound [OF s ok1]] .
  obtain l2 where l2: "get_deployment db2 pk = Some l2" "revision_precondition rq' (dp_revision l2) ''deployment'' = None"
    and "d' \<in> set (db_deployments db3)" "dp_id d' = pk" "dp_revision d' = dp_revision l2 + 1"
    by (rule accepted_revision [OF ok2 a'])
  obtain d2 where d2: "d2 \<in> set (db_deployments db2)" "dep_after d d2" by (rule deployment_later [OF s ok1 l(2)])
  have "d2 = l2"
    using same_id [OF db_okD(3) [OF ok2] d2(1)] deps.get_SomeD [OF l2(1)] d2(2) l(3) by (simp add: dep_after_def)
  then have "dp_revision l < dp_revision l2" using d2(2) l(4) by (simp add: dep_after_def)
  then show False using precondition_revision [OF l(1) l2(2) m] by simp
qed


section \<open>Idempotency keys\<close>

text \<open>A request whose key some operation already has.\<close>

definition key_used :: "api_request \<Rightarrow> db \<Rightarrow> bool" where
  "key_used rq db = (case idempotency_key rq of None \<Rightarrow> False
     | Some k \<Rightarrow> k \<in> o_idempotency_key ` set (db_operations db))"

lemma key_used_later:
  assumes "key_used rq db" "runtime_step\<^sup>*\<^sup>* db db'" "db_ok db"
  shows "key_used rq db'"
proof -
  obtain k op where k: "idempotency_key rq = Some k" "op \<in> set (db_operations db)" "k = o_idempotency_key op"
    using assms(1) by (auto simp: key_used_def split: option.split_asm)
  obtain op' where op': "op' \<in> set (db_operations db')" "op_after op op'" by (rule operation_later [OF assms(2,3) k(2)])
  then have "k = o_idempotency_key op'" using k(3) by (auto simp: op_after_def evolves_def)
  then show ?thesis using k(1) op'(1) by (simp add: key_used_def)
qed

lemma replay_used: "key_used rq db \<Longrightarrow> replay rq h db \<noteq> None" "key_used rq db \<Longrightarrow> replay_operation rq h db \<noteq> None"
  by (auto simp: key_used_def replay_def replay_operation_def idempotency_replay_def find_None_iff image_iff split: option.splits prod.splits)

text \<open>All handlers.\<close>

datatype api_call =
    Create create_data string
  | Mutation string mutation
  | Logs string log_data

definition handle :: "bool \<Rightarrow> api_request \<Rightarrow> api_call \<Rightarrow> string \<Rightarrow> int \<Rightarrow> db \<Rightarrow> db \<Rightarrow> api_response \<times> db" where
  "handle enabled rq c new_id now db0 db = (case c of
     Create cd new_dp \<Rightarrow> create_deployment enabled rq cd new_dp new_id now db0 db
   | Mutation pk m \<Rightarrow> mutate enabled rq pk m new_id now db0 db
   | Logs pk ld \<Rightarrow> log_requests enabled rq pk ld new_id now db0 db)"

lemma handle_used:
  assumes u: "key_used rq db"
  shows "snd (handle enabled rq c new_id now db0 db) = db"
proof -
  note r [simp] = replay_used [OF u]
  have "snd (destroy en rq pk i now db0 db) = db" for en pk i now
    by (simp add: destroy_def Let_def split: option.split)
  moreover have "snd (partial_update en rq pk uf i now db0 db) = db" for en pk uf i now
    by (simp add: partial_update_def Let_def split: option.split sum.split)
  moreover have "snd (actions en rq pk ad i now db0 db) = db" for en pk ad i now
    by (simp add: actions_def Let_def split: option.split)
  moreover have "snd (log_requests en rq pk ld i now db0 db) = db" for en pk ld i now
    by (simp add: log_requests_def Let_def split: option.split)
  moreover have "snd (create_deployment en rq cd dp i now db0 db) = db" for en cd dp i now
    by (simp add: create_deployment_def create_locked_def Let_def split: option.split)
  ultimately show ?thesis by (simp add: handle_def mutate_def split: api_call.split mutation.split)
qed

text \<open>What a replay answers: the first operation with the key, or the conflict.\<close>

lemma replay_answer:
  assumes "db_ok db" "op \<in> set (db_operations db)" "idempotency_key rq = Some (o_idempotency_key op)"
    "is_request_id (o_idempotency_key op)"
  obtains d where "d \<in> set (db_deployments db)" "dp_id d = o_deployment op"
    "replay rq h db = Some (if o_request_hash op = h then MutationReply d op 200 True
       else Problem ''The idempotency key was already used for a different request.'' ''idempotency_conflict'' 409)"
proof -
  obtain d where d: "d \<in> set (db_deployments db)" "belongs op d" using db_okD(6) [OF assms(1,2)] by blast
  have "find (\<lambda>x. o_idempotency_key x = o_idempotency_key op) (db_operations db) = Some op"
    using find_key [OF db_okD(2) [OF assms(1)]] assms(2) by simp
  moreover have "get_deployment db (o_deployment op) = Some d"
    using deps.get_iff [OF db_okD(3) [OF assms(1)]] d by (simp add: belongs_def)
  ultimately show thesis
    using that d assms(3,4) by (simp add: replay_def idempotency_replay_def belongs_def)
qed


section \<open>Workers that lost their lease\<close>

lemma delete_dput: "AList.delete k (dput k v d) = AList.delete k d"
  by (simp add: dput_def AList.delete_eq AList.update_filter) (induction d; auto)

lemma fenced_out:
  assumes "get_operation db (o_id stale) = Some op" "o_lease_token op \<noteq> Some token"
  shows "record_snapshot now stale token s db = Inr db" "record_controller_failure now stale token e db = Inr db"
    "record_unexpected_failure now stale token db = Inr db"
    "complete_logs now c stale token l db = Inr (db\<lparr>db_cache := AList.delete (log_key stale) (db_cache db)\<rparr>)"
  using assms
  by (simp_all add: record_snapshot_def record_controller_failure_def record_unexpected_failure_def complete_logs_def
      the_row_def get_operation_def delete_dput Let_def)


section \<open>An unreachable controller\<close>

text \<open>
  The controller failures an active operation has left, summed over the table: every failure
  takes one away.
\<close>

definition weight :: "operation_row \<Rightarrow> nat" where
  "weight op = (if is_active op then MAX_CONTROLLER_FAILURES - o_controller_failures op else 0)"

definition work :: "db \<Rightarrow> nat" where
  "work db = sum_list (map weight (db_operations db))"

lemma sum_list_replace:
  "distinct (map key xs) \<Longrightarrow> x \<in> set xs \<Longrightarrow> key y = key x \<Longrightarrow>
   sum_list (map f (map (\<lambda>z. if key z = key y then y else z) xs)) + f x = sum_list (map f xs) + (f y :: nat)"
proof (induction xs)
  case (Cons z xs)
  show ?case
  proof (cases "z = x")
    case True
    then have "map (\<lambda>z. if key z = key y then y else z) xs = xs"
      using Cons.prems by (intro map_idI) (auto simp: image_iff)
    then show ?thesis using True Cons.prems(3) by simp
  next
    case False
    then have "x \<in> set xs" using Cons.prems(2) by simp
    moreover from this have "key z \<noteq> key y" using Cons.prems(1,3) by (auto simp: image_iff)
    ultimately show ?thesis using Cons by simp
  qed
qed simp

lemma work_save:
  assumes "db_ok db" "op \<in> set (db_operations db)" "o_id op' = o_id op"
  shows "work (save_operation op' db) + weight op = work db + weight op'"
  using sum_list_replace [of o_id "db_operations db" op op' weight] db_okD(1) [OF assms(1)] assms(2,3)
  by (simp add: work_def ops.rows_save)

text \<open>A failed call, recorded by the worker that holds the lease.\<close>

definition retry_of :: "int \<Rightarrow> operation_row \<Rightarrow> operation_row \<Rightarrow> bool" where
  "retry_of now op op' \<longleftrightarrow> o_id op' = o_id op \<and> weight op' < weight op
     \<and> (is_active op' \<longrightarrow> o_status op' = QUEUED \<and> (\<exists>t. o_next_attempt_at op' = Some t \<and> t \<le> now + seconds 60))"

lemma fail_with_deployment_returns:
  assumes "db_ok db" "op \<in> set (db_operations db)" "o_deployment op' = o_deployment op"
  obtains db' where "fail_with_deployment op' detail db = Inr db'" "db_operations db' = db_operations (save_operation op' db)"
proof -
  obtain d where "d \<in> set (db_deployments db)" "dp_id d = o_deployment op"
    using db_okD(6) [OF assms(1,2)] by (auto simp: belongs_def)
  then have "get_deployment db (o_deployment op') = Some d"
    using deps.get_iff [OF db_okD(3) [OF assms(1)]] assms(3) by simp
  then show thesis
    using that by (cases "o_type op' = ''log_snapshot''") (simp_all add: fail_with_deployment_def the_row_def)
qed

lemma failure_recorded:
  assumes ok: "db_ok db" and g: "get_operation db (o_id stale) = Some op" and t: "o_lease_token op = Some token"
  obtains db' op' where "record_outcome now stale token (Inl e) db = Inr db'"
    "db_operations db' = db_operations (save_operation op' db)" "retry_of now op op'"
proof -
  have op: "op \<in> set (db_operations db)" using ops.get_SomeD [OF g] by simp
  have o: "operation_ok op" "is_active op" using db_okD(4) [OF ok op] leased_active [OF _ t] by simp_all
  have w: "0 < weight op" using o by (simp add: weight_def operation_ok_def)
  have f: "retry_of now op (finish_keeping_attempt now (op\<lparr>o_error := x\<rparr>))"
    "retry_of now op (finish_keeping_attempt now (op\<lparr>o_controller_failures := n, o_error := x\<rparr>))" for x n
    using w by (simp_all add: retry_of_def finish_keeping_attempt_def unlease_def weight_def is_active_def)
  have u: "\<exists>db' op'. record_unexpected_failure now stale token db = Inr db'
      \<and> db_operations db' = db_operations (save_operation op' db) \<and> retry_of now op op'"
  proof -
    let ?op' = "finish_keeping_attempt now (op\<lparr>o_error := failure ''runtime_worker_error'' ''The runtime worker failed unexpectedly.'' True\<rparr>)"
    have dep: "o_deployment ?op' = o_deployment op" by (simp add: finish_keeping_attempt_def unlease_def)
    obtain db' where "fail_with_deployment ?op' ''The runtime worker failed unexpectedly.'' db = Inr db'"
      "db_operations db' = db_operations (save_operation ?op' db)"
      by (rule fail_with_deployment_returns [OF ok op dep])
    then show ?thesis using f(1) g t by (auto simp: record_unexpected_failure_def the_row_def Let_def)
  qed
  have c: "\<exists>db' op'. record_controller_failure now stale token e db = Inr db'
      \<and> db_operations db' = db_operations (save_operation op' db) \<and> retry_of now op op'"
  proof (cases "retryable e \<and> Suc (o_controller_failures op) < MAX_CONTROLLER_FAILURES")
    case True
    let ?op' = "unlease (op\<lparr>o_controller_failures := Suc (o_controller_failures op), o_status := QUEUED,
       o_progress := progress ''retrying'' JNull, o_next_attempt_at := Some (now + seconds (min (2 ^ o_attempts op) 60))\<rparr>)"
    have "retry_of now op ?op'"
      using o True diff_less_mono2 [of "o_controller_failures op" "Suc (o_controller_failures op)" MAX_CONTROLLER_FAILURES]
      by (simp add: retry_of_def unlease_def weight_def is_active_def seconds_def)
    moreover have "record_controller_failure now stale token e db = Inr (save_operation ?op' db)"
      using True g t by (simp add: record_controller_failure_def the_row_def Let_def)
    ultimately show ?thesis by blast
  next
    case False
    let ?op' = "finish_keeping_attempt now (op\<lparr>o_controller_failures := Suc (o_controller_failures op),
       o_error := failure ''runtime_controller_error'' (take 500 (wexn_message e)) (retryable e)\<rparr>)"
    have dep: "o_deployment ?op' = o_deployment op" by (simp add: finish_keeping_attempt_def unlease_def)
    obtain db' where "fail_with_deployment ?op' (take 500 (wexn_message e)) db = Inr db'"
      "db_operations db' = db_operations (save_operation ?op' db)"
      by (rule fail_with_deployment_returns [OF ok op dep])
    moreover have "record_controller_failure now stale token e db = fail_with_deployment ?op' (take 500 (wexn_message e)) db"
      using False g t by (auto simp: record_controller_failure_def the_row_def Let_def)
    ultimately show ?thesis using f(2) by metis
  qed
  have "record_outcome now stale token (Inl e) db = record_unexpected_failure now stale token db
      \<or> record_outcome now stale token (Inl e) db = record_controller_failure now stale token e db"
    by (simp add: record_outcome_def record_result_def split: wexn.split)
  then have "\<exists>db' op'. record_outcome now stale token (Inl e) db = Inr db'
      \<and> db_operations db' = db_operations (save_operation op' db) \<and> retry_of now op op'"
    using u c by (elim disjE) simp_all
  then show thesis using that by blast
qed

lemma isl_bindE: "isl m \<Longrightarrow> isl (bindE m f)" "(\<And>x. isl (f x)) \<Longrightarrow> isl (bindE m f)"
  by (cases m; simp)+

lemma execute_unreachable: "isl (execute_call cfg (\<lambda>_. Unreachable) (\<lambda>_. Unreachable) d op)"
proof -
  have s: "isl (send_client cfg (\<lambda>_. Unreachable) m p r ex b ps)" for m p r ex b ps
    by (simp add: send_client_def)
  have on: "isl (client_on cfg (\<lambda>_. Unreachable) m i t ex b r)" for m i t ex b r
    unfolding client_on_def by (intro isl_bindE(2) isl_bindE(1) s)
  have l: "isl (client_logs cfg (\<lambda>_. Unreachable) i c t n r)" for i c t n r
    by (simp add: client_logs_def Let_def isl_bindE s split: json.split)
  have dp: "isl (client_deploy cfg (\<lambda>_. Unreachable) p r)" for p r
    unfolding client_deploy_def by (intro isl_bindE(1) s)
  have di: "isl (dispatch_operation cfg (\<lambda>_. Unreachable) d op)"
    by (simp add: dispatch_operation_def client_update_def client_action_def client_undeploy_def on dp Let_def)
  obtain e where "client_status cfg (\<lambda>_. Unreachable) (dp_controller_id d) (o_id op) = Inl e"
    using on [of "''GET''" "dp_controller_id d" "[]" "{200}" None "o_id op"] by (auto simp: client_status_def isl_def)
  then have po: "isl (poll_operation cfg (\<lambda>_. Unreachable) (\<lambda>_. Unreachable) d op)"
    by (simp add: poll_operation_def client_undeploy_def on split: wexn.split)
  have "isl (if already_dispatched op then poll_operation cfg (\<lambda>_. Unreachable) (\<lambda>_. Unreachable) d op
      else dispatch_operation cfg (\<lambda>_. Unreachable) d op)" using di po by simp
  moreover have "isl (bindE (payload_item op ''component'') (\<lambda>c.
      bindE (payload_item op ''tail_lines'') (\<lambda>t.
      bindE (payload_item op ''since_seconds'') (\<lambda>s.
      bindE (client_logs cfg (\<lambda>_. Unreachable) (dp_controller_id d) c t s (o_id op)) (\<lambda>l. Inr (GotLogs l))))))"
    by (rule isl_bindE(2), rule isl_bindE(2), rule isl_bindE(2), rule isl_bindE(1), rule l)
  ultimately show ?thesis by (simp add: execute_call_def isl_bindE(1))
qed

definition unreachable :: "iteration \<Rightarrow> bool" where
  "unreachable it \<longleftrightarrow> it_http it = (\<lambda>_. Unreachable) \<and> it_http_again it = (\<lambda>_. Unreachable)"

text \<open>Iterations at least the longest back-off, a minute, apart.\<close>

fun spaced :: "int \<Rightarrow> iteration list \<Rightarrow> bool" where
  "spaced t [] = True"
| "spaced t (it # its) \<longleftrightarrow> t \<le> it_claimed_at it \<and> it_claimed_at it \<le> it_recorded_at it
     \<and> spaced (it_recorded_at it + seconds 60) its"

definition waiting_until :: "int \<Rightarrow> db \<Rightarrow> bool" where
  "waiting_until t db \<longleftrightarrow> (\<forall>op \<in> set (db_operations db). is_active op \<longrightarrow> claimable t op)"

lemma claimable_later: "claimable t op \<Longrightarrow> t \<le> t' \<Longrightarrow> claimable t' op"
  by (auto simp: claimable_def split: option.split_asm)

lemma claimable_active: "claimable t op \<Longrightarrow> is_active op"
  by (auto simp: claimable_def is_active_def)

text \<open>With nothing active there is nothing to claim; otherwise a claimed operation fails.\<close>

lemma work_zero:
  assumes "db_ok db"
  shows "work db = 0 \<longleftrightarrow> (\<forall>op \<in> set (db_operations db). \<not> is_active op)"
proof -
  have "weight op = 0 \<longleftrightarrow> \<not> is_active op" if "op \<in> set (db_operations db)" for op
    using db_okD(4) [OF assms that] by (auto simp: weight_def operation_ok_def)
  then show ?thesis by (auto simp: work_def)
qed

lemma idle_round: "work db = 0 \<Longrightarrow> db_ok db \<Longrightarrow> process_next cfg http http' w token now now' db = Inr (False, db)"
proof -
  assume w: "work db = 0" and ok: "db_ok db"
  have "filter (claimable now) (db_operations db) = []"
    using w [unfolded work_zero [OF ok]] claimable_active by (auto simp: filter_empty_conv)
  then show ?thesis by (simp add: process_next_def claim_def)
qed

lemma failing_round:
  assumes ok: "db_ok db" and wait: "waiting_until t db" and le: "t \<le> now" "now \<le> now'" and w: "0 < work db"
  obtains db' where "process_next cfg (\<lambda>_. Unreachable) (\<lambda>_. Unreachable) wid token now now' db = Inr (True, db')"
    "db_ok db'" "work db' < work db" "waiting_until (now' + seconds 60) db'"
proof -
  have "\<exists>op \<in> set (db_operations db). is_active op"
    using w work_zero [OF ok] by auto
  then have "filter (claimable now) (db_operations db) \<noteq> []"
    using wait claimable_later [OF _ le(1)] by (auto simp: waiting_until_def filter_empty_conv)
  then obtain op rest where srt: "sort_key o_requested_at (filter (claimable now) (db_operations db)) = op # rest"
    by (metis list.exhaust sort_key_simps(1) length_0_conv length_sort)
  then have op: "op \<in> set (db_operations db)" "claimable now op"
    by (metis (no_types, lifting) list.set_intros(1) mem_Collect_eq set_filter set_sort)+
  let ?op1 = "lease_to (take 128 wid) token now op" and ?db1 = "save_operation (lease_to (take 128 wid) token now op) db"
  have c: "claim wid token now db = Some (o_id op, ?db1)" using srt by (simp add: claim_def)
  note ok1 = sound_ok [OF claim_sound [OF ok c]]
  have op1: "?op1 \<in> set (db_operations ?db1)" using op(1) by (auto simp: ops.set_save lease_to_def)
  then have g1: "get_operation ?db1 (o_id op) = Some ?op1" "get_operation ?db1 (o_id ?op1) = Some ?op1"
    using ops.get_iff [OF db_okD(1) [OF ok1]] by (simp_all add: lease_to_def)
  obtain d where d: "get_deployment ?db1 (o_deployment ?op1) = Some d"
    using db_okD(6) [OF ok1 op1] deps.get_iff [OF db_okD(3) [OF ok1]] by (auto simp: belongs_def)
  obtain e where e: "execute_call cfg (\<lambda>_. Unreachable) (\<lambda>_. Unreachable) d ?op1 = Inl e"
    using execute_unreachable [of cfg d ?op1] by (auto simp: isl_def)
  obtain db' op' where r: "record_outcome now' ?op1 token (Inl e) ?db1 = Inr db'"
    "db_operations db' = db_operations (save_operation op' ?db1)" "retry_of now' ?op1 op'"
    by (rule failure_recorded [OF ok1 g1(2)]) (simp add: lease_to_def)
  show thesis
  proof (rule that)
    show "process_next cfg (\<lambda>_. Unreachable) (\<lambda>_. Unreachable) wid token now now' db = Inr (True, db')"
      using c g1(1) d e r(1) by (simp add: process_next_def process_claimed_def the_row_def)
    show "db_ok db'" using record_outcome_sound [OF ok1 r(1)] by (rule sound_ok)
    have "weight ?op1 = weight op"
      using claimable_active [OF op(2)] by (simp add: weight_def lease_to_def is_active_def)
    then have "work ?db1 = work db" using work_save [OF ok op(1), of ?op1] by (simp add: lease_to_def)
    moreover have "work db' + weight ?op1 = work ?db1 + weight op'"
      using work_save [OF ok1 op1, of op'] r(2,3) by (simp add: work_def retry_of_def)
    ultimately show "work db' < work db" using r(3) by (simp add: retry_of_def)
    show "waiting_until (now' + seconds 60) db'"
      unfolding waiting_until_def
    proof (intro ballI impI)
      fix x :: operation_row assume x: "x \<in> set (db_operations db')" and a: "is_active x"
      have id: "o_id op' = o_id op" using r(3) by (simp add: retry_of_def lease_to_def)
      have "x = op' \<or> x \<in> set (db_operations db)"
        using x [unfolded r(2) ops.set_save] id by (auto simp: ops.set_save lease_to_def)
      then show "claimable (now' + seconds 60) x"
      proof
        assume "x = op'"
        then show ?thesis using a r(3) by (auto simp: retry_of_def claimable_def)
      next
        assume "x \<in> set (db_operations db)"
        then have "claimable t x" using wait a by (simp add: waiting_until_def)
        then show ?thesis using claimable_later le by (auto simp: seconds_def)
      qed
    qed
  qed
qed

lemma unreachable_drains:
  assumes "db_ok db" "waiting_until t db" "spaced t its" "list_all unreachable its" "work db \<le> length its"
  shows "\<exists>db'. run cfg wid False its db = Inr db' \<and> db_ok db' \<and> work db' = 0"
  using assms
proof (induction its arbitrary: db t)
  case (Cons it its)
  show ?case
  proof (cases "work db = 0")
    case True
    have "run cfg wid False xs db = Inr db" for xs
      using idle_round [OF True Cons.prems(1)] by (induction xs) simp_all
    then show ?thesis using True Cons.prems(1) by blast
  next
    case False
    have u: "it_http it = (\<lambda>_. Unreachable)" "it_http_again it = (\<lambda>_. Unreachable)" "list_all unreachable its"
      using Cons.prems(4) by (auto simp: unreachable_def [of it])
    obtain db' where r: "process_next cfg (\<lambda>_. Unreachable) (\<lambda>_. Unreachable) wid (it_token it) (it_claimed_at it) (it_recorded_at it) db = Inr (True, db')"
      "db_ok db'" "work db' < work db" "waiting_until (it_recorded_at it + seconds 60) db'"
      by (rule failing_round [OF Cons.prems(1,2)]) (use Cons.prems(3) False in auto)
    then show ?thesis using Cons.IH [OF r(2,4) _ u(3)] Cons.prems(3,5) u by auto
  qed
qed simp

end
