(* ===== verification/Provision.thy ===== *)
theory Provision
  imports Release
begin

text \<open>
  The command that creates or updates the production environment:
  \<open>src/components/DEALHost/apps/hosting/management/commands/provision_runtime_environment.py\<close>.

  The parsed options are the argument: the list of \<open>--allowed-secret-ref\<close>, if any, and
  \<open>--clear-allowed-secret-refs\<close>. The result is the printed action and the database.
\<close>

section \<open>The desired environment\<close>

definition PRODUCTION_SLUG :: string where
  "PRODUCTION_SLUG = ''production''"

definition production_capabilities :: json where
  "production_capabilities = JObj
     [(''start_stop'', JBool True), (''restart'', JBool True),
      (''scaling'', JObj [(''fixed'', JObj [(''min_replicas'', JInt 1), (''max_replicas'', JInt 10)]),
         (''autoscaling'', JObj [(''enabled'', JBool True), (''min_replicas'', JInt 1), (''max_replicas'', JInt 10)])]),
      (''logs'', JObj [(''max_lines'', JInt 1000), (''max_bytes'', JInt 262144)]),
      (''domains'', JBool False), (''network_egress'', JBool False)]"

definition production_policy :: "string list \<Rightarrow> json" where
  "production_policy allowed_secret_refs = JObj
     [(''requires_image_digest'', JBool True), (''allowed_registries'', JList [JStr ''ghcr.io/smartappli/'']),
      (''allowed_secret_refs'', JList (map JStr allowed_secret_refs)), (''stateless_only'', JBool True)]"

text \<open>\<open>_desired_fields\<close>, as the row they describe.\<close>

definition desired_fields :: "string list \<Rightarrow> int \<Rightarrow> environment_row" where
  "desired_fields allowed_secret_refs revision =
     \<lparr>ev_slug = PRODUCTION_SLUG, ev_name = ''Production'',
      ev_description = ''Isolated Kubernetes production environment managed by DEALHost.'',
      ev_orchestrator = ''kubernetes'', ev_enabled = True, ev_capabilities = production_capabilities,
      ev_policy = production_policy allowed_secret_refs, ev_revision = revision\<rparr>"

definition valid_secret_refs :: "json \<Rightarrow> string list option" where
  "valid_secret_refs v = (case v of
     JList vs \<Rightarrow> if length vs > 100 then None
       else (case strings_of vs of
         Some ss \<Rightarrow> if list_all is_secret_name ss \<and> distinct ss then Some ss else None
       | None \<Rightarrow> None)
   | _ \<Rightarrow> None)"


section \<open>The command\<close>

text \<open>
  Python's equality of JSON values: keys in any order, and numbers by value whatever their type.
\<close>

fun py_norm :: "json \<Rightarrow> json" where
  "py_norm (JBool b) = JInt (if b then 1 else 0)"
| "py_norm (JFloat f) = (case float_of_text f of
     Some (Finite q) \<Rightarrow> if of_int \<lfloor>q\<rfloor> = q then JInt \<lfloor>q\<rfloor> else JFloat f | _ \<Rightarrow> JFloat f)"
| "py_norm (JList xs) = JList (map py_norm xs)"
| "py_norm (JObj d) = JObj (sort_key fst (map (\<lambda>(k, v). (k, py_norm v)) d))"
| "py_norm v = v"

definition fields_equal :: "environment_row \<Rightarrow> environment_row \<Rightarrow> bool" where
  "fields_equal ev ev' \<longleftrightarrow> ev_name ev = ev_name ev' \<and> ev_description ev = ev_description ev'
     \<and> ev_orchestrator ev = ev_orchestrator ev' \<and> ev_enabled ev = ev_enabled ev'
     \<and> py_norm (ev_capabilities ev) = py_norm (ev_capabilities ev') \<and> py_norm (ev_policy ev) = py_norm (ev_policy ev')"

text \<open>Only the fields that differ are assigned.\<close>

definition updated_environment :: "environment_row \<Rightarrow> environment_row \<Rightarrow> environment_row" where
  "updated_environment ev desired = ev\<lparr>ev_name := ev_name desired, ev_description := ev_description desired,
     ev_orchestrator := ev_orchestrator desired, ev_enabled := ev_enabled desired,
     ev_capabilities := (if py_norm (ev_capabilities ev) = py_norm (ev_capabilities desired)
        then ev_capabilities ev else ev_capabilities desired),
     ev_policy := (if py_norm (ev_policy ev) = py_norm (ev_policy desired) then ev_policy ev else ev_policy desired),
     ev_revision := ev_revision ev + 1\<rparr>"

definition effective_refs :: "string list option \<Rightarrow> environment_row \<Rightarrow> string list" where
  "effective_refs requested_refs ev = (case requested_refs of
     Some refs \<Rightarrow> refs
   | None \<Rightarrow> (case valid_secret_refs (case ev_policy ev of JObj p \<Rightarrow> dget p ''allowed_secret_refs'' | _ \<Rightarrow> JNull) of
       Some refs \<Rightarrow> sort refs | None \<Rightarrow> []))"

definition save_environment :: "environment_row \<Rightarrow> db \<Rightarrow> db" where
  "save_environment ev db =
     db\<lparr>db_environments := map (\<lambda>x. if ev_slug x = ev_slug ev then ev else x) (db_environments db)\<rparr>"

definition provision :: "string list option \<Rightarrow> bool \<Rightarrow> db \<Rightarrow> string + string \<times> db" where
  "provision allowed_secret_refs clear db =
     bindE (guardE (case allowed_secret_refs of None \<Rightarrow> True | Some rs \<Rightarrow> valid_secret_refs (JList (map JStr rs)) \<noteq> None)
       ''--allowed-secret-ref must contain at most 100 unique canonical logical Secret references.'') (\<lambda>_.
     let requested_refs = (case allowed_secret_refs of Some rs \<Rightarrow> Some (sort rs) | None \<Rightarrow> if clear then Some [] else None)
     in case get_environment db PRODUCTION_SLUG of
          None \<Rightarrow>
            (let refs = (case requested_refs of None \<Rightarrow> [] | Some rs \<Rightarrow> rs)
             in Inr (''created'', db\<lparr>db_environments := db_environments db @ [desired_fields refs 1]\<rparr>))
        | Some ev \<Rightarrow>
            (let desired = desired_fields (effective_refs requested_refs ev) (ev_revision ev) in
             if fields_equal ev desired then Inr (''unchanged'', db)
             else Inr (''updated'', save_environment (updated_environment ev desired) db)))"


section \<open>Provisioning again\<close>

interpretation envs: table db_environments save_environment get_environment ev_slug
  by unfold_locales (simp_all add: save_environment_def get_environment_def)

lemma strings_of_iff: "strings_of vs = Some ss \<longleftrightarrow> vs = map JStr ss"
  by (induction vs arbitrary: ss rule: strings_of.induct) auto

lemma strings_of_JStr [simp]: "strings_of (map JStr ss) = Some ss"
  by (simp add: strings_of_iff)

definition refs_ok :: "string list \<Rightarrow> bool" where
  "refs_ok rs \<longleftrightarrow> length rs \<le> 100 \<and> list_all is_secret_name rs \<and> distinct rs"

lemma valid_secret_refs_iff: "valid_secret_refs v = Some rs \<longleftrightarrow> v = JList (map JStr rs) \<and> refs_ok rs"
  by (auto simp: valid_secret_refs_def refs_ok_def strings_of_iff split: json.split option.split_asm if_split_asm option.split)

lemma refs_ok_sort [simp]: "refs_ok (sort rs) = refs_ok rs"
  by (simp add: refs_ok_def list_all_iff)

lemma effective_refs_cases:
  obtains rs where "q = Some rs" "effective_refs q ev = rs" | "q = None" "refs_ok (effective_refs q ev)" "sort (effective_refs q ev) = effective_refs q ev"
proof (cases q)
  case None
  let ?v = "valid_secret_refs (case ev_policy ev of JObj p \<Rightarrow> dget p ''allowed_secret_refs'' | _ \<Rightarrow> JNull)"
  have e: "effective_refs q ev = (case ?v of Some refs \<Rightarrow> sort refs | None \<Rightarrow> [])"
    using None by (simp add: effective_refs_def)
  show ?thesis
  proof (cases ?v)
    case n: None
    have "effective_refs q ev = []" unfolding e n by simp
    then show ?thesis using that(2) None by (simp add: refs_ok_def)
  next
    case (Some rs)
    have "effective_refs q ev = sort rs" unfolding e Some by simp
    then show ?thesis using that(2) None Some by (simp add: valid_secret_refs_iff sorted_sort_id)
  qed
qed (use that(1) in \<open>simp add: effective_refs_def\<close>)

lemma effective_refs_policy:
  "ev_policy ev = production_policy rs \<Longrightarrow> refs_ok rs \<Longrightarrow> effective_refs None ev = sort rs"
  using valid_secret_refs_iff [of "JList (map JStr rs)" rs] by (simp add: effective_refs_def production_policy_def)

lemma effective_refs_fix:
  assumes "ev_policy ev' = production_policy (effective_refs q ev)"
  shows "effective_refs q ev' = effective_refs q ev"
proof (rule effective_refs_cases [of q ev])
  fix rs assume "q = Some rs" "effective_refs q ev = rs"
  then show ?thesis by (simp add: effective_refs_def)
next
  assume "q = None" and rs: "refs_ok (effective_refs q ev)" "sort (effective_refs q ev) = effective_refs q ev"
  then show ?thesis using effective_refs_policy [OF assms rs(1)] by simp
qed

lemma effective_refs_same: "ev_policy ev' = ev_policy ev \<Longrightarrow> effective_refs q ev' = effective_refs q ev"
  by (cases q) (simp_all add: effective_refs_def)

lemma provision_again:
  assumes "provision refs clear db = Inr (a, db1)"
  shows "provision refs clear db1 = Inr (''unchanged'', db1)"
proof -
  let ?q = "case refs of Some rs \<Rightarrow> Some (sort rs) | None \<Rightarrow> if clear then Some [] else None"
  have again: "provision refs clear db' = Inr (''unchanged'', db')"
    if "get_environment db' PRODUCTION_SLUG = Some ev" "fields_equal ev (desired_fields (effective_refs ?q ev) (ev_revision ev))" for db' ev
    using assms that by (auto simp: provision_def guardE_def Let_def split: if_split_asm)
  show ?thesis
  proof (cases "get_environment db PRODUCTION_SLUG")
    case None
    let ?ev = "desired_fields (case ?q of None \<Rightarrow> [] | Some rs \<Rightarrow> rs) 1"
    have db1: "db1 = db\<lparr>db_environments := db_environments db @ [?ev]\<rparr>"
      using assms None by (auto simp: provision_def guardE_def Let_def split: if_split_asm)
    have g: "get_environment db1 PRODUCTION_SLUG = Some ?ev"
      using None by (auto simp: get_environment_def find_None_iff find_Some_iff db1 desired_fields_def nth_append)
    have e: "effective_refs ?q ?ev = (case ?q of None \<Rightarrow> [] | Some rs \<Rightarrow> rs)"
    proof (cases ?q)
      case n: None
      show ?thesis unfolding n using effective_refs_policy [of "desired_fields [] 1" "[]"] by (simp add: desired_fields_def refs_ok_def)
    qed (simp add: effective_refs_def)
    have "fields_equal (desired_fields r n) (desired_fields r m)" for r n m
      by (simp add: fields_equal_def desired_fields_def)
    then show ?thesis by (intro again [OF g]) (simp only: e)
  next
    case (Some ev)
    let ?d = "desired_fields (effective_refs ?q ev) (ev_revision ev)"
    show ?thesis
    proof (cases "fields_equal ev ?d")
      case True
      then have "db1 = db" using assms Some by (auto simp: provision_def guardE_def Let_def split: if_split_asm)
      then show ?thesis using again [OF Some True] by simp
    next
      case False
      let ?ev = "updated_environment ev ?d"
      have db1: "db1 = save_environment ?ev db"
        using assms Some False by (auto simp: provision_def guardE_def Let_def split: if_split_asm)
      have "ev_slug ?ev = PRODUCTION_SLUG" using envs.get_SomeD [OF Some] by (simp add: updated_environment_def)
      then have g: "get_environment db1 PRODUCTION_SLUG = Some ?ev" unfolding db1 by (rule envs.get_save [OF Some])
      have e: "effective_refs ?q ?ev = effective_refs ?q ev"
      proof (cases "py_norm (ev_policy ev) = py_norm (ev_policy ?d)")
        case True
        then show ?thesis by (intro effective_refs_same) (simp add: updated_environment_def)
      next
        case False
        then show ?thesis by (intro effective_refs_fix) (simp add: updated_environment_def desired_fields_def)
      qed
      have "fields_equal (updated_environment ev (desired_fields r n)) (desired_fields r m)" for r n m
        by (simp add: fields_equal_def updated_environment_def desired_fields_def)
      then show ?thesis by (intro again [OF g]) (simp only: e)
    qed
  qed
qed

end
