(* ===== verification/Runtime_Samples.thy ===== *)
theory Runtime_Samples
  imports Runtime_Facts Provision Samples
begin

text \<open>
  A small database with the sample manifest published as version 1.2.3 of one application,
  the request that deploys it, and the first transactions of a worker. Digests stay symbolic.
\<close>

definition sample_release :: release_row where
  "sample_release = \<lparr>rl_version = 11, rl_manifest = JObj sample_manifest, rl_manifest_digest = sha256_json (JObj sample_manifest)\<rparr>"

definition sample_start :: db where
  "sample_start = \<lparr>db_operations = [], db_deployments = [], db_environments = [desired_fields [''portal-db''] 1],
     db_applications = [\<lparr>ap_id = 3, ap_slug = ''portal'', ap_revision = 1, ap_modules = []\<rparr>],
     db_versions = [\<lparr>vr_id = 11, vr_application = 3, vr_version = ''1.2.3'', vr_source = ''tag'', vr_snapshot = JNull, vr_digest = []\<rparr>],
     db_releases = [sample_release], db_cache = []\<rparr>"

definition sample_request :: "string \<Rightarrow> api_request" where
  "sample_request revision = \<lparr>rq_idempotency_key = Some ''portal-request-'', rq_if_match = Some ([CHR 0x22] @ revision @ [CHR 0x22]),
     rq_user = ''operator''\<rparr>"

definition sample_create :: create_data where
  "sample_create = \<lparr>cd_application = 3, cd_environment = ''production'', cd_version = ''1.2.3'',
     cd_configuration = JObj [(''web'', JObj [(''LOG_LEVEL'', JStr ''info'')])],
     cd_secret_refs = JObj [(''web'', JObj [(''DB_URL'', JStr ''portal-db'')])], cd_scaling = JObj []\<rparr>"

definition sample_scaling :: json where
  "sample_scaling = JObj [(''web'', JObj [(''mode'', JStr ''fixed''), (''replicas'', JInt 1)])]"

lemma registry_prefix_ok: "REGISTRY_PREFIX_PATTERN ''ghcr.io/smartappli/''"
  by code_simp

lemma sample_environment_policy:
  "validate_environment_policy sample_manifest (desired_fields [''portal-db''] 1) = Inr ()"
  by (simp add: validate_environment_policy_def desired_fields_def production_policy_def production_capabilities_def check_registries_def
     registry_prefix_ok sample_manifest_def sample_module_def check_module_policy_def sample_image_ok sample_spec_def secret_policy_ok_def
     sample_atoms guardE_def raise_if_def)

lemma sample_scaling_ok:
  "validate_runtime_scaling (JObj []) sample_manifest (desired_fields [''portal-db''] 1) = Inr [(''web'', Fixed 1)]"
  by (simp add: validate_runtime_scaling_def desired_fields_def manifest_slugs_def sample_manifest_def sample_module_def
    production_capabilities_def scaling_for_def default_policy_def fixed_policy_def within_limits_def map_filter_simps Let_def keys_def)

lemma sample_rules: "runtime_profile_rules sample_manifest = Inr [(''web'', ([''LOG_LEVEL''], [''DB_URL'']))]"
  by (simp add: runtime_profile_rules_def sample_manifest_def sample_module_def sample_spec_def add_rules_def module_rules_def)

lemma log_level_plain: "\<not> looks_sensitive ''LOG_LEVEL''"
  by code_simp

lemma sample_configuration_ok:
  "validate_runtime_configuration (JObj [(''web'', JObj [(''LOG_LEVEL'', JStr ''info'')])]) sample_manifest = Inr [(''web'', [(''LOG_LEVEL'', ''info'')])]"
  by (simp add: validate_runtime_configuration_def validate_component_values_def sample_rules component_values_def
      component_value_def log_level_plain sample_atoms keys_def)

lemma sample_secrets_ok:
  "validate_runtime_secret_references (JObj [(''web'', JObj [(''DB_URL'', JStr ''portal-db'')])]) sample_manifest
     (desired_fields [''portal-db''] 1) = Inr [(''web'', [(''DB_URL'', ''portal-db'')])]"
  by (simp add: validate_runtime_secret_references_def validate_component_values_def sample_rules component_values_def
      component_value_def sample_atoms allowed_secret_refs_def desired_fields_def production_policy_def keys_def)

lemma sample_validate_create:
  "validate_create sample_create sample_release (desired_fields [''portal-db''] 1)
     = Inr (cd_configuration sample_create, cd_secret_refs sample_create, sample_scaling)"
  by (simp add: validate_create_def Let_def sample_release_def sample_create_def manifest_dict_def sample_scaling_ok
      sample_configuration_ok sample_secrets_ok values_json_def scaling_json_def sample_scaling_def str_dict_def scaling_dict_def)

lemma sample_release_ok:
  "runtime_release_for \<lparr>ap_id = 3, ap_slug = ''portal'', ap_revision = 1, ap_modules = []\<rparr> ''1.2.3'' (desired_fields [''portal-db''] 1) sample_start
     = (Inr sample_release, sample_start)"
proof -
  have "validate_release_integrity sample_release
      \<lparr>vr_id = 11, vr_application = 3, vr_version = ''1.2.3'', vr_source = ''tag'', vr_snapshot = JNull, vr_digest = []\<rparr>
      \<lparr>ap_id = 3, ap_slug = ''portal'', ap_revision = 1, ap_modules = []\<rparr> = Inr ()"
    by (simp add: validate_release_integrity_def sample_release_def guardE_def equals_one_def equals_int_def)
      (simp add: sample_manifest_def equals_int_def)
  then show ?thesis
    using sample_environment_policy
    by (simp add: runtime_release_for_def sample_start_def find_release_def sample_release_def manifest_dict_def)
qed

text \<open>The deployment and the operation that the request creates.\<close>

definition sample_dp :: deployment_row where
  "sample_dp = new_deployment (sample_request ''1'') sample_create sample_release (cd_configuration sample_create)
     (cd_secret_refs sample_create) sample_scaling sample_id"

definition sample_hash :: string where
  "sample_hash = request_hash ''create'' (JObj (create_items sample_create))"

definition sample_op_id :: string where
  "sample_op_id = ''5b1ad6a2-3c1e-4ac1-9a53-0c6f4f0a9d11''"

definition sample_op :: operation_row where
  "sample_op = new_operation (sample_request ''1'') sample_dp ''deploy'' sample_hash [] sample_op_id 1000"

definition sample_created :: db where
  "sample_created = sample_start\<lparr>db_deployments := [sample_dp], db_operations := [sample_op]\<rparr>"

lemma sample_request_ok:
  "idempotency_key (sample_request r) = Some ''portal-request-''" "is_request_id ''portal-request-''"
  "revision_precondition (sample_request ''1'') 1 res = None"
proof -
  have "strip ''portal-request-'' = ''portal-request-''" by code_simp
  then show "idempotency_key (sample_request r) = Some ''portal-request-''"
    by (simp add: idempotency_key_def sample_request_def)
  have "strip [CHR 0x22, CHR ''1'', CHR 0x22] = [CHR 0x22, CHR ''1'', CHR 0x22]" "is_positive_dec ''1''" "nat_of_dec ''1'' = 1"
    by code_simp+
  then show "revision_precondition (sample_request ''1'') 1 res = None"
    by (simp add: revision_precondition_def sample_request_def)
  show "is_request_id ''portal-request-''" by code_simp
qed

lemma sample_creates:
  "create_deployment True (sample_request ''1'') sample_create sample_id sample_op_id 1000 sample_start sample_start
     = (MutationReply sample_dp sample_op 202 False, sample_created)"
proof -
  have r: "replay (sample_request ''1'') h sample_start = None" for h
    by (simp add: replay_def idempotency_replay_def sample_request_ok sample_start_def)
  have a: "get_application sample_start (cd_application sample_create)
      = Some \<lparr>ap_id = 3, ap_slug = ''portal'', ap_revision = 1, ap_modules = []\<rparr>"
    "get_environment sample_start (cd_environment sample_create) = Some (desired_fields [''portal-db''] 1)"
    by (simp_all add: get_application_def get_environment_def sample_start_def sample_create_def desired_fields_def PRODUCTION_SLUG_def)
  have "\<not> deployment_exists sample_create sample_start" by (simp add: deployment_exists_def sample_start_def)
  moreover have "\<not> violates_unique sample_op (sample_start\<lparr>db_deployments := [sample_dp]\<rparr>)"
    by (simp add: violates_unique_def sample_start_def)
  moreover have "cd_version sample_create = ''1.2.3''" by (simp add: sample_create_def)
  moreover have "db_deployments sample_start = []" "db_operations sample_start = []" by (simp_all add: sample_start_def)
  ultimately show ?thesis
    using sample_validate_create sample_release_ok
    by (simp add: create_deployment_def create_locked_def a r runtime_unavailable_def sample_request_ok Let_def
        commit_mutation_def create_operation_def sample_created_def sample_op_def sample_dp_def sample_hash_def)
qed


section \<open>The first transactions\<close>

lemma sample_start_empty: "empty_runtime sample_start"
  by (simp add: empty_runtime_def sample_start_def)

lemma sample_step_created: "runtime_step sample_start sample_created"
  using runtime_step.created [of sample_id sample_start True "sample_request ''1''" sample_create sample_op_id 1000 sample_start]
  by (simp add: sample_creates) (simp add: sample_start_def)

lemma sample_created_ok: "db_ok sample_created"
  using runtime.reachable_inv [OF sample_start_empty r_into_rtranclp [where r = runtime_step, OF sample_step_created]] .

lemma sample_rows [simp]:
  "db_operations sample_created = [sample_op]" "db_deployments sample_created = [sample_dp]"
  "o_id sample_op = sample_op_id" "o_deployment sample_op = sample_id" "o_type sample_op = ''deploy''" "o_status sample_op = QUEUED"
  "o_lease_token sample_op = None" "o_controller_failures sample_op = 0" "o_next_attempt_at sample_op = None"
  "o_target_generation sample_op = 1" "o_idempotency_key sample_op = ''portal-request-''" "o_request_hash sample_op = sample_hash"
  "o_lease_expires_at sample_op = None" "o_attempts sample_op = 0" "o_finished_at sample_op = None"
  "dp_id sample_dp = sample_id" "dp_generation sample_dp = 1" "dp_revision sample_dp = 1" "dp_observed_state sample_dp = ''pending''"
  "dp_deleted_at sample_dp = None" "dp_controller_id sample_dp = []" "dp_environment sample_dp = ''production''"
  by (simp_all add: sample_created_def sample_op_def new_operation_def sample_dp_def new_deployment_def sample_request_ok
      sample_create_def)

definition sample_token :: string where
  "sample_token = ''0f8fad5b-d9cb-469f-a165-70867728950e''"

definition sample_leased :: operation_row where
  "sample_leased = lease_to ''worker-a'' sample_token 2000 sample_op"

definition sample_claimed :: db where
  "sample_claimed = sample_created\<lparr>db_operations := [sample_leased]\<rparr>"

lemma sample_claims: "claim ''worker-a'' sample_token 2000 sample_created = Some (sample_op_id, sample_claimed)"
  by (simp add: claim_def claimable_def save_operation_def sample_leased_def sample_claimed_def lease_to_def)

lemma sample_leased_rows [simp]:
  "db_operations sample_claimed = [sample_leased]" "db_deployments sample_claimed = [sample_dp]"
  "o_id sample_leased = sample_op_id" "o_deployment sample_leased = sample_id" "o_type sample_leased = ''deploy''"
  "o_status sample_leased = RUNNING" "o_lease_token sample_leased = Some sample_token" "o_controller_failures sample_leased = 0"
  "o_idempotency_key sample_leased = ''portal-request-''" "o_request_hash sample_leased = sample_hash"
  by (simp_all add: sample_claimed_def sample_leased_def lease_to_def sample_created_def)

definition sample_refusal :: wexn where
  "sample_refusal = ControllerError ''Runtime controller rejected the request (HTTP 422).'' (Some 422)"

definition sample_failed_op :: operation_row where
  "sample_failed_op = finish_keeping_attempt 3000 (sample_leased\<lparr>o_controller_failures := 1,
     o_error := failure ''runtime_controller_error'' (wexn_message sample_refusal) False\<rparr>)"

definition sample_failed :: db where
  "sample_failed = sample_claimed\<lparr>db_operations := [sample_failed_op],
     db_deployments := [fail_deployment (wexn_message sample_refusal) sample_dp]\<rparr>"

lemma sample_fails: "record_outcome 3000 sample_leased sample_token (Inl sample_refusal) sample_claimed = Inr sample_failed"
  by (simp add: record_outcome_def record_result_def sample_refusal_def record_controller_failure_def get_operation_def
      retryable_def fail_with_deployment_def get_deployment_def the_row_def finish_keeping_attempt_def unlease_def Let_def
      save_operation_def save_deployment_def fail_deployment_def sample_failed_def sample_failed_op_def)

lemma sample_steps:
  "runtime_step sample_created sample_claimed" "runtime_step sample_claimed sample_failed"
  "runtime_step\<^sup>*\<^sup>* sample_start sample_created" "runtime_step\<^sup>*\<^sup>* sample_start sample_claimed"
  "runtime_step\<^sup>*\<^sup>* sample_start sample_failed"
proof -
  show 1: "runtime_step sample_created sample_claimed" by (rule runtime_step.claimed [OF sample_claims])
  show 2: "runtime_step sample_claimed sample_failed" by (rule runtime_step.recorded [OF sample_fails])
  show a: "runtime_step\<^sup>*\<^sup>* sample_start sample_created" by (rule r_into_rtranclp [where r = runtime_step, OF sample_step_created])
  show b: "runtime_step\<^sup>*\<^sup>* sample_start sample_claimed" by (rule rtranclp.rtrancl_into_rtrancl [where r = runtime_step, OF a 1])
  show "runtime_step\<^sup>*\<^sup>* sample_start sample_failed" by (rule rtranclp.rtrancl_into_rtrancl [where r = runtime_step, OF b 2])
qed

text \<open>The removal of the failed deployment.\<close>

definition sample_removal_request :: api_request where
  "sample_removal_request = \<lparr>rq_idempotency_key = Some ''portal-removal-'', rq_if_match = Some [CHR 0x22, CHR ''2'', CHR 0x22],
     rq_user = ''operator''\<rparr>"

definition sample_removal_id :: string where
  "sample_removal_id = ''7d444840-9dc0-41d1-b245-5ffdce74fad2''"

definition sample_removed_dp :: deployment_row where
  "sample_removed_dp = bump ((fail_deployment (wexn_message sample_refusal) sample_dp)
     \<lparr>dp_desired_state := ''absent'', dp_observed_state := ''deleting''\<rparr>)"

definition sample_removal :: operation_row where
  "sample_removal = new_operation sample_removal_request sample_removed_dp ''undeploy''
     (request_hash (''undeploy:'' @ sample_id) (JObj [])) [] sample_removal_id 6000"

definition sample_removing :: db where
  "sample_removing = sample_failed\<lparr>db_deployments := [sample_removed_dp], db_operations := [sample_failed_op, sample_removal]\<rparr>"

lemma sample_removal_request_ok:
  "idempotency_key sample_removal_request = Some ''portal-removal-''" "is_request_id ''portal-removal-''"
  "revision_precondition sample_removal_request 2 res = None"
proof -
  have "strip ''portal-removal-'' = ''portal-removal-''" by code_simp
  then show "idempotency_key sample_removal_request = Some ''portal-removal-''"
    by (simp add: idempotency_key_def sample_removal_request_def)
  have "strip [CHR 0x22, CHR ''2'', CHR 0x22] = [CHR 0x22, CHR ''2'', CHR 0x22]" "is_positive_dec ''2''" "nat_of_dec ''2'' = 2"
    by code_simp+
  then show "revision_precondition sample_removal_request 2 res = None"
    by (simp add: revision_precondition_def sample_removal_request_def)
  show "is_request_id ''portal-removal-''" by code_simp
qed

lemma sample_failed_rows:
  "db_operations sample_failed = [sample_failed_op]"
  "db_deployments sample_failed = [fail_deployment (wexn_message sample_refusal) sample_dp]"
  "o_idempotency_key sample_failed_op = ''portal-request-''" "o_status sample_failed_op = FAILED" "o_id sample_failed_op = sample_op_id"
  by (simp_all add: sample_failed_def sample_failed_op_def finish_keeping_attempt_def unlease_def)

lemma sample_removes:
  "mutate True sample_removal_request sample_id Remove sample_removal_id 6000 sample_failed sample_failed
     = (MutationReply sample_removed_dp sample_removal 202 False, sample_removing)"
proof -
  let ?d = "fail_deployment (wexn_message sample_refusal) sample_dp"
  have g: "get_deployment sample_failed sample_id = Some ?d"
    by (simp add: get_deployment_def sample_failed_rows fail_deployment_def)
  have r: "replay sample_removal_request h sample_failed = None" for h
    by (simp add: replay_def idempotency_replay_def sample_removal_request_ok sample_failed_rows)
  have b: "busy_response sample_failed ?d = None"
    by (simp add: busy_response_def sample_failed_rows is_active_def)
  have d: "dp_revision ?d = 2" "dp_deleted_at ?d = None" "dp_id ?d = sample_id" by (simp_all add: fail_deployment_def)
  have s: "save_deployment sample_removed_dp sample_failed = sample_failed\<lparr>db_deployments := [sample_removed_dp]\<rparr>"
    by (simp add: save_deployment_def sample_failed_rows sample_removed_dp_def bump_def fail_deployment_def)
  have u: "\<not> violates_unique sample_removal (sample_failed\<lparr>db_deployments := [sample_removed_dp]\<rparr>)"
    by (simp add: violates_unique_def sample_failed_rows sample_removal_def new_operation_def sample_removal_request_ok
        sample_op_id_def sample_removal_id_def)
  have o: "new_operation sample_removal_request sample_removed_dp ''undeploy'' (request_hash (''undeploy:'' @ sample_id) (JObj []))
      [] sample_removal_id 6000 = sample_removal" by (simp add: sample_removal_def)
  show ?thesis
    by (simp add: mutate_def destroy_def g r b d runtime_unavailable_def sample_removal_request_ok Let_def
        flip: sample_removed_dp_def)
      (use o u in \<open>simp add: s commit_mutation_def create_operation_def sample_failed_rows sample_removing_def Let_def\<close>)
qed

text \<open>A configured client and a sequence of iterations of the worker loop.\<close>

definition sample_config :: controller_config where
  "sample_config = \<lparr>cc_base_url = ''https://controller'', cc_token = replicate 32 CHR ''t'', cc_timeout_seconds = 15, cc_ca_file = []\<rparr>"

definition sample_iteration :: "nat \<Rightarrow> iteration" where
  "sample_iteration n = \<lparr>it_token = sample_token, it_claimed_at = 2000 + 100000000 * int n,
     it_recorded_at = 3000 + 100000000 * int n, it_http = (\<lambda>_. Unreachable), it_http_again = (\<lambda>_. Unreachable)\<rparr>"

end
