(* ===== verification/Metrics.thy ===== *)
theory Metrics
  imports PyStr Prelude Complex_Main "HOL-Library.Product_Lexorder"
begin

text \<open>
  The Prometheus collector of the controller: \<open>RuntimeControllerMetrics\<close> of
  \<open>src/components/DEALHost/dealhost/runtime_controller_service/metrics.py\<close>.

  The three \<open>defaultdict\<close>s are association lists keyed by tuples; the lock makes
  \<open>observe_request\<close> one step. Durations are rationals: the rounding of float addition is not
  modelled, and \<open>format_g\<close> is the conversion \<open>format(value, ".12g")\<close> of the exact value.
\<close>

section \<open>Counting\<close>

record metrics =
  m_started_at :: rat
  m_requests :: "((string \<times> string \<times> int) \<times> int) list"
  m_duration_count :: "((string \<times> string) \<times> int) list"
  m_duration_sum :: "((string \<times> string) \<times> rat) list"

definition new_metrics :: "rat \<Rightarrow> metrics" where
  "new_metrics now = \<lparr>m_started_at = now, m_requests = [], m_duration_count = [], m_duration_sum = []\<rparr>"

text \<open>\<open>d[k] += v\<close> on a \<open>defaultdict\<close> of numbers.\<close>

definition increment :: "'k \<Rightarrow> 'v :: monoid_add \<Rightarrow> ('k \<times> 'v) list \<Rightarrow> ('k \<times> 'v) list" where
  "increment k v d = AList.update k ((case map_of d k of None \<Rightarrow> 0 | Some w \<Rightarrow> w) + v) d"

definition observe_request :: "string \<Rightarrow> string \<Rightarrow> int \<Rightarrow> rat \<Rightarrow> metrics \<Rightarrow> metrics" where
  "observe_request mth route status duration m =
     m\<lparr>m_requests := increment (mth, route, status) 1 (m_requests m),
       m_duration_count := increment (mth, route) 1 (m_duration_count m),
       m_duration_sum := increment (mth, route) (max duration 0) (m_duration_sum m)\<rparr>"


section \<open>Rendering\<close>

definition escape_label_char :: "char \<Rightarrow> string" where
  "escape_label_char c =
     (if c = CHR 0x5C then [CHR 0x5C, CHR 0x5C]
      else if c = CHR 0x0A then [CHR 0x5C, CHR ''n'']
      else if c = CHR 0x22 then [CHR 0x5C, CHR 0x22] else [c])"

definition replace_char :: "char \<Rightarrow> string \<Rightarrow> string \<Rightarrow> string" where
  "replace_char c t s = concat (map (\<lambda>x. if x = c then t else [x]) s)"

definition escape_label :: "string \<Rightarrow> string" where
  "escape_label s = replace_char CHR 0x22 [CHR 0x5C, CHR 0x22]
     (replace_char CHR 0x0A [CHR 0x5C, CHR ''n''] (replace_char CHR 0x5C [CHR 0x5C, CHR 0x5C] s))"

text \<open>
  \<open>format(x, ".12g")\<close>: twelve significant digits, half to even, without trailing zeros;
  scientific when the decimal exponent is below -4 or at least 12. \<open>dec_exponent\<close> is the
  exponent of the leading digit, found from the lengths of numerator and denominator.
\<close>

definition pow10 :: "int \<Rightarrow> rat" where
  "pow10 k = (if k \<ge> 0 then 10 ^ nat k else 1 / 10 ^ nat (- k))"

definition round_half_even :: "rat \<Rightarrow> int" where
  "round_half_even x =
     (let f = \<lfloor>x\<rfloor>; r = x - of_int f
      in if r < 1 / 2 then f else if r > 1 / 2 then f + 1 else if even f then f else f + 1)"

definition dec_exponent :: "rat \<Rightarrow> int" where
  "dec_exponent x =
     (let (a, b) = quotient_of x;
          k = int (length (dec_of_nat (nat a))) - int (length (dec_of_nat (nat b)))
      in if x \<ge> pow10 k then k else k - 1)"

definition significant :: "rat \<Rightarrow> nat \<times> int" where
  "significant x =
     (let k = dec_exponent x; n = round_half_even (x * pow10 (11 - k))
      in if n \<ge> 10 ^ 12 then (nat (n div 10), k + 1) else (nat n, k))"

definition strip_zeros :: "string \<Rightarrow> string" where
  "strip_zeros s = rstrip_where (\<lambda>c. c = CHR ''0'') s"

definition exponent_text :: "int \<Rightarrow> string" where
  "exponent_text k = (if k < 0 then ''-'' else ''+'')
     @ (let ds = dec_of_nat (nat \<bar>k\<bar>) in if length ds < 2 then CHR ''0'' # ds else ds)"

definition with_fraction :: "string \<Rightarrow> string \<Rightarrow> string" where
  "with_fraction whole fractional = (if fractional = [] then whole else whole @ ''.'' @ fractional)"

definition format_positive :: "rat \<Rightarrow> string" where
  "format_positive x =
     (let (n, k) = significant x; ds = dec_of_nat n
      in if k < -4 \<or> k \<ge> 12 then
           with_fraction (take 1 ds) (strip_zeros (drop 1 ds)) @ ''e'' @ exponent_text k
         else if k < 0 then with_fraction ''0'' (strip_zeros (replicate (nat (- k - 1)) CHR ''0'' @ ds))
         else with_fraction (take (nat k + 1) ds) (strip_zeros (drop (nat k + 1) ds)))"

definition format_g :: "rat \<Rightarrow> string" where
  "format_g x = (if x = 0 then ''0'' else if x < 0 then ''-'' @ format_positive (- x) else format_positive x)"

datatype sample_value = IntValue int | FloatValue rat

definition label_pair :: "string \<times> string \<Rightarrow> string" where
  "label_pair kv = fst kv @ ''='' @ [CHR 0x22] @ escape_label (snd kv) @ [CHR 0x22]"

definition sample_line :: "string \<Rightarrow> sample_value \<Rightarrow> (string \<times> string) list \<Rightarrow> string" where
  "sample_line name v labels =
     name
     @ (if labels = [] then [] else ''{'' @ join_with '','' (map label_pair (sort_key fst labels)) @ ''}'')
     @ '' '' @ (case v of FloatValue x \<Rightarrow> format_g x | IntValue n \<Rightarrow> str_int n)"

definition request_lines :: "metrics \<Rightarrow> string list" where
  "request_lines m = map (\<lambda>((mth, route, status), v).
     sample_line ''dealhost_runtime_controller_requests_total'' (IntValue v)
       [(''method'', mth), (''route'', route), (''status'', str_int status)]) (sort_key fst (m_requests m))"

definition duration_lines :: "metrics \<Rightarrow> string list" where
  "duration_lines m = concat (map (\<lambda>((mth, route), v).
     let labels = [(''method'', mth), (''route'', route)] in
     [sample_line ''dealhost_runtime_controller_request_duration_seconds_count'' (IntValue v) labels,
      sample_line ''dealhost_runtime_controller_request_duration_seconds_sum''
        (FloatValue (case map_of (m_duration_sum m) (mth, route) of None \<Rightarrow> 0 | Some x \<Rightarrow> x)) labels])
     (sort_key fst (m_duration_count m)))"

definition render :: "metrics \<Rightarrow> bool \<Rightarrow> string" where
  "render m kubernetes_ready = utf8_encode (join_with [CHR 0x0A]
     ([''# HELP dealhost_runtime_controller_process_start_time_seconds Unix time when the controller process started.'',
       ''# TYPE dealhost_runtime_controller_process_start_time_seconds gauge'',
       sample_line ''dealhost_runtime_controller_process_start_time_seconds'' (FloatValue (m_started_at m)) [],
       ''# HELP dealhost_runtime_controller_kubernetes_ready Whether the Kubernetes API and controller credentials are ready.'',
       ''# TYPE dealhost_runtime_controller_kubernetes_ready gauge'',
       sample_line ''dealhost_runtime_controller_kubernetes_ready'' (IntValue (if kubernetes_ready then 1 else 0)) [],
       ''# HELP dealhost_runtime_controller_requests_total Runtime-controller HTTP responses.'',
       ''# TYPE dealhost_runtime_controller_requests_total counter'']
      @ request_lines m
      @ [''# HELP dealhost_runtime_controller_request_duration_seconds Runtime-controller request duration by route.'',
         ''# TYPE dealhost_runtime_controller_request_duration_seconds summary'']
      @ duration_lines m) @ [CHR 0x0A])"


section \<open>Lemmas\<close>

text \<open>The three replacements in the order of the source escape each character once.\<close>

lemma escape_label_concat: "escape_label s = concat (map escape_label_char s)"
  by (induction s) (auto simp: escape_label_def replace_char_def escape_label_char_def)

lemma escape_label_char_cases:
  "escape_label_char c = [c] \<and> c \<notin> {CHR 0x5C, CHR 0x0A, CHR 0x22} \<or>
   (\<exists>x. escape_label_char c = [CHR 0x5C, x])"
  by (auto simp: escape_label_char_def)

lemma escape_label_char_inj: "escape_label_char c @ s = escape_label_char d @ t \<Longrightarrow> c = d \<and> s = t"
  by (auto simp: escape_label_char_def split: if_splits)

theorem escape_label_inject: "escape_label s = escape_label t \<Longrightarrow> s = t"
  unfolding escape_label_concat
proof (induction s arbitrary: t)
  case Nil
  then show ?case by (cases t) (auto simp: escape_label_char_def split: if_splits)
next
  case (Cons c s)
  then obtain d t' where "t = d # t'" by (cases t) (auto simp: escape_label_char_def split: if_splits)
  with Cons show ?case by (auto dest!: escape_label_char_inj)
qed

lemma escape_label_safe: "CHR 0x0A \<notin> set (escape_label s)"
  by (auto simp: escape_label_concat escape_label_char_def)


subsection \<open>Counters\<close>

lemma map_of_increment [simp]:
  "map_of (increment k v d) = (map_of d)(k \<mapsto> (case map_of d k of None \<Rightarrow> 0 | Some w \<Rightarrow> w) + v)"
  by (simp add: increment_def update_conv')

lemma distinct_increment: "distinct (map fst d) \<Longrightarrow> distinct (map fst (increment k v d))"
  by (simp add: increment_def distinct_update)

lemma dom_increment: "fst ` set (increment k v d) = insert k (fst ` set d)"
  by (simp add: increment_def dom_update)

lemma sum_increment:
  fixes d :: "('k \<times> int) list"
  assumes "distinct (map fst d)"
  shows "sum_list (map snd (increment k v d)) = sum_list (map snd d) + v"
  using assms by (induction d) (auto simp: increment_def)

text \<open>
  The collector's invariant: keys are unique, the two duration tables have the same keys, and
  the counters of the two tables have the same sum.
\<close>

definition metrics_ok :: "metrics \<Rightarrow> bool" where
  "metrics_ok m \<longleftrightarrow> distinct (map fst (m_requests m)) \<and> distinct (map fst (m_duration_count m))
     \<and> distinct (map fst (m_duration_sum m))
     \<and> fst ` set (m_duration_count m) = fst ` set (m_duration_sum m)
     \<and> sum_list (map snd (m_requests m)) = sum_list (map snd (m_duration_count m))"

lemma metrics_ok_new: "metrics_ok (new_metrics now)"
  by (simp add: metrics_ok_def new_metrics_def)

lemma metrics_ok_observe: "metrics_ok m \<Longrightarrow> metrics_ok (observe_request mth route status t m)"
  by (simp add: metrics_ok_def observe_request_def distinct_increment dom_increment sum_increment)

type_synonym observation = "string \<times> string \<times> int \<times> rat"

definition observe_all :: "observation list \<Rightarrow> metrics \<Rightarrow> metrics" where
  "observe_all os m = fold (\<lambda>(mth, route, status, t). observe_request mth route status t) os m"

lemma metrics_ok_observe_all: "metrics_ok m \<Longrightarrow> metrics_ok (observe_all os m)"
  unfolding observe_all_def by (induction os arbitrary: m) (auto simp: metrics_ok_observe)

definition lookup_zero :: "('k \<times> 'v :: zero) list \<Rightarrow> 'k \<Rightarrow> 'v" where
  "lookup_zero d k = (case map_of d k of None \<Rightarrow> 0 | Some v \<Rightarrow> v)"

lemma lookup_increment:
  "lookup_zero (increment k v d) k' = (if k' = k then lookup_zero d k + v else lookup_zero d k')"
  by (simp add: lookup_zero_def)

end
