(* ===== verification/Asgi.thy ===== *)
theory Asgi
  imports Reconciler Config Metrics
begin

text \<open>
  The HTTP surface of the controller:
  \<open>src/components/DEALHost/dealhost/runtime_controller_service/asgi.py\<close>.

  A request is its ASGI scope and the list of messages \<open>receive\<close> delivers (a server that has
  no more to deliver sends \<open>http.disconnect\<close>). \<open>handle_http\<close> is \<open>__call__\<close> for an HTTP scope:
  it answers with one reply and the updated metrics, or raises, when an exception is not
  caught (a cancellation). \<open>lazy_call\<close> is the application the server imports, which reads its
  settings at the first request.
\<close>

section \<open>Requests and replies\<close>

datatype asgi_message =
    HttpRequest "string option" bool
  | HttpDisconnect
  | OtherMessage

record scope =
  sc_method :: string
  sc_path :: string
  sc_query :: string
  sc_headers :: "(string \<times> string) list"

record reply =
  p_status :: int
  p_headers :: "(string \<times> string) list"
  p_body :: string

definition MAX_REQUEST_BYTES :: nat where
  "MAX_REQUEST_BYTES = 256 * 1024"

definition bad_request :: "string \<Rightarrow> exn" where
  "bad_request detail = ContractError detail ''invalid_runtime_contract'' 400"

text \<open>\<open>str.upper()\<close>; the three letters whose upper case has no code point below 256 stay.\<close>

definition upper_char :: "char \<Rightarrow> char" where
  "upper_char c = (let n = (of_char c :: nat) in
     if is_lower c \<or> (224 \<le> n \<and> n \<le> 254 \<and> n \<noteq> 247) then char_of (n - 32) else c)"

definition upper :: "string \<Rightarrow> string" where
  "upper s = map upper_char s"


section \<open>Routes\<close>

definition DEPLOYMENTS_PREFIX :: string where
  "DEPLOYMENTS_PREFIX = ''/v1/deployments/''"

text \<open>The segment after the prefix, when it is not empty, and what follows it.\<close>

definition deployment_segment :: "string \<Rightarrow> (string \<times> string) option" where
  "deployment_segment path =
     (if starts_with DEPLOYMENTS_PREFIX path then
        (let rest = drop (length DEPLOYMENTS_PREFIX) path;
             seg = takeWhile (\<lambda>c. c \<noteq> CHR ''/'') rest
         in if seg = [] then None else Some (seg, drop (length seg) rest))
      else None)"

definition DEPLOYMENT_ROUTE :: "string \<Rightarrow> string option" where
  "DEPLOYMENT_ROUTE path = (case deployment_segment path of
     Some (seg, tail) \<Rightarrow> if tail = [] then Some seg else None | None \<Rightarrow> None)"

definition LOG_ROUTE :: "string \<Rightarrow> string option" where
  "LOG_ROUTE path = (case deployment_segment path of
     Some (seg, tail) \<Rightarrow> if tail = ''/logs'' then Some seg else None | None \<Rightarrow> None)"

definition ACTIONS :: "string list" where
  "ACTIONS = [''start'', ''stop'', ''restart'', ''redeploy'']"

definition ACTION_ROUTE :: "string \<Rightarrow> (string \<times> string) option" where
  "ACTION_ROUTE path = (case deployment_segment path of
     Some (seg, tail) \<Rightarrow>
       if starts_with ''/actions/'' tail \<and> drop (length ''/actions/'') tail \<in> set ACTIONS
       then Some (seg, drop (length ''/actions/'') tail) else None
   | None \<Rightarrow> None)"

definition route_label :: "string \<Rightarrow> string" where
  "route_label path =
     (if path \<in> {''/health/live'', ''/health/ready'', ''/metrics'', ''/v1/deployments''} then path
      else if LOG_ROUTE path \<noteq> None then ''/v1/deployments/{deployment_id}/logs''
      else case ACTION_ROUTE path of
        Some (_, act) \<Rightarrow> ''/v1/deployments/{deployment_id}/actions/'' @ act
      | None \<Rightarrow> if DEPLOYMENT_ROUTE path \<noteq> None then ''/v1/deployments/{deployment_id}'' else ''unknown'')"


section \<open>Headers, body and query\<close>

definition is_ascii :: "string \<Rightarrow> bool" where
  "is_ascii s \<longleftrightarrow> list_all (\<lambda>c. (of_char c :: nat) < 128) s"

fun headers_from :: "string dict \<Rightarrow> (string \<times> string) list \<Rightarrow> exn + string dict" where
  "headers_from hs [] = Inr hs"
| "headers_from hs ((raw_name, raw_value) # rest) =
     (if \<not> is_ascii raw_name then Inl (bad_request ''Request headers are invalid.'')
      else let name = lower raw_name; v = strip raw_value in
        if map_of hs name \<noteq> None then Inl (bad_request ''Duplicate request headers are not accepted.'')
        else headers_from (dput name v hs) rest)"

definition headers_of :: "scope \<Rightarrow> exn + string dict" where
  "headers_of sc = headers_from [] (sc_headers sc)"

definition get_header :: "string dict \<Rightarrow> string \<Rightarrow> string" where
  "get_header hs k = (case map_of hs k of None \<Rightarrow> [] | Some v \<Rightarrow> v)"

definition required_header :: "string dict \<Rightarrow> string \<Rightarrow> exn + string" where
  "required_header hs name =
     (if get_header hs name = [] then Inl (ContractError (name @ '' is required.'') ''missing_request_header'' 400)
      else Inr (get_header hs name))"

definition authenticate :: "controller_settings \<Rightarrow> string dict \<Rightarrow> exn + unit" where
  "authenticate settings hs =
     guardE (utf8_encode (get_header hs ''authorization'') = utf8_encode (''Bearer '' @ s_auth_token settings))
       (ContractError ''Runtime-controller authentication failed.'' ''authentication_failed'' 401)"

fun body_from :: "string \<Rightarrow> asgi_message list \<Rightarrow> exn + string" where
  "body_from acc [] = Inl (bad_request ''The request was disconnected.'')"
| "body_from acc (HttpDisconnect # _) = Inl (bad_request ''The request was disconnected.'')"
| "body_from acc (OtherMessage # _) = Inl (bad_request ''The HTTP request body is invalid.'')"
| "body_from acc (HttpRequest None _ # _) = Inl (bad_request ''The HTTP request body is invalid.'')"
| "body_from acc (HttpRequest (Some chunk) more_body # rest) =
     (let acc' = acc @ chunk in
      if length acc' > MAX_REQUEST_BYTES
      then Inl (ContractError ''The runtime request body is too large.'' ''request_too_large'' 413)
      else if more_body then body_from acc' rest
      else Inr acc')"

definition body_of_request :: "asgi_message list \<Rightarrow> exn + string" where
  "body_of_request msgs = body_from [] msgs"

definition json_body :: "string dict \<Rightarrow> asgi_message list \<Rightarrow> bool \<Rightarrow> exn + json option" where
  "json_body hs msgs required =
     bindE (body_of_request msgs) (\<lambda>content.
     if content = [] \<and> \<not> required then Inr None
     else if content = [] then Inl (bad_request ''A JSON request body is required.'')
     else (let content_type = lower (strip (takeWhile (\<lambda>c. c \<noteq> CHR '';'') (get_header hs ''content-type''))) in
       if content_type \<noteq> ''application/json''
       then Inl (ContractError ''Content-Type must be application/json.'' ''invalid_runtime_contract'' 415)
       else (case Option.bind (utf8_decode content) (json_loads_hook unique_object) of
               None \<Rightarrow> Inl (bad_request ''The JSON request body is malformed.'')
             | Some v \<Rightarrow> Inr (Some v))))"

definition required_json :: "string dict \<Rightarrow> asgi_message list \<Rightarrow> exn + json" where
  "required_json hs msgs = bindE (json_body hs msgs True) (\<lambda>p. Inr (case p of None \<Rightarrow> JNull | Some v \<Rightarrow> v))"

definition reject_body :: "asgi_message list \<Rightarrow> exn + unit" where
  "reject_body msgs = bindE (body_of_request msgs) (\<lambda>b.
     guardE (b = []) (bad_request ''This endpoint does not accept a request body.''))"

text \<open>
  \<open>parse_qs\<close> with strict parsing and at most ten fields. A percent-escaped byte from 0x80 on,
  which the source decodes as UTF-8 with replacement, stays that byte: no parameter the
  handlers accept contains one.
\<close>

fun unquote :: "string \<Rightarrow> string" where
  "unquote (c # a # b # rest) =
     (if c = CHR ''%'' \<and> is_hex_any a \<and> is_hex_any b
      then char_of (16 * hex_val (lower_char a) + hex_val (lower_char b)) # unquote rest
      else c # unquote (a # b # rest))"
| "unquote s = s"

definition unquote_plus :: "string \<Rightarrow> string" where
  "unquote_plus s = unquote (map (\<lambda>c. if c = CHR ''+'' then CHR '' '' else c) s)"

definition query_field :: "string \<Rightarrow> exn + string \<times> string" where
  "query_field f = (case partition CHR ''='' f of (name, has_eq, v) \<Rightarrow>
     if has_eq then Inr (unquote_plus name, unquote_plus v)
     else Inl (bad_request ''The request query string is invalid.''))"

definition query_of :: "string \<Rightarrow> exn + string list dict" where
  "query_of raw =
     (let invalid = bad_request ''The request query string is invalid.'' in
      if \<not> is_ascii raw then Inl invalid
      else if raw = [] then Inr []
      else if length (split_on CHR ''&'' raw) > 10 then Inl invalid
      else bindE (mapE query_field (split_on CHR ''&'' raw)) (\<lambda>pairs.
        Inr (fold (\<lambda>(k, v) d. dput k ((case map_of d k of None \<Rightarrow> [] | Some vs \<Rightarrow> vs) @ [v]) d) pairs [])))"

definition one_query :: "string list dict \<Rightarrow> string \<Rightarrow> exn + string" where
  "one_query query name = (case map_of query name of
     Some [v] \<Rightarrow> if v = [] then Inl (bad_request (''Query parameter '' @ name @ '' is invalid.'')) else Inr v
   | _ \<Rightarrow> Inl (bad_request (''Query parameter '' @ name @ '' is invalid.'')))"

definition query_integer :: "string list dict \<Rightarrow> string \<Rightarrow> int \<Rightarrow> int \<Rightarrow> exn + int" where
  "query_integer query name minimum maximum =
     bindE (one_query query name) (\<lambda>v.
     if \<not> is_positive_dec v then Inl (bad_request (''Query parameter '' @ name @ '' is invalid.''))
     else let parsed = int (nat_of_dec v) in
       if minimum \<le> parsed \<and> parsed \<le> maximum then Inr parsed
       else Inl (bad_request (''Query parameter '' @ name @ '' is out of range.'')))"


section \<open>Dispatch\<close>

definition mismatch :: "string \<Rightarrow> exn" where
  "mismatch what = contract_error (''The '' @ what @ ''payload deployment identifier does not match its path.'')"

definition result_reply :: "runtime_result kube \<Rightarrow> int \<Rightarrow> (json \<times> int) kube" where
  "result_reply m status = bindK m (\<lambda>r. retK (result_as_dict r, status))"

definition dispatch_logs ::
  "controller_settings \<Rightarrow> scope \<Rightarrow> asgi_message list \<Rightarrow> string \<Rightarrow> (json \<times> int) kube" where
  "dispatch_logs settings sc msgs raw_id =
     bindK (liftK (reject_body msgs)) (\<lambda>_.
     bindK (liftK (validate_deployment_id (JStr raw_id))) (\<lambda>did.
     bindK (liftK (query_of (sc_query sc))) (\<lambda>query.
     if set (keys query) \<noteq> {''component'', ''tail'', ''since_seconds''} then
       raiseK (bad_request ''Log query parameters must be component, tail and since_seconds.'')
     else bindK (liftK (one_query query ''component'')) (\<lambda>component.
     if \<not> is_component_slug component then raiseK (bad_request ''The log component is invalid.'')
     else bindK (liftK (query_integer query ''tail'' 1 1000)) (\<lambda>tail.
       bindK (liftK (query_integer query ''since_seconds'' 1 604800)) (\<lambda>since_seconds.
       bindK (logs settings did component tail since_seconds) (\<lambda>r.
       retK (log_as_dict r, 200))))))))"

definition dispatch_action ::
  "controller_settings \<Rightarrow> string dict \<Rightarrow> asgi_message list \<Rightarrow> string \<Rightarrow> string \<Rightarrow> string \<Rightarrow> (json \<times> int) kube" where
  "dispatch_action settings hs msgs request_id raw_id act =
     bindK (liftK (validate_deployment_id (JStr raw_id))) (\<lambda>did.
     bindK (liftK (required_json hs msgs)) (\<lambda>payload.
     bindK (liftK (parse_desired_deployment payload settings False)) (\<lambda>d.
     if d_deployment_id d \<noteq> did then raiseK (mismatch [])
     else result_reply (action settings d act request_id) 200)))"

definition dispatch_put ::
  "controller_settings \<Rightarrow> string dict \<Rightarrow> asgi_message list \<Rightarrow> string \<Rightarrow> string \<Rightarrow> (json \<times> int) kube" where
  "dispatch_put settings hs msgs request_id did =
     bindK (liftK (required_json hs msgs)) (\<lambda>payload.
     bindK (liftK (parse_desired_deployment payload settings False)) (\<lambda>d.
     if d_deployment_id d \<noteq> did then raiseK (mismatch [])
     else result_reply (deploy settings d request_id True []) 200))"

definition dispatch_delete ::
  "controller_settings \<Rightarrow> string dict \<Rightarrow> asgi_message list \<Rightarrow> string \<Rightarrow> string \<Rightarrow> (json \<times> int) kube" where
  "dispatch_delete settings hs msgs request_id did =
     bindK (liftK (json_body hs msgs False)) (\<lambda>payload.
     bindK (liftK (case payload of None \<Rightarrow> Inr None
        | Some v \<Rightarrow> bindE (parse_desired_deployment v settings True) (\<lambda>d. Inr (Some d)))) (\<lambda>desired.
     if (case desired of None \<Rightarrow> False | Some d \<Rightarrow> d_deployment_id d \<noteq> did) then raiseK (mismatch ''DELETE '')
     else result_reply (undeploy settings did request_id desired) 200))"

definition not_found :: "asgi_message list \<Rightarrow> (json \<times> int) kube" where
  "not_found msgs = bindK (liftK (reject_body msgs)) (\<lambda>_.
     raiseK (ContractError ''The runtime-controller endpoint does not exist.'' ''not_found'' 404))"

definition dispatch_deployment ::
  "controller_settings \<Rightarrow> string \<Rightarrow> string dict \<Rightarrow> asgi_message list \<Rightarrow> string \<Rightarrow> string \<Rightarrow> (json \<times> int) kube" where
  "dispatch_deployment settings mth hs msgs request_id raw_id =
     bindK (liftK (validate_deployment_id (JStr raw_id))) (\<lambda>did.
     if mth = ''GET'' then
       bindK (liftK (reject_body msgs)) (\<lambda>_. result_reply (observe settings did) 200)
     else if mth = ''PUT'' then dispatch_put settings hs msgs request_id did
     else if mth = ''DELETE'' then dispatch_delete settings hs msgs request_id did
     else not_found msgs)"

definition dispatch_create ::
  "controller_settings \<Rightarrow> string dict \<Rightarrow> asgi_message list \<Rightarrow> string \<Rightarrow> (json \<times> int) kube" where
  "dispatch_create settings hs msgs request_id =
     bindK (liftK (required_json hs msgs)) (\<lambda>payload.
     bindK (liftK (parse_desired_deployment payload settings False)) (\<lambda>d.
     result_reply (deploy settings d request_id False []) 201))"

definition dispatch ::
  "controller_settings \<Rightarrow> string \<Rightarrow> scope \<Rightarrow> string dict \<Rightarrow> asgi_message list \<Rightarrow> string \<Rightarrow> (json \<times> int) kube" where
  "dispatch settings mth sc hs msgs request_id =
     (let path = sc_path sc in
      if path = ''/v1/deployments'' \<and> mth = ''POST'' then dispatch_create settings hs msgs request_id
      else case LOG_ROUTE path of
        Some raw_id \<Rightarrow> if mth = ''GET'' then dispatch_logs settings sc msgs raw_id else not_found msgs
      | None \<Rightarrow>
          (case ACTION_ROUTE path of
             Some (raw_id, act) \<Rightarrow>
               if mth = ''POST'' then dispatch_action settings hs msgs request_id raw_id act else not_found msgs
           | None \<Rightarrow>
               (case DEPLOYMENT_ROUTE path of
                  Some raw_id \<Rightarrow> dispatch_deployment settings mth hs msgs request_id raw_id
                | None \<Rightarrow> not_found msgs)))"


section \<open>Replies\<close>

definition json_reply :: "int \<Rightarrow> json \<Rightarrow> string \<Rightarrow> reply" where
  "json_reply status payload request_id =
     (let content = utf8_encode (json_dumps payload) in
      \<lparr>p_status = status,
       p_headers = [(''content-type'', ''application/json''), (''cache-control'', ''no-store''),
          (''content-length'', dec_of_nat (length content)), (''x-content-type-options'', ''nosniff'')]
         @ (if request_id = [] then [] else [(''x-request-id'', request_id)])
         @ (if status = 401 then [(''www-authenticate'',
              ''Bearer realm='' @ [CHR 0x22] @ ''runtime-controller'' @ [CHR 0x22])] else []),
       p_body = content\<rparr>)"

definition text_reply :: "int \<Rightarrow> string \<Rightarrow> reply" where
  "text_reply status content =
     \<lparr>p_status = status,
      p_headers = [(''content-type'', ''text/plain; version=0.0.4; charset=utf-8''), (''cache-control'', ''no-store''),
        (''content-length'', dec_of_nat (length content)), (''x-content-type-options'', ''nosniff'')],
      p_body = content\<rparr>"

definition status_reply :: "int \<Rightarrow> string \<Rightarrow> reply" where
  "status_reply status v = json_reply status (JObj [(''status'', JStr v)]) []"

definition error_reply :: "int \<Rightarrow> string \<Rightarrow> string \<Rightarrow> reply" where
  "error_reply status detail code = json_reply status (JObj [(''detail'', JStr detail), (''code'', JStr code)]) []"

text \<open>The \<open>except\<close> clauses of the request; a cancellation is not an \<open>Exception\<close>.\<close>

definition on_error :: "exn \<Rightarrow> reply kube" where
  "on_error e = (case e of
     ContractError detail code status \<Rightarrow> retK (error_reply status detail code)
   | KubernetesApiError _ _ \<Rightarrow>
       retK (error_reply 503 ''The Kubernetes runtime backend is unavailable.'' ''kubernetes_backend_unavailable'')
   | CancelledError \<Rightarrow> raiseK e
   | OutOfFuel \<Rightarrow> raiseK e
   | _ \<Rightarrow> retK (error_reply 500 ''The runtime controller failed unexpectedly.'' ''runtime_controller_error''))"

text \<open>\<open>except (ControllerConfigurationError, KubernetesApiError, OSError)\<close>.\<close>

definition unready :: "exn \<Rightarrow> 'a \<Rightarrow> 'a kube" where
  "unready e x = (case e of
     ControllerConfigurationError _ \<Rightarrow> retK x | KubernetesApiError _ _ \<Rightarrow> retK x | OSError \<Rightarrow> retK x | _ \<Rightarrow> raiseK e)"

definition ready_reply :: "(string \<Rightarrow> bool) \<Rightarrow> controller_settings \<Rightarrow> reply kube" where
  "ready_reply is_file settings =
     tryK
       (bindK (liftK (validate is_file settings True)) (\<lambda>_.
        bindK (askK e_token) (\<lambda>token.
        bindK (case token of
                 None \<Rightarrow> raiseK OSError
               | Some t \<Rightarrow> if strip t = [] then
                   raiseK (ControllerConfigurationError ''The projected Kubernetes token is empty.'') else retK ()) (\<lambda>_.
        bindK (ready settings) (\<lambda>_. retK (status_reply 200 ''ready''))))))
       (\<lambda>e. unready e (status_reply 503 ''unavailable''))"

definition metrics_reply :: "(string \<Rightarrow> bool) \<Rightarrow> controller_settings \<Rightarrow> metrics \<Rightarrow> reply kube" where
  "metrics_reply is_file settings m =
     bindK (tryK
       (bindK (liftK (validate is_file settings True)) (\<lambda>_. bindK (ready settings) (\<lambda>_. retK True)))
       (\<lambda>e. unready e False)) (\<lambda>kubernetes_ready.
     retK (text_reply 200 (render m kubernetes_ready)))"

definition api_reply ::
  "controller_settings \<Rightarrow> string \<Rightarrow> scope \<Rightarrow> asgi_message list \<Rightarrow> reply kube" where
  "api_reply settings mth sc msgs =
     tryK
       (bindK (liftK (headers_of sc)) (\<lambda>hs.
        bindK (liftK (authenticate settings hs)) (\<lambda>_.
        bindK (liftK (bindE (required_header hs ''idempotency-key'') validate_request_id)) (\<lambda>request_id.
        bindK (dispatch settings mth sc hs msgs request_id) (\<lambda>(result, status).
        retK (json_reply status result request_id))))))
       on_error"

definition answer ::
  "(string \<Rightarrow> bool) \<Rightarrow> controller_settings \<Rightarrow> metrics \<Rightarrow> scope \<Rightarrow> asgi_message list \<Rightarrow> reply kube" where
  "answer is_file settings m sc msgs =
     (let mth = upper (sc_method sc); path = sc_path sc in
      if mth = ''GET'' \<and> path = ''/health/live'' then retK (status_reply 200 ''ok'')
      else if mth = ''GET'' \<and> path = ''/health/ready'' then ready_reply is_file settings
      else if mth = ''GET'' \<and> path = ''/metrics'' then metrics_reply is_file settings m
      else api_reply settings mth sc msgs)"

definition method_label :: "string \<Rightarrow> string" where
  "method_label mth = (if mth \<in> {''GET'', ''POST'', ''PUT'', ''DELETE''} then mth else ''OTHER'')"

text \<open>The metrics count the reply when its first message is sent.\<close>

definition handle_http ::
  "(string \<Rightarrow> bool) \<Rightarrow> controller_settings \<Rightarrow> metrics \<Rightarrow> scope \<Rightarrow> asgi_message list \<Rightarrow> (reply \<times> metrics) kube" where
  "handle_http is_file settings m sc msgs =
     bindK (askK e_monotonic) (\<lambda>started_at.
     bindK (answer is_file settings m sc msgs) (\<lambda>r.
     bindK (askK e_monotonic) (\<lambda>now.
     retK (r, observe_request (method_label (upper (sc_method sc))) (route_label (sc_path sc))
                (p_status r) (now - started_at) m))))"


section \<open>The application\<close>

datatype lifespan_message = LifespanStartup | LifespanShutdown | LifespanOther

text \<open>What the lifespan loop sends until it returns or waits for a message that does not come.\<close>

fun lifespan :: "lifespan_message list \<Rightarrow> string list" where
  "lifespan [] = []"
| "lifespan (LifespanStartup # rest) = ''lifespan.startup.complete'' # lifespan rest"
| "lifespan (LifespanShutdown # rest) = [''lifespan.shutdown.complete'']"
| "lifespan (LifespanOther # rest) = lifespan rest"

datatype asgi_scope =
    HttpScope scope "asgi_message list"
  | LifespanScope "lifespan_message list"
  | UnknownScope

datatype sent =
    SentReply reply
  | SentLifespan "string list"
  | SentNothing

type_synonym app_state = "(controller_settings \<times> metrics) option"

definition application_call ::
  "(string \<Rightarrow> bool) \<Rightarrow> controller_settings \<Rightarrow> metrics \<Rightarrow> asgi_scope \<Rightarrow> (sent \<times> metrics) kube" where
  "application_call is_file settings m sc = (case sc of
     LifespanScope msgs \<Rightarrow> retK (SentLifespan (lifespan msgs), m)
   | UnknownScope \<Rightarrow> retK (SentNothing, m)
   | HttpScope s msgs \<Rightarrow> bindK (handle_http is_file settings m s msgs) (\<lambda>(r, m'). retK (SentReply r, m')))"

definition lazy_call ::
  "(string \<Rightarrow> string option) \<Rightarrow> (string \<Rightarrow> string option) \<Rightarrow> (string \<Rightarrow> bool) \<Rightarrow> rat \<Rightarrow> app_state \<Rightarrow> asgi_scope
   \<Rightarrow> (sent \<times> app_state) kube" where
  "lazy_call getenv read_text is_file now st sc =
     bindK (case st of
              Some x \<Rightarrow> retK x
            | None \<Rightarrow> bindK (liftK (from_env getenv read_text is_file)) (\<lambda>s. retK (s, new_metrics now)))
       (\<lambda>(settings, m). bindK (application_call is_file settings m sc) (\<lambda>(out, m').
        retK (out, Some (settings, m'))))"

end
