(* ===== verification/Asgi_Facts.thy ===== *)
theory Asgi_Facts
  imports Asgi Kubernetes_Facts
begin

text \<open>
  The HTTP surface: every reply is a well-formed message, requests without the token reach
  nothing, and no exception but a cancellation leaves the application.
\<close>

section \<open>Well-formed replies\<close>

definition json_message :: "string \<Rightarrow> bool" where
  "json_message b = (case Option.bind (utf8_decode b) json_loads of Some (JObj _) \<Rightarrow> True | _ \<Rightarrow> False)"

definition reply_ok :: "reply \<Rightarrow> bool" where
  "reply_ok r \<longleftrightarrow> map_of (p_headers r) ''content-length'' = Some (dec_of_nat (length (p_body r)))
     \<and> map_of (p_headers r) ''cache-control'' = Some ''no-store''
     \<and> map_of (p_headers r) ''x-content-type-options'' = Some ''nosniff''
     \<and> (map_of (p_headers r) ''content-type'' = Some ''application/json'' \<and> json_message (p_body r)
        \<or> map_of (p_headers r) ''content-type'' = Some ''text/plain; version=0.0.4; charset=utf-8'')"

lemma json_reply_ok: "json_wf (JObj d) \<Longrightarrow> reply_ok (json_reply st (JObj d) rid)"
  using json_loads_dumps [of "JObj d"]
  by (simp add: reply_ok_def json_reply_def json_message_def Let_def del: json_dumps.simps json_wf.simps)

lemma result_wf: "\<exists>d. result_as_dict r = JObj d \<and> json_wf (JObj d)"
  by (auto simp: result_as_dict_def status_json_def dict_wf_def list_all_iff)

lemma log_wf: "\<exists>d. log_as_dict r = JObj d \<and> json_wf (JObj d)"
  by (auto simp: log_as_dict_def dict_wf_def list_all_iff)

text \<open>What a computation returns: \<open>gives Q m\<close>, for every environment.\<close>

definition gives :: "('a \<Rightarrow> bool) \<Rightarrow> 'a kube \<Rightarrow> bool" where
  "gives Q m \<longleftrightarrow> (\<forall>env h x h'. m env h = (Inr x, h') \<longrightarrow> Q x)"

named_theorems gives_intros \<open>rules for the results of a computation\<close>

lemma gives_retK [gives_intros]: "Q x \<Longrightarrow> gives Q (retK x)"
  by (simp add: gives_def)

lemma gives_raiseK [gives_intros]: "gives Q (raiseK e)"
  by (simp add: gives_def)

lemma gives_bindK [gives_intros]: "(\<And>x. gives Q (f x)) \<Longrightarrow> gives Q (bindK m f)"
  unfolding gives_def by (blast elim: bindK_InrE)

lemma gives_bindK_pre: "gives P m \<Longrightarrow> (\<And>x. P x \<Longrightarrow> gives Q (f x)) \<Longrightarrow> gives Q (bindK m f)"
  unfolding gives_def by (blast elim: bindK_InrE)

lemma gives_tryK [gives_intros]: "gives Q m \<Longrightarrow> (\<And>e. gives Q (f e)) \<Longrightarrow> gives Q (tryK m f)"
  unfolding gives_def tryK_def by (fastforce split: prod.split_asm sum.split_asm)

lemma gives_if [gives_intros]: "(b \<Longrightarrow> gives Q m) \<Longrightarrow> (\<not> b \<Longrightarrow> gives Q m') \<Longrightarrow> gives Q (if b then m else m')"
  by simp

lemma gives_case_option [gives_intros]:
  "(v = None \<Longrightarrow> gives Q m) \<Longrightarrow> (\<And>x. v = Some x \<Longrightarrow> gives Q (f x)) \<Longrightarrow> gives Q (case v of None \<Rightarrow> m | Some x \<Rightarrow> f x)"
  by (cases v) simp_all

lemma gives_case_prod [gives_intros]:
  "(\<And>a b. v = (a, b) \<Longrightarrow> gives Q (f a b)) \<Longrightarrow> gives Q (case v of (a, b) \<Rightarrow> f a b)"
  by (cases v) simp

definition json_result :: "json \<times> int \<Rightarrow> bool" where
  "json_result x \<longleftrightarrow> (\<exists>d. fst x = JObj d \<and> json_wf (JObj d))"

lemma gives_result_reply [gives_intros]: "gives json_result (result_reply m st)"
  unfolding result_reply_def by (intro gives_intros) (simp add: json_result_def result_wf del: json_wf.simps)

lemma gives_not_found [gives_intros]: "gives Q (not_found msgs)"
  unfolding not_found_def by (intro gives_intros)

lemma gives_dispatch: "gives json_result (dispatch settings mth sc hs msgs rid)"
  unfolding dispatch_def dispatch_create_def dispatch_logs_def dispatch_action_def dispatch_deployment_def
    dispatch_put_def dispatch_delete_def Let_def
  by (intro gives_intros) (simp_all add: json_result_def log_wf del: json_wf.simps)

lemma gives_on_error: "gives reply_ok (on_error e)"
  by (cases e) (auto simp: on_error_def error_reply_def intro!: gives_intros json_reply_ok)

lemma status_reply_ok: "reply_ok (status_reply st v)"
  unfolding status_reply_def by (rule json_reply_ok) simp

lemma gives_unready: "Q x \<Longrightarrow> gives Q (unready e x)"
  by (cases e) (auto simp: unready_def intro: gives_intros)

lemma gives_answer: "gives reply_ok (answer is_file settings m sc msgs)"
proof -
  have "gives reply_ok (api_reply settings mth sc msgs)" for mth
    unfolding api_reply_def
    by (rule gives_tryK [OF _ gives_on_error], rule gives_bindK, rule gives_bindK, rule gives_bindK,
        rule gives_bindK_pre [OF gives_dispatch])
      (auto simp: json_result_def simp del: json_wf.simps intro!: gives_retK json_reply_ok)
  moreover have "gives reply_ok (ready_reply is_file settings)"
    unfolding ready_reply_def by (intro gives_tryK gives_unready gives_bindK gives_retK status_reply_ok)
  moreover have "gives reply_ok (metrics_reply is_file settings m)"
    unfolding metrics_reply_def by (intro gives_bindK gives_retK) (simp add: reply_ok_def text_reply_def)
  ultimately show ?thesis
    unfolding answer_def Let_def by (intro gives_if gives_retK status_reply_ok) simp_all
qed

lemma handle_httpE:
  assumes "handle_http is_file settings m sc msgs env h = (Inr (r, m'), h')"
  obtains "answer is_file settings m sc msgs env h = (Inr r, h')"
    "m' = observe_request (method_label (upper (sc_method sc))) (route_label (sc_path sc)) (p_status r)
       (e_monotonic env h' - e_monotonic env h) m"
  using assms unfolding handle_http_def by (auto elim!: bindK_InrE)

theorem handle_http_reply: "handle_http is_file settings m sc msgs env h = (Inr (r, m'), h') \<Longrightarrow> reply_ok r"
  using gives_answer unfolding gives_def by (blast elim: handle_httpE)


section \<open>Exceptions\<close>

text \<open>A cancellation (of the task, not of the lease) or a model that ran out of fuel.\<close>

definition interrupted :: "exn \<Rightarrow> bool" where
  "interrupted e \<longleftrightarrow> e = CancelledError \<or> e = OutOfFuel"

lemma raises_on_error: "raises interrupted (on_error e)"
  by (cases e) (auto simp: on_error_def interrupted_def intro: raises_intros)

text \<open>The exceptions that make the controller unready.\<close>

definition unready_error :: "exn \<Rightarrow> bool" where
  "unready_error e \<longleftrightarrow> is_api_error e \<or> e = OSError \<or> (\<exists>d. e = ControllerConfigurationError d)"

lemma raises_tryK_pre: "raises P m \<Longrightarrow> (\<And>e. P e \<Longrightarrow> raises Q (f e)) \<Longrightarrow> raises Q (tryK m f)"
  unfolding raises_def tryK_def by (fastforce split: prod.split_asm sum.split_asm)

lemma validate_error: "validate is_file settings b = Inl e \<Longrightarrow> unready_error e"
  unfolding validate_def check_labels_def check_url_def check_files_def
  by (auto simp: bindE_eq_Inl guardE_def unready_error_def config_error_def Let_def split: if_splits option.splits)

lemma raises_ready: "raises unready_error (ready settings)"
  unfolding ready_def
  by (rule raises_mono [of is_api_error], intro raises_endpoint raises_bindK raises_request_json)
    (auto simp: unready_error_def split: json.split intro!: raises_intros raises_kube_get)

lemma raises_unready: "unready_error e \<Longrightarrow> raises interrupted (unready e x)"
  by (auto simp: unready_error_def is_api_error_def unready_def raises_def interrupted_def)

lemma raises_validate: "raises unready_error (liftK (validate is_file settings b))"
  by (intro raises_intros) (rule validate_error)

lemma raises_answer: "raises interrupted (answer is_file settings m sc msgs)"
proof -
  have "raises unready_error (case token of None \<Rightarrow> raiseK OSError
      | Some t \<Rightarrow> if strip t = [] then raiseK (ControllerConfigurationError d) else retK ())" for token d
    by (auto simp: unready_error_def split: option.split intro: raises_intros)
  then have "raises interrupted (ready_reply is_file settings)"
    unfolding ready_reply_def
    by (intro raises_tryK_pre [where P = unready_error] raises_bindK raises_validate raises_ready raises_askK raises_retK raises_unready)
  moreover have "raises interrupted (metrics_reply is_file settings m)"
    unfolding metrics_reply_def
    by (intro raises_tryK_pre [where P = unready_error] raises_bindK raises_validate raises_ready raises_retK raises_unready)
  moreover have "raises interrupted (api_reply settings mth sc msgs)" for mth
    unfolding api_reply_def by (rule raises_tryK) (rule raises_on_error)
  ultimately show ?thesis unfolding answer_def Let_def by (intro raises_if raises_retK)
qed

theorem handle_http_raises: "raises interrupted (handle_http is_file settings m sc msgs)"
  unfolding handle_http_def by (intro raises_bindK raises_askK raises_retK raises_answer)


section \<open>Requests that reach nothing\<close>

text \<open>The routes served before authentication.\<close>

definition open_route :: "scope \<Rightarrow> bool" where
  "open_route sc \<longleftrightarrow> upper (sc_method sc) = ''GET'' \<and> sc_path sc \<in> {''/health/live'', ''/health/ready'', ''/metrics''}"

definition authorized :: "controller_settings \<Rightarrow> scope \<Rightarrow> bool" where
  "authorized settings sc \<longleftrightarrow> (case headers_of sc of
     Inl _ \<Rightarrow> False | Inr hs \<Rightarrow> get_header hs ''authorization'' = ''Bearer '' @ s_auth_token settings)"

lemma answer_api: "\<not> open_route sc \<Longrightarrow> answer is_file settings m sc msgs = api_reply settings (upper (sc_method sc)) sc msgs"
  by (auto simp: answer_def open_route_def)

lemma headers_from_error: "headers_from hs ps = Inl e \<Longrightarrow> \<exists>d. e = bad_request d"
  by (induction hs ps rule: headers_from.induct) (auto simp: Let_def split: if_splits)

lemma status_json_reply [simp]: "p_status (json_reply st j rid) = st"
  by (simp add: json_reply_def Let_def)

theorem unauthorized_reply:
  assumes "\<not> open_route sc" "\<not> authorized settings sc"
  shows "\<exists>r m'. handle_http is_file settings m sc msgs env h = (Inr (r, m'), h) \<and> p_status r \<in> {400, 401}"
proof (cases "headers_of sc")
  case (Inl e)
  then obtain d where "e = bad_request d" using headers_from_error unfolding headers_of_def by blast
  then show ?thesis using assms Inl
    by (simp add: handle_http_def answer_api api_reply_def on_error_def bad_request_def error_reply_def bindK_def tryK_def)
next
  case (Inr hs)
  then show ?thesis using assms
    by (simp add: handle_http_def answer_api api_reply_def on_error_def authorized_def authenticate_def guardE_def
        error_reply_def bindK_def tryK_def utf8_encode_inject)
qed

text \<open>Computations that refuse: they raise a client error and send nothing.\<close>

definition client_error :: "exn \<Rightarrow> bool" where
  "client_error e \<longleftrightarrow> (\<exists>d c st. e = ContractError d c st \<and> 400 \<le> st \<and> st < 500)"

definition refuses :: "'a kube \<Rightarrow> bool" where
  "refuses m \<longleftrightarrow> (\<forall>env h. \<exists>e. m env h = (Inl e, h) \<and> client_error e)"

lemma refuses_raiseK: "client_error e \<Longrightarrow> refuses (raiseK e)"
  by (simp add: refuses_def)

lemma refuses_liftK:
  "(\<And>e. r = Inl e \<Longrightarrow> client_error e) \<Longrightarrow> (\<And>x. r = Inr x \<Longrightarrow> refuses (f x)) \<Longrightarrow> refuses (bindK (liftK r) f)"
  by (cases r) (simp_all add: refuses_def bindK_def)

lemma refuses_bindK: "refuses m \<Longrightarrow> refuses (bindK m f)"
  unfolding refuses_def by (metis bindK_Inl)

lemma refuses_on_error:
  "refuses m \<Longrightarrow> \<exists>r. tryK m on_error env h = (Inr r, h) \<and> 400 \<le> p_status r \<and> p_status r < 500"
  unfolding refuses_def client_error_def
  by (drule spec [of _ env], drule spec [of _ h]) (auto simp: tryK_def on_error_def error_reply_def)

lemma client_bad_request [simp]: "client_error (bad_request d)"
  by (simp add: client_error_def bad_request_def)

lemma client_contract_error [simp]: "client_error (contract_error d)"
  by (simp add: client_error_def contract_error_def)

lemma body_from_error: "body_from acc msgs = Inl e \<Longrightarrow> client_error e"
  by (induction acc msgs rule: body_from.induct) (auto simp: Let_def client_error_def bad_request_def split: if_splits)

lemma deployment_id_error: "validate_deployment_id (JStr s) = Inl e \<Longrightarrow> client_error e"
  by (auto simp: validate_deployment_id_def uuid_error_def client_error_def split: if_splits option.splits)

text \<open>Every route reads the body before it talks to Kubernetes.\<close>

lemma unreadable_refused:
  assumes b: "body_of_request msgs = Inl e"
  shows "refuses (dispatch settings mth sc hs msgs rid)"
proof -
  have e: "client_error e" using b body_from_error unfolding body_of_request_def by blast
  have j: "refuses (bindK (liftK (json_body hs msgs req)) f)" for req and f :: "json option \<Rightarrow> (json \<times> int) kube"
    using b e by (intro refuses_liftK) (simp_all add: json_body_def)
  have rj: "refuses (bindK (liftK (required_json hs msgs)) f)" for f :: "json \<Rightarrow> (json \<times> int) kube"
    using b e by (intro refuses_liftK) (simp_all add: json_body_def required_json_def)
  have rb: "refuses (bindK (liftK (reject_body msgs)) f)" for f :: "unit \<Rightarrow> (json \<times> int) kube"
    using b e by (intro refuses_liftK) (simp_all add: reject_body_def)
  have nf: "refuses (not_found msgs)" unfolding not_found_def by (rule rb)
  have act: "refuses (dispatch_action settings hs msgs rid did act)" for did act
    unfolding dispatch_action_def by (rule refuses_liftK [OF deployment_id_error rj])
  have "refuses (dispatch_deployment settings mth hs msgs rid did)" for did
    unfolding dispatch_deployment_def dispatch_put_def dispatch_delete_def
    by (rule refuses_liftK [OF deployment_id_error]) (simp_all add: rb rj j nf)
  then show ?thesis
    unfolding dispatch_def Let_def dispatch_create_def dispatch_logs_def
    by (auto simp: nf act rb rj split: option.split)
qed

theorem unreadable_reply:
  assumes "\<not> open_route sc" "isl (body_of_request msgs)"
  shows "\<exists>r m'. handle_http is_file settings m sc msgs env h = (Inr (r, m'), h) \<and> 400 \<le> p_status r \<and> p_status r < 500"
proof -
  obtain e where b: "body_of_request msgs = Inl e" using assms by (auto simp: isl_def)
  have hd: "client_error e'" if "headers_of sc = Inl e'" for e'
    using that headers_from_error unfolding headers_of_def by fastforce
  have au: "client_error e'" if "authenticate settings hs = Inl e'" for hs e'
    using that by (auto simp: authenticate_def guardE_def client_error_def split: if_splits)
  have id: "client_error e'" if "bindE (required_header hs k) validate_request_id = Inl e'" for hs k e'
    using that by (auto simp: bindE_eq_Inl required_header_def validate_request_id_def client_error_def Let_def guardE_def
        split: if_splits)
  have "refuses (bindK (liftK (headers_of sc)) (\<lambda>hs. bindK (liftK (authenticate settings hs)) (\<lambda>_.
        bindK (liftK (bindE (required_header hs ''idempotency-key'') validate_request_id)) (\<lambda>rid.
        bindK (dispatch settings mth sc hs msgs rid) (f rid)))))" for mth and f :: "string \<Rightarrow> json \<times> int \<Rightarrow> reply kube"
    by (intro refuses_liftK refuses_bindK unreadable_refused [OF b] hd au id)
  from refuses_on_error [OF this [of "upper (sc_method sc)" "\<lambda>rid (result, status). retK (json_reply status result rid)"]]
  obtain r
    where "answer is_file settings m sc msgs env h = (Inr r, h)" "400 \<le> p_status r" "p_status r < 500"
    unfolding answer_api [OF assms(1)] api_reply_def by blast
  then show ?thesis by (simp add: handle_http_def bindK_def)
qed


section \<open>Counted replies\<close>

text \<open>The metrics after \<open>n\<close> requests, each served in an environment and a history of its own.\<close>

inductive served :: "nat \<Rightarrow> metrics \<Rightarrow> bool" where
  served_none: "served 0 (new_metrics now)"
| served_one: "served n m \<Longrightarrow> handle_http is_file settings m sc msgs env h = (Inr (r, m'), h') \<Longrightarrow> served (Suc n) m'"

definition method_labels :: "string list" where
  "method_labels = [''GET'', ''POST'', ''PUT'', ''DELETE'', ''OTHER'']"

definition route_labels :: "string list" where
  "route_labels = [''/health/live'', ''/health/ready'', ''/metrics'', ''/v1/deployments'', ''unknown'',
     ''/v1/deployments/{deployment_id}'', ''/v1/deployments/{deployment_id}/logs'']
     @ map ((@) ''/v1/deployments/{deployment_id}/actions/'') ACTIONS"

lemma method_label_mem: "method_label mth \<in> set method_labels"
  by (simp add: method_label_def method_labels_def)

lemma action_route_mem: "ACTION_ROUTE path = Some (i, act) \<Longrightarrow> act \<in> set ACTIONS"
  by (auto simp: ACTION_ROUTE_def split: option.split_asm if_splits)

lemma route_label_mem: "route_label path \<in> set route_labels"
  by (auto simp: route_label_def route_labels_def dest: action_route_mem split: option.split)

lemma served_metrics:
  "served n m \<Longrightarrow> metrics_ok m \<and> sum_list (map snd (m_requests m)) = int n
     \<and> fst ` set (m_duration_count m) \<subseteq> set method_labels \<times> set route_labels"
proof (induction rule: served.induct)
  case (served_none now)
  show ?case using metrics_ok_new by (simp add: new_metrics_def)
next
  case (served_one n m is_file settings sc msgs env h r m' h')
  from served_one.hyps(2) show ?case
  proof (rule handle_httpE)
    assume m': "m' = observe_request (method_label (upper (sc_method sc))) (route_label (sc_path sc)) (p_status r)
       (e_monotonic env h' - e_monotonic env h) m"
    have "metrics_ok m'" using served_one.IH metrics_ok_observe m' by blast
    moreover have "distinct (map fst (m_requests m))" using served_one.IH by (simp add: metrics_ok_def)
    ultimately show ?thesis using served_one.IH m'
      by (simp add: observe_request_def sum_increment dom_increment method_label_mem route_label_mem)
  qed
qed

lemma length_le_labels: "distinct (map fst d) \<Longrightarrow> fst ` set d \<subseteq> set xs \<times> set ys \<Longrightarrow> length d \<le> length xs * length ys"
proof -
  assume d: "distinct (map fst d)" "fst ` set d \<subseteq> set xs \<times> set ys"
  have "length d = card (fst ` set d)" using distinct_card [OF d(1)] by simp
  also have "\<dots> \<le> card (set xs \<times> set ys)" by (rule card_mono [OF _ d(2)]) simp
  also have "\<dots> \<le> length xs * length ys" by (simp add: card_cartesian_product mult_le_mono card_length)
  finally show ?thesis .
qed

lemma length_labels: "length method_labels = 5" "length route_labels = 11"
  by (simp_all add: method_labels_def route_labels_def ACTIONS_def)

theorem served_bounded: "served n m \<Longrightarrow> length (m_duration_count m) \<le> 55"
  using length_le_labels [of "m_duration_count m" method_labels route_labels] served_metrics [of n m]
  by (simp add: metrics_ok_def length_labels)

end
