(* ===== verification/Json_Size.thy ===== *)
theory Json_Size
  imports Json_Roundtrip
begin

text \<open>
  A bound on the number of bytes of a serialised JSON value, computed from the value alone: a
  character of a string takes at most six bytes.
\<close>

fun jsize :: "json \<Rightarrow> nat" where
  "jsize JNull = 4"
| "jsize (JBool b) = 5"
| "jsize (JInt i) = 2 * length (str_int i)"
| "jsize (JFloat f) = 2 * length f"
| "jsize (JStr s) = 6 * length s + 2"
| "jsize (JList vs) = 2 + sum_list (map (\<lambda>v. jsize v + 1) vs)"
| "jsize (JObj d) = 2 + sum_list (map (\<lambda>(k, v). 6 * length k + 4 + jsize v) d)"

abbreviation bytes :: "string \<Rightarrow> nat" where
  "bytes s \<equiv> length (utf8_encode s)"

lemma bytes_append [simp]: "bytes (s @ t) = bytes s + bytes t"
  by (simp add: utf8_encode_def)

lemma bytes_Cons [simp]: "bytes (c # s) = length (utf8_char c) + bytes s"
  by (simp add: utf8_encode_def)

lemma bytes_Nil [simp]: "bytes [] = 0"
  by (simp add: utf8_encode_def)

lemma utf8_char_length: "length (utf8_char c) \<le> 2"
  by (simp add: utf8_char_def Let_def)

lemma bytes_double: "bytes s \<le> 2 * length s"
  by (induction s) (use utf8_char_length in \<open>auto intro: order_trans add_mono\<close>)

lemma length_bytes: "length s \<le> bytes s"
  by (induction s) (auto simp: utf8_char_def Let_def)

lemma ascii_bytes: "(of_char c :: nat) < 128 \<Longrightarrow> length (utf8_char c) = 1"
  by (simp add: utf8_char_def)

lemma hex_char_bytes: "n < 16 \<Longrightarrow> length (utf8_char (hex_char n)) = 1"
  by (intro ascii_bytes) (simp add: hex_char_def of_char_of take_bit_eq_mod)

lemma escape_char_bytes: "bytes (escape_char c) \<le> 6"
  using utf8_char_length [of c]
  by (simp add: escape_char_def Let_def hex_char_bytes ascii_bytes)

lemma dumps_str_bytes: "bytes (dumps_str s) \<le> 6 * length s + 2"
proof -
  have "bytes (concat (map escape_char s)) \<le> 6 * length s"
    by (induction s) (use escape_char_bytes in \<open>auto intro: add_mono\<close>)
  then show ?thesis by (simp add: dumps_str_def ascii_bytes)
qed

lemma join_bytes: "bytes (join_with '','' xs) \<le> sum_list (map (\<lambda>x. bytes x + 1) xs)"
  by (induction xs rule: induct_list012) (simp_all add: ascii_bytes)

theorem json_dumps_bytes: "bytes (json_dumps j) \<le> jsize j"
proof (induction j)
  case (JList vs)
  have "bytes (join_with '','' (map json_dumps vs)) \<le> sum_list (map (\<lambda>v. bytes (json_dumps v) + 1) vs)"
    using join_bytes [of "map json_dumps vs"] by (simp add: comp_def)
  also have "\<dots> \<le> sum_list (map (\<lambda>v. jsize v + 1) vs)" by (rule sum_list_mono) (use JList in auto)
  finally show ?case by (simp add: ascii_bytes)
next
  case (JObj d)
  let ?f = "\<lambda>(k, v). dumps_str k @ '':'' @ json_dumps v"
  have "bytes (join_with '','' (map ?f d)) \<le> sum_list (map (\<lambda>x. bytes (?f x) + 1) d)"
    using join_bytes [of "map ?f d"] by (simp add: comp_def)
  also have "\<dots> \<le> sum_list (map (\<lambda>(k, v). 6 * length k + 4 + jsize v) d)"
  proof (rule sum_list_mono)
    fix x assume x: "x \<in> set d"
    obtain k v where "x = (k, v)" by fastforce
    then show "bytes (?f x) + 1 \<le> (case x of (k, v) \<Rightarrow> 6 * length k + 4 + jsize v)"
      using JObj [OF x, of v] dumps_str_bytes [of k] by (simp add: ascii_bytes)
  qed
  finally show ?case by (simp add: ascii_bytes)
qed (use bytes_double dumps_str_bytes in \<open>auto simp: ascii_bytes\<close>)

lemma sum_list_mset: "mset xs = mset ys \<Longrightarrow> sum_list (map f xs) = (sum_list (map f ys) :: nat)"
  by (metis mset_map sum_mset_sum_list)

lemma jsize_jsort [simp]: "jsize (jsort j) = jsize j"
proof (induction j)
  case (JObj d)
  let ?g = "\<lambda>(k, v). 6 * length k + 4 + jsize v"
  let ?d = "map (\<lambda>(k, v). (k, jsort v)) d"
  have "sum_list (map ?g (sort_key fst ?d)) = sum_list (map ?g ?d)" by (rule sum_list_mset) simp
  moreover have "map ?g ?d = map ?g d"
    unfolding map_map by (rule map_cong) (use JObj in auto)
  ultimately have "sum_list (map ?g (sort_key fst ?d)) = sum_list (map ?g d)" by (simp only:)
  then show ?case by (simp only: jsort.simps jsize.simps)
next
  case (JList vs)
  then have "map (\<lambda>v. jsize v + 1) (map jsort vs) = map (\<lambda>v. jsize v + 1) vs" by simp
  then show ?case by (simp only: jsort.simps jsize.simps)
qed simp_all

lemma length_dec_of_nat: "n < 10 ^ k \<Longrightarrow> 0 < k \<Longrightarrow> length (dec_of_nat n) \<le> k"
proof (induction k arbitrary: n)
  case (Suc k)
  show ?case
  proof (cases "n < 10")
    case True
    then show ?thesis by (simp add: dec_of_nat.simps [of n])
  next
    case False
    then have "n div 10 < 10 ^ k" "0 < k" using Suc.prems by (auto intro!: less_mult_imp_div_less gr0I simp: mult.commute)
    from Suc.IH [OF this] show ?thesis using False by (simp add: dec_of_nat.simps [of n])
  qed
qed simp

end
