(* ===== verification/Remote_Calls.thy ===== *)
theory Remote_Calls
  imports Asgi_Facts Client Reconciler_Observe Reconciler_State Json_Size
begin

text \<open>
  The client of DEALHost against the controller: a call that returns a snapshot has run the
  operation it names, and the snapshot is what the operation returned.

  The network, the HTTP client library and the ASGI server between the two are a pair of
  functions \<open>wire\<close> and \<open>deliver\<close>; \<open>transport\<close> states what the two sides rely on.
\<close>

section \<open>The results of the operations\<close>

definition result_states :: "string list" where
  "result_states = [''running'', ''stopped'', ''degraded'', ''reconciling'', ''deleting'', ''deleted'']"

definition result_messages :: "string list" where
  "result_messages = [[], ''Runtime image drift was detected.'', ''Kubernetes could not create a runtime replica.'',
     ''The runtime rollout did not progress.'', ''Runtime resources are terminating.'']"

definition component_result_ok :: "component_result \<Rightarrow> bool" where
  "component_result_ok r \<longleftrightarrow> is_component_slug (cr_slug r) \<and> (\<exists>c. reported c r)"

definition result_ok :: "runtime_result \<Rightarrow> bool" where
  "result_ok r \<longleftrightarrow> rr_state r \<in> set result_states \<and> rr_message r \<in> set result_messages
     \<and> 0 \<le> rr_observed_generation r \<and> length (rr_components r) \<le> 20
     \<and> distinct (map cr_slug (rr_components r)) \<and> list_all component_result_ok (rr_components r)"

lemma reported_slugs: "list_all2 reported cs rs \<Longrightarrow> map cr_slug rs = map c_slug cs"
  by (induction rule: list_all2_induct) (simp_all add: reported_def)

lemma reported_components_ok:
  assumes "list_all2 reported cs rs" "list_all (component_ok settings) cs"
  shows "list_all component_result_ok rs"
  using assms
  by (induction rule: list_all2_induct) (auto simp: component_result_ok_def component_ok_def reported_def)

lemma reported_result_ok:
  assumes "desired_ok settings True d" "list_all2 reported (d_components d) (rr_components r)"
    "rr_observed_generation r = d_generation d" "rr_state r \<in> set result_states" "rr_message r \<in> set result_messages"
  shows "result_ok r"
  using assms reported_components_ok [OF assms(2), of settings] reported_slugs [OF assms(2)] list_all2_lengthD [OF assms(2)]
  unfolding result_ok_def desired_ok_def by simp

lemma first_message_mem: "list_all2 reported cs rs \<Longrightarrow> first_message rs \<in> set result_messages"
proof -
  assume r: "list_all2 reported cs rs"
  show ?thesis
  proof (cases "filter (\<lambda>r. cr_last_error r \<noteq> []) rs")
    case Nil
    then show ?thesis by (simp add: first_message_def result_messages_def)
  next
    case (Cons x xs)
    then have "x \<in> set rs" by (metis filter_is_subset list.set_intros(1) subsetD)
    then obtain c where "reported c x" using r by (metis in_set_conv_nth list_all2_conv_all_nth)
    then show ?thesis using Cons by (auto simp: first_message_def result_messages_def reported_def)
  qed
qed

lemma deleted_result_ok: "desired_ok settings True d \<Longrightarrow> result_ok (deleted_result d)"
  by (rule reported_result_ok)
    (auto simp: deleted_result_def result_states_def result_messages_def list_all2_conv_all_nth intro!: reported_make)

lemma observed_desired_ok: "observed_state env settings did h d phase \<Longrightarrow> desired_ok settings True d"
  unfolding observed_state_def by (auto dest: desired_from_state_storable simp: storable_def)

lemma gives_observe: "gives result_ok (observe settings did)"
  unfolding gives_def
proof (intro allI impI)
  fix env h r h'
  assume "observe settings did env h = (Inr r, h')"
  then show "result_ok r"
  proof (cases rule: observe_cases)
    case (tombstone d h1)
    then show ?thesis using deleted_result_ok [OF observed_desired_ok] by blast
  next
    case (deleting d h1)
    have "list_all2 reported (d_components d) (map deleting_component (d_components d))"
      by (auto simp: deleting_component_def list_all2_conv_all_nth intro!: reported_make)
    then show ?thesis
      using deleting(3) deleted_result_ok [OF observed_desired_ok [OF deleting(1)]]
        reported_result_ok [OF observed_desired_ok [OF deleting(1)]]
      by (auto simp: observe_deleting_def result_states_def result_messages_def elim!: bindK_InrE split: if_split_asm)
  next
    case (live d h1 phase)
    note res = observe_components_results [OF live(3)]
    have rep: "list_all2 reported (d_components d) (rr_components r)"
      by (rule list_all2_mono [OF res(4)]) (auto dest: component_status_reported)
    have "rr_message r = first_message (rr_components r)"
      using live(3) by (auto simp: observe_components_def elim!: bindK_InrE)
    moreover have "rr_state r \<in> set result_states" unfolding res(3) by (simp add: aggregate_state_def result_states_def)
    ultimately show ?thesis
      using reported_result_ok [OF observed_desired_ok [OF live(1)] rep] first_message_mem [OF rep] res(2) by simp
  qed
qed

lemma gives_hold:
  assumes "gives Q body"
  shows "gives Q (hold settings did body)"
proof -
  have "gives (\<lambda>x. case x of Inl _ \<Rightarrow> True | Inr y \<Rightarrow> Q y)
      (tryK (bindK body (\<lambda>x. retK (Inr x))) (\<lambda>e. retK (Inl e)))"
    by (intro gives_tryK gives_bindK_pre [OF assms] gives_retK) simp_all
  then show ?thesis
    unfolding hold_def Let_def release_after_failure_def
    by (intro gives_bindK_pre [where P = "\<lambda>x. case x of Inl _ \<Rightarrow> True | Inr y \<Rightarrow> Q y"] gives_bindK)
      (auto intro!: gives_intros split: sum.split exn.split)
qed

lemma gives_deploy_unlocked: "gives result_ok (deploy_unlocked settings d rid b rr)"
  unfolding deploy_unlocked_def by (intro gives_bindK gives_observe)

lemma gives_deploy: "gives result_ok (deploy settings d rid b rr)"
  unfolding deploy_def by (intro gives_hold gives_deploy_unlocked)

lemma gives_action: "gives result_ok (action settings d act rid)"
  unfolding action_def by (intro gives_bindK gives_hold gives_deploy_unlocked)

lemma gives_remove_all: "desired_ok settings True d \<Longrightarrow> gives result_ok (remove_all_resources settings did rid d)"
  unfolding remove_all_resources_def
  by (intro gives_bindK gives_tryK gives_observe gives_if gives_retK gives_raiseK deleted_result_ok)

lemma gives_liftK_bind: "(\<And>x. r = Inr x \<Longrightarrow> gives Q (f x)) \<Longrightarrow> gives Q (bindK (liftK r) f)"
  by (cases r) (simp_all add: gives_def bindK_def)

lemma gives_undeploy:
  assumes "\<And>d. desired = Some d \<Longrightarrow> desired_ok settings True d"
  shows "gives result_ok (undeploy settings did rid desired)"
proof -
  have some: "gives result_ok (bindK (assert_owned_resources settings d)
      (\<lambda>present. if present then remove_all_resources settings did rid d else retK (deleted_result d)))"
    if "desired = Some d" for d
    using assms that by (intro gives_bindK gives_if gives_remove_all gives_retK deleted_result_ok) simp_all
  have removal: "desired_ok settings True d" if "removal_of settings s desired = Inr d" for s d
    using removal_of_storable [OF that] by (simp add: storable_def)
  have none: "result_ok \<lparr>rr_deployment_id = did, rr_state = ''deleted'', rr_message = [],
      rr_observed_generation = 0, rr_components = []\<rparr>"
    by (simp add: result_ok_def result_states_def result_messages_def)
  show ?thesis
    unfolding undeploy_def undeploy_unlocked_def
    by (intro gives_hold gives_bindK gives_case_option gives_liftK_bind gives_if gives_retK deleted_result_ok
        gives_remove_all none some) (auto dest: removal)
qed


section \<open>Snapshots of results\<close>

definition snapshot_of :: "runtime_result \<Rightarrow> runtime_snapshot" where
  "snapshot_of r = \<lparr>n_controller_id = rr_deployment_id r, n_state = rr_state r, n_message = rr_message r,
     n_observed_generation = rr_observed_generation r, n_components = rr_components r\<rparr>"

definition result_dict :: "runtime_result \<Rightarrow> json dict" where
  "result_dict r = (case result_as_dict r of JObj d \<Rightarrow> d | _ \<Rightarrow> [])"

lemma result_as_dict_eq: "result_as_dict r = JObj (result_dict r)"
  by (simp add: result_dict_def result_as_dict_def)

lemma squeezed_texts:
  "s \<in> set result_messages \<Longrightarrow> take 500 (squeeze s) = s"
  "s \<in> {''running'', ''reconciling'', ''degraded'', ''stopped'', ''deleting'', ''deleted''} \<Longrightarrow>
     length s \<le> 32 \<and> take 32 (squeeze s) = s"
  "s \<in> {''healthy'', ''progressing'', ''unhealthy'', ''stopped'', ''stopping'', ''pending'', ''unknown''} \<Longrightarrow>
     length s \<le> 32 \<and> take 32 (squeeze s) = s"
proof -
  have "list_all (\<lambda>s. take 500 (squeeze s) = s) result_messages" by code_simp
  then show "s \<in> set result_messages \<Longrightarrow> take 500 (squeeze s) = s" by (simp add: list_all_iff)
  have "list_all (\<lambda>s. length s \<le> 32 \<and> take 32 (squeeze s) = s)
     [''running'', ''reconciling'', ''degraded'', ''stopped'', ''deleting'', ''deleted'', ''healthy'', ''progressing'',
      ''unhealthy'', ''stopping'', ''pending'', ''unknown'']" by code_simp
  then show "s \<in> {''running'', ''reconciling'', ''degraded'', ''stopped'', ''deleting'', ''deleted''} \<Longrightarrow>
     length s \<le> 32 \<and> take 32 (squeeze s) = s"
    "s \<in> {''healthy'', ''progressing'', ''unhealthy'', ''stopped'', ''stopping'', ''pending'', ''unknown''} \<Longrightarrow>
     length s \<le> 32 \<and> take 32 (squeeze s) = s"
    by (auto simp only: list.pred_inject insert_iff empty_iff)
qed

lemma component_snapshot_status:
  assumes "component_result_ok r"
  shows "component_snapshot (status_json r) =
    (if length (cr_image_digest r) \<le> 255 then Inr r else Inl invalid_components)"
proof -
  from assms obtain c where slug: "is_component_slug (cr_slug r)" and rep: "reported c r"
    by (auto simp: component_result_ok_def)
  have st: "length (cr_state r) \<le> 32" "take 32 (squeeze (cr_state r)) = cr_state r"
    using squeezed_texts(2) rep unfolding reported_def by blast+
  have hl: "length (cr_health r) \<le> 32" "take 32 (squeeze (cr_health r)) = cr_health r"
    using squeezed_texts(3) rep unfolding reported_def by blast+
  have "cr_last_error r \<in> set result_messages" using rep by (auto simp: reported_def result_messages_def)
  then have er: "take 500 (squeeze (cr_last_error r)) = cr_last_error r" by (rule squeezed_texts(1))
  have counts: "list_all count_in_range [JInt (cr_desired_replicas r), JInt (cr_ready_replicas r),
      JInt (cr_available_replicas r), JInt (cr_restart_count r)]"
    using rep by (simp add: reported_def count_in_range_def)
  show ?thesis
    using slug st hl er counts
    by (simp add: component_snapshot_def status_json_def component_fields_def keys_def int_of_json_def not_le)
qed

lemma mapE_snapshots:
  assumes "list_all component_result_ok rs"
  shows "mapE component_snapshot (map status_json rs) =
    (if list_all (\<lambda>r. length (cr_image_digest r) \<le> 255) rs then Inr rs else Inl invalid_components)"
  using assms by (induction rs) (simp_all add: component_snapshot_status)

lemma snapshot_components_result:
  assumes "result_ok r"
  shows "snapshot_components (JList (map status_json (rr_components r))) =
    (if list_all (\<lambda>c. length (cr_image_digest c) \<le> 255) (rr_components r) then Inr (rr_components r)
     else Inl invalid_components)"
  using assms by (simp add: snapshot_components_def result_ok_def mapE_snapshots)

lemma result_dict_fields:
  "dget_or v (result_dict r) ''id'' = JStr (rr_deployment_id r)" "dget (result_dict r) ''state'' = JStr (rr_state r)"
  "dget_or v (result_dict r) ''message'' = JStr (rr_message r)"
  "dget (result_dict r) ''observed_generation'' = JInt (rr_observed_generation r)"
  "dget (result_dict r) ''components'' = JList (map status_json (rr_components r))"
  by (simp_all add: result_dict_def result_as_dict_def dget_or_def)

lemma snapshot_state_result: "result_ok r \<Longrightarrow> snapshot_state (result_dict r) = Inr (rr_state r)"
  by (auto simp: snapshot_state_def result_dict_fields result_ok_def result_states_def ALLOWED_RUNTIME_STATES_def)

theorem snapshot_result:
  assumes "result_ok r"
  shows "snapshot (result_dict r) fallback req expected =
    bindE (snapshot_id (result_dict r) fallback req expected) (\<lambda>i.
      if list_all (\<lambda>c. length (cr_image_digest c) \<le> 255) (rr_components r)
      then Inr ((snapshot_of r)\<lparr>n_controller_id := i\<rparr>) else Inl invalid_components)"
proof -
  have "take 500 (squeeze (rr_message r)) = rr_message r"
    using assms squeezed_texts(1) by (simp add: result_ok_def)
  moreover have "\<not> rr_observed_generation r < 0" using assms by (simp add: result_ok_def)
  ultimately show ?thesis
    by (simp add: snapshot_def snapshot_state_result [OF assms] result_dict_fields
        snapshot_components_result [OF assms] snapshot_of_def)
qed

lemma snapshot_id_result:
  "snapshot_id (result_dict r) fallback req expected = Inr i \<Longrightarrow>
     i = rr_deployment_id r \<and> (expected = [] \<or> expected = rr_deployment_id r)"
  by (auto simp: snapshot_id_def result_dict_fields Let_def split: if_splits sum.splits)

corollary snapshot_sound:
  "result_ok r \<Longrightarrow> snapshot (result_dict r) fallback req expected = Inr n \<Longrightarrow>
     n = snapshot_of r \<and> (expected = [] \<or> expected = rr_deployment_id r)"
  by (auto simp: snapshot_result bindE_eq_Inr snapshot_of_def dest!: snapshot_id_result split: if_splits)

text \<open>An error object is no snapshot.\<close>

lemma snapshot_error: "isl (snapshot [(''detail'', JStr d), (''code'', JStr c)] fallback req expected)"
  by (cases "snapshot_id [(''detail'', JStr d), (''code'', JStr c)] fallback req expected")
    (simp_all add: snapshot_def snapshot_state_def dget_or_def)


section \<open>The transport\<close>

definition exchange ::
  "(client_request \<Rightarrow> scope \<times> asgi_message list) \<Rightarrow> (reply \<Rightarrow> http_response) \<Rightarrow> (string \<Rightarrow> bool)
   \<Rightarrow> controller_settings \<Rightarrow> metrics \<Rightarrow> env \<Rightarrow> history \<Rightarrow> http_client" where
  "exchange wire deliver is_file settings m env h q =
     (case wire q of (sc, msgs) \<Rightarrow>
      case handle_http is_file settings m sc msgs env h of
        (Inl _, _) \<Rightarrow> Unreachable
      | (Inr (r, _), _) \<Rightarrow> Answered (deliver r))"

text \<open>
  The request line, the identifiers and the JSON value of a request arrive unchanged, and so do
  the status and the body of the reply.
\<close>

definition arrives :: "client_request \<Rightarrow> scope \<Rightarrow> asgi_message list \<Rightarrow> bool" where
  "arrives q sc msgs \<longleftrightarrow> sc_method sc = q_method q \<and> sc_path sc = q_path q
     \<and> (\<forall>hs k v. headers_of sc = Inr hs \<longrightarrow> (k, v) \<in> set (q_headers q) \<longrightarrow> get_header hs (lower k) = strip v)
     \<and> (\<forall>b. body_of_request msgs = Inr b \<longrightarrow> (case q_json q of
          None \<Rightarrow> b = []
        | Some j \<Rightarrow> json_wf j \<longrightarrow> b \<noteq> [] \<and> Option.bind (utf8_decode b) (json_loads_hook unique_object) = Some j))"

definition transport :: "(client_request \<Rightarrow> scope \<times> asgi_message list) \<Rightarrow> (reply \<Rightarrow> http_response) \<Rightarrow> bool" where
  "transport wire deliver \<longleftrightarrow>
     (\<forall>q. CHR ''%'' \<notin> set (q_path q) \<longrightarrow> q_params q = [] \<longrightarrow> arrives q (fst (wire q)) (snd (wire q)))
     \<and> (\<forall>r. h_status (deliver r) = p_status r \<and> concat (h_chunks (deliver r)) = p_body r)"

lemma collect_chunks_concat: "collect_chunks acc cs = Inr b \<Longrightarrow> b = acc @ concat cs"
  by (induction acc cs rule: collect_chunks.induct) (auto split: if_splits)

lemma read_answer_json:
  assumes "transport wire deliver" "read_answer expected (deliver (json_reply st (JObj d) rid)) = Inr data"
    "json_wf (JObj d)"
  shows "data = d"
proof -
  have "json_loads (json_dumps (JObj d)) = Some (JObj d)" by (rule json_loads_dumps [OF assms(3)])
  moreover have "concat (h_chunks (deliver (json_reply st (JObj d) rid))) = utf8_encode (json_dumps (JObj d))"
    using assms(1) by (simp add: transport_def json_reply_def Let_def del: json_dumps.simps)
  ultimately show ?thesis
    using assms(2)
    by (auto simp: read_answer_def bindE_eq_Inr simp del: json_dumps.simps dest!: collect_chunks_concat split: if_splits)
qed



section \<open>Paths and identifiers\<close>

lemma strip_strip [simp]: "strip (strip s) = strip s"
proof -
  let ?t = "lstrip_where isspace_char s"
  have l: "lstrip_where isspace_char (rstrip_where isspace_char ?t) = rstrip_where isspace_char ?t"
  proof (cases "rstrip_where isspace_char ?t")
    case (Cons c cs)
    then have "?t = c # drop 1 ?t" using rstrip_where_prefix [of isspace_char ?t] by (auto simp: prefix_def)
    then have "\<not> isspace_char c" unfolding lstrip_where_def by (metis hd_dropWhile list.discI list.sel(1))
    then show ?thesis using Cons by (simp add: lstrip_where_def)
  qed (simp add: lstrip_where_def)
  show ?thesis by (simp add: strip_def strip_where_def l) (simp add: rstrip_where_def)
qed

lemma is_alnum_unreserved: "is_identifier_char c \<Longrightarrow> is_unreserved c"
  by (auto simp: is_identifier_char_def is_unreserved_def)

lemma is_unreserved_ascii: "is_unreserved c \<Longrightarrow> (of_char c :: nat) < 128 \<and> c \<noteq> CHR ''/'' \<and> c \<noteq> CHR ''%''"
  by (auto simp: is_unreserved_def is_alnum_def is_lower_def is_upper_def is_digit_def in_range_def less_eq_char_def)

lemma quote_unreserved: "list_all is_unreserved s \<Longrightarrow> quote s = s"
  by (induction s)
    (auto simp: quote_def utf8_encode_def utf8_char_def quote_byte_def Let_def dest: is_unreserved_ascii)

lemma path_identifier_seg:
  assumes "path_identifier v = Inr seg"
  shows "seg = v" "v \<noteq> []" "list_all is_unreserved v"
proof -
  have v: "v \<noteq> []" "is_alnum (hd v)" "list_all is_identifier_char (tl v)" and seg: "seg = quote v"
    using assms by (auto simp: path_identifier_def split: if_splits)
  then show u: "list_all is_unreserved v"
    by (cases v) (auto simp: list_all_iff is_unreserved_def is_identifier_char_def)
  show "seg = v" "v \<noteq> []" using quote_unreserved [OF u] seg v by simp_all
qed

lemma deployment_segment_path:
  assumes "seg \<noteq> []" "list_all is_unreserved seg" "tail = [] \<or> hd tail = CHR ''/''"
  shows "deployment_segment (DEPLOYMENTS_PREFIX @ seg @ tail) = Some (seg, tail)"
proof -
  have "takeWhile (\<lambda>c. c \<noteq> CHR ''/'') (seg @ tail) = seg"
  proof -
    have "\<forall>c \<in> set seg. c \<noteq> CHR ''/''" using assms(2) is_unreserved_ascii by (simp add: list_all_iff)
    then show ?thesis using assms(3) by (cases tail) simp_all
  qed
  then show ?thesis using assms(1) by (simp add: deployment_segment_def starts_with_def Let_def)
qed

lemma route_paths:
  assumes "seg \<noteq> []" "list_all is_unreserved seg"
  shows "LOG_ROUTE (DEPLOYMENTS_PREFIX @ seg) = None" "ACTION_ROUTE (DEPLOYMENTS_PREFIX @ seg) = None"
    "DEPLOYMENT_ROUTE (DEPLOYMENTS_PREFIX @ seg) = Some seg"
    "act \<in> set ACTIONS \<Longrightarrow> LOG_ROUTE (DEPLOYMENTS_PREFIX @ seg @ ''/actions/'' @ act) = None"
    "act \<in> set ACTIONS \<Longrightarrow> ACTION_ROUTE (DEPLOYMENTS_PREFIX @ seg @ ''/actions/'' @ act) = Some (seg, act)"
  using deployment_segment_path [OF assms, of "[]"] deployment_segment_path [OF assms, of "''/actions/'' @ act"]
  by (simp_all add: LOG_ROUTE_def ACTION_ROUTE_def DEPLOYMENT_ROUTE_def starts_with_def)



section \<open>Calls\<close>

text \<open>The calls of the worker, and the operation of the controller each of them names.\<close>

datatype call =
    Deploy "json dict"
  | Update string "json dict"
  | Act string string "json dict"
  | Undeploy string "json dict"
  | Status string

fun client_call :: "controller_config \<Rightarrow> http_client \<Rightarrow> call \<Rightarrow> string \<Rightarrow> wexn + runtime_snapshot" where
  "client_call cfg http (Deploy payload) rid = client_deploy cfg http payload rid"
| "client_call cfg http (Update did payload) rid = client_update cfg http did payload rid"
| "client_call cfg http (Act did act payload) rid = client_action cfg http did act payload rid"
| "client_call cfg http (Undeploy did payload) rid = client_undeploy cfg http did payload rid"
| "client_call cfg http (Status did) rid = client_status cfg http did rid"

fun call_payload :: "call \<Rightarrow> json option" where
  "call_payload (Deploy payload) = Some (JObj payload)"
| "call_payload (Update did payload) = Some (JObj payload)"
| "call_payload (Act did act payload) = Some (JObj payload)"
| "call_payload (Undeploy did payload) = Some (JObj payload)"
| "call_payload (Status did) = None"

definition desired_of :: "controller_settings \<Rightarrow> json dict \<Rightarrow> bool \<Rightarrow> desired_deployment kube" where
  "desired_of settings payload allow_absent = liftK (parse_desired_deployment (JObj payload) settings allow_absent)"

fun local_call :: "controller_settings \<Rightarrow> call \<Rightarrow> string \<Rightarrow> runtime_result kube" where
  "local_call settings (Deploy payload) rid =
     bindK (desired_of settings payload False) (\<lambda>d. deploy settings d rid False [])"
| "local_call settings (Update did payload) rid =
     bindK (desired_of settings payload False) (\<lambda>d.
     if d_deployment_id d \<noteq> did then raiseK (mismatch []) else deploy settings d rid True [])"
| "local_call settings (Act did act payload) rid =
     bindK (desired_of settings payload False) (\<lambda>d.
     if d_deployment_id d \<noteq> did then raiseK (mismatch []) else action settings d act rid)"
| "local_call settings (Undeploy did payload) rid =
     bindK (desired_of settings payload True) (\<lambda>d.
     if d_deployment_id d \<noteq> did then raiseK (mismatch ''DELETE '') else undeploy settings did rid (Some d))"
| "local_call settings (Status did) rid = observe settings did"

lemma gives_local_call:
  assumes "\<And>j. call_payload c = Some j \<Longrightarrow> json_wf j"
  shows "gives result_ok (local_call settings c rid)"
proof (cases c)
  case (Undeploy did payload)
  have wf: "json_wf (JObj payload)" using assms Undeploy by (metis call_payload.simps(4))
  have "gives result_ok (undeploy settings did rid (Some d))"
    if "parse_desired_deployment (JObj payload) settings True = Inr d" for d
    using parse_desired_deployment_ok [OF wf that] by (intro gives_undeploy) simp
  then show ?thesis
    unfolding Undeploy local_call.simps desired_of_def by (intro gives_liftK_bind gives_if gives_raiseK)
qed (auto intro!: gives_bindK gives_if gives_raiseK gives_deploy gives_action gives_observe)

text \<open>The request of a call.\<close>

fun call_method :: "call \<Rightarrow> string" where
  "call_method (Deploy _) = ''POST''"
| "call_method (Update _ _) = ''PUT''"
| "call_method (Act _ _ _) = ''POST''"
| "call_method (Undeploy _ _) = ''DELETE''"
| "call_method (Status _) = ''GET''"

fun call_path :: "call \<Rightarrow> string" where
  "call_path (Deploy _) = ''/v1/deployments''"
| "call_path (Update did _) = DEPLOYMENTS_PREFIX @ did"
| "call_path (Act did act _) = DEPLOYMENTS_PREFIX @ did @ ''/actions/'' @ act"
| "call_path (Undeploy did _) = DEPLOYMENTS_PREFIX @ did"
| "call_path (Status did) = DEPLOYMENTS_PREFIX @ did"

fun call_target :: "call \<Rightarrow> string" where
  "call_target (Deploy payload) = (case dget payload ''deployment_id'' of JStr s \<Rightarrow> s | _ \<Rightarrow> [])"
| "call_target (Update did _) = did"
| "call_target (Act did _ _) = did"
| "call_target (Undeploy did _) = did"
| "call_target (Status did) = did"

fun call_ok :: "call \<Rightarrow> bool" where
  "call_ok (Deploy payload) = True"
| "call_ok (Update did _) = (did \<noteq> [] \<and> list_all is_unreserved did)"
| "call_ok (Act did act _) = (did \<noteq> [] \<and> list_all is_unreserved did \<and> act \<in> set ACTIONS)"
| "call_ok (Undeploy did _) = (did \<noteq> [] \<and> list_all is_unreserved did)"
| "call_ok (Status did) = (did \<noteq> [] \<and> list_all is_unreserved did)"

lemma client_onD:
  assumes "client_on cfg http mth did tail expected payload rid = Inr n"
  shows "did \<noteq> [] \<and> list_all is_unreserved did
    \<and> (\<exists>data. send_client cfg http mth (DEPLOYMENTS_PREFIX @ did @ tail) rid expected payload [] = Inr data
          \<and> snapshot data did False did = Inr n)"
proof -
  from assms obtain seg data where seg: "path_identifier did = Inr seg"
    and "send_client cfg http mth (''/v1/deployments/'' @ seg @ tail) rid expected payload [] = Inr data"
      "snapshot data did False did = Inr n"
    unfolding client_on_def bindE_eq_Inr by blast
  then show ?thesis unfolding DEPLOYMENTS_PREFIX_def using path_identifier_seg [OF seg] by blast
qed

lemma client_callD:
  assumes "client_call cfg http c rid = Inr n"
  shows "call_ok c \<and> (\<exists>expected data fallback req.
    send_client cfg http (call_method c) (call_path c) rid expected (call_payload c) [] = Inr data
    \<and> snapshot data fallback req (call_target c) = Inr n)"
proof (cases c)
  case (Deploy payload)
  then show ?thesis using assms unfolding Deploy client_call.simps client_deploy_def bindE_eq_Inr
    by (simp del: append_Cons) blast
next
  case (Update did payload)
  have "client_on cfg http ''PUT'' did [] {200, 202} (Some (JObj payload)) rid = Inr n"
    using assms unfolding Update client_call.simps client_update_def .
  from client_onD [OF this] show ?thesis unfolding Update by simp blast
next
  case (Act did act payload)
  have "act \<in> set ACTIONS" and "client_on cfg http ''POST'' did (''/actions/'' @ act) {200, 202} (Some (JObj payload)) rid = Inr n"
    using assms unfolding Act client_call.simps client_action_def by (simp_all add: ACTIONS_def split: if_splits)
  from this(1) client_onD [OF this(2)] show ?thesis unfolding Act call_ok.simps call_method.simps call_path.simps
      call_payload.simps call_target.simps by blast
next
  case (Undeploy did payload)
  have "client_on cfg http ''DELETE'' did [] {200, 202} (Some (JObj payload)) rid = Inr n"
    using assms unfolding Undeploy client_call.simps client_undeploy_def .
  from client_onD [OF this] show ?thesis unfolding Undeploy by simp blast
next
  case (Status did)
  have "client_on cfg http ''GET'' did [] {200} None rid = Inr n"
    using assms unfolding Status client_call.simps client_status_def .
  from client_onD [OF this] show ?thesis unfolding Status by simp blast
qed

definition carries :: "asgi_message list \<Rightarrow> json option \<Rightarrow> bool" where
  "carries msgs payload \<longleftrightarrow> (\<forall>b. body_of_request msgs = Inr b \<longrightarrow> (case payload of
     None \<Rightarrow> b = []
   | Some j \<Rightarrow> b \<noteq> [] \<and> Option.bind (utf8_decode b) (json_loads_hook unique_object) = Some j))"

lemma json_body_carried: "carries msgs (Some j) \<Longrightarrow> json_body hs msgs req = Inr p \<Longrightarrow> p = Some j"
  by (auto simp: carries_def json_body_def bindE_eq_Inr Let_def split: if_splits)

lemma required_json_carried: "carries msgs (Some j) \<Longrightarrow> required_json hs msgs = Inr v \<Longrightarrow> v = j"
  by (auto simp: required_json_def bindE_eq_Inr dest: json_body_carried)

lemma liftK_InrE: "liftK r env h = (Inr x, h') \<Longrightarrow> (r = Inr x \<Longrightarrow> h' = h \<Longrightarrow> P) \<Longrightarrow> P"
  by simp

lemma result_replyE:
  assumes "result_reply m st env h = (Inr (res, st'), h')"
  obtains r where "m env h = (Inr r, h')" "res = result_as_dict r"
  using assms unfolding result_reply_def by (auto elim!: bindK_InrE)

lemma dispatch_deployment_GET:
  assumes "dispatch_deployment settings ''GET'' hs msgs rid did env h = (Inr (res, st), h')"
  shows "\<exists>r. observe settings did env h = (Inr r, h') \<and> res = result_as_dict r"
  using assms unfolding dispatch_deployment_def
  by (auto simp: validate_deployment_id_iff elim!: bindK_InrE liftK_InrE result_replyE)

lemma dispatch_put_result:
  assumes "dispatch_put settings hs msgs rid did env h = (Inr (res, st), h')" "carries msgs (Some (JObj p))"
  shows "\<exists>r. local_call settings (Update did p) rid env h = (Inr r, h') \<and> res = result_as_dict r"
  using assms unfolding dispatch_put_def desired_of_def
  by (auto simp: desired_of_def dest!: required_json_carried elim!: bindK_InrE liftK_InrE result_replyE split: if_splits)

lemma dispatch_delete_result:
  assumes "dispatch_delete settings hs msgs rid did env h = (Inr (res, st), h')" "carries msgs (Some (JObj p))"
  shows "\<exists>r. local_call settings (Undeploy did p) rid env h = (Inr r, h') \<and> res = result_as_dict r"
  using assms unfolding dispatch_delete_def
  by (auto simp: desired_of_def bindE_eq_Inr dest!: json_body_carried elim!: bindK_InrE liftK_InrE result_replyE split: if_splits)

lemma dispatch_action_result:
  assumes "dispatch_action settings hs msgs rid did act env h = (Inr (res, st), h')" "carries msgs (Some (JObj p))"
  shows "\<exists>r. local_call settings (Act did act p) rid env h = (Inr r, h') \<and> res = result_as_dict r"
  using assms unfolding dispatch_action_def
  by (auto simp: desired_of_def validate_deployment_id_iff dest!: required_json_carried
      elim!: bindK_InrE liftK_InrE result_replyE split: if_splits)

lemma dispatch_create_result:
  assumes "dispatch_create settings hs msgs rid env h = (Inr (res, st), h')" "carries msgs (Some (JObj p))"
  shows "\<exists>r. local_call settings (Deploy p) rid env h = (Inr r, h') \<and> res = result_as_dict r"
  using assms unfolding dispatch_create_def
  by (auto simp: desired_of_def dest!: required_json_carried elim!: bindK_InrE liftK_InrE result_replyE)

lemma prefix_not_collection: "DEPLOYMENTS_PREFIX @ s \<noteq> ''/v1/deployments''"
  by (simp add: DEPLOYMENTS_PREFIX_def)

lemma dispatch_call:
  assumes "call_ok c" "sc_path sc = call_path c" "carries msgs (call_payload c)"
    "dispatch settings (call_method c) sc hs msgs rid env h = (Inr (res, st), h')"
  shows "\<exists>r. local_call settings c rid env h = (Inr r, h') \<and> res = result_as_dict r"
proof (cases c)
  case (Deploy p)
  show ?thesis using assms dispatch_create_result unfolding Deploy
    by (simp add: dispatch_def del: local_call.simps)
next
  case (Update did p)
  have "dispatch_put settings hs msgs rid did env h = (Inr (res, st), h')"
    using assms unfolding Update
    by (auto simp: dispatch_def route_paths prefix_not_collection dispatch_deployment_def validate_deployment_id_iff
        elim!: bindK_InrE liftK_InrE)
  then show ?thesis using assms(3) dispatch_put_result unfolding Update call_payload.simps by blast
next
  case (Act did act p)
  have "dispatch_action settings hs msgs rid did act env h = (Inr (res, st), h')"
    using assms unfolding Act by (simp add: dispatch_def Let_def route_paths prefix_not_collection del: append_Cons)
  then show ?thesis using assms(3) dispatch_action_result unfolding Act call_payload.simps by blast
next
  case (Undeploy did p)
  have "dispatch_delete settings hs msgs rid did env h = (Inr (res, st), h')"
    using assms unfolding Undeploy
    by (auto simp: dispatch_def route_paths prefix_not_collection dispatch_deployment_def validate_deployment_id_iff
        elim!: bindK_InrE liftK_InrE)
  then show ?thesis using assms(3) dispatch_delete_result unfolding Undeploy call_payload.simps by blast
next
  case (Status did)
  have "dispatch_deployment settings ''GET'' hs msgs rid did env h = (Inr (res, st), h')"
    using assms unfolding Status by (simp add: dispatch_def route_paths prefix_not_collection)
  then show ?thesis using dispatch_deployment_GET unfolding Status local_call.simps by blast
qed

lemma upper_method: "upper (call_method c) = call_method c"
proof -
  have "upper ''POST'' = ''POST''" "upper ''PUT'' = ''PUT''" "upper ''DELETE'' = ''DELETE''" "upper ''GET'' = ''GET''"
    by code_simp+
  then show ?thesis by (cases c) simp_all
qed

lemma call_not_open: "call_ok c \<Longrightarrow> sc_path sc = call_path c \<Longrightarrow> \<not> open_route sc"
  by (cases c) (auto simp: open_route_def DEPLOYMENTS_PREFIX_def)

lemma unreserved_plain: "list_all is_unreserved s \<Longrightarrow> CHR ''%'' \<notin> set s"
  using is_unreserved_ascii by (metis list_all_iff)

lemma call_path_plain: "call_ok c \<Longrightarrow> CHR ''%'' \<notin> set (call_path c)"
  by (cases c) (auto simp: DEPLOYMENTS_PREFIX_def ACTIONS_def unreserved_plain)

text \<open>A reply of the API is an error object or the result of the dispatch.\<close>

lemma api_replyE:
  assumes "api_reply settings mth sc msgs env h = (Inr r, h')"
  obtains (error) st d c where "r = error_reply st d c"
    | (result) hs rid res st where "headers_of sc = Inr hs" "validate_request_id (get_header hs ''idempotency-key'') = Inr rid"
        "dispatch settings mth sc hs msgs rid env h = (Inr (res, st), h')" "r = json_reply st res rid"
proof -
  let ?m = "bindK (liftK (headers_of sc)) (\<lambda>hs. bindK (liftK (authenticate settings hs)) (\<lambda>_.
        bindK (liftK (bindE (required_header hs ''idempotency-key'') validate_request_id)) (\<lambda>request_id.
        bindK (dispatch settings mth sc hs msgs request_id) (\<lambda>(result, status).
        retK (json_reply status result request_id)))))"
  obtain x h1 where m: "?m env h = (x, h1)" by fastforce
  show ?thesis
  proof (cases x)
    case (Inl e)
    then have "on_error e env h1 = (Inr r, h')" using assms m unfolding api_reply_def by simp
    then show ?thesis using error by (cases e) (auto simp: on_error_def)
  next
    case (Inr y)
    then have "?m env h = (Inr r, h')" using assms m unfolding api_reply_def by simp
    then show ?thesis using result
      by (elim bindK_InrE liftK_InrE) (auto simp: bindE_eq_Inr required_header_def split: if_splits prod.splits)
  qed
qed

theorem remote_call_sound:
  assumes t: "transport wire deliver" and wf: "\<And>j. call_payload c = Some j \<Longrightarrow> json_wf j"
    and run: "client_call cfg (exchange wire deliver is_file settings m env h) c rid = Inr n"
  shows "\<exists>r h'. local_call settings c (strip rid) env h = (Inr r, h') \<and> n = snapshot_of r
    \<and> (call_target c = [] \<or> rr_deployment_id r = call_target c)"
proof -
  from client_callD [OF run] obtain expected data fallback req where ok: "call_ok c"
    and send: "send_client cfg (exchange wire deliver is_file settings m env h) (call_method c) (call_path c) rid
        expected (call_payload c) [] = Inr data"
    and snap: "snapshot data fallback req (call_target c) = Inr n" by blast
  define q where "q = \<lparr>q_method = call_method c, q_path = call_path c,
     q_headers = [(''Accept'', ''application/json''), (''Authorization'', ''Bearer '' @ cc_token cfg),
        (''Idempotency-Key'', rid), (''X-Request-ID'', rid)], q_json = call_payload c, q_params = []\<rparr>"
  obtain sc msgs where w: "wire q = (sc, msgs)" by fastforce
  from send obtain r m' h' where http: "handle_http is_file settings m sc msgs env h = (Inr (r, m'), h')"
    and ans: "read_answer expected (deliver r) = Inr data"
    unfolding send_client_def q_def [symmetric] exchange_def w
    by (auto split: if_splits prod.splits sum.splits)
  have arr: "arrives q sc msgs"
  proof -
    have "arrives q (fst (wire q)) (snd (wire q))"
      using t call_path_plain [OF ok] unfolding transport_def by (simp add: q_def)
    then show ?thesis by (simp add: w)
  qed
  have path: "sc_path sc = call_path c" "sc_method sc = call_method c" using arr by (simp_all add: arrives_def q_def)
  have car: "carries msgs (call_payload c)"
    using arr wf unfolding arrives_def carries_def by (auto simp: q_def split: option.splits)
  from http have api: "api_reply settings (call_method c) sc msgs env h = (Inr r, h')"
    by (rule handle_httpE) (simp add: answer_api [OF call_not_open [OF ok path(1)]] path(2) upper_method)
  from api show ?thesis
  proof (cases rule: api_replyE)
    case (error st d co)
    then have "data = [(''detail'', JStr d), (''code'', JStr co)]"
      using read_answer_json [OF t] ans unfolding error_reply_def by force
    then show ?thesis using snap snapshot_error [of d co fallback req "call_target c"] by simp
  next
    case (result hs rid' res st)
    from dispatch_call [OF ok path(1) car result(3)] obtain rr
      where loc: "local_call settings c rid' env h = (Inr rr, h')" and res: "res = result_as_dict rr" by blast
    have rok: "result_ok rr" using gives_local_call [OF wf] loc unfolding gives_def by blast
    have "get_header hs (lower ''Idempotency-Key'') = strip rid"
      using arr result(1) unfolding arrives_def by (simp add: q_def)
    moreover have "lower ''Idempotency-Key'' = ''idempotency-key''" by code_simp
    ultimately have rid': "rid' = strip rid"
      using result(2) by (auto simp: validate_request_id_def Let_def bindE_eq_Inr)
    have "data = result_dict rr"
      using read_answer_json [OF t, of expected st "result_dict rr" rid' data] ans result(4) res result_wf [of rr]
      unfolding result_as_dict_eq by auto
    with snap snapshot_sound [OF rok] loc rid' show ?thesis by (metis (no_types, lifting))
  qed
qed



section \<open>A status call that succeeds\<close>

text \<open>
  What a transport that loses nothing gives in addition: the headers of the client parse, an
  absent body arrives as an empty one, and the content type of the reply arrives.
\<close>

definition plain_value :: "string \<Rightarrow> bool" where
  "plain_value v \<longleftrightarrow> list_all (\<lambda>c. 32 \<le> (of_char c :: nat) \<and> (of_char c :: nat) < 127) v"

definition reliable :: "(client_request \<Rightarrow> scope \<times> asgi_message list) \<Rightarrow> (reply \<Rightarrow> http_response) \<Rightarrow> bool" where
  "reliable wire deliver \<longleftrightarrow>
     (\<forall>q. CHR ''%'' \<notin> set (q_path q) \<longrightarrow> q_params q = [] \<longrightarrow> list_all (\<lambda>(_, v). plain_value v) (q_headers q) \<longrightarrow>
        map fst (q_headers q) = [''Accept'', ''Authorization'', ''Idempotency-Key'', ''X-Request-ID''] \<longrightarrow>
        \<not> isl (headers_of (fst (wire q))) \<and> (q_json q = None \<longrightarrow> body_of_request (snd (wire q)) = Inr []))
     \<and> (\<forall>r. media_type (deliver r) = media_type \<lparr>h_status = p_status r, h_headers = p_headers r, h_chunks = []\<rparr>)"

lemma collect_chunks_fits:
  "length (acc @ concat cs) \<le> MAX_CONTROLLER_RESPONSE_BYTES \<Longrightarrow> collect_chunks acc cs = Inr (acc @ concat cs)"
  by (induction acc cs rule: collect_chunks.induct) auto

lemma read_answer_complete:
  assumes "transport wire deliver" "reliable wire deliver" "json_wf (JObj d)" "st \<in> expected"
    "length (utf8_encode (json_dumps (JObj d))) \<le> MAX_CONTROLLER_RESPONSE_BYTES"
  shows "read_answer expected (deliver (json_reply st (JObj d) rid)) = Inr d"
proof -
  have l: "json_loads (json_dumps (JObj d)) = Some (JObj d)" by (rule json_loads_dumps [OF assms(3)])
  have b: "concat (h_chunks (deliver (json_reply st (JObj d) rid))) = utf8_encode (json_dumps (JObj d))"
      "h_status (deliver (json_reply st (JObj d) rid)) = st"
    using assms(1) by (simp_all add: transport_def json_reply_def Let_def del: json_dumps.simps)
  have "media_type (deliver (json_reply st (JObj d) rid)) = ''application/json''"
    using assms(2) by (simp add: reliable_def json_reply_def Let_def media_type_def del: json_dumps.simps)
  moreover have "strip ''application/json'' = ''application/json''" by code_simp
  ultimately show ?thesis
    using assms(4,5) collect_chunks_fits [of "[]" "h_chunks (deliver (json_reply st (JObj d) rid))"] l
    by (simp add: read_answer_def b del: json_dumps.simps)
qed

lemma hex_alnum: "is_hex c \<Longrightarrow> is_alnum c"
  by (auto simp: is_hex_def is_alnum_def is_lower_def in_range_def less_eq_char_def)

lemma canonical_uuid_hd: "is_canonical_uuid s \<Longrightarrow> is_alnum (hd s)"
  unfolding is_canonical_uuid_iff
proof (elim exE conjE)
  fix h
  assume "length h = 32" "list_all is_hex h" "s = uuid_format h"
  then show ?thesis by (cases h) (auto simp: uuid_format_def hex_alnum)
qed

lemma canonical_identifier:
  assumes "is_canonical_uuid did"
  shows "path_identifier did = Inr did" "call_ok (Status did)"
proof -
  have id: "list_all is_identifier_char did"
    using canonical_uuid_chars [OF assms] hex_alnum by (force simp: list_all_iff is_identifier_char_def)
  then have un: "list_all is_unreserved did" using is_alnum_unreserved by (simp add: list_all_iff)
  have "did \<noteq> []" "length did \<le> 128" "did \<notin> {''.'', ''..''}" using canonical_uuid_length [OF assms] by auto
  moreover have "list_all is_identifier_char (tl did)" using id by (cases did) simp_all
  ultimately show "path_identifier did = Inr did" "call_ok (Status did)"
    using canonical_uuid_hd [OF assms] un unreserved_plain [OF un] quote_unreserved [OF un]
    by (simp_all add: path_identifier_def)
qed

definition readable :: "runtime_result \<Rightarrow> bool" where
  "readable r \<longleftrightarrow> list_all (\<lambda>c. length (cr_image_digest c) \<le> 255) (rr_components r)
     \<and> rr_observed_generation r < 10 ^ 19"

lemma str_int_length: "0 \<le> i \<Longrightarrow> i < 10 ^ k \<Longrightarrow> 0 < k \<Longrightarrow> length (str_int i) \<le> k"
  by (simp add: str_int_def length_dec_of_nat nat_less_iff)

lemma text_lengths: "s \<in> set result_messages \<Longrightarrow> length s \<le> 100" "s \<in> set result_states \<Longrightarrow> length s \<le> 32"
proof -
  have "list_all (\<lambda>s. length s \<le> 100) result_messages" "list_all (\<lambda>s. length s \<le> 32) result_states" by code_simp+
  then show "s \<in> set result_messages \<Longrightarrow> length s \<le> 100" "s \<in> set result_states \<Longrightarrow> length s \<le> 32"
    by (simp_all add: list_all_iff)
qed

lemma status_json_size:
  assumes "component_result_ok c" "length (cr_image_digest c) \<le> 255"
  shows "jsize (status_json c) \<le> 6000"
proof -
  from assms obtain k where slug: "length (cr_slug c) \<le> 63" and rep: "reported k c"
    by (auto simp: component_result_ok_def is_component_slug_def)
  have int: "length (str_int i) \<le> 6" if "0 \<le> i" "i \<le> 100000" for i
    using that by (intro str_int_length) auto
  have "cr_last_error c \<in> set result_messages" using rep by (auto simp: reported_def result_messages_def)
  then have e: "length (cr_last_error c) \<le> 100" by (rule text_lengths)
  have sh: "length (cr_state c) \<le> 32" "length (cr_health c) \<le> 32"
    using squeezed_texts(2,3) rep unfolding reported_def by blast+
  have "length (str_int (cr_desired_replicas c)) \<le> 6" "length (str_int (cr_ready_replicas c)) \<le> 6"
    "length (str_int (cr_available_replicas c)) \<le> 6" "length (str_int (cr_restart_count c)) \<le> 6"
    using rep by (auto simp: reported_def intro!: int)
  then show ?thesis using slug assms(2) e sh by (simp add: status_json_def)
qed

lemma readable_fits:
  assumes "result_ok r" "readable r" "length (rr_deployment_id r) \<le> 128"
  shows "bytes (json_dumps (result_as_dict r)) \<le> MAX_CONTROLLER_RESPONSE_BYTES"
proof -
  have c: "jsize (status_json c) + 1 \<le> 6001" if "c \<in> set (rr_components r)" for c
    using that assms status_json_size [of c] by (auto simp: result_ok_def readable_def list_all_iff)
  have "sum_list (map (\<lambda>c. jsize (status_json c) + 1) (rr_components r)) \<le> sum_list (map (\<lambda>_. 6001) (rr_components r))"
    by (rule sum_list_mono) (rule c)
  also have "\<dots> \<le> 20 * 6001" using assms(1) by (simp add: result_ok_def sum_list_triv)
  finally have "sum_list (map (\<lambda>c. jsize (status_json c) + 1) (rr_components r)) \<le> 120020" by simp
  moreover have "length (str_int (rr_observed_generation r)) \<le> 19"
    using assms by (intro str_int_length) (auto simp: result_ok_def readable_def)
  moreover have "length (rr_message r) \<le> 100" "length (rr_state r) \<le> 32"
    using assms(1) text_lengths unfolding result_ok_def by blast+
  ultimately have "jsize (result_as_dict r) \<le> MAX_CONTROLLER_RESPONSE_BYTES"
    using assms(3) by (simp add: result_as_dict_def comp_def MAX_CONTROLLER_RESPONSE_BYTES_def)
  then show ?thesis using json_dumps_bytes [of "result_as_dict r"] by (rule order_trans [rotated])
qed

lemma snapshot_complete:
  assumes "result_ok r" "readable r" "is_canonical_uuid (rr_deployment_id r)"
  shows "snapshot (result_dict r) (rr_deployment_id r) req (rr_deployment_id r) = Inr (snapshot_of r)"
proof -
  have "rr_deployment_id r \<noteq> []" "length (rr_deployment_id r) \<le> 128"
    using canonical_uuid_length [OF assms(3)] by auto
  then have "snapshot_id (result_dict r) (rr_deployment_id r) req (rr_deployment_id r) = Inr (rr_deployment_id r)"
    using canonical_identifier(1) [OF assms(3)] by (simp add: snapshot_id_def result_dict_fields)
  then show ?thesis
    using assms(2) by (simp add: snapshot_result [OF assms(1)] readable_def snapshot_of_def)
qed

lemma strip_bearer:
  assumes "token_valid t"
  shows "strip (''Bearer '' @ t) = ''Bearer '' @ t" "plain_value (''Bearer '' @ t)"
proof -
  have t: "t \<noteq> []" "list_all visible_ascii t" using assms by (auto simp: token_valid_def)
  then have "visible_ascii (last t)" by (simp add: list_all_iff)
  then have "\<not> isspace_char (last t)" by (auto simp: visible_ascii_def isspace_char_def in_range_def less_eq_char_def)
  moreover have "\<not> isspace_char CHR ''B''" by code_simp
  moreover obtain u x where u: "t = u @ [x]" using t(1) by (metis rev_exhaust)
  ultimately show "strip (''Bearer '' @ t) = ''Bearer '' @ t"
    by (simp add: strip_def strip_where_def lstrip_where_def rstrip_where_def)
  show "plain_value (''Bearer '' @ t)" using t(2) by (auto simp: plain_value_def visible_ascii_def list_all_iff)
qed

theorem status_complete:
  assumes t: "transport wire deliver" "reliable wire deliver"
    and cfg: "configured cfg" "cc_token cfg = s_auth_token settings" "token_valid (s_auth_token settings)"
    and rid: "is_request_id (strip rid)" "plain_value rid"
    and did: "is_canonical_uuid did"
    and run: "observe settings did env h = (Inr r, h')" "rr_deployment_id r = did" "readable r"
  shows "client_status cfg (exchange wire deliver is_file settings m env h) did rid = Inr (snapshot_of r)"
proof -
  define q where "q = \<lparr>q_method = ''GET'', q_path = DEPLOYMENTS_PREFIX @ did,
     q_headers = [(''Accept'', ''application/json''), (''Authorization'', ''Bearer '' @ cc_token cfg),
        (''Idempotency-Key'', rid), (''X-Request-ID'', rid)], q_json = None, q_params = []\<rparr>"
  obtain sc msgs where w: "wire q = (sc, msgs)" by fastforce
  have un: "did \<noteq> []" "list_all is_unreserved did" using canonical_identifier(2) [OF did] by simp_all
  have pl: "CHR ''%'' \<notin> set (q_path q)" "q_params q = []"
    using call_path_plain [OF canonical_identifier(2) [OF did]] by (simp_all add: q_def)
  have arr: "arrives q sc msgs" using t(1) w pl unfolding transport_def by (metis fst_conv snd_conv)
  have plain: "plain_value ''application/json''" by code_simp
  have lows: "lower ''Authorization'' = ''authorization''" "lower ''Idempotency-Key'' = ''idempotency-key''" by code_simp+
  have sane: "list_all (\<lambda>(_, v). plain_value v) (q_headers q)"
    "map fst (q_headers q) = [''Accept'', ''Authorization'', ''Idempotency-Key'', ''X-Request-ID'']"
    using plain strip_bearer(2) [OF cfg(3)] rid(2) by (simp_all add: q_def cfg(2))
  have "q_json q = None" by (simp add: q_def)
  then have rel: "\<not> isl (headers_of sc)" "body_of_request msgs = Inr []"
    using t(2) [unfolded reliable_def, THEN conjunct1, THEN spec, THEN mp, OF pl(1), THEN mp, OF pl(2), THEN mp, OF sane(1),
        THEN mp, OF sane(2)] by (simp_all add: w)
  then obtain hs where hs: "headers_of sc = Inr hs" by (auto simp: isl_def) (metis sum.exhaust_sel)
  have get: "get_header hs (lower k) = strip v" if "(k, v) \<in> set (q_headers q)" for k v
    using arr hs that unfolding arrives_def by blast
  have auth: "authenticate settings hs = Inr ()"
    using get [of "''Authorization''" "''Bearer '' @ cc_token cfg"] strip_bearer(1) [OF cfg(3)] lows
    by (simp add: q_def cfg(2) authenticate_def guardE_def)
  have "get_header hs ''idempotency-key'' = strip rid" using get [of "''Idempotency-Key''" rid] lows by (simp add: q_def)
  then have key: "bindE (required_header hs ''idempotency-key'') validate_request_id = Inr (strip rid)"
    using rid(1) by (simp add: required_header_def validate_request_id_def Let_def guardE_def) (auto simp: is_request_id_def)
  have path: "sc_path sc = call_path (Status did)" "sc_method sc = ''GET''" using arr by (simp_all add: arrives_def q_def)
  have "reject_body msgs = Inr ()" using rel(2) by (simp add: reject_body_def guardE_def)
  moreover have "validate_deployment_id (JStr did) = Inr did" using did by (simp add: validate_deployment_id_iff)
  ultimately have "dispatch settings ''GET'' sc hs msgs (strip rid) env h = (Inr (result_as_dict r, 200), h')"
    using path(1) un run(1)
    by (simp add: dispatch_def route_paths prefix_not_collection dispatch_deployment_def result_reply_def bindK_def)
  moreover have "upper ''GET'' = ''GET''" using upper_method [of "Status did"] by simp
  ultimately have "answer is_file settings m sc msgs env h = (Inr (json_reply 200 (result_as_dict r) (strip rid)), h')"
    using path hs auth key
    by (simp add: answer_api [OF call_not_open [OF canonical_identifier(2) [OF did] path(1)]] api_reply_def
        bindK_def tryK_def del: json_dumps.simps)
  then have "exchange wire deliver is_file settings m env h q = Answered (deliver (json_reply 200 (result_as_dict r) (strip rid)))"
    by (simp add: exchange_def w handle_http_def bindK_def)
  moreover have ok: "result_ok r" using gives_observe run(1) unfolding gives_def by blast
  moreover have "length (rr_deployment_id r) \<le> 128" using canonical_uuid_length [OF did] run(2) by simp
  then have "bytes (json_dumps (JObj (result_dict r))) \<le> MAX_CONTROLLER_RESPONSE_BYTES"
    using readable_fits [OF ok run(3)] by (simp add: result_as_dict_eq del: json_dumps.simps)
  then have "read_answer {200} (deliver (json_reply 200 (result_as_dict r) (strip rid))) = Inr (result_dict r)"
    using read_answer_complete [OF t, of "result_dict r"] result_wf [of r]
    by (simp add: result_as_dict_eq del: json_dumps.simps json_wf.simps)
  ultimately show ?thesis
    using snapshot_complete [of r False] did run(2,3) cfg(1)
    by (simp add: client_status_def client_on_def canonical_identifier(1) [OF did] send_client_def q_def DEPLOYMENTS_PREFIX_def)
qed

end
