(* ===== verification/Lease_Timeout.thy ===== *)
theory Lease_Timeout
  imports Lease
begin

text \<open>
  The loop that acquires the Lease ends: with a monotonic clock that advances at least by the
  times slept, the rounds of \<open>acquire\<close> never run out, whatever the API server answers.
\<close>

definition passed :: "event \<Rightarrow> rat" where
  "passed ev = (case ev of Sleep t \<Rightarrow> t | Request _ \<Rightarrow> 0)"

definition steady :: "env \<Rightarrow> bool" where
  "steady env \<longleftrightarrow> (\<forall>ev h. e_monotonic env h + passed ev \<le> e_monotonic env (ev # h))"

definition requests_only :: "event \<Rightarrow> bool" where
  "requests_only ev \<longleftrightarrow> passed ev = 0"

lemma steady_requests:
  assumes "steady env"
  shows "list_all requests_only es \<Longrightarrow> e_monotonic env h \<le> e_monotonic env (es @ h)"
proof (induction es)
  case (Cons ev es)
  have "e_monotonic env (es @ h) + passed ev \<le> e_monotonic env (ev # es @ h)"
    using assms by (simp add: steady_def)
  then show ?case using Cons by (simp add: requests_only_def)
qed simp

lemma requests_send: "does requests_only (send_request mth path ex ps c ct)"
  by (rule does_send_request) (simp add: requests_only_def passed_def)

lemma requests_get: "does requests_only (kube_get settings kind name ns)"
  by (rule does_kube_get) (simp add: requests_only_def passed_def)

lemma requests_create: "does requests_only (create_lease settings r)"
  unfolding create_lease_def by (auto intro!: does_intros requests_send split: json.split)

lemma requests_replace: "does requests_only (replace_lease settings r)"
  unfolding replace_lease_def by (auto intro!: does_intros requests_send split: json.split)

lemma requests_try_acquire: "does requests_only (try_acquire settings name did holder)"
  unfolding try_acquire_def
  by (intro does_intros requests_get requests_create requests_replace)

subsection \<open>No round runs out of fuel by itself\<close>

definition ends :: "exn \<Rightarrow> bool" where
  "ends e \<longleftrightarrow> e \<noteq> OutOfFuel"

lemma ends_api: "is_api_error e \<Longrightarrow> ends e"
  by (auto simp: ends_def)

lemma lease_values_end:
  "validated_lease settings lease name did = Inl e \<Longrightarrow> ends e" "expired spec now = Inl e \<Longrightarrow> ends e"
  "replacement_lease settings md spec did holder now b = Inl e \<Longrightarrow> ends e"
  by (auto simp: validated_lease_def expired_def replacement_lease_def ends_def Let_def
      split: json.split_asm option.split_asm if_split_asm prod.split_asm)

lemma endpoint_ends: "raises ends (liftK (endpoint kind))"
  by (auto simp: raises_def endpoint_def ends_def split: option.split_asm)

lemma send_ends: "raises ends (send_request mth path ex ps c ct)"
  by (rule raises_mono [OF raises_send_request ends_api])

lemma get_ends: "raises ends (kube_get settings ''Lease'' name ns)"
  by (rule raises_mono [OF raises_kube_get ends_api]) simp_all

lemma create_ends: "raises ends (create_lease settings r)"
  unfolding create_lease_def
  by (auto intro!: raises_intros send_ends endpoint_ends simp: ends_def split: json.split)

lemma replace_ends: "raises ends (replace_lease settings r)"
  unfolding replace_lease_def
  by (auto intro!: raises_intros send_ends endpoint_ends simp: ends_def split: json.split)

lemma try_acquire_ends: "raises ends (try_acquire settings name did holder)"
  unfolding try_acquire_def
  by (intro raises_intros get_ends create_ends replace_ends) (auto dest: lease_values_end)

subsection \<open>The loop\<close>

lemma acquire_loop_ends:
  assumes st: "steady env"
  shows "deadline - e_monotonic env h \<le> of_nat n / 10 \<Longrightarrow>
    fst (acquire_loop (Suc n) settings deadline name did holder env h) \<noteq> Inl OutOfFuel"
proof (induction n arbitrary: h)
  case (0 h)
  obtain r h1 where t: "try_acquire settings name did holder env h = (r, h1)" by (cases "try_acquire settings name did holder env h")
  obtain es where "h1 = es @ h" "list_all requests_only es" using doesD [OF requests_try_acquire t] by blast
  then have "e_monotonic env h \<le> e_monotonic env h1" using steady_requests [OF st] by simp
  then have "deadline - e_monotonic env h1 \<le> 0" using 0 by simp
  then show ?case
    using t raisesD [OF try_acquire_ends, of settings name did holder env h]
    by (cases r) (auto simp: ends_def RuntimeBusy_def)
next
  case (Suc n h)
  obtain r h1 where t: "try_acquire settings name did holder env h = (r, h1)" by (cases "try_acquire settings name did holder env h")
  obtain es where "h1 = es @ h" "list_all requests_only es" using doesD [OF requests_try_acquire t] by blast
  then have le: "e_monotonic env h \<le> e_monotonic env h1" using steady_requests [OF st] by simp
  define rest where "rest = deadline - e_monotonic env h1"
  have "e_monotonic env h1 + min (1/10) rest \<le> e_monotonic env (Sleep (min (1/10) rest) # h1)"
    using st [unfolded steady_def, rule_format, of h1 "Sleep (min (1/10) rest)"] by (simp add: passed_def)
  moreover have "rest \<le> of_nat (Suc n) / 10" using le Suc.prems by (simp add: rest_def)
  ultimately have "deadline - e_monotonic env (Sleep (min (1/10) rest) # h1) \<le> of_nat n / 10"
    by (simp add: rest_def min_def field_simps split: if_split_asm)
  then have "fst (acquire_loop (Suc n) settings deadline name did holder env (Sleep (min (1/10) rest) # h1)) \<noteq> Inl OutOfFuel"
    by (rule Suc.IH)
  then show ?case
    using t raisesD [OF try_acquire_ends, of settings name did holder env h]
    by (subst acquire_loop.simps, cases r)
      (auto simp: ends_def RuntimeBusy_def Let_def rest_def simp del: acquire_loop.simps)
qed

lemma acquire_ends:
  assumes "steady env"
  shows "fst (acquire settings name did holder env h) \<noteq> Inl OutOfFuel"
proof -
  let ?t = "s_lease_acquire_timeout_seconds settings"
  have "?t \<le> of_nat (nat \<lceil>?t * 10\<rceil> + 1) / 10"
  proof -
    have "?t * 10 \<le> of_int \<lceil>?t * 10\<rceil>" by simp
    also have "\<dots> \<le> of_nat (nat \<lceil>?t * 10\<rceil>)" by simp
    finally show ?thesis by simp
  qed
  then show ?thesis
    using acquire_loop_ends [OF assms, of "e_monotonic env h + ?t" h "nat \<lceil>?t * 10\<rceil> + 1" settings name did holder]
    by (simp add: acquire_def acquire_fuel_def del: acquire_loop.simps)
qed

end
