(* ===== verification/Controller_Samples.thy ===== *)
theory Controller_Samples
  imports Asgi_Facts Lease_Timeout Samples
begin

text \<open>Concrete environments and requests of the controller, for the witnesses.\<close>

text \<open>An API server that cannot be reached, and a clock that only the sleeps advance.\<close>

definition sample_env :: env where
  "sample_env = \<lparr>e_transport = (\<lambda>_. HttpError), e_token = (\<lambda>_. Some ''token''), e_now = (\<lambda>_. 0),
     e_monotonic = (\<lambda>h. sum_list (map passed h)), e_uuid4 = (\<lambda>_. replicate 32 CHR ''0''),
     e_lease_lost = (\<lambda>_. False), e_text = (\<lambda>r. concat (h_chunks r))\<rparr>"

definition sample_scope :: "string \<Rightarrow> string \<Rightarrow> string \<Rightarrow> scope" where
  "sample_scope mth path token = \<lparr>sc_method = mth, sc_path = path, sc_query = [],
     sc_headers = [(''Authorization'', ''Bearer '' @ token), (''Idempotency-Key'', ''request-0001'')]\<rparr>"

lemma sample_env_steady: "steady sample_env"
  by (simp add: steady_def sample_env_def)

end
