(* ===== verification/Remote_Samples.thy ===== *)
theory Remote_Samples
  imports Remote_Calls Controller_Samples
begin

text \<open>
  A transport that hands the request over as it is, and an API server that holds the state
  object of a removed deployment: a status call that succeeds.
\<close>

definition sample_wire :: "client_request \<Rightarrow> scope \<times> asgi_message list" where
  "sample_wire q = (\<lparr>sc_method = q_method q, sc_path = q_path q, sc_query = [], sc_headers = q_headers q\<rparr>,
     [HttpRequest (Some (case q_json q of None \<Rightarrow> [] | Some j \<Rightarrow> utf8_encode (json_dumps j))) False])"

definition sample_deliver :: "reply \<Rightarrow> http_response" where
  "sample_deliver r = \<lparr>h_status = p_status r, h_headers = p_headers r, h_chunks = [p_body r]\<rparr>"

definition sample_state :: "json dict" where
  "sample_state = state_config_map (sample_desired ''absent'') sample_settings ''deleted'' ''request-0001''"

definition sample_server :: "history \<Rightarrow> http_outcome" where
  "sample_server h = (case h of
     Request r # _ \<Rightarrow>
       if r_method r = ''GET'' then
         HttpReply \<lparr>h_status = 200, h_headers = [(''content-type'', ''application/json'')],
           h_chunks = [utf8_encode (json_dumps (JObj sample_state))]\<rparr>
       else HttpReply \<lparr>h_status = 404, h_headers = [], h_chunks = []\<rparr>
   | _ \<Rightarrow> HttpError)"

definition sample_remote_env :: env where
  "sample_remote_env = sample_env\<lparr>e_transport := sample_server\<rparr>"

definition sample_client :: controller_config where
  "sample_client = \<lparr>cc_base_url = ''https://runtime-controller:8443'', cc_token = s_auth_token sample_settings,
     cc_timeout_seconds = 15, cc_ca_file = ''/etc/controller/ca.crt''\<rparr>"

lemma headers_from_get:
  assumes "headers_from acc ps = Inr hs"
  shows "(\<forall>k. map_of acc k \<noteq> None \<longrightarrow> map_of hs k = map_of acc k)
    \<and> (\<forall>(k, v) \<in> set ps. map_of hs (lower k) = Some (strip v))"
  using assms
proof (induction acc ps rule: headers_from.induct)
  case (2 acc k v rest)
  have fresh: "map_of acc (lower k) = None" and rec: "headers_from (dput (lower k) (strip v) acc) rest = Inr hs" and "is_ascii k"
    using 2(2) by (auto simp: Let_def split: if_splits)
  note IH = 2(1) [OF _ refl refl _ rec]
  have IH': "\<forall>x. map_of (dput (lower k) (strip v) acc) x \<noteq> None \<longrightarrow> map_of hs x = map_of (dput (lower k) (strip v) acc) x"
    "\<forall>(k, v) \<in> set rest. map_of hs (lower k) = Some (strip v)"
    using IH \<open>is_ascii k\<close> fresh by simp_all
  show ?case using IH' fresh by (auto simp: map_of_dput) 
qed simp

lemma keeps_unique: "keeps_dicts unique_object"
  by (simp add: keeps_dicts_def unique_object_def dict_wf_def)

lemma dumps_not_empty: "json_wf j \<Longrightarrow> utf8_encode (json_dumps j) \<noteq> []"
proof
  assume "json_wf j" "utf8_encode (json_dumps j) = []"
  then have "json_dumps j = []" by (metis utf8_decode_encode utf8_decode.simps(1) option.inject)
  then show False using json_loads_dumps [OF \<open>json_wf j\<close>] by (simp add: json_loads_def json_loads_hook_def)
qed

lemma sample_header:
  "headers_of (fst (sample_wire q)) = Inr hs \<Longrightarrow> (k, v) \<in> set (q_headers q) \<Longrightarrow> get_header hs (lower k) = strip v"
  using headers_from_get [of "[]" "q_headers q" hs] by (auto simp: sample_wire_def headers_of_def get_header_def)

lemma sample_body:
  "body_of_request (snd (sample_wire q)) = Inr b \<Longrightarrow>
   b = (case q_json q of None \<Rightarrow> [] | Some j \<Rightarrow> utf8_encode (json_dumps j))"
  by (simp add: sample_wire_def body_of_request_def Let_def split: if_splits)

lemma sample_arrives: "arrives q (fst (sample_wire q)) (snd (sample_wire q))"
proof -
  have "case q_json q of None \<Rightarrow> b = []
      | Some j \<Rightarrow> json_wf j \<longrightarrow> b \<noteq> [] \<and> Option.bind (utf8_decode b) (json_loads_hook unique_object) = Some j"
    if "body_of_request (snd (sample_wire q)) = Inr b" for b
    using sample_body [OF that] dumps_not_empty json_loads_hook_dumps [OF keeps_unique] by (cases "q_json q") auto
  moreover have "sc_method (fst (sample_wire q)) = q_method q" "sc_path (fst (sample_wire q)) = q_path q"
    by (simp_all add: sample_wire_def)
  ultimately show ?thesis unfolding arrives_def using sample_header by blast
qed

lemma sample_transport: "transport sample_wire sample_deliver"
  unfolding transport_def using sample_arrives by (simp add: sample_deliver_def)

lemma sample_reliable: "reliable sample_wire sample_deliver"
proof -
  have low: "lower ''Accept'' = ''accept''" "lower ''Authorization'' = ''authorization''"
    "lower ''Idempotency-Key'' = ''idempotency-key''" "lower ''X-Request-ID'' = ''x-request-id''"
    "is_ascii ''Accept''" "is_ascii ''Authorization''" "is_ascii ''Idempotency-Key''" "is_ascii ''X-Request-ID''"
    by code_simp+
  have h: "\<not> isl (headers_of (fst (sample_wire q)))"
    if "map fst (q_headers q) = [''Accept'', ''Authorization'', ''Idempotency-Key'', ''X-Request-ID'']" for q
  proof -
    from that obtain a b c d where
      q: "q_headers q = [(''Accept'', a), (''Authorization'', b), (''Idempotency-Key'', c), (''X-Request-ID'', d)]"
      by (auto simp: map_eq_Cons_conv)
    show ?thesis by (simp add: sample_wire_def headers_of_def q Let_def map_of_dput low)
  qed
  have "body_of_request (snd (sample_wire q)) = Inr []" if "q_json q = None" for q
    using that by (simp add: sample_wire_def body_of_request_def MAX_REQUEST_BYTES_def)
  moreover have "media_type (sample_deliver r) = media_type \<lparr>h_status = p_status r, h_headers = p_headers r, h_chunks = []\<rparr>" for r
    by (simp add: sample_deliver_def media_type_def)
  ultimately show ?thesis unfolding reliable_def by (intro conjI allI impI h) simp_all
qed

lemma digest_length [simp]: "length (payload_digest v) = 64"
  using is_hex_digest_payload [of v] by (simp add: is_hex_digest_def)

lemma sample_payload_size: "jsize (JObj (sample_payload ''absent'')) \<le> 20000"
  by (simp add: sample_payload_def payload_of_def sample_manifest_def sample_module_def sample_spec_def sample_resources_def
      sample_component_def sample_id_def sample_image_def str_dict_def scaling_dict_def str_int_def dec_of_nat.simps)

lemma sample_state_size: "bytes (json_dumps (JObj sample_state)) \<le> MAX_KUBERNETES_RESPONSE_BYTES"
proof -
  let ?p = "JObj (sample_payload ''absent'')"
  have "length (json_dumps (jsort ?p)) \<le> bytes (json_dumps (jsort ?p))" by (rule length_bytes)
  also have "\<dots> \<le> jsize (jsort ?p)" by (rule json_dumps_bytes)
  also have "\<dots> \<le> 20000" unfolding jsize_jsort by (rule sample_payload_size)
  finally have "length (decoded (canonical_json ?p)) \<le> 20000" unfolding decoded_canonical .
  moreover have "length (state_name sample_id) \<le> 37" by (simp add: state_name_def)
  ultimately have "jsize (JObj sample_state) \<le> MAX_KUBERNETES_RESPONSE_BYTES"
    by (simp add: sample_state_def state_config_map_def sample_desired_def common_labels_def sample_settings_def
        sample_id_def MAX_KUBERNETES_RESPONSE_BYTES_def str_int_def dec_of_nat.simps MANAGED_BY_LABEL_def MANAGED_BY_def
        DEPLOYMENT_LABEL_def ENVIRONMENT_LABEL_def del: state_name_def)
  then show ?thesis using json_dumps_bytes [of "JObj sample_state"] by (rule order_trans [rotated])
qed

lemma sample_state_wf: "json_wf (JObj sample_state)"
  by (simp add: sample_state_def state_config_map_def common_labels_def dict_wf_def MANAGED_BY_LABEL_def
      DEPLOYMENT_LABEL_def ENVIRONMENT_LABEL_def)

lemma sample_read_response:
  "read_response \<lparr>h_status = 200, h_headers = [(''content-type'', ''application/json'')],
     h_chunks = [utf8_encode (json_dumps (JObj sample_state))]\<rparr> =
   Inr \<lparr>h_status = 200, h_headers = [(''content-type'', ''application/json'')],
     h_chunks = [utf8_encode (json_dumps (JObj sample_state))]\<rparr>"
proof -
  have low: "lower ''content-type'' = ''content-type''" "lower ''content-length'' = ''content-length''" by code_simp+
  show ?thesis using sample_state_size by (simp add: read_response_def low Let_def del: json_dumps.simps)
qed

lemma sample_get: "\<exists>h'. kube_get sample_settings ''ConfigMap'' name None sample_remote_env h = (Inr (Some sample_state), h')"
proof -
  obtain pre plural where e: "endpoint ''ConfigMap'' = Inr (pre, plural)" using endpoint_kinds by fastforce
  have s: "strip ''token'' = ''token''" by code_simp
  have low: "lower ''content-type'' = ''content-type''" by code_simp
  have "Option.bind (utf8_decode (utf8_encode (json_dumps (JObj sample_state)))) json_loads = Some (JObj sample_state)"
    using json_loads_dumps [OF sample_state_wf] by (simp del: json_dumps.simps)
  then have "response_json \<lparr>h_status = 200, h_headers = [(''content-type'', ''application/json'')],
     h_chunks = [utf8_encode (json_dumps (JObj sample_state))]\<rparr> = Inr sample_state"
    by (simp add: response_json_def media_type_def low del: json_dumps.simps)
  then show ?thesis
    by (simp add: kube_get_def e send_request_def sample_remote_env_def sample_env_def s Let_def bindK_def
        sample_server_def sample_read_response del: json_dumps.simps)
qed

lemma sample_delete: "\<exists>h'. kube_delete sample_settings ''ConfigMap'' name sample_remote_env h = (Inr (), h')"
proof -
  obtain pre plural where e: "endpoint ''ConfigMap'' = Inr (pre, plural)" using endpoint_kinds by fastforce
  have s: "strip ''token'' = ''token''" by code_simp
  have "read_response \<lparr>h_status = 404, h_headers = [], h_chunks = []\<rparr> = Inr \<lparr>h_status = 404, h_headers = [], h_chunks = [[]]\<rparr>"
    by (simp add: read_response_def)
  then show ?thesis
    by (simp add: kube_delete_def e send_request_def sample_remote_env_def sample_env_def s Let_def bindK_def sample_server_def)
qed

lemma sample_observed:
  "\<exists>h'. observe sample_settings sample_id sample_remote_env [] =
     (Inr (deleted_result (canonical_desired (sample_desired ''absent''))), h')"
proof -
  obtain h1 where g: "kube_get sample_settings ''ConfigMap'' (state_name sample_id) None sample_remote_env [] = (Inr (Some sample_state), h1)"
    using sample_get by blast
  obtain h2 where d: "kube_delete sample_settings ''ConfigMap'' (state_name sample_id) sample_remote_env h1 = (Inr (), h2)"
    using sample_delete by blast
  obtain md where "metadata_of sample_state = Inr md" "state_identity_ok sample_id (dget_or (JObj []) md ''labels'')"
    using metadata_of_written [of "sample_desired ''absent''" sample_settings "''deleted''" "''request-0001''"]
    unfolding sample_state_def by (auto simp: sample_desired_def)
  then have s: "state_of sample_settings sample_id sample_remote_env [] = (Inr (Some sample_state), h1)"
    using g by (simp add: state_of_def bindK_def)
  have "desired_from_state sample_settings sample_state = Inr (canonical_desired (sample_desired ''absent''))"
    unfolding sample_state_def by (rule desired_from_written, rule sample_storable) simp
  moreover have "phase_of sample_state = Inr ''deleted''"
    unfolding sample_state_def by (rule phase_of_written) (simp add: phases_def)
  ultimately show ?thesis using s d by (simp add: observe_def bindK_def)
qed

lemma sample_status:
  "client_status sample_client (exchange sample_wire sample_deliver (\<lambda>_. True) sample_settings (new_metrics 0) sample_remote_env [])
     sample_id ''request-0001'' = Inr (snapshot_of (deleted_result (canonical_desired (sample_desired ''absent''))))"
proof -
  let ?r = "deleted_result (canonical_desired (sample_desired ''absent''))"
  obtain h' where run: "observe sample_settings sample_id sample_remote_env [] = (Inr ?r, h')" using sample_observed by blast
  have "configured sample_client" "token_valid (s_auth_token sample_settings)"
    "is_request_id (strip ''request-0001'')" "plain_value ''request-0001''" by code_simp+
  moreover have "cc_token sample_client = s_auth_token sample_settings" by (simp add: sample_client_def)
  moreover have "rr_deployment_id ?r = sample_id" by (simp add: deleted_result_def sample_desired_def)
  moreover have "readable ?r"
    by (simp add: readable_def deleted_result_def sample_desired_def make_component_result_def sample_component_def sample_image_def)
  ultimately show ?thesis
    using status_complete [OF sample_transport sample_reliable _ _ _ _ _ sample_id_ok run] by blast
qed

end
