(* ===== verification/Pyfloat.thy ===== *)
theory Pyfloat
  imports Metrics Urls Json
begin

text \<open>
  Python numbers as the services compare them: integers are exact, and a JSON number with a
  fraction or an exponent is the binary64 value its text is rounded to, half to even, infinite
  from \<open>2 ^ 1024\<close> on.
\<close>

datatype number = Real rat | PosInf | NegInf | NaN

fun bit_length :: "nat \<Rightarrow> nat" where
  "bit_length n = (if n = 0 then 0 else Suc (bit_length (n div 2)))"

declare bit_length.simps [simp del]

definition pow2 :: "int \<Rightarrow> rat" where
  "pow2 k = (if k \<ge> 0 then 2 ^ nat k else 1 / 2 ^ nat (- k))"

text \<open>The exponent of the leading binary digit of a positive number.\<close>

definition bin_exponent :: "rat \<Rightarrow> int" where
  "bin_exponent x =
     (let (a, b) = quotient_of x; k = int (bit_length (nat a)) - int (bit_length (nat b))
      in if x \<ge> pow2 k then k else k - 1)"

definition float64 :: "rat \<Rightarrow> number" where
  "float64 x =
     (if x = 0 then Real 0
      else let e = max (bin_exponent \<bar>x\<bar> - 52) (-1074);
               r = of_int (round_half_even (\<bar>x\<bar> / pow2 e)) * pow2 e
           in if r \<ge> pow2 1024 then (if x < 0 then NegInf else PosInf)
              else Real (if x < 0 then - r else r))"

definition float_value :: "string \<Rightarrow> number" where
  "float_value f =
     (if f = ''NaN'' then NaN else if f = ''Infinity'' then PosInf else if f = ''-Infinity'' then NegInf
      else case float_of_text f of Some (Finite x) \<Rightarrow> float64 x | _ \<Rightarrow> NaN)"

text \<open>\<open>isinstance(v, int | float)\<close> and the value; a bool is an int.\<close>

definition number_of :: "json \<Rightarrow> number option" where
  "number_of v = (case v of
     JInt i \<Rightarrow> Some (Real (of_int i))
   | JBool b \<Rightarrow> Some (Real (if b then 1 else 0))
   | JFloat f \<Rightarrow> Some (float_value f)
   | _ \<Rightarrow> None)"

fun num_le :: "number \<Rightarrow> number \<Rightarrow> bool" where
  "num_le NaN y = False"
| "num_le x NaN = False"
| "num_le NegInf y = True"
| "num_le x PosInf = True"
| "num_le (Real a) (Real b) = (a \<le> b)"
| "num_le x y = False"

fun num_less :: "number \<Rightarrow> number \<Rightarrow> bool" where
  "num_less NaN y = False"
| "num_less x NaN = False"
| "num_less NegInf y = (y \<noteq> NegInf)"
| "num_less x PosInf = (x \<noteq> PosInf)"
| "num_less (Real a) (Real b) = (a < b)"
| "num_less x y = False"

definition between :: "int \<Rightarrow> int \<Rightarrow> number \<Rightarrow> bool" where
  "between lo hi x \<longleftrightarrow> num_le (Real (of_int lo)) x \<and> num_le x (Real (of_int hi))"

lemma between_iff: "between lo hi x \<longleftrightarrow> (\<exists>a. x = Real a \<and> of_int lo \<le> a \<and> a \<le> of_int hi)"
  by (cases x) (auto simp: between_def)

lemma num_less_irrefl [simp]: "\<not> num_less x x"
  by (cases x) simp_all

lemma num_less_le: "num_less x y \<Longrightarrow> num_le x y"
  by (cases x; cases y) simp_all


section \<open>Rounding\<close>

lemma bit_length_1 [simp]: "bit_length (Suc 0) = 1"
  by (simp add: bit_length.simps [of "Suc 0"] bit_length.simps [of 0])

lemma bit_length_bounds: "0 < n \<Longrightarrow> 2 ^ (bit_length n - 1) \<le> n \<and> n < 2 ^ bit_length n"
proof (induction n rule: bit_length.induct)
  case (1 n)
  show ?case
  proof (cases "n div 2 = 0")
    case True
    then have "n = 1" using 1(2) by simp
    then show ?thesis by (simp add: bit_length_1)
  next
    case False
    then have ih: "2 ^ (bit_length (n div 2) - 1) \<le> n div 2 \<and> n div 2 < 2 ^ bit_length (n div 2)" using 1 by simp
    have "0 < bit_length (n div 2)" using False by (simp add: bit_length.simps [of "n div 2"])
    then have "2 * 2 ^ (bit_length (n div 2) - 1) = (2::nat) ^ bit_length (n div 2)"
      by (metis One_nat_def Suc_pred power_Suc)
    then show ?thesis using ih False 1(2) by (simp add: bit_length.simps [of n]) linarith
  qed
qed

lemma bit_length_less: "0 < n \<Longrightarrow> n < 2 ^ k \<Longrightarrow> bit_length n \<le> k"
proof (rule ccontr)
  assume n: "0 < n" "n < 2 ^ k" and "\<not> bit_length n \<le> k"
  then have "(2::nat) ^ k \<le> 2 ^ (bit_length n - 1)" by (intro power_increasing) simp_all
  with bit_length_bounds [OF n(1)] n(2) show False by linarith
qed

lemma round_half_even_int [simp]: "round_half_even (of_int n) = n"
  by (simp add: round_half_even_def)

lemma bin_exponent_int: "0 < n \<Longrightarrow> bin_exponent (of_int n) = int (bit_length (nat n)) - 1"
proof -
  assume n: "0 < n"
  have "2 ^ (bit_length (nat n) - 1) \<le> nat n" using bit_length_bounds [of "nat n"] n by simp
  then have "(2::int) ^ (bit_length (nat n) - 1) \<le> n" using n by (simp add: nat_le_iff [symmetric] le_nat_iff)
  then have "(2::rat) ^ (bit_length (nat n) - 1) \<le> of_int n" by (metis of_int_le_iff of_int_numeral of_int_power)
  moreover have "0 < bit_length (nat n)" using n by (simp add: bit_length.simps [of "nat n"])
  ultimately show ?thesis by (simp add: bin_exponent_def pow2_def nat_diff_distrib Suc_le_eq)
qed

text \<open>Integers below \<open>2 ^ 53\<close> are exact.\<close>

theorem float64_int:
  assumes "\<bar>n\<bar> < 2 ^ 53"
  shows "float64 (of_int n) = Real (of_int n)"
proof (cases "n = 0")
  case False
  let ?m = "\<bar>n\<bar>"
  have m: "0 < ?m" "nat ?m < 2 ^ 53" using False assms by (simp_all add: nat_less_iff)
  have b: "bit_length (nat ?m) \<le> 53" using bit_length_less [of "nat ?m" 53] m by simp
  define e where "e = max (bin_exponent \<bar>of_int n :: rat\<bar> - 52) (-1074)"
  have "bin_exponent \<bar>of_int n :: rat\<bar> = int (bit_length (nat ?m)) - 1"
    using bin_exponent_int [OF m(1)] by simp
  then have e: "e \<le> 0" using b by (simp add: e_def)
  have q: "\<bar>of_int n :: rat\<bar> / pow2 e = of_int (?m * 2 ^ nat (- e))"
    using e by (cases "e = 0") (simp_all add: pow2_def)
  have r: "of_int (round_half_even (\<bar>of_int n :: rat\<bar> / pow2 e)) * pow2 e = of_int ?m"
    unfolding q round_half_even_int using e by (cases "e = 0") (simp_all add: pow2_def)
  have "(of_int ?m :: rat) < 2 ^ 53" using assms by (metis of_int_less_iff of_int_numeral of_int_power)
  also have "(2 :: rat) ^ 53 < pow2 1024" unfolding pow2_def by (simp add: power_strict_increasing_iff del: power_numeral)
  finally have "\<not> pow2 1024 \<le> (of_int ?m :: rat)" by simp
  then have "float64 (of_int n) = Real (if (of_int n :: rat) < 0 then - of_int ?m else of_int ?m)"
    unfolding float64_def Let_def e_def [symmetric] r using False by simp
  then show ?thesis by simp
qed (simp add: float64_def)

end
