(* ===== verification/Events.thy ===== *)
theory Events
  imports Pyfloat Timestamps Reconciler
begin

text \<open>
  The event contracts of the streaming platform:
  \<open>src/components/DEALIoT/dealiot_contracts/events.py\<close>.

  An event is a Python dictionary of JSON values. \<open>validate_event\<close> returns the list of errors in
  the order in which the source appends them. A set literal is the list of its elements, and
  the source sorts before it iterates. The topics of the governance records, which have no
  required fields, are not listed.
\<close>

section \<open>Topics and fields\<close>

definition DLQ_TOPIC :: string where
  "DLQ_TOPIC = ''dlq.events''"

definition RAW_SENSOR_TOPIC :: string where
  "RAW_SENSOR_TOPIC = ''raw.sensor''"

definition RAW_GPS_TOPIC :: string where
  "RAW_GPS_TOPIC = ''raw.gps''"

definition RAW_IMAGE2D_META_TOPIC :: string where
  "RAW_IMAGE2D_META_TOPIC = ''raw.image2d.meta''"

definition RAW_IMAGE3D_META_TOPIC :: string where
  "RAW_IMAGE3D_META_TOPIC = ''raw.image3d.meta''"

definition RAW_VIDEO2D_META_TOPIC :: string where
  "RAW_VIDEO2D_META_TOPIC = ''raw.video2d.meta''"

definition RAW_VIDEO3D_META_TOPIC :: string where
  "RAW_VIDEO3D_META_TOPIC = ''raw.video3d.meta''"

definition MEDIA_TOPICS :: "string list" where
  "MEDIA_TOPICS = [RAW_IMAGE2D_META_TOPIC, RAW_IMAGE3D_META_TOPIC, RAW_VIDEO2D_META_TOPIC, RAW_VIDEO3D_META_TOPIC]"

definition media_required :: "string list" where
  "media_required = [''device_id'', ''timestamp'', ''bucket'', ''object_key'', ''object_uri'', ''format'']"

definition REQUIRED_FIELDS :: "(string \<times> string list) list" where
  "REQUIRED_FIELDS =
     [(RAW_SENSOR_TOPIC, [''device_id'', ''timestamp'', ''payload'']),
      (RAW_GPS_TOPIC, [''device_id'', ''timestamp'', ''latitude'', ''longitude'']),
      (RAW_IMAGE2D_META_TOPIC, media_required), (RAW_IMAGE3D_META_TOPIC, media_required),
      (RAW_VIDEO2D_META_TOPIC, media_required), (RAW_VIDEO3D_META_TOPIC, media_required)]"

definition MEDIA_ALLOWED_FIELDS :: "(string \<times> string list) list" where
  "MEDIA_ALLOWED_FIELDS =
     [(RAW_IMAGE2D_META_TOPIC,
       [''bucket'', ''camera_id'', ''checksum'', ''content_type'', ''device_id'', ''format'', ''height'',
        ''ingested_at'', ''event_id'', ''occurred_at'', ''schema_version'', ''mqtt_topic'', ''object_key'',
        ''object_uri'', ''qos'', ''retain'', ''size_bytes'', ''source'', ''tags'', ''timestamp'', ''width'']),
      (RAW_IMAGE3D_META_TOPIC,
       [''bucket'', ''capture_type'', ''checksum'', ''content_type'', ''coordinate_frame'', ''device_id'',
        ''format'', ''ingested_at'', ''event_id'', ''occurred_at'', ''schema_version'', ''mqtt_topic'',
        ''object_key'', ''object_uri'', ''point_count'', ''qos'', ''retain'', ''sensor_id'',
        ''size_bytes'', ''source'', ''tags'', ''timestamp'']),
      (RAW_VIDEO2D_META_TOPIC,
       [''bucket'', ''camera_id'', ''checksum'', ''codec'', ''content_type'', ''device_id'',
        ''duration_ms'', ''format'', ''frame_count'', ''frame_rate'', ''height'', ''ingested_at'',
        ''event_id'', ''occurred_at'', ''schema_version'', ''mqtt_topic'', ''object_key'', ''object_uri'',
        ''qos'', ''retain'', ''size_bytes'', ''source'', ''tags'', ''timestamp'', ''width'']),
      (RAW_VIDEO3D_META_TOPIC,
       [''bucket'', ''checksum'', ''codec'', ''content_type'', ''device_id'', ''duration_ms'', ''format'',
        ''frame_count'', ''frame_rate'', ''height'', ''ingested_at'', ''event_id'', ''occurred_at'',
        ''schema_version'', ''mqtt_topic'', ''object_key'', ''object_uri'', ''qos'', ''representation'',
        ''retain'', ''rig_id'', ''size_bytes'', ''source'', ''tags'', ''timestamp'', ''views'', ''width''])]"

definition STRING_FIELDS :: "string list" where
  "STRING_FIELDS =
     [''bucket'', ''camera_id'', ''capture_type'', ''checksum'', ''codec'', ''content_type'',
      ''coordinate_frame'', ''device_id'', ''event_id'', ''format'', ''ingested_at'', ''mqtt_topic'',
      ''object_key'', ''object_uri'', ''occurred_at'', ''representation'', ''rig_id'',
      ''schema_version'', ''sensor_id'', ''source'', ''timestamp'']"

definition INTEGER_FIELDS :: "string list" where
  "INTEGER_FIELDS = [''duration_ms'', ''frame_count'', ''height'', ''point_count'', ''qos'', ''size_bytes'', ''views'',
     ''width'']"

definition NUMBER_FIELDS :: "string list" where
  "NUMBER_FIELDS = [''altitude_m'', ''frame_rate'', ''heading_deg'', ''latitude'', ''longitude'', ''speed_m_s'']"


section \<open>Times\<close>

text \<open>\<open>datetime.isoformat()\<close> in UTC: no fraction when the microseconds are zero.\<close>

definition isoformat :: "int \<Rightarrow> string" where
  "isoformat t = (if t mod 1000000 = 0 then take 19 (iso_prefix t) else iso_prefix t) @ ''+00:00''"

text \<open>\<open>now_iso()\<close>: the clock, in microseconds since the epoch, is the argument.\<close>

definition now_iso :: "int \<Rightarrow> string" where
  "now_iso now = isoformat now"

definition event_time :: "json dict \<Rightarrow> string" where
  "event_time r =
     (let v = (if truthy (dget r ''timestamp'') then dget r ''timestamp'' else dget r ''ingested_at'')
      in if v = JNull then [] else py_str v)"


section \<open>Dead letters\<close>

definition build_dlq_event :: "int \<Rightarrow> string \<Rightarrow> string \<Rightarrow> string list \<Rightarrow> json dict \<Rightarrow> json dict" where
  "build_dlq_event now source intended_topic errors raw_event =
     [(''timestamp'', JStr (now_iso now)), (''source'', JStr source), (''intended_topic'', JStr intended_topic),
      (''source_topic'',
         if truthy (dget raw_event ''source_topic'') then dget raw_event ''source_topic''
         else if truthy (dget raw_event ''mqtt_topic'') then dget raw_event ''mqtt_topic''
         else dget_or (JStr []) raw_event ''object_uri''),
      (''device_id'', JStr (py_str (dget_or (JStr ''unknown'') raw_event ''device_id''))),
      (''errors'', JList (map JStr errors)), (''raw_event'', JObj raw_event)]"


section \<open>Validation\<close>

definition is_missing :: "json dict \<Rightarrow> string \<Rightarrow> bool" where
  "is_missing event field \<longleftrightarrow> (case map_of event field of None \<Rightarrow> True | Some v \<Rightarrow> v \<in> {JNull, JStr []})"

definition present_in :: "string list \<Rightarrow> json dict \<Rightarrow> string list" where
  "present_in names event = sort (filter (\<lambda>f. f \<in> set (keys event)) names)"

definition is_str :: "json \<Rightarrow> bool" where
  "is_str v = (case v of JStr _ \<Rightarrow> True | _ \<Rightarrow> False)"

definition is_int :: "json \<Rightarrow> bool" where
  "is_int v = (case v of JInt _ \<Rightarrow> True | JBool _ \<Rightarrow> True | _ \<Rightarrow> False)"

definition is_dict :: "json \<Rightarrow> bool" where
  "is_dict v = (case v of JObj _ \<Rightarrow> True | _ \<Rightarrow> False)"

definition is_bool :: "json \<Rightarrow> bool" where
  "is_bool v = (case v of JBool _ \<Rightarrow> True | _ \<Rightarrow> False)"

definition type_errors :: "string \<Rightarrow> (json \<Rightarrow> bool) \<Rightarrow> string list \<Rightarrow> json dict \<Rightarrow> string list" where
  "type_errors label ok names event =
     map (\<lambda>f. label @ f) (filter (\<lambda>f. dget event f \<noteq> JNull \<and> \<not> ok (dget event f)) (present_in names event))"

definition validate_types :: "json dict \<Rightarrow> string list" where
  "validate_types event =
     type_errors ''field must be a string: '' is_str STRING_FIELDS event
     @ type_errors ''field must be an integer: '' is_int INTEGER_FIELDS event
     @ type_errors ''field must be numeric: '' (\<lambda>v. number_of v \<noteq> None) NUMBER_FIELDS event
     @ (if map_of event ''payload'' \<noteq> None \<and> \<not> is_dict (dget event ''payload'')
        then [''field must be an object: payload''] else [])
     @ (if map_of event ''tags'' \<noteq> None \<and> \<not> is_dict (dget event ''tags'')
        then [''field must be an object: tags''] else [])
     @ (if map_of event ''retain'' \<noteq> None \<and> \<not> is_bool (dget event ''retain'')
        then [''field must be a boolean: retain''] else [])"

text \<open>\<open>isinstance(event.get(field), int | float) and bad(event[field])\<close>.\<close>

definition number_is :: "(number \<Rightarrow> bool) \<Rightarrow> json dict \<Rightarrow> string \<Rightarrow> bool" where
  "number_is bad event field = (case number_of (dget event field) of None \<Rightarrow> False | Some x \<Rightarrow> bad x)"

definition validate_ranges :: "json dict \<Rightarrow> string list" where
  "validate_ranges event =
     (if number_is (\<lambda>x. \<not> between (-90) 90 x) event ''latitude'' then [''latitude out of range: -90..90''] else [])
     @ (if number_is (\<lambda>x. \<not> between (-180) 180 x) event ''longitude'' then [''longitude out of range: -180..180''] else [])
     @ (if number_is (\<lambda>x. \<not> between 0 360 x) event ''heading_deg'' then [''heading_deg out of range: 0..360''] else [])
     @ map (\<lambda>f. f @ '' must be non-negative'')
         (filter (number_is (\<lambda>x. num_less x (Real 0)) event)
           [''duration_ms'', ''frame_count'', ''point_count'', ''size_bytes'', ''speed_m_s''])
     @ map (\<lambda>f. f @ '' must be positive'')
         (filter (number_is (\<lambda>x. num_le x (Real 0)) event) [''frame_rate'', ''height'', ''views'', ''width''])"

text \<open>\<open>str.isdigit()\<close>: not empty, and digits only; the superscripts 1, 2 and 3 are digits.\<close>

definition isdigit :: "string \<Rightarrow> bool" where
  "isdigit s \<longleftrightarrow> s \<noteq> [] \<and> list_all (\<lambda>c. is_digit c \<or> (of_char c :: nat) \<in> {178, 179, 185}) s"

definition event_id_ok :: "json \<Rightarrow> bool" where
  "event_id_ok v = (case v of JStr s \<Rightarrow> length s = 64 \<and> list_all (\<lambda>c. c \<in> set ''0123456789abcdef'') s | _ \<Rightarrow> False)"

definition schema_version_ok :: "json \<Rightarrow> bool" where
  "schema_version_ok v = (case v of
     JStr s \<Rightarrow> length (split_on CHR ''.'' s) = 3 \<and> list_all isdigit (split_on CHR ''.'' s) | _ \<Rightarrow> False)"

definition validate_envelope :: "json dict \<Rightarrow> string list" where
  "validate_envelope event =
     (if dget event ''event_id'' \<noteq> JNull \<and> \<not> event_id_ok (dget event ''event_id'')
      then [''event_id must be a 64-character hexadecimal SHA-256 digest''] else [])
     @ (if dget event ''schema_version'' \<noteq> JNull \<and> \<not> schema_version_ok (dget event ''schema_version'')
        then [''schema_version must use semantic version format''] else [])"

definition validate_event :: "string \<Rightarrow> json dict \<Rightarrow> string list" where
  "validate_event topic event = (case map_of REQUIRED_FIELDS topic of
     None \<Rightarrow> []
   | Some required \<Rightarrow>
       map (\<lambda>f. ''missing required field: '' @ f) (filter (is_missing event) (sort required))
       @ (if topic \<in> set MEDIA_TOPICS
          then map (\<lambda>f. ''field not allowed by '' @ topic @ '': '' @ f)
            (sort (filter (\<lambda>f. f \<notin> set (case map_of MEDIA_ALLOWED_FIELDS topic of None \<Rightarrow> [] | Some fs \<Rightarrow> fs)) (keys event)))
          else [])
       @ validate_types event @ validate_ranges event @ validate_envelope event)"

end
