(* ===== verification/Bridge.thy ===== *)
theory Bridge
  imports Events Config
begin

text \<open>
  The MQTT to Kafka bridge: \<open>src/components/DEALIoT/mqtt-kafka-bridge/bridge.py\<close>.

  The process environment is a function \<open>getenv\<close>; a message is its topic, payload bytes, QoS and
  retain flag. \<open>on_message\<close> returns the record handed to the Kafka producer, or the exception
  that leaves the callback. The two \<open>for\<close> loops of \<open>derive_device_id\<close> run over sets, whose order
  Python does not fix: the order is an argument.

  The connection to the MQTT broker, the Kafka producer and the health server are not modelled.
\<close>

section \<open>Settings\<close>

text \<open>\<open>p in s\<close> for strings.\<close>

fun occurs :: "string \<Rightarrow> string \<Rightarrow> bool" where
  "occurs p [] = (p = [])"
| "occurs p (c # cs) = (starts_with p (c # cs) \<or> occurs p cs)"

definition TRUTHY_VALUES :: "string list" where
  "TRUTHY_VALUES = [''1'', ''true'', ''yes'', ''on'']"

definition csv_items :: "string \<Rightarrow> string list" where
  "csv_items s = map strip (filter (\<lambda>item. strip item \<noteq> []) (split_on CHR '','' s))"

definition csv_env_or_default :: "(string \<Rightarrow> string option) \<Rightarrow> string \<Rightarrow> string \<Rightarrow> string list" where
  "csv_env_or_default getenv name dflt =
     (let topics = csv_items (getenv_or getenv name dflt) in if topics = [] then csv_items dflt else topics)"

definition bool_env :: "(string \<Rightarrow> string option) \<Rightarrow> string \<Rightarrow> bool \<Rightarrow> bool" where
  "bool_env getenv name dflt = (case getenv name of None \<Rightarrow> dflt | Some v \<Rightarrow> lower (strip v) \<in> set TRUTHY_VALUES)"

text \<open>
  A resolved path is absolute and canonical, so its parts are the texts between its slashes.
  \<open>resolve\<close> is \<open>Path.resolve\<close> (\<open>None\<close> when the file does not exist), \<open>read_text\<close> reads the file.
\<close>

definition path_parts :: "string \<Rightarrow> string list" where
  "path_parts p = filter (\<lambda>s. s \<noteq> []) (split_on CHR ''/'' p)"

definition is_relative_to :: "string \<Rightarrow> string \<Rightarrow> bool" where
  "is_relative_to path parent \<longleftrightarrow> take (length (path_parts parent)) (path_parts path) = path_parts parent"

definition DEFAULT_SECRET_DIRECTORIES :: "string \<Rightarrow> string list" where
  "DEFAULT_SECRET_DIRECTORIES cwd = [''/run/secrets'', ''/var/run/dealiot-secrets'', cwd @ ''/secrets'']"

definition allowed_secret_directories :: "(string \<Rightarrow> string option) \<Rightarrow> (string \<Rightarrow> string) \<Rightarrow> string \<Rightarrow> string list" where
  "allowed_secret_directories getenv resolve_lax cwd =
     (let configured = getenv_or getenv ''DEALIOT_SECRET_DIRECTORIES'' [] in
      if configured = [] then map resolve_lax (DEFAULT_SECRET_DIRECTORIES cwd)
      else map resolve_lax (filter (\<lambda>item. strip item \<noteq> []) (split_on CHR '':'' configured)))"

datatype bexn =
    BridgeValueError string
  | BridgeOSError
  | TimestampError

definition env_or_secret_file ::
  "(string \<Rightarrow> string option) \<Rightarrow> (string \<Rightarrow> string) \<Rightarrow> (string \<Rightarrow> string option) \<Rightarrow> (string \<Rightarrow> string option) \<Rightarrow> string
   \<Rightarrow> string \<Rightarrow> bexn + string option" where
  "env_or_secret_file getenv resolve_lax resolve read_text cwd name =
     (if getenv_or getenv name [] \<noteq> [] then Inr (getenv name)
      else if getenv_or getenv (name @ ''_FILE'') [] = [] then Inr None
      else case resolve (getenv_or getenv (name @ ''_FILE'') []) of
        None \<Rightarrow> Inl BridgeOSError
      | Some path \<Rightarrow>
          if \<not> list_ex (is_relative_to path) (allowed_secret_directories getenv resolve_lax cwd)
          then Inl (BridgeValueError (name @ ''_FILE must point to an allowed secret directory''))
          else (case read_text path of None \<Rightarrow> Inl BridgeOSError | Some t \<Rightarrow> Inr (Some (strip t))))"

definition kafka_security_config ::
  "(string \<Rightarrow> string option) \<Rightarrow> (string \<Rightarrow> bexn + string option) \<Rightarrow> bexn + json dict" where
  "kafka_security_config getenv secret =
     (let protocol = strip (getenv_or getenv ''KAFKA_SECURITY_PROTOCOL'' ''PLAINTEXT'');
          env = (\<lambda>name. case getenv name of None \<Rightarrow> [] | Some v \<Rightarrow> v);
          optional = (\<lambda>key name. if env name = [] then [] else [(key, JStr (env name))])
      in bindE
        (if \<not> starts_with ''SASL_'' protocol then Inr []
         else bindE (secret ''KAFKA_SASL_PASSWORD'') (\<lambda>password.
           if env ''KAFKA_SASL_USERNAME'' = [] \<or> password = None \<or> password = Some [] then
             Inl (BridgeValueError ''KAFKA_SASL_USERNAME and KAFKA_SASL_PASSWORD must both be set when Kafka SASL is enabled'')
           else Inr [(''sasl_mechanism'', JStr (getenv_or getenv ''KAFKA_SASL_MECHANISM'' ''SCRAM-SHA-512'')),
                     (''sasl_plain_username'', JStr (env ''KAFKA_SASL_USERNAME'')),
                     (''sasl_plain_password'', JStr (the password))])) (\<lambda>sasl.
        Inr (filter (\<lambda>(_, v). v \<notin> {JNull, JStr []})
          ([(''security_protocol'', JStr protocol)] @ sasl
           @ (if occurs ''SSL'' protocol then
                optional ''ssl_cafile'' ''KAFKA_SSL_CAFILE'' @ optional ''ssl_certfile'' ''KAFKA_SSL_CERTFILE''
                @ optional ''ssl_keyfile'' ''KAFKA_SSL_KEYFILE''
                @ [(''ssl_check_hostname'', JBool (bool_env getenv ''KAFKA_SSL_CHECK_HOSTNAME'' True))]
              else [])))))"



section \<open>Payloads\<close>

definition b64_char :: "nat \<Rightarrow> char" where
  "b64_char n =
     (if n < 26 then char_of (65 + n) else if n < 52 then char_of (71 + n)
      else if n < 62 then char_of (n - 4) else if n = 62 then CHR ''+'' else CHR ''/'')"

fun b64encode :: "string \<Rightarrow> string" where
  "b64encode [] = []"
| "b64encode [a] = (let n = (of_char a :: nat) in
     [b64_char (n div 4), b64_char (n mod 4 * 16), CHR ''='', CHR ''=''])"
| "b64encode [a, b] = (let n = (of_char a :: nat); m = (of_char b :: nat) in
     [b64_char (n div 4), b64_char (n mod 4 * 16 + m div 16), b64_char (m mod 16 * 4), CHR ''=''])"
| "b64encode (a # b # c # rest) =
     (let n = (of_char a :: nat); m = (of_char b :: nat); l = (of_char c :: nat) in
      [b64_char (n div 4), b64_char (n mod 4 * 16 + m div 16), b64_char (m mod 16 * 4 + l div 64), b64_char (l mod 64)]
      @ b64encode rest)"

definition decode_payload :: "string \<Rightarrow> json" where
  "decode_payload payload = (case Option.bind (utf8_decode payload) json_loads of
     Some v \<Rightarrow> v
   | None \<Rightarrow> JObj [(''payload_b64'', JStr (b64encode payload))])"


section \<open>Times\<close>

definition UNIX_MILLISECONDS_THRESHOLD :: int where
  "UNIX_MILLISECONDS_THRESHOLD = 10000000000"

text \<open>
  \<open>datetime.fromtimestamp(seconds, UTC)\<close>: the fraction of a float is scaled to microseconds in
  binary64 and rounded half to even. A value that is not finite or is outside of the years 1 to
  9999 raises (ValueError, OverflowError or OSError, not distinguished).
\<close>

definition trunc :: "rat \<Rightarrow> int" where
  "trunc x = (if x < 0 then - \<lfloor>- x\<rfloor> else \<lfloor>x\<rfloor>)"

definition from_timestamp :: "number \<Rightarrow> bexn + int" where
  "from_timestamp n = (case n of
     Real x \<Rightarrow>
       (case float64 ((x - of_int (trunc x)) * 1000000) of
          Real f \<Rightarrow>
            (let t = trunc x * 1000000 + round_half_even f
             in if datetime_range t then Inr t else Inl TimestampError)
        | _ \<Rightarrow> Inl TimestampError)
   | _ \<Rightarrow> Inl TimestampError)"

text \<open>\<open>value / 1000 if value > UNIX_MILLISECONDS_THRESHOLD else value\<close>.\<close>

definition scaled_seconds :: "number \<Rightarrow> number" where
  "scaled_seconds n =
     (if num_less (Real (of_int UNIX_MILLISECONDS_THRESHOLD)) n
      then (case n of Real x \<Rightarrow> float64 (x / 1000) | _ \<Rightarrow> n) else n)"

definition normalized_timestamp :: "json \<Rightarrow> string \<Rightarrow> bexn + string" where
  "normalized_timestamp v fallback =
     (if v \<in> {JNull, JStr []} then Inr fallback
      else case number_of v of
        Some n \<Rightarrow> bindE (from_timestamp (scaled_seconds n)) (\<lambda>t. Inr (isoformat t))
      | None \<Rightarrow> Inr (py_str v))"

definition TIMESTAMP_FIELDS :: "string list" where
  "TIMESTAMP_FIELDS = [''timestamp'', ''utcTimestamp'', ''utc_timestamp'', ''time'']"

definition pick_event_timestamp :: "json \<Rightarrow> string \<Rightarrow> bexn + string" where
  "pick_event_timestamp dec fallback = (case dec of
     JObj d \<Rightarrow>
       (case filter (\<lambda>f. map_of d f \<noteq> None) TIMESTAMP_FIELDS of
          [] \<Rightarrow> Inr fallback
        | f # _ \<Rightarrow> normalized_timestamp (dget d f) fallback)
   | _ \<Rightarrow> Inr fallback)"


section \<open>Topics and devices\<close>

record bridge_config =
  b_default_topic :: string
  b_prefixes :: "string list"
  b_tag_order :: "string list"
  b_marker_order :: "string list"

record mqtt_message =
  mq_topic :: string
  mq_payload :: string
  mq_qos :: int
  mq_retain :: bool

definition WILDFI_TOPIC_MARKERS :: "string list" where
  "WILDFI_TOPIC_MARKERS = [''wildfi'', ''wild-fi'']"

definition WILDFI_TAG_MARKERS :: "string list" where
  "WILDFI_TAG_MARKERS = [''tags'', ''tag'', ''devices'']"

definition WILDFI_SENSOR_MARKERS :: "string list" where
  "WILDFI_SENSOR_MARKERS =
     [''acc'', ''accelerometer'', ''bme'', ''decoded'', ''environment'', ''gateway'', ''imu'', ''mag'',
      ''metadata'', ''move'', ''movement'', ''prox'', ''proximity'', ''sensor'', ''telemetry'']"

definition TOPIC_PATTERNS :: "(string \<times> string list) list" where
  "TOPIC_PATTERNS =
     [(RAW_GPS_TOPIC, [''gps'', ''/gnss/'', ''rawgps'']),
      (RAW_VIDEO3D_META_TOPIC, [''video3d'', ''/stereo-video/'', ''/volumetric-video/'']),
      (RAW_VIDEO2D_META_TOPIC, [''video2d'', ''/video/'', ''/camera-stream/'']),
      (RAW_IMAGE2D_META_TOPIC, [''image2d'', ''/camera/'', ''/image/'']),
      (RAW_IMAGE3D_META_TOPIC, [''image3d'', ''/lidar/'', ''/pointcloud/''])]"

definition topic_parts :: "string \<Rightarrow> string list" where
  "topic_parts topic = filter (\<lambda>p. p \<noteq> []) (split_on CHR ''/'' topic)"

definition is_wildfi_topic :: "bridge_config \<Rightarrow> string \<Rightarrow> bool" where
  "is_wildfi_topic cfg topic \<longleftrightarrow>
     list_ex (\<lambda>p. lower p \<in> set WILDFI_TOPIC_MARKERS \<union> lower ` set (b_prefixes cfg)) (topic_parts topic)"

definition pick_kafka_topic :: "bridge_config \<Rightarrow> string \<Rightarrow> string" where
  "pick_kafka_topic cfg topic =
     (let lowered = lower topic in
      case filter (\<lambda>(_, patterns). list_ex (\<lambda>p. occurs p lowered) patterns) TOPIC_PATTERNS of
        (kafka_topic, _) # _ \<Rightarrow> kafka_topic
      | [] \<Rightarrow>
          if occurs ''sensor'' lowered
            \<or> is_wildfi_topic cfg topic \<and> list_ex (\<lambda>mk. occurs mk lowered) WILDFI_SENSOR_MARKERS
          then RAW_SENSOR_TOPIC else b_default_topic cfg)"

text \<open>\<open>xs.index(x)\<close> of an element that occurs.\<close>

fun index_of :: "'a \<Rightarrow> 'a list \<Rightarrow> nat" where
  "index_of x [] = 0"
| "index_of x (y # ys) = (if y = x then 0 else Suc (index_of x ys))"

text \<open>The two loops over the markers: the part after a tag marker, then the part after a topic marker.\<close>

fun after_tag :: "string list \<Rightarrow> string list \<Rightarrow> string list \<Rightarrow> string option" where
  "after_tag [] parts lowered = None"
| "after_tag (marker # rest) parts lowered =
     (if marker \<in> set lowered \<and> index_of marker lowered + 1 < length parts
      then Some (parts ! (index_of marker lowered + 1)) else after_tag rest parts lowered)"

fun after_marker :: "string list \<Rightarrow> string list \<Rightarrow> string list \<Rightarrow> string option" where
  "after_marker [] parts lowered = None"
| "after_marker (marker # rest) parts lowered =
     (let next_idx = index_of marker lowered + 1 in
      if marker \<in> set lowered \<and> next_idx < length parts \<and> lowered ! next_idx \<notin> set WILDFI_SENSOR_MARKERS
      then Some (parts ! next_idx)
      else if marker \<in> set lowered \<and> next_idx + 1 < length parts then Some (parts ! (next_idx + 1))
      else after_marker rest parts lowered)"

definition derive_device_id :: "bridge_config \<Rightarrow> string \<Rightarrow> string" where
  "derive_device_id cfg topic =
     (let parts = topic_parts topic; lowered = map lower parts in
      case after_tag (b_tag_order cfg) parts lowered of
        Some p \<Rightarrow> p
      | None \<Rightarrow>
          (case after_marker (b_marker_order cfg) parts lowered of
             Some p \<Rightarrow> p
           | None \<Rightarrow> if parts \<noteq> [] then last parts else ''unknown''))"

definition pick_key :: "bridge_config \<Rightarrow> string \<Rightarrow> string" where
  "pick_key cfg topic = utf8_encode (derive_device_id cfg topic)"

definition event_source_for_topic :: "bridge_config \<Rightarrow> string \<Rightarrow> string" where
  "event_source_for_topic cfg topic = (if is_wildfi_topic cfg topic then ''wildfi-mqtt'' else ''mqtt-bridge'')"


section \<open>Events\<close>

definition dict_or :: "json dict \<Rightarrow> json \<Rightarrow> json dict" where
  "dict_or dflt v = (case v of JObj d \<Rightarrow> d | _ \<Rightarrow> dflt)"

definition sensor_event :: "string \<Rightarrow> string \<Rightarrow> string \<Rightarrow> string \<Rightarrow> mqtt_message \<Rightarrow> json \<Rightarrow> json dict" where
  "sensor_event device_id ts ingested_at source msg dec =
     [(''device_id'', JStr device_id), (''timestamp'', JStr ts), (''ingested_at'', JStr ingested_at),
      (''payload'', JObj (dict_or [(''value'', dec)] dec)), (''mqtt_topic'', JStr (mq_topic msg)),
      (''qos'', JInt (mq_qos msg)), (''retain'', JBool (mq_retain msg)), (''source'', JStr source)]"

definition gps_event :: "string \<Rightarrow> string \<Rightarrow> string \<Rightarrow> string \<Rightarrow> mqtt_message \<Rightarrow> json dict \<Rightarrow> json dict" where
  "gps_event device_id ts ingested_at source msg payload =
     [(''device_id'', JStr device_id), (''timestamp'', JStr ts), (''ingested_at'', JStr ingested_at),
      (''latitude'', dget_or (dget_or (dget_or (JFloat ''0.0'') payload ''lat'') payload ''latitude_deg'') payload ''latitude''),
      (''longitude'', dget_or (dget_or (dget_or (JFloat ''0.0'') payload ''lon'') payload ''longitude_deg'') payload ''longitude''),
      (''altitude_m'', dget_or (dget payload ''altitude'') payload ''altitude_m''),
      (''speed_m_s'', dget_or (dget payload ''speed'') payload ''speed_m_s''),
      (''heading_deg'', dget_or (dget payload ''heading'') payload ''heading_deg''),
      (''mqtt_topic'', JStr (mq_topic msg)), (''qos'', JInt (mq_qos msg)), (''retain'', JBool (mq_retain msg)),
      (''payload'', JObj payload), (''source'', JStr source)]"

definition media_event :: "string \<Rightarrow> string \<Rightarrow> string \<Rightarrow> string \<Rightarrow> mqtt_message \<Rightarrow> json dict \<Rightarrow> json dict" where
  "media_event device_id ts ingested_at source msg payload =
     fold (\<lambda>(k, v) d. dput k v d)
       [(''device_id'', dget_or (JStr device_id) payload ''device_id''),
        (''timestamp'', dget_or (JStr ts) payload ''timestamp''), (''ingested_at'', JStr ingested_at),
        (''mqtt_topic'', JStr (mq_topic msg)), (''qos'', JInt (mq_qos msg)), (''retain'', JBool (mq_retain msg)),
        (''source'', JStr source)] payload"

definition build_event :: "bridge_config \<Rightarrow> int \<Rightarrow> mqtt_message \<Rightarrow> bexn + string \<times> string \<times> json dict" where
  "build_event cfg now msg =
     (let kafka_topic = pick_kafka_topic cfg (mq_topic msg);
          device_id = derive_device_id cfg (mq_topic msg);
          dec = decode_payload (mq_payload msg);
          ingested_at = now_iso now;
          source = event_source_for_topic cfg (mq_topic msg)
      in bindE (pick_event_timestamp dec ingested_at) (\<lambda>ts.
         bindE
           (if kafka_topic = RAW_SENSOR_TOPIC then Inr (sensor_event device_id ts ingested_at source msg dec)
            else if kafka_topic = RAW_GPS_TOPIC then
              bindE (pick_event_timestamp (JObj (dict_or [] dec)) ts) (\<lambda>ts'.
              Inr (gps_event device_id ts' ingested_at source msg (dict_or [] dec)))
            else Inr (media_event device_id ts ingested_at source msg (dict_or [] dec))) (\<lambda>event.
         Inr (kafka_topic, pick_key cfg (mq_topic msg), event))))"

definition route_event :: "int \<Rightarrow> string \<Rightarrow> json dict \<Rightarrow> string \<times> json dict" where
  "route_event now kafka_topic event =
     (let errors = validate_event kafka_topic event in
      if errors = [] then (kafka_topic, event)
      else (DLQ_TOPIC, build_dlq_event now ''mqtt-bridge'' kafka_topic errors event))"

text \<open>The record sent: topic, key and value.\<close>

definition on_message :: "bridge_config \<Rightarrow> int \<Rightarrow> int \<Rightarrow> mqtt_message \<Rightarrow> bexn + string \<times> string \<times> json dict" where
  "on_message cfg now now' msg =
     bindE (build_event cfg now msg) (\<lambda>(kafka_topic, key, event).
     case route_event now' kafka_topic event of (send_topic, send_event) \<Rightarrow> Inr (send_topic, key, send_event))"

end
