(* ===== verification/Bridge_Facts.thy ===== *)
theory Bridge_Facts
  imports Bridge
begin

text \<open>
  What the bridge sends: valid events or dead letters that keep the whole event, whatever the
  bytes of the message.
\<close>

section \<open>Valid events\<close>

lemma type_errors_Nil:
  "type_errors label ok names e = [] \<longleftrightarrow>
   (\<forall>f \<in> set names. f \<in> set (keys e) \<longrightarrow> dget e f = JNull \<or> ok (dget e f))"
  by (auto simp: type_errors_def present_in_def filter_empty_conv)

lemma sort_Nil [simp]: "sort xs = [] \<longleftrightarrow> xs = []"
  by (metis length_0_conv length_sort)

lemma number_is_Nil: "filter (number_is bad e) fs = [] \<longleftrightarrow> (\<forall>f \<in> set fs. \<not> number_is bad e f)"
  by (simp add: filter_empty_conv)

lemma if_list_Nil: "(if b then [x] else []) = [] \<longleftrightarrow> \<not> b"
  by simp

lemmas validation_defs = validate_types_def validate_ranges_def validate_envelope_def

lemma validate_event_Nil:
  "validate_event topic e = [] \<longleftrightarrow> (case map_of REQUIRED_FIELDS topic of
     None \<Rightarrow> True
   | Some required \<Rightarrow> (\<forall>f \<in> set required. \<not> is_missing e f)
       \<and> (topic \<in> set MEDIA_TOPICS \<longrightarrow> (\<forall>f \<in> set (keys e). f \<in> set (the (map_of MEDIA_ALLOWED_FIELDS topic))))
       \<and> validate_types e = [] \<and> validate_ranges e = [] \<and> validate_envelope e = [])"
proof -
  have "\<exists>fs. map_of MEDIA_ALLOWED_FIELDS topic = Some fs" if "topic \<in> set MEDIA_TOPICS"
    using that by (auto simp: MEDIA_TOPICS_def MEDIA_ALLOWED_FIELDS_def)
  then show ?thesis
    by (auto simp: validate_event_def filter_empty_conv split: option.split)
qed

text \<open>The events of the sensor topic are valid by construction.\<close>

lemma sensor_event_valid:
  assumes "device_id \<noteq> []" "ts \<noteq> []"
  shows "validate_event RAW_SENSOR_TOPIC (sensor_event device_id ts ia src msg dec) = []"
proof -
  let ?e = "sensor_event device_id ts ia src msg dec"
  have req: "map_of REQUIRED_FIELDS RAW_SENSOR_TOPIC = Some [''device_id'', ''timestamp'', ''payload'']"
    by (simp add: REQUIRED_FIELDS_def)
  have media: "RAW_SENSOR_TOPIC \<notin> set MEDIA_TOPICS" by code_simp
  have keys: "set (keys ?e) = {''device_id'', ''timestamp'', ''ingested_at'', ''payload'', ''mqtt_topic'', ''qos'', ''retain'', ''source''}"
    by (simp add: sensor_event_def keys_def)
  have str: "type_errors l is_str STRING_FIELDS ?e = []" for l
    unfolding type_errors_Nil keys by (auto simp: sensor_event_def is_str_def dget_or_def STRING_FIELDS_def)
  have int: "type_errors l is_int INTEGER_FIELDS ?e = []" for l
    unfolding type_errors_Nil keys by (auto simp: sensor_event_def is_int_def dget_or_def INTEGER_FIELDS_def)
  have num: "type_errors l ok NUMBER_FIELDS ?e = []" for l ok
    unfolding type_errors_Nil keys by (auto simp: NUMBER_FIELDS_def)
  have "validate_types ?e = []"
    unfolding validate_types_def str int num
    by (simp add: sensor_event_def dget_or_def is_dict_def is_bool_def)
  moreover have "validate_ranges ?e = []"
    by (simp add: validate_ranges_def number_is_def sensor_event_def dget_or_def number_of_def)
  moreover have "validate_envelope ?e = []"
    by (simp add: validate_envelope_def sensor_event_def dget_or_def)
  moreover have "\<forall>f \<in> set [''device_id'', ''timestamp'', ''payload'']. \<not> is_missing ?e f"
    using assms by (simp add: is_missing_def sensor_event_def)
  ultimately show ?thesis unfolding validate_event_Nil req using media by simp
qed

lemma topic_parts_not_Nil: "p \<in> set (topic_parts topic) \<Longrightarrow> p \<noteq> []"
  by (simp add: topic_parts_def)

lemma after_tag_mem: "after_tag order parts lowered = Some p \<Longrightarrow> p \<in> set parts"
  by (induction order parts lowered rule: after_tag.induct) (auto split: if_splits)

lemma after_marker_mem: "after_marker order parts lowered = Some p \<Longrightarrow> p \<in> set parts"
  by (induction order parts lowered rule: after_marker.induct) (auto simp: Let_def split: if_splits)

lemma derive_device_id_not_Nil: "derive_device_id cfg topic \<noteq> []"
  using topic_parts_not_Nil [of _ topic]
  by (auto simp: derive_device_id_def Let_def dest: after_tag_mem after_marker_mem split: option.split)

lemma isoformat_not_Nil: "isoformat t \<noteq> []"
  by (simp add: isoformat_def)

lemma normalized_timestamp_not_Nil: "normalized_timestamp v fb = Inr t \<Longrightarrow> fb \<noteq> [] \<Longrightarrow> t \<noteq> []"
  by (cases v) (auto simp: normalized_timestamp_def number_of_def bindE_eq_Inr isoformat_not_Nil py_str_def split: if_splits)

lemma pick_event_timestamp_not_Nil: "pick_event_timestamp v fb = Inr t \<Longrightarrow> fb \<noteq> [] \<Longrightarrow> t \<noteq> []"
  by (auto simp: pick_event_timestamp_def dest: normalized_timestamp_not_Nil split: json.split_asm list.split_asm)


section \<open>Undecodable payloads\<close>

text \<open>The base64 text of a payload that is not JSON gives the bytes back.\<close>

definition b64_val :: "char \<Rightarrow> nat" where
  "b64_val c = (let n = (of_char c :: nat) in
     if is_upper c then n - 65 else if is_lower c then n - 71 else if is_digit c then n + 4
     else if c = CHR ''+'' then 62 else 63)"

fun b64decode :: "string \<Rightarrow> string" where
  "b64decode (a # b # c # d # rest) =
     (let w = b64_val a; x = b64_val b; y = b64_val c; z = b64_val d in
      if c = CHR ''='' then [char_of (w * 4 + x div 16)]
      else if d = CHR ''='' then [char_of (w * 4 + x div 16), char_of (x mod 16 * 16 + y div 4)]
      else [char_of (w * 4 + x div 16), char_of (x mod 16 * 16 + y div 4), char_of (y mod 4 * 64 + z)] @ b64decode rest)"
| "b64decode s = []"

lemma class_of_char:
  assumes "n < 256"
  shows "is_upper (char_of n) \<longleftrightarrow> 65 \<le> n \<and> n \<le> 90" "is_lower (char_of n) \<longleftrightarrow> 97 \<le> n \<and> n \<le> 122"
    "is_digit (char_of n) \<longleftrightarrow> 48 \<le> n \<and> n \<le> 57" "(of_char (char_of n) :: nat) = n"
  using assms by (simp_all add: is_upper_def is_lower_def is_digit_def in_range_def less_eq_char_def of_char_of)

lemma b64_val_char: "n < 64 \<Longrightarrow> b64_val (b64_char n) = n"
  by (simp add: b64_val_def b64_char_def Let_def class_of_char)
    (auto simp: is_upper_def is_lower_def is_digit_def in_range_def less_eq_char_def)

lemma b64_char_padding: "n < 64 \<Longrightarrow> b64_char n \<noteq> CHR ''=''"
proof
  assume n: "n < 64" and "b64_char n = CHR ''=''"
  then have "(of_char (b64_char n) :: nat) = 61" by simp
  then show False using n by (simp add: b64_char_def of_char_of split: if_splits)
qed

lemma byte_bounds: "(of_char c :: nat) div 4 < 64" "(of_char c :: nat) mod 64 < 64" "(of_char c :: nat) < 256"
proof -
  show b: "(of_char c :: nat) < 256" by (rule of_char_less_256)
  show "(of_char c :: nat) div 4 < 64" "(of_char c :: nat) mod 64 < 64"
    using b by (simp_all add: less_mult_imp_div_less)
qed

lemma b64_digits:
  fixes n m l :: nat
  assumes "n < 256" "m < 256" "l < 256"
  shows "n mod 4 * 16 < 64" "n mod 4 * 16 + m div 16 < 64" "m mod 16 * 4 < 64" "m mod 16 * 4 + l div 64 < 64"
    "n div 4 * 4 + n mod 4 * 16 div 16 = n" "n div 4 * 4 + (n mod 4 * 16 + m div 16) div 16 = n"
    "(n mod 4 * 16 + m div 16) mod 16 * 16 + (m mod 16 * 4) div 4 = m"
    "(n mod 4 * 16 + m div 16) mod 16 * 16 + (m mod 16 * 4 + l div 64) div 4 = m"
    "(m mod 16 * 4 + l div 64) mod 4 * 64 + l mod 64 = l"
proof -
  have d: "m div 16 < 16" "l div 64 < 4" "n mod 4 < 4" "m mod 16 < 16" using assms by (simp_all add: less_mult_imp_div_less)
  have q: "(n mod 4 * 16 + m div 16) div 16 = n mod 4" "(n mod 4 * 16 + m div 16) mod 16 = m div 16"
    "(m mod 16 * 4 + l div 64) div 4 = m mod 16" "(m mod 16 * 4 + l div 64) mod 4 = l div 64"
    using d by simp_all
  show "n mod 4 * 16 < 64" "n mod 4 * 16 + m div 16 < 64" "m mod 16 * 4 < 64" "m mod 16 * 4 + l div 64 < 64"
    using d by linarith+
  show "n div 4 * 4 + n mod 4 * 16 div 16 = n" "n div 4 * 4 + (n mod 4 * 16 + m div 16) div 16 = n"
    "(n mod 4 * 16 + m div 16) mod 16 * 16 + (m mod 16 * 4) div 4 = m"
    "(n mod 4 * 16 + m div 16) mod 16 * 16 + (m mod 16 * 4 + l div 64) div 4 = m"
    "(m mod 16 * 4 + l div 64) mod 4 * 64 + l mod 64 = l"
    unfolding q by simp_all
qed

theorem b64_roundtrip: "b64decode (b64encode s) = s"
proof (induction s rule: b64encode.induct)
  case (2 a)
  let ?n = "of_char a :: nat"
  show ?case using b64_digits [of ?n 0 0] byte_bounds [of a]
    by (simp add: Let_def b64_val_char b64_char_padding)
next
  case (3 a b)
  let ?n = "of_char a :: nat" and ?m = "of_char b :: nat"
  show ?case
    using b64_digits [of ?n ?m 0] byte_bounds [of a] byte_bounds [of b]
    by (simp add: Let_def b64_val_char b64_char_padding)
next
  case (4 a b c rest)
  let ?n = "of_char a :: nat" and ?m = "of_char b :: nat" and ?l = "of_char c :: nat"
  show ?case
    using 4 b64_digits [of ?n ?m ?l] byte_bounds [of a] byte_bounds [of b] byte_bounds [of c]
    by (simp add: Let_def b64_val_char b64_char_padding)
qed simp



section \<open>Routing\<close>

lemma on_messageE:
  assumes "on_message cfg now now' msg = Inr (t, k, e)"
  obtains (valid) "build_event cfg now msg = Inr (t, k, e)" "validate_event t e = []"
    | (dead) t0 e0 where "build_event cfg now msg = Inr (t0, k, e0)" "validate_event t0 e0 \<noteq> []" "t = DLQ_TOPIC"
        "e = build_dlq_event now' ''mqtt-bridge'' t0 (validate_event t0 e0) e0"
proof -
  from assms obtain t0 e0 where b: "build_event cfg now msg = Inr (t0, k, e0)" and r: "route_event now' t0 e0 = (t, e)"
  proof -
    from assms obtain x where x: "build_event cfg now msg = Inr x" and y: "(case x of (kafka_topic, key, event) \<Rightarrow>
        case route_event now' kafka_topic event of (send_topic, send_event) \<Rightarrow> Inr (send_topic, key, send_event)) = (Inr (t, k, e) :: bexn + _)"
      unfolding on_message_def bindE_eq_Inr by blast
    obtain t0 k0 e0 where "x = (t0, k0, e0)" by (cases x)
    with x y that show ?thesis by (cases "route_event now' t0 e0") simp
  qed
  show ?thesis
  proof (cases "validate_event t0 e0 = []")
    case True
    then show ?thesis using valid b r by (simp add: route_event_def)
  next
    case False
    then show ?thesis using dead [OF b False] r by (simp add: route_event_def)
  qed
qed

lemma build_event_topic:
  "build_event cfg now msg = Inr (t, k, e) \<Longrightarrow>
   t = pick_kafka_topic cfg (mq_topic msg) \<and> k = pick_key cfg (mq_topic msg)"
  by (auto simp: build_event_def bindE_eq_Inr Let_def)

lemma build_event_sensor:
  assumes "pick_kafka_topic cfg (mq_topic msg) = RAW_SENSOR_TOPIC" "build_event cfg now msg = Inr (t, k, e)"
  shows "validate_event t e = [] \<and> dget e ''payload'' = JObj (dict_or [(''value'', decode_payload (mq_payload msg))] (decode_payload (mq_payload msg)))"
proof -
  from assms obtain ts where ts: "pick_event_timestamp (decode_payload (mq_payload msg)) (now_iso now) = Inr ts"
    and e: "e = sensor_event (derive_device_id cfg (mq_topic msg)) ts (now_iso now)
      (event_source_for_topic cfg (mq_topic msg)) msg (decode_payload (mq_payload msg))" and t: "t = RAW_SENSOR_TOPIC"
    by (auto simp: build_event_def bindE_eq_Inr Let_def)
  have "ts \<noteq> []" using pick_event_timestamp_not_Nil [OF ts] by (simp add: now_iso_def isoformat_not_Nil)
  then show ?thesis
    using sensor_event_valid [OF derive_device_id_not_Nil] unfolding e t by (simp add: sensor_event_def dget_or_def)
qed

text \<open>The fields of an accepted position.\<close>

definition position_ok :: "json dict \<Rightarrow> bool" where
  "position_ok e \<longleftrightarrow> (\<exists>lat lon. number_of (dget e ''latitude'') = Some (Real lat) \<and> -90 \<le> lat \<and> lat \<le> 90
     \<and> number_of (dget e ''longitude'') = Some (Real lon) \<and> -180 \<le> lon \<and> lon \<le> 180)
     \<and> (\<exists>d. dget e ''device_id'' = JStr d \<and> d \<noteq> []) \<and> (\<exists>t. dget e ''timestamp'' = JStr t \<and> t \<noteq> [])"

lemma not_missing: "\<not> is_missing e f \<Longrightarrow> f \<in> set (keys e) \<and> dget e f \<noteq> JNull \<and> dget e f \<noteq> JStr []"
  by (force simp: is_missing_def dget_or_def keys_def dest: map_of_SomeD split: option.split_asm)

lemma required_string:
  assumes "\<not> is_missing e f" "type_errors l is_str names e = []" "f \<in> set names"
  shows "\<exists>s. dget e f = JStr s \<and> s \<noteq> []"
  using not_missing [OF assms(1)] assms(2,3) unfolding type_errors_Nil by (cases "dget e f") (auto simp: is_str_def)

lemma required_number:
  assumes "\<not> is_missing e f" "type_errors l (\<lambda>v. number_of v \<noteq> None) names e = []" "f \<in> set names"
    "\<not> number_is (\<lambda>x. \<not> between lo hi x) e f"
  shows "\<exists>x. number_of (dget e f) = Some (Real x) \<and> of_int lo \<le> x \<and> x \<le> of_int hi"
  using not_missing [OF assms(1)] assms(2-4) unfolding type_errors_Nil by (auto simp: number_is_def between_iff split: option.split_asm)

theorem gps_valid_position:
  assumes "validate_event RAW_GPS_TOPIC e = []"
  shows "position_ok e"
proof -
  have "map_of REQUIRED_FIELDS RAW_GPS_TOPIC = Some [''device_id'', ''timestamp'', ''latitude'', ''longitude'']"
    by (simp add: REQUIRED_FIELDS_def RAW_SENSOR_TOPIC_def RAW_GPS_TOPIC_def)
  with assms have req: "\<not> is_missing e ''device_id''" "\<not> is_missing e ''timestamp''" "\<not> is_missing e ''latitude''"
      "\<not> is_missing e ''longitude''" and types: "validate_types e = []" and ranges: "validate_ranges e = []"
    unfolding validate_event_Nil by simp_all
  have str: "type_errors ''field must be a string: '' is_str STRING_FIELDS e = []"
    and num: "type_errors ''field must be numeric: '' (\<lambda>v. number_of v \<noteq> None) NUMBER_FIELDS e = []"
    using types unfolding validate_types_def append_is_Nil_conv by blast+
  have rng: "\<not> number_is (\<lambda>x. \<not> between (-90) 90 x) e ''latitude''" "\<not> number_is (\<lambda>x. \<not> between (-180) 180 x) e ''longitude''"
    using ranges unfolding validate_ranges_def append_is_Nil_conv if_list_Nil by blast+
  have mem: "''device_id'' \<in> set STRING_FIELDS" "''timestamp'' \<in> set STRING_FIELDS" "''latitude'' \<in> set NUMBER_FIELDS"
    "''longitude'' \<in> set NUMBER_FIELDS" by code_simp+
  show ?thesis
    using required_string [OF req(1) str mem(1)] required_string [OF req(2) str mem(2)]
      required_number [OF req(3) num mem(3) rng(1)] required_number [OF req(4) num mem(4) rng(2)]
    unfolding position_ok_def by auto
qed

text \<open>Only a numeric timestamp that no date represents raises.\<close>

lemma timestamp_raises:
  assumes "pick_event_timestamp v fb = Inl x"
  shows "x = TimestampError \<and> (\<exists>d f n. v = JObj d \<and> f \<in> set TIMESTAMP_FIELDS \<and> number_of (dget d f) = Some n
    \<and> isl (from_timestamp (scaled_seconds n)))"
proof -
  from assms obtain d f fs where v: "v = JObj d" and fs: "filter (\<lambda>f. map_of d f \<noteq> None) TIMESTAMP_FIELDS = f # fs"
    and n: "normalized_timestamp (dget d f) fb = Inl x"
    by (auto simp: pick_event_timestamp_def split: json.split_asm list.split_asm)
  have f: "f \<in> set TIMESTAMP_FIELDS" using fs by (metis filter_is_subset list.set_intros(1) subsetD)
  from n obtain m where m: "number_of (dget d f) = Some m" "from_timestamp (scaled_seconds m) = Inl x"
    by (auto simp: normalized_timestamp_def bindE_eq_Inl split: if_splits option.split_asm)
  have "x = TimestampError"
    using m(2) by (auto simp: from_timestamp_def Let_def split: number.split_asm if_splits)
  then show ?thesis using v f m by auto
qed

lemma on_message_raises:
  assumes "on_message cfg now now' msg = Inl x"
  shows "x = TimestampError \<and> (\<exists>d f n. decode_payload (mq_payload msg) = JObj d \<and> f \<in> set TIMESTAMP_FIELDS
    \<and> number_of (dget d f) = Some n \<and> isl (from_timestamp (scaled_seconds n)))"
proof -
  have "build_event cfg now msg = Inl x"
    using assms by (auto simp: on_message_def bindE_eq_Inl split: prod.split_asm)
  then consider "pick_event_timestamp (decode_payload (mq_payload msg)) (now_iso now) = Inl x"
    | ts where "pick_event_timestamp (JObj (dict_or [] (decode_payload (mq_payload msg)))) ts = Inl x"
    by (auto simp: build_event_def Let_def bindE_eq_Inl split: if_splits)
  then show ?thesis
  proof cases
    case 1
    then show ?thesis by (rule timestamp_raises)
  next
    case 2
    from timestamp_raises [OF this] obtain d f n where d: "d = dict_or [] (decode_payload (mq_payload msg))"
      "x = TimestampError" "f \<in> set TIMESTAMP_FIELDS" "number_of (dget d f) = Some n"
      "isl (from_timestamp (scaled_seconds n))" by auto
    moreover have "decode_payload (mq_payload msg) = JObj d"
      using d(1,4) by (cases "decode_payload (mq_payload msg)") (auto simp: dict_or_def dget_or_def number_of_def)
    ultimately show ?thesis by blast
  qed
qed


section \<open>Positions that are not in the message\<close>

lemma gps_event_of_undecodable:
  assumes "device_id \<noteq> []" "ts \<noteq> []"
  shows "validate_event RAW_GPS_TOPIC (gps_event device_id ts ia src msg [(''payload_b64'', JStr s)]) = []"
proof -
  let ?e = "gps_event device_id ts ia src msg [(''payload_b64'', JStr s)]"
  have req: "map_of REQUIRED_FIELDS RAW_GPS_TOPIC = Some [''device_id'', ''timestamp'', ''latitude'', ''longitude'']"
    by (simp add: REQUIRED_FIELDS_def RAW_SENSOR_TOPIC_def RAW_GPS_TOPIC_def)
  have media: "RAW_GPS_TOPIC \<notin> set MEDIA_TOPICS" by code_simp
  have zero: "number_of (JFloat ''0.0'') = Some (Real 0)" by code_simp
  have keys: "set (keys ?e) = {''device_id'', ''timestamp'', ''ingested_at'', ''latitude'', ''longitude'', ''altitude_m'',
      ''speed_m_s'', ''heading_deg'', ''mqtt_topic'', ''qos'', ''retain'', ''payload'', ''source''}"
    by (auto simp: gps_event_def keys_def)
  have str: "type_errors l is_str STRING_FIELDS ?e = []" for l
    unfolding type_errors_Nil keys by (auto simp: gps_event_def is_str_def dget_or_def STRING_FIELDS_def)
  have int: "type_errors l is_int INTEGER_FIELDS ?e = []" for l
    unfolding type_errors_Nil keys by (auto simp: gps_event_def is_int_def dget_or_def INTEGER_FIELDS_def)
  have num: "type_errors l (\<lambda>v. number_of v \<noteq> None) NUMBER_FIELDS ?e = []" for l
    unfolding type_errors_Nil keys using zero by (auto simp: gps_event_def dget_or_def NUMBER_FIELDS_def)
  have "validate_types ?e = []"
    unfolding validate_types_def str int num by (simp add: gps_event_def dget_or_def is_dict_def is_bool_def)
  moreover have "validate_ranges ?e = []"
    by (simp add: validate_ranges_def number_is_def gps_event_def dget_or_def zero between_iff) (simp add: number_of_def)
  moreover have "validate_envelope ?e = []" by (simp add: validate_envelope_def gps_event_def dget_or_def)
  moreover have "\<forall>f \<in> set [''device_id'', ''timestamp'', ''latitude'', ''longitude'']. \<not> is_missing ?e f"
    using assms by (simp add: is_missing_def gps_event_def dget_or_def)
  ultimately show ?thesis unfolding validate_event_Nil req using media by simp
qed

theorem undecodable_position:
  assumes "pick_kafka_topic cfg (mq_topic msg) = RAW_GPS_TOPIC" "Option.bind (utf8_decode (mq_payload msg)) json_loads = None"
  shows "\<exists>e. on_message cfg now now' msg = Inr (RAW_GPS_TOPIC, pick_key cfg (mq_topic msg), e)
    \<and> dget e ''latitude'' = JFloat ''0.0'' \<and> dget e ''longitude'' = JFloat ''0.0''"
proof -
  let ?p = "[(''payload_b64'', JStr (b64encode (mq_payload msg)))]"
  let ?e = "gps_event (derive_device_id cfg (mq_topic msg)) (now_iso now) (now_iso now) (event_source_for_topic cfg (mq_topic msg)) msg ?p"
  have d: "decode_payload (mq_payload msg) = JObj ?p" using assms(2) by (simp add: decode_payload_def)
  have ts: "pick_event_timestamp (JObj ?p) fb = Inr fb" for fb by (simp add: pick_event_timestamp_def TIMESTAMP_FIELDS_def)
  have "RAW_GPS_TOPIC \<noteq> RAW_SENSOR_TOPIC" by code_simp
  then have "build_event cfg now msg = Inr (RAW_GPS_TOPIC, pick_key cfg (mq_topic msg), ?e)"
    by (simp add: build_event_def assms(1) d ts dict_or_def Let_def)
  moreover have "validate_event RAW_GPS_TOPIC ?e = []"
    by (rule gps_event_of_undecodable) (simp_all add: derive_device_id_not_Nil now_iso_def isoformat_not_Nil)
  ultimately have "on_message cfg now now' msg = Inr (RAW_GPS_TOPIC, pick_key cfg (mq_topic msg), ?e)"
    by (simp add: on_message_def route_event_def)
  moreover have "dget ?e ''latitude'' = JFloat ''0.0''" "dget ?e ''longitude'' = JFloat ''0.0''"
    by (simp_all add: gps_event_def dget_or_def)
  ultimately show ?thesis by blast
qed


section \<open>The order of the markers\<close>

lemma after_tag_order:
  assumes "\<forall>a \<in> set order. \<forall>b \<in> set order. a \<in> set lowered \<longrightarrow> b \<in> set lowered \<longrightarrow> a = b" "set order' = set order"
  shows "after_tag order' parts lowered = after_tag order parts lowered"
proof -
  have out: "after_tag ms parts lowered = (if \<exists>a \<in> set ms. a \<in> set lowered \<and> index_of a lowered + 1 < length parts
      then Some (parts ! (index_of (SOME a. a \<in> set ms \<and> a \<in> set lowered) lowered + 1)) else None)"
    if "\<forall>a \<in> set ms. \<forall>b \<in> set ms. a \<in> set lowered \<longrightarrow> b \<in> set lowered \<longrightarrow> a = b" for ms
  proof (cases "\<exists>a \<in> set ms. a \<in> set lowered \<and> index_of a lowered + 1 < length parts")
    case True
    then obtain a where a: "a \<in> set ms" "a \<in> set lowered" "index_of a lowered + 1 < length parts" by blast
    then have some: "(SOME x. x \<in> set ms \<and> x \<in> set lowered) = a" using that by (intro some_equality) auto
    have "after_tag ms parts lowered = Some (parts ! (index_of a lowered + 1))" using a that by (induction ms) auto
    then show ?thesis using True some by simp
  next
    case False
    then have "after_tag ms parts lowered = None" by (induction ms) auto
    then show ?thesis using False by simp
  qed
  show ?thesis using out [of order] out [of order'] assms by simp
qed

end
