(* ===== verification/Bridge_Samples.thy ===== *)
theory Bridge_Samples
  imports Bridge_Facts
begin

text \<open>A configuration of the bridge and messages, for the witnesses.\<close>

definition sample_bridge :: bridge_config where
  "sample_bridge = \<lparr>b_default_topic = RAW_SENSOR_TOPIC, b_prefixes = [''wildfi'', ''wild-fi''],
     b_tag_order = [''tags'', ''tag'', ''devices''], b_marker_order = [''wildfi'', ''wild-fi'']\<rparr>"

definition sample_message :: "string \<Rightarrow> string \<Rightarrow> mqtt_message" where
  "sample_message topic payload = \<lparr>mq_topic = topic, mq_payload = payload, mq_qos = 1, mq_retain = False\<rparr>"

lemma sample_topics:
  "pick_kafka_topic sample_bridge ''wildfi/tags/WF-001/gps'' = RAW_GPS_TOPIC"
  "pick_kafka_topic sample_bridge ''devices/a1/telemetry'' = RAW_SENSOR_TOPIC"
  by code_simp+

lemma sample_undecodable: "Option.bind (utf8_decode [CHR 0x01, CHR 0xFF]) json_loads = None"
  by code_simp

text \<open>The iteration order of the tag markers decides which part of a topic names the device.\<close>

lemma device_id_order:
  "derive_device_id sample_bridge ''devices/gw-1/tags/WF-7'' = ''WF-7''"
  "derive_device_id (sample_bridge\<lparr>b_tag_order := [''devices'', ''tags'', ''tag'']\<rparr>) ''devices/gw-1/tags/WF-7'' = ''gw-1''"
  by code_simp+

end
