(* ===== verification/Consumer_Metrics.thy ===== *)
theory Consumer_Metrics
  imports Pyfloat Timestamps Config
begin

text \<open>
  The metrics of a Kafka consumer of DEALData:
  \<open>src/components/DEALData/dealdata_common/consumer_observability.py\<close>.

  The clocks (\<open>time.time\<close>, \<open>time.monotonic\<close>, \<open>datetime.now\<close>, \<open>time.perf_counter\<close>) are arguments:
  seconds are rationals, instants microseconds since the epoch. Each method holds the lock for its
  whole body and is one step. The sum of a histogram is exact, where Python adds binary64 numbers.
  The threading HTTP server around \<open>do_GET\<close> is not modelled.

  \<open>histogram_ok\<close> is the invariant of a Prometheus histogram: the buckets are cumulative and none
  exceeds the count.
\<close>

datatype cexn =
    ValueError string
  | InvalidData json
  | OverflowError
  | IntegrityError
  | DatabaseError
  | CommandError string
  | KafkaError string
  | ArgumentTypeError string
  | AttributeError


section \<open>Settings\<close>

definition positive_float :: "string \<Rightarrow> cexn + rat" where
  "positive_float value = (case float_of_text value of
     None \<Rightarrow> Inl (ValueError ''value must be a positive number'')
   | Some NonFinite \<Rightarrow> Inl (ValueError ''value must be a positive number'')
   | Some (Finite x) \<Rightarrow>
       (case float64 x of
          Real parsed \<Rightarrow> if parsed \<le> 0 then Inl (ValueError ''value must be a positive number'') else Inr parsed
        | _ \<Rightarrow> Inl (ValueError ''value must be a positive number'')))"

definition positive_float_env :: "(string \<Rightarrow> string option) \<Rightarrow> string \<Rightarrow> rat \<Rightarrow> cexn + rat" where
  "positive_float_env getenv name dflt =
     (let raw = getenv_or getenv name [] in
      if raw = [] then Inr dflt
      else case positive_float raw of
        Inl _ \<Rightarrow> Inl (ValueError (name @ '' must be a positive number''))
      | Inr x \<Rightarrow> Inr x)"

definition port_env :: "(string \<Rightarrow> string option) \<Rightarrow> string \<Rightarrow> int \<Rightarrow> cexn + int" where
  "port_env getenv name dflt =
     (let raw = getenv_or getenv name []; bad = ValueError (name @ '' must be an integer between 1 and 65535'') in
      if raw = [] then Inr dflt
      else case int_of_text raw of
        None \<Rightarrow> Inl bad
      | Some v \<Rightarrow> if 1 \<le> v \<and> v \<le> 65535 then Inr v else Inl bad)"


section \<open>Histograms\<close>

definition HISTOGRAM_BUCKETS :: "rat list" where
  "HISTOGRAM_BUCKETS =
     [1 / 100, 1 / 40, 1 / 20, 1 / 10, 1 / 4, 1 / 2, 1, 5 / 2, 5, 10, 30, 60, 120, 300, 600]"

definition DEFAULT_STALE_AFTER_SECONDS :: rat where
  "DEFAULT_STALE_AFTER_SECONDS = 30"

text \<open>The buckets in the order of their boundaries.\<close>

record histogram =
  hg_buckets :: "nat list"
  hg_count :: nat
  hg_sum :: rat

definition new_histogram :: histogram where
  "new_histogram = \<lparr>hg_buckets = map (\<lambda>_. 0) HISTOGRAM_BUCKETS, hg_count = 0, hg_sum = 0\<rparr>"

definition observe_value :: "rat \<Rightarrow> histogram \<Rightarrow> histogram" where
  "observe_value v h =
     (if v < 0 then h
      else \<lparr>hg_buckets = map2 (\<lambda>boundary n. if v \<le> boundary then n + 1 else n) HISTOGRAM_BUCKETS (hg_buckets h),
            hg_count = hg_count h + 1, hg_sum = hg_sum h + v\<rparr>)"


section \<open>The collector\<close>

record consumer_metrics =
  cm_service :: string
  cm_stale_after :: rat
  cm_started_at :: rat
  cm_records :: "(string \<times> int) list"
  cm_commits :: "(string \<times> int) list"
  cm_poll_errors :: int
  cm_database_errors :: int
  cm_invalid_clocks :: int
  cm_kafka_assigned :: bool
  cm_poll_ready :: bool
  cm_database_ready :: bool
  cm_last_poll :: "rat option"
  cm_last_poll_timestamp :: rat
  cm_persistence :: histogram
  cm_event_age :: histogram

definition new_consumer_metrics :: "string \<Rightarrow> rat \<Rightarrow> rat \<Rightarrow> cexn + consumer_metrics" where
  "new_consumer_metrics service stale_after now =
     bindE (guardE (service \<in> {''gps'', ''sensor''}) (ValueError ''consumer metrics service must be gps or sensor'')) (\<lambda>_.
     bindE (guardE (stale_after > 0) (ValueError ''stale_after_seconds must be positive'')) (\<lambda>_.
     Inr \<lparr>cm_service = service, cm_stale_after = stale_after, cm_started_at = now, cm_records = [], cm_commits = [],
          cm_poll_errors = 0, cm_database_errors = 0, cm_invalid_clocks = 0, cm_kafka_assigned = False,
          cm_poll_ready = False, cm_database_ready = False, cm_last_poll = None, cm_last_poll_timestamp = 0,
          cm_persistence = new_histogram, cm_event_age = new_histogram\<rparr>))"

definition record_poll :: "rat \<Rightarrow> rat \<Rightarrow> bool \<Rightarrow> bool \<Rightarrow> consumer_metrics \<Rightarrow> consumer_metrics" where
  "record_poll now_monotonic now kafka_assigned database_ready m =
     m\<lparr>cm_kafka_assigned := kafka_assigned, cm_poll_ready := True, cm_database_ready := database_ready,
       cm_last_poll := Some now_monotonic, cm_last_poll_timestamp := now\<rparr>"

definition record_poll_error :: "consumer_metrics \<Rightarrow> consumer_metrics" where
  "record_poll_error m = m\<lparr>cm_poll_errors := cm_poll_errors m + 1, cm_poll_ready := False\<rparr>"

definition record_database_error :: "consumer_metrics \<Rightarrow> consumer_metrics" where
  "record_database_error m = m\<lparr>cm_database_errors := cm_database_errors m + 1, cm_database_ready := False\<rparr>"

text \<open>The caller passes one of the two results; any other raises before the lock.\<close>

definition record_commit :: "string \<Rightarrow> consumer_metrics \<Rightarrow> cexn + consumer_metrics" where
  "record_commit result m =
     (if result \<notin> {''success'', ''failure''} then Inl (ValueError ''commit result must be success or failure'')
      else let m1 = m\<lparr>cm_commits := increment result 1 (cm_commits m)\<rparr>
           in Inr (if result = ''failure'' then m1\<lparr>cm_poll_ready := False\<rparr> else m1))"

text \<open>
  The instant of the event, if it has one: \<open>astimezone(UTC)\<close> raises OverflowError when the UTC time
  falls out of the years 1 to 9999.
\<close>

definition parse_event_time :: "json dict option \<Rightarrow> cexn + int option" where
  "parse_event_time payload = (case payload of
     None \<Rightarrow> Inr None
   | Some d \<Rightarrow>
       (case dget d ''timestamp'' of
          JStr value \<Rightarrow>
            if strip value = [] then Inr None
            else (case fromisoformat (replace_str ''Z'' ''+00:00'' (strip value)) of
              None \<Rightarrow> Inr None
            | Some (local, None) \<Rightarrow> Inr None
            | Some (local, Some offset) \<Rightarrow>
                if datetime_range (local - offset) then Inr (Some (local - offset)) else Inl OverflowError)
        | _ \<Rightarrow> Inr None))"

text \<open>The counters are updated before the event time is read, so they stay updated when that raises.\<close>

definition record_event ::
  "int \<Rightarrow> string \<Rightarrow> json dict option \<Rightarrow> rat \<Rightarrow> consumer_metrics \<Rightarrow> consumer_metrics \<times> (cexn + unit)" where
  "record_event now result payload duration m =
     (if result \<notin> {''inserted'', ''duplicate'', ''rejected''} then (m, Inl (ValueError ''unsupported consumer event result''))
      else
        let m1 = m\<lparr>cm_records := increment result 1 (cm_records m),
                   cm_persistence := observe_value duration (cm_persistence m)\<rparr>;
            invalid = m1\<lparr>cm_invalid_clocks := cm_invalid_clocks m1 + 1\<rparr>
        in if result \<noteq> ''inserted'' then (m1, Inr ())
           else case parse_event_time payload of
             Inl e \<Rightarrow> (m1, Inl e)
           | Inr None \<Rightarrow> (invalid, Inr ())
           | Inr (Some event_time) \<Rightarrow>
               let age = of_int (now - event_time) / 1000000 in
               if age < 0 then (invalid, Inr ())
               else (m1\<lparr>cm_event_age := observe_value age (cm_event_age m1)\<rparr>, Inr ()))"

definition mark_not_ready :: "consumer_metrics \<Rightarrow> consumer_metrics" where
  "mark_not_ready m = m\<lparr>cm_kafka_assigned := False, cm_poll_ready := False\<rparr>"

definition is_ready :: "rat \<Rightarrow> consumer_metrics \<Rightarrow> bool" where
  "is_ready now_monotonic m \<longleftrightarrow> cm_poll_ready m \<and> cm_database_ready m
     \<and> (case cm_last_poll m of None \<Rightarrow> False | Some t \<Rightarrow> now_monotonic - t \<le> cm_stale_after m)"


section \<open>Rendering\<close>

definition quoted :: "string \<Rightarrow> string" where
  "quoted s = [CHR 0x22] @ s @ [CHR 0x22]"

definition labelled :: "string \<Rightarrow> string \<Rightarrow> string \<Rightarrow> string" where
  "labelled name labels v = name @ ''{'' @ labels @ ''} '' @ v"

definition help_lines :: "string \<Rightarrow> string \<Rightarrow> string \<Rightarrow> string list" where
  "help_lines name help kind = [''# HELP '' @ name @ '' '' @ help, ''# TYPE '' @ name @ '' '' @ kind]"

definition render_histogram :: "string \<Rightarrow> string \<Rightarrow> string \<Rightarrow> histogram \<Rightarrow> string list" where
  "render_histogram name help labels h =
     help_lines name help ''histogram''
     @ map2 (\<lambda>boundary n. labelled (name @ ''_bucket'') (labels @ '',le='' @ quoted (format_g boundary)) (str_int (int n)))
         HISTOGRAM_BUCKETS (hg_buckets h)
     @ [labelled (name @ ''_bucket'') (labels @ '',le='' @ quoted ''+Inf'') (str_int (int (hg_count h))),
        labelled (name @ ''_sum'') labels (format_g (hg_sum h)),
        labelled (name @ ''_count'') labels (str_int (int (hg_count h)))]"

definition gauge_lines :: "string \<Rightarrow> string \<Rightarrow> string \<Rightarrow> string \<Rightarrow> string list" where
  "gauge_lines name help labels v = help_lines name help ''gauge'' @ [labelled name labels v]"

definition bit_text :: "bool \<Rightarrow> string" where
  "bit_text b = str_int (if b then 1 else 0)"

definition counter_of :: "(string \<times> int) list \<Rightarrow> string \<Rightarrow> string" where
  "counter_of d k = str_int (case map_of d k of None \<Rightarrow> 0 | Some n \<Rightarrow> n)"

definition render_prometheus :: "rat \<Rightarrow> consumer_metrics \<Rightarrow> string" where
  "render_prometheus now_monotonic m =
     (let labels = ''service='' @ quoted (escape_label (cm_service m));
          result_labels = (\<lambda>r. labels @ '',result='' @ quoted r)
      in join_with [CHR 0x0A]
       (gauge_lines ''dealdata_consumer_ready''
          ''Whether the database is reachable and the Kafka poll loop is healthy and fresh.'' labels (bit_text (is_ready now_monotonic m))
        @ gauge_lines ''dealdata_consumer_kafka_assigned''
          ''Whether the consumer currently has at least one Kafka partition assignment.'' labels (bit_text (cm_kafka_assigned m))
        @ gauge_lines ''dealdata_consumer_database_ready''
          ''Whether the most recent database readiness check succeeded.'' labels (bit_text (cm_database_ready m))
        @ gauge_lines ''dealdata_consumer_last_successful_poll_timestamp_seconds''
          ''Unix timestamp of the most recent successful Kafka poll.'' labels (format_g (cm_last_poll_timestamp m))
        @ gauge_lines ''dealdata_consumer_process_start_time_seconds''
          ''Unix timestamp when this consumer process started.'' labels (format_g (cm_started_at m))
        @ help_lines ''dealdata_consumer_records_total'' ''Kafka records handled by bounded result.'' ''counter''
        @ map (\<lambda>r. labelled ''dealdata_consumer_records_total'' (result_labels r) (counter_of (cm_records m) r))
            [''inserted'', ''duplicate'', ''rejected'']
        @ help_lines ''dealdata_consumer_commits_total'' ''Kafka offset commit attempts by result.'' ''counter''
        @ map (\<lambda>r. labelled ''dealdata_consumer_commits_total'' (result_labels r) (counter_of (cm_commits m) r))
            [''success'', ''failure'']
        @ help_lines ''dealdata_consumer_poll_errors_total'' ''Kafka poll failures.'' ''counter''
        @ [labelled ''dealdata_consumer_poll_errors_total'' labels (str_int (cm_poll_errors m))]
        @ help_lines ''dealdata_consumer_database_errors_total'' ''Database checks or persistence failures.'' ''counter''
        @ [labelled ''dealdata_consumer_database_errors_total'' labels (str_int (cm_database_errors m))]
        @ help_lines ''dealdata_consumer_invalid_event_clock_total''
            ''Inserted events whose source timestamp cannot produce a valid age.'' ''counter''
        @ [labelled ''dealdata_consumer_invalid_event_clock_total'' labels (str_int (cm_invalid_clocks m))]
        @ render_histogram ''dealdata_consumer_persistence_duration_seconds''
            ''Time spent decoding and persisting one consumed record.'' labels (cm_persistence m)
        @ render_histogram ''dealdata_consumer_event_age_seconds''
            ''Age from the source event timestamp to a successful first persistence.'' labels (cm_event_age m)
        @ [[]]))"

text \<open>\<open>do_GET\<close>: status, body and content type.\<close>

definition do_GET :: "rat \<Rightarrow> consumer_metrics \<Rightarrow> string \<Rightarrow> int \<times> string \<times> string" where
  "do_GET now_monotonic m raw_path =
     (let path = takeWhile (\<lambda>c. c \<noteq> CHR ''?'') raw_path;
          document = (\<lambda>k v. ''{'' @ quoted k @ '':'' @ v @ ''}'' @ [CHR 0x0A])
      in if path = ''/healthz'' then (200, document ''status'' (quoted ''alive''), ''application/json'')
         else if path = ''/readyz'' then
           (let ready = is_ready now_monotonic m
            in (if ready then 200 else 503,
                document ''status'' ('' '' @ quoted (if ready then ''ready'' else ''not_ready'')), ''application/json''))
         else if path = ''/metrics'' then
           (200, utf8_encode (render_prometheus now_monotonic m), ''text/plain; version=0.0.4; charset=utf-8'')
         else (404, document ''detail'' (quoted ''not found''), ''application/json''))"


section \<open>The histogram invariant\<close>

definition cumulative :: "nat list \<Rightarrow> bool" where
  "cumulative ns \<longleftrightarrow> sorted_wrt (\<le>) ns"

definition histogram_ok :: "histogram \<Rightarrow> bool" where
  "histogram_ok h \<longleftrightarrow> length (hg_buckets h) = length HISTOGRAM_BUCKETS \<and> cumulative (hg_buckets h)
     \<and> list_all (\<lambda>n. n \<le> hg_count h) (hg_buckets h) \<and> 0 \<le> hg_sum h"

lemma cumulative_step:
  assumes "length ns = length bs" "sorted_wrt (\<le>) ns" "sorted_wrt (<) bs"
  shows "sorted_wrt (\<le>) (map2 (\<lambda>(b :: rat) n. if v \<le> b then n + 1 else (n :: nat)) bs ns)"
  using assms
proof (induction ns bs rule: list_induct2)
  case (Cons n ns b bs)
  have "(if v \<le> b then n + 1 else n) \<le> (if v \<le> c then k + 1 else k)" if "(c, k) \<in> set (zip bs ns)" for c k
  proof -
    have "n \<le> k" "b < c" using Cons.prems that by (auto dest: set_zip_leftD set_zip_rightD)
    then show ?thesis by auto
  qed
  then show ?case using Cons by auto
qed simp

lemma bounded_step:
  "list_all (\<lambda>n. n \<le> k) ns \<Longrightarrow>
   list_all (\<lambda>n. n \<le> k + 1) (map2 (\<lambda>b n. if v \<le> b then n + 1 else n) (bs :: rat list) (ns :: nat list))"
proof (induction bs arbitrary: ns)
  case (Cons b bs)
  then show ?case by (cases ns) auto
qed simp

lemma HISTOGRAM_BUCKETS_sorted: "sorted_wrt (<) HISTOGRAM_BUCKETS"
  by (simp add: HISTOGRAM_BUCKETS_def)

lemma histogram_ok_new: "histogram_ok new_histogram"
  by (simp add: histogram_ok_def new_histogram_def cumulative_def HISTOGRAM_BUCKETS_def)

lemma histogram_ok_observe: "histogram_ok h \<Longrightarrow> histogram_ok (observe_value v h)"
  by (simp add: histogram_ok_def observe_value_def cumulative_def cumulative_step HISTOGRAM_BUCKETS_sorted bounded_step [simplified])

end
