(* ===== verification/Ingestion.thy ===== *)
theory Ingestion
  imports Consumer_Metrics Reconciler
begin

text \<open>
  Idempotent ingestion of decoded events into the tables of DEALData:
  \<open>dealdata_common/models.py\<close>, \<open>dealdata_common/ingestion.py\<close>, \<open>dealdata_common/serializers.py\<close>
  and the models, serializers and ingestion helpers of the GPS and sensor services, under
  \<open>src/components/DEALData/\<close>.

  A table is the list of its rows in the order of insertion. Two parameters stand for the
  frameworks: \<open>clean\<close> is the field validation of the REST serializer, which calls the payload
  validator it is given and returns the validated data, and \<open>full_clean\<close> is Django's model
  validation (\<open>Some\<close> is the dictionary of messages). In validated data a datetime or UUID object is
  the text \<open>str\<close> gives for it, which is what \<open>json.dumps(default=str)\<close> writes; the services run in UTC.
  The unique and check constraints of the tables are written out.

  Other workers and the HTTP API insert into the same table: an \<open>interference\<close> holds the rows they
  try to insert before the first lookup, before the validation and before the insertion of one
  event, subject to the same constraints, and whether the database fails.
\<close>

section \<open>Helpers of the models\<close>

abbreviation (input) blank :: "json \<Rightarrow> bool" where
  "blank v \<equiv> v = JNull \<or> v = JStr []"

definition py_or :: "json \<Rightarrow> json \<Rightarrow> json" where
  "py_or a b = (if truthy a then a else b)"

definition parse_event_datetime :: "json \<Rightarrow> string \<Rightarrow> cexn + int" where
  "parse_event_datetime v field_name =
     (case (case v of JStr s \<Rightarrow> fromisoformat s | _ \<Rightarrow> None) of
        None \<Rightarrow> Inl (ValueError (''DEALIoT event field '' @ repr_str field_name @ '' must be an ISO datetime.''))
      | Some (local, None) \<Rightarrow> Inr local
      | Some (local, Some offset) \<Rightarrow> Inr (local - offset))"

definition parse_optional_event_datetime :: "json \<Rightarrow> string \<Rightarrow> cexn + int option" where
  "parse_optional_event_datetime v field_name =
     (if blank v then Inr None else bindE (parse_event_datetime v field_name) (\<lambda>t. Inr (Some t)))"

definition payload_dict :: "json \<Rightarrow> json dict" where
  "payload_dict v = (case v of JObj d \<Rightarrow> d | _ \<Rightarrow> if blank v then [] else [(''value'', v)])"

text \<open>
  \<open>float(v)\<close>. An integer that does not fit raises OverflowError, a text that does not fit is infinite;
  infinities and NaN written as text are not distinguished.
\<close>

datatype converted = Converted number | NotANumber | TooLarge

definition py_float :: "json \<Rightarrow> converted" where
  "py_float v = (case v of
     JStr s \<Rightarrow>
       (case float_of_text s of
          None \<Rightarrow> NotANumber
        | Some NonFinite \<Rightarrow> Converted NaN
        | Some (Finite x) \<Rightarrow> Converted (float64 x))
   | JInt i \<Rightarrow> (case float64 (of_int i) of Real x \<Rightarrow> Converted (Real x) | _ \<Rightarrow> TooLarge)
   | JBool b \<Rightarrow> Converted (Real (if b then 1 else 0))
   | JFloat f \<Rightarrow> Converted (float_value f)
   | _ \<Rightarrow> NotANumber)"

definition event_value :: "json dict \<Rightarrow> json dict \<Rightarrow> string \<Rightarrow> json" where
  "event_value event payload field_name =
     (if blank (dget event field_name) then dget payload field_name else dget event field_name)"

definition finite_value :: "string \<Rightarrow> json \<Rightarrow> cexn + rat" where
  "finite_value field_name v = (case py_float v of
     NotANumber \<Rightarrow> Inl (ValueError (''DEALIoT event field '' @ repr_str field_name @ '' must be a number.''))
   | TooLarge \<Rightarrow> Inl OverflowError
   | Converted (Real x) \<Rightarrow> Inr x
   | Converted _ \<Rightarrow> Inl (ValueError (''DEALIoT event field '' @ repr_str field_name @ '' must be finite.'')))"

fun first_float :: "json dict \<Rightarrow> json dict \<Rightarrow> string list \<Rightarrow> cexn + rat option" where
  "first_float event payload [] = Inr None"
| "first_float event payload (f # fs) =
     (if blank (event_value event payload f) then first_float event payload fs
      else bindE (finite_value f (event_value event payload f)) (\<lambda>x. Inr (Some x)))"

definition event_float :: "json dict \<Rightarrow> json dict \<Rightarrow> string list \<Rightarrow> cexn + rat option" where
  "event_float event payload field_names = first_float event payload field_names"

definition required_float :: "json dict \<Rightarrow> json dict \<Rightarrow> string list \<Rightarrow> cexn + rat" where
  "required_float event payload field_names =
     bindE (first_float event payload field_names) (\<lambda>r. case r of
       None \<Rightarrow> Inl (ValueError (''DEALIoT event must contain one of: '' @ join_with '', '' field_names @ ''.''))
     | Some x \<Rightarrow> Inr x)"

definition event_metadata :: "json dict \<Rightarrow> json dict" where
  "event_metadata event = map (\<lambda>f. (f, dget event f))
     (filter (\<lambda>f. map_of event f \<noteq> None) [''qos'', ''retain'', ''partition'', ''offset'', ''key''])"

text \<open>\<open>json.dumps\<close> with its default \<open>ensure_ascii\<close>: characters from DEL on are escaped.\<close>

definition ascii_char :: "char \<Rightarrow> string" where
  "ascii_char c =
     (let n = (of_char c :: nat) in
      if n \<ge> 127 then [backslash, CHR ''u'', CHR ''0'', CHR ''0'', hex_char (n div 16), hex_char (n mod 16)]
      else escape_char c)"

definition ascii_str :: "string \<Rightarrow> string" where
  "ascii_str s = [quote_char] @ concat (map ascii_char s) @ [quote_char]"

fun ascii_dumps :: "json \<Rightarrow> string" where
  "ascii_dumps (JStr s) = ascii_str s"
| "ascii_dumps (JList xs) = ''['' @ join_with '','' (map ascii_dumps xs) @ '']''"
| "ascii_dumps (JObj d) =
     ''{'' @ join_with '','' (map (\<lambda>(k, v). ascii_str k @ '':'' @ ascii_dumps v) d) @ ''}''"
| "ascii_dumps v = json_dumps v"

definition stable_event_hash :: "json dict \<Rightarrow> string" where
  "stable_event_hash event = sha256_hexdigest (ascii_dumps (jsort (JObj event)))"


section \<open>Rows\<close>

record wildfi_event =
  w_pk :: string
  w_device_id :: string
  w_event_id :: string
  w_message_key :: string
  w_payload_hash :: string
  w_observed_object_id :: json
  w_topic :: string
  w_source :: string
  w_mqtt_topic :: string
  w_acquisition_time :: int
  w_ingested_at :: "int option"
  w_payload :: "json dict"
  w_metadata :: "json dict"

record gps_fix = wildfi_event +
  gf_latitude :: rat
  gf_longitude :: rat
  gf_altitude :: "rat option"
  gf_speed :: "rat option"
  gf_heading :: "rat option"

record decoded_sensor_event = wildfi_event +
  se_sensor_type :: string

text \<open>The primary key is \<open>uuid7()\<close>, an argument. The columns \<open>created_at\<close> and \<open>updated_at\<close> are left out.\<close>

definition gps_from_event :: "string \<Rightarrow> json dict \<Rightarrow> cexn + gps_fix" where
  "gps_from_event pk event =
     (let payload = payload_dict (dget event ''payload'');
          device_id = py_or (dget event ''device_id'') (dget payload ''device_id'');
          field_text = (\<lambda>f dflt. py_str (py_or (dget event f) (JStr dflt)))
      in
      bindE (guardE (truthy device_id) (ValueError ''DEALIoT GPS event must contain 'device_id'.'')) (\<lambda>_.
      bindE (parse_event_datetime (dget event ''timestamp'') ''timestamp'') (\<lambda>acquisition_time.
      bindE (parse_optional_event_datetime (dget event ''ingested_at'') ''ingested_at'') (\<lambda>ingested_at.
      bindE (required_float event payload [''latitude'', ''lat'']) (\<lambda>latitude.
      bindE (required_float event payload [''longitude'', ''lon'', ''lng'']) (\<lambda>longitude.
      bindE (event_float event payload [''altitude'', ''alt'', ''altitude_m'']) (\<lambda>altitude.
      bindE (event_float event payload [''speed'', ''speed_m_s'']) (\<lambda>speed.
      bindE (event_float event payload [''heading'', ''course'', ''heading_deg'']) (\<lambda>heading.
      Inr \<lparr>w_pk = pk, w_device_id = py_str device_id,
           w_event_id = py_str (py_or (py_or (dget event ''event_id'') (dget event ''id'')) (JStr [])),
           w_message_key = field_text ''key'' [], w_payload_hash = stable_event_hash event,
           w_observed_object_id = dget event ''observed_object_id'', w_topic = field_text ''topic'' ''raw.gps'',
           w_source = field_text ''source'' ''wildfi-mqtt'', w_mqtt_topic = field_text ''mqtt_topic'' [],
           w_acquisition_time = acquisition_time, w_ingested_at = ingested_at, w_payload = payload,
           w_metadata = event_metadata event, gf_latitude = latitude, gf_longitude = longitude,
           gf_altitude = altitude, gf_speed = speed, gf_heading = heading\<rparr>)))))))))"


section \<open>Sensor types\<close>

definition IMU_PAYLOAD_KEYS :: "string list" where
  "IMU_PAYLOAD_KEYS = [''accx'', ''accy'', ''accz'', ''gyrox'', ''gyroy'', ''gyroz'', ''magx'', ''magy'', ''magz'']"

definition ENVIRONMENT_PAYLOAD_KEYS :: "string list" where
  "ENVIRONMENT_PAYLOAD_KEYS = [''batteryvoltage'', ''humidity'', ''pressure'', ''temperature'', ''temperatureindegcel'']"

definition sensor_aliases :: "(string \<times> string) list" where
  "sensor_aliases =
     [(''acc'', ''imu''), (''accelerometer'', ''imu''), (''bme'', ''environment''), (''decoded'', ''decoded''),
      (''environment'', ''environment''), (''gateway'', ''metadata''), (''imu'', ''imu''), (''mag'', ''imu''),
      (''metadata'', ''metadata''), (''move'', ''movement''), (''movement'', ''movement''), (''prox'', ''proximity''),
      (''proximity'', ''proximity''), (''sensor'', ''sensor''), (''telemetry'', ''telemetry'')]"

definition sensor_type_from_mqtt_topic :: "json \<Rightarrow> string" where
  "sensor_type_from_mqtt_topic mqtt_topic =
     (let parts = filter (\<lambda>item. item \<noteq> []) (split_on CHR ''/'' (lower (py_str (py_or mqtt_topic (JStr [])))))
      in case List.map_filter (map_of sensor_aliases) (rev parts) of [] \<Rightarrow> [] | inferred # _ \<Rightarrow> inferred)"

definition sensor_type_from_payload :: "json dict \<Rightarrow> string" where
  "sensor_type_from_payload payload =
     (let has = (\<lambda>names. list_ex (\<lambda>k. lower k \<in> set names) (keys payload)) in
      if has IMU_PAYLOAD_KEYS then ''imu''
      else if has ENVIRONMENT_PAYLOAD_KEYS then ''environment''
      else if has [''proximity'', ''prox'', ''distance'', ''distance_mm''] then ''proximity''
      else if has [''movement'', ''activity'', ''odba''] then ''movement''
      else [])"

definition infer_sensor_type :: "json dict \<Rightarrow> json dict \<Rightarrow> string" where
  "infer_sensor_type event payload =
     py_str (py_or (py_or (py_or (py_or (dget event ''sensor_type'') (dget payload ''sensor_type'')) (dget payload ''type''))
        (JStr (sensor_type_from_mqtt_topic (dget event ''mqtt_topic''))))
        (JStr (sensor_type_from_payload payload)))"

definition sensor_from_event :: "string \<Rightarrow> json dict \<Rightarrow> cexn + decoded_sensor_event" where
  "sensor_from_event pk event =
     (let payload = payload_dict (dget event ''payload'');
          device_id = py_or (dget event ''device_id'') (dget payload ''device_id'');
          field_text = (\<lambda>f dflt. py_str (py_or (dget event f) (JStr dflt)))
      in
      bindE (guardE (truthy device_id) (ValueError ''DEALIoT sensor event must contain 'device_id'.'')) (\<lambda>_.
      bindE (parse_event_datetime (dget event ''timestamp'') ''timestamp'') (\<lambda>acquisition_time.
      bindE (parse_optional_event_datetime (dget event ''ingested_at'') ''ingested_at'') (\<lambda>ingested_at.
      Inr \<lparr>w_pk = pk, w_device_id = py_str device_id,
           w_event_id = py_str (py_or (py_or (dget event ''event_id'') (dget event ''id'')) (JStr [])),
           w_message_key = field_text ''key'' [], w_payload_hash = stable_event_hash event,
           w_observed_object_id = dget event ''observed_object_id'', w_topic = field_text ''topic'' ''raw.sensor'',
           w_source = field_text ''source'' ''wildfi-mqtt'', w_mqtt_topic = field_text ''mqtt_topic'' [],
           w_acquisition_time = acquisition_time, w_ingested_at = ingested_at, w_payload = payload,
           w_metadata = event_metadata event, se_sensor_type = infer_sensor_type event payload\<rparr>))))"


section \<open>Constraints\<close>

definition same_event_id :: "'a wildfi_event_scheme \<Rightarrow> 'a wildfi_event_scheme \<Rightarrow> bool" where
  "same_event_id e r \<longleftrightarrow> w_source r = w_source e \<and> w_event_id r = w_event_id e"

definition same_hash :: "'a wildfi_event_scheme \<Rightarrow> 'a wildfi_event_scheme \<Rightarrow> bool" where
  "same_hash e r \<longleftrightarrow> w_source r = w_source e \<and> w_payload_hash r = w_payload_hash e"

text \<open>The two unique constraints of a table; each exempts the empty text.\<close>

definition unique_constraints :: "'a wildfi_event_scheme list \<Rightarrow> 'a wildfi_event_scheme \<Rightarrow> bool" where
  "unique_constraints rows e \<longleftrightarrow>
     \<not> (w_event_id e \<noteq> [] \<and> list_ex (same_event_id e) rows)
     \<and> \<not> (w_payload_hash e \<noteq> [] \<and> list_ex (same_hash e) rows)"

definition gps_constraints :: "gps_fix list \<Rightarrow> gps_fix \<Rightarrow> bool" where
  "gps_constraints rows e \<longleftrightarrow>
     - 90 \<le> gf_latitude e \<and> gf_latitude e \<le> 90 \<and> - 180 \<le> gf_longitude e \<and> gf_longitude e \<le> 180
     \<and> unique_constraints rows e"

definition sensor_constraints :: "decoded_sensor_event list \<Rightarrow> decoded_sensor_event \<Rightarrow> bool" where
  "sensor_constraints rows e \<longleftrightarrow> unique_constraints rows e"

record 'e interference =
  i_before :: "'e list"
  i_between :: "'e list"
  i_saving :: "'e list"
  i_lookup_fails :: bool
  i_save_fails :: bool

text \<open>Insertions of other processes; one that violates a constraint leaves the table as it is.\<close>

definition inserted_by_others :: "('e list \<Rightarrow> 'e \<Rightarrow> bool) \<Rightarrow> 'e list \<Rightarrow> 'e list \<Rightarrow> 'e list" where
  "inserted_by_others constraints es rows = foldl (\<lambda>r e. if constraints r e then r @ [e] else r) rows es"


section \<open>Idempotent persistence\<close>

text \<open>\<open>find_existing_gps_event\<close> and \<open>find_existing_sensor_event\<close>, over the rows in insertion order.\<close>

definition find_existing :: "'a wildfi_event_scheme \<Rightarrow> 'a wildfi_event_scheme list \<Rightarrow> 'a wildfi_event_scheme option" where
  "find_existing event rows =
     (case (if w_event_id event \<noteq> [] then find (same_event_id event) rows else None) of
        Some existing \<Rightarrow> Some existing
      | None \<Rightarrow> if w_payload_hash event \<noteq> [] then find (same_hash event) rows else None)"

definition persist_idempotent_event ::
  "('e \<Rightarrow> 'e list \<Rightarrow> 'e option) \<Rightarrow> ('e \<Rightarrow> bool \<Rightarrow> json dict) \<Rightarrow> ('e list \<Rightarrow> 'e \<Rightarrow> json option)
   \<Rightarrow> ('e list \<Rightarrow> 'e \<Rightarrow> bool) \<Rightarrow> 'e interference \<Rightarrow> 'e \<Rightarrow> 'e list \<Rightarrow> 'e list \<times> (cexn + json dict \<times> int)" where
  "persist_idempotent_event lookup serialize full_clean constraints ifc event rows =
     (let r1 = inserted_by_others constraints (i_before ifc) rows in
      if i_lookup_fails ifc then (r1, Inl DatabaseError)
      else case lookup event r1 of
        Some existing \<Rightarrow> (r1, Inr (serialize existing True, 200))
      | None \<Rightarrow>
          let r2 = inserted_by_others constraints (i_between ifc) r1 in
          if i_save_fails ifc then (r2, Inl DatabaseError)
          else case full_clean r2 event of
            Some messages \<Rightarrow> (r2, Inr ([(''detail'', messages)], 400))
          | None \<Rightarrow>
              let r3 = inserted_by_others constraints (i_saving ifc) r2 in
              if constraints r3 event then (r3 @ [event], Inr (serialize event False, 201))
              else case lookup event r3 of
                Some existing \<Rightarrow> (r3, Inr (serialize existing True, 200))
              | None \<Rightarrow> (r3, Inl IntegrityError))"


section \<open>Serializers\<close>

type_synonym field_cleaning = "(json \<Rightarrow> cexn + json) \<Rightarrow> json dict \<Rightarrow> cexn + json dict"

definition validate_payload_object :: "bool \<Rightarrow> json \<Rightarrow> cexn + json" where
  "validate_payload_object allow_empty v =
     (if allow_empty \<and> blank v then Inr (JObj [])
      else case v of JObj d \<Rightarrow> Inr v | _ \<Rightarrow> Inl (InvalidData (JStr ''Expected a JSON object.'')))"

definition required_message :: "string \<Rightarrow> cexn" where
  "required_message f = InvalidData (JObj [(f, JList [JStr ''This field is required.''])])"

definition validate_gps :: "json dict \<Rightarrow> cexn + json dict" where
  "validate_gps attrs =
     (let payload = (case py_or (dget attrs ''payload'') (JObj []) of JObj d \<Rightarrow> d | _ \<Rightarrow> []);
          has = (\<lambda>names. list_ex (\<lambda>k. map_of attrs k \<noteq> None \<or> map_of payload k \<noteq> None) names)
      in if \<not> has [''latitude'', ''lat''] then Inl (required_message ''latitude'')
         else if \<not> has [''longitude'', ''lon'', ''lng''] then Inl (required_message ''longitude'')
         else Inr attrs)"

definition gps_serializer :: "field_cleaning \<Rightarrow> json dict \<Rightarrow> cexn + json dict" where
  "gps_serializer clean data = bindE (clean (validate_payload_object True) data) validate_gps"

definition sensor_serializer :: "field_cleaning \<Rightarrow> json dict \<Rightarrow> cexn + json dict" where
  "sensor_serializer clean data = clean (validate_payload_object False) data"


section \<open>Ingestion\<close>

definition serialize_gps :: "gps_fix \<Rightarrow> bool \<Rightarrow> json dict" where
  "serialize_gps event duplicate =
     [(''id'', JStr (w_pk event)), (''duplicate'', JBool duplicate), (''device_id'', JStr (w_device_id event)),
      (''event_id'', JStr (w_event_id event)), (''payload_hash'', JStr (w_payload_hash event)),
      (''topic'', JStr (w_topic event)), (''timestamp'', JStr (isoformat_utc (w_acquisition_time event)))]"

definition serialize_sensor :: "decoded_sensor_event \<Rightarrow> bool \<Rightarrow> json dict" where
  "serialize_sensor event duplicate =
     [(''id'', JStr (w_pk event)), (''duplicate'', JBool duplicate), (''device_id'', JStr (w_device_id event)),
      (''event_id'', JStr (w_event_id event)), (''payload_hash'', JStr (w_payload_hash event)),
      (''topic'', JStr (w_topic event)), (''timestamp'', JStr (isoformat_utc (w_acquisition_time event))),
      (''sensor_type'', JStr (se_sensor_type event))]"

text \<open>
  The part before the persistence, which does not touch the table: an exception that the helper
  turns into a reply with status 400 is \<open>Inl detail\<close>, one that leaves it \<open>Inr (Inl e)\<close>.
\<close>

definition built_event ::
  "(json dict \<Rightarrow> cexn + json dict) \<Rightarrow> (json dict \<Rightarrow> cexn + 'e) \<Rightarrow> json dict \<Rightarrow> json + (cexn + 'e)" where
  "built_event serializer from_event payload = (case serializer payload of
     Inl (InvalidData errors) \<Rightarrow> Inl errors
   | Inl e \<Rightarrow> Inr (Inl e)
   | Inr validated_data \<Rightarrow>
       (case from_event validated_data of
          Inl (ValueError m) \<Rightarrow> Inl (JStr m)
        | Inl e \<Rightarrow> Inr (Inl e)
        | Inr event \<Rightarrow> Inr (Inr event)))"

definition ingest_dealiot_gps_event ::
  "field_cleaning \<Rightarrow> (gps_fix list \<Rightarrow> gps_fix \<Rightarrow> json option) \<Rightarrow> gps_fix interference \<Rightarrow> string \<Rightarrow> json dict
   \<Rightarrow> gps_fix list \<Rightarrow> gps_fix list \<times> (cexn + json dict \<times> int)" where
  "ingest_dealiot_gps_event clean full_clean ifc pk payload rows =
     (case built_event (gps_serializer clean) (gps_from_event pk) payload of
        Inl detail \<Rightarrow> (rows, Inr ([(''detail'', detail)], 400))
      | Inr (Inl e) \<Rightarrow> (rows, Inl e)
      | Inr (Inr event) \<Rightarrow> persist_idempotent_event find_existing serialize_gps full_clean gps_constraints ifc event rows)"

definition ingest_dealiot_sensor_event ::
  "field_cleaning \<Rightarrow> (decoded_sensor_event list \<Rightarrow> decoded_sensor_event \<Rightarrow> json option) \<Rightarrow> decoded_sensor_event interference \<Rightarrow> string \<Rightarrow> json dict
   \<Rightarrow> decoded_sensor_event list \<Rightarrow> decoded_sensor_event list \<times> (cexn + json dict \<times> int)" where
  "ingest_dealiot_sensor_event clean full_clean ifc pk payload rows =
     (case built_event (sensor_serializer clean) (sensor_from_event pk) payload of
        Inl detail \<Rightarrow> (rows, Inr ([(''detail'', detail)], 400))
      | Inr (Inl e) \<Rightarrow> (rows, Inl e)
      | Inr (Inr event) \<Rightarrow> persist_idempotent_event find_existing serialize_sensor full_clean sensor_constraints ifc event rows)"

end
