(* ===== verification/Consumer.thy ===== *)
theory Consumer
  imports Ingestion Bridge Asgi
begin

text \<open>
  The Kafka consumer commands of DEALData: \<open>src/components/DEALData/dealdata_common/kafka.py\<close>.

  The command is generic in \<open>ingest_event\<close>, the ingestion helper of a service, over the table of
  that service. A message carries the bytes Kafka delivers (\<open>None\<close> is a tombstone) and the readings
  of the clocks and the \<open>context\<close> of the database while it is processed. One \<open>turn\<close> holds what the
  broker, the database and the clocks answer in one iteration of the poll loop; the loop runs over
  a list of turns, and \<open>Polling\<close> is a loop that is still running when the list ends.

  The lines written to the standard streams are not modelled, and neither are the 4300 digit limit
  of \<open>int\<close> and the recursion limit of \<open>json.loads\<close>. The text of the error for an unexpected status leaves
  out the label and the body.
\<close>

section \<open>Settings\<close>

definition KAFKA_SECURITY_PROTOCOLS :: "string list" where
  "KAFKA_SECURITY_PROTOCOLS = [''PLAINTEXT'', ''SASL_PLAINTEXT'', ''SASL_SSL'', ''SSL'']"

definition TRUE_ENV_VALUES :: "string list" where
  "TRUE_ENV_VALUES = [''1'', ''true'', ''yes'', ''on'']"

definition FALSE_ENV_VALUES :: "string list" where
  "FALSE_ENV_VALUES = [''0'', ''false'', ''no'', ''off'']"

definition first_env :: "(string \<Rightarrow> string option) \<Rightarrow> string list \<Rightarrow> string \<Rightarrow> string" where
  "first_env getenv names dflt = (case filter (\<lambda>v. v \<noteq> []) (map (\<lambda>n. getenv_or getenv n []) names) of
     [] \<Rightarrow> dflt | v # _ \<Rightarrow> v)"

definition boolean_env :: "(string \<Rightarrow> string option) \<Rightarrow> string list \<Rightarrow> bool \<Rightarrow> cexn + bool" where
  "boolean_env getenv names dflt =
     (let v = first_env getenv names []; normalized = lower (strip v) in
      if v = [] then Inr dflt
      else if normalized \<in> set TRUE_ENV_VALUES then Inr True
      else if normalized \<in> set FALSE_ENV_VALUES then Inr False
      else Inl (CommandError (hd names @ '' must be one of: true, false, 1, 0, yes, no, on, or off.'')))"

definition sasl_options :: "(string \<Rightarrow> string option) \<Rightarrow> cexn + json dict" where
  "sasl_options getenv =
     (let username = first_env getenv [''DEALDATA_KAFKA_SASL_USERNAME'', ''KAFKA_SASL_USERNAME''] [];
          password = first_env getenv [''DEALDATA_KAFKA_SASL_PASSWORD'', ''KAFKA_SASL_PASSWORD''] []
      in if username = [] \<or> password = [] then
           Inl (CommandError ''DEALDATA_KAFKA_SASL_USERNAME and DEALDATA_KAFKA_SASL_PASSWORD must both be set when Kafka SASL is enabled.'')
         else Inr
           [(''sasl_mechanism'', JStr (strip (first_env getenv
               [''DEALDATA_KAFKA_SASL_MECHANISM'', ''KAFKA_SASL_MECHANISM''] ''SCRAM-SHA-512''))),
            (''sasl_plain_username'', JStr username), (''sasl_plain_password'', JStr password)])"

definition ssl_names :: "string \<Rightarrow> string \<Rightarrow> string list" where
  "ssl_names a b = [''DEALDATA_KAFKA_SSL_'' @ a, ''DEALDATA_KAFKA_SSL_'' @ b, ''KAFKA_SSL_'' @ a, ''KAFKA_SSL_'' @ b]"

definition ssl_options :: "(string \<Rightarrow> string option) \<Rightarrow> cexn + json dict" where
  "ssl_options getenv =
     (let ssl_cafile = first_env getenv (ssl_names ''CAFILE'' ''CA_FILE'') [];
          ssl_certfile = first_env getenv (ssl_names ''CERTFILE'' ''CERT_FILE'') [];
          ssl_keyfile = first_env getenv (ssl_names ''KEYFILE'' ''KEY_FILE'') []
      in bindE (guardE ((ssl_certfile = []) = (ssl_keyfile = [])) (CommandError
          ''DEALDATA_KAFKA_SSL_CERTFILE and DEALDATA_KAFKA_SSL_KEYFILE must both be set when Kafka mutual TLS is enabled.'')) (\<lambda>_.
         bindE (boolean_env getenv [''DEALDATA_KAFKA_SSL_CHECK_HOSTNAME'', ''KAFKA_SSL_CHECK_HOSTNAME''] True) (\<lambda>check_hostname.
         Inr ((if ssl_cafile = [] then [] else [(''ssl_cafile'', JStr ssl_cafile)])
              @ (if ssl_certfile = [] then []
                 else [(''ssl_certfile'', JStr ssl_certfile), (''ssl_keyfile'', JStr ssl_keyfile)])
              @ [(''ssl_check_hostname'', JBool check_hostname)]))))"

definition kafka_security_options :: "(string \<Rightarrow> string option) \<Rightarrow> cexn + json dict" where
  "kafka_security_options getenv =
     (let security_protocol = upper (strip (first_env getenv
            [''DEALDATA_KAFKA_SECURITY_PROTOCOL'', ''KAFKA_SECURITY_PROTOCOL''] ''PLAINTEXT''))
      in bindE (guardE (security_protocol \<in> set KAFKA_SECURITY_PROTOCOLS) (CommandError
           (''DEALDATA_KAFKA_SECURITY_PROTOCOL must be one of: '' @ join_with '', '' KAFKA_SECURITY_PROTOCOLS @ ''.''))) (\<lambda>_.
         bindE (if starts_with ''SASL_'' security_protocol then sasl_options getenv else Inr []) (\<lambda>sasl.
         bindE (if occurs ''SSL'' security_protocol then ssl_options getenv else Inr []) (\<lambda>ssl.
         Inr ([(''security_protocol'', JStr security_protocol)] @ sasl @ ssl)))))"

definition non_negative_int :: "string \<Rightarrow> cexn + int" where
  "non_negative_int v = (case int_of_text v of
     None \<Rightarrow> Inl (ArgumentTypeError ''Expected a non-negative integer.'')
   | Some n \<Rightarrow> if n < 0 then Inl (ArgumentTypeError ''Expected a non-negative integer.'') else Inr n)"

definition positive_int_arg :: "string \<Rightarrow> cexn + int" where
  "positive_int_arg v = bindE (non_negative_int v) (\<lambda>n.
     if n = 0 then Inl (ArgumentTypeError ''Expected a positive integer.'') else Inr n)"

record consumer_options =
  kc_bootstrap_servers :: string
  kc_topic :: string
  kc_group_id :: string
  kc_auto_offset_reset :: string
  kc_poll_timeout_ms :: int
  kc_max_records :: int
  kc_check_interval :: rat
  kc_once :: bool

text \<open>The options of a command started without arguments: \<open>add_arguments\<close> over the attributes of the built command.\<close>

definition default_options :: "(string \<Rightarrow> string option) \<Rightarrow> string \<Rightarrow> cexn + consumer_options" where
  "default_options getenv service_key =
     (let own = ''DEALDATA_'' @ upper service_key @ ''_KAFKA_'' in
      bindE (positive_float_env getenv ''DEALDATA_CONSUMER_DATABASE_CHECK_INTERVAL_SECONDS'' 15) (\<lambda>interval.
      bindE (non_negative_int (first_env getenv [''DEALDATA_KAFKA_POLL_TIMEOUT_MS''] ''1000'')) (\<lambda>poll_timeout.
      bindE (positive_int_arg (first_env getenv [''DEALDATA_KAFKA_MAX_RECORDS''] ''100'')) (\<lambda>max_records.
      Inr \<lparr>kc_bootstrap_servers = first_env getenv
             [own @ ''BOOTSTRAP_SERVERS'', ''DEALDATA_KAFKA_BOOTSTRAP_SERVERS'', ''KAFKA_BOOTSTRAP_SERVERS'']
             ''kafka1:9092,kafka2:9092,kafka3:9092'',
           kc_topic = first_env getenv [own @ ''TOPIC''] (''raw.'' @ service_key),
           kc_group_id = first_env getenv [own @ ''GROUP_ID''] (''dealdata-'' @ service_key @ ''-ingest''),
           kc_auto_offset_reset = first_env getenv
             [own @ ''AUTO_OFFSET_RESET'', ''DEALDATA_KAFKA_AUTO_OFFSET_RESET''] ''earliest'',
           kc_poll_timeout_ms = poll_timeout, kc_max_records = max_records, kc_check_interval = interval,
           kc_once = False\<rparr>))))"

text \<open>The topic and keyword arguments of \<open>KafkaConsumer\<close>.\<close>

definition build_consumer ::
  "(string \<Rightarrow> string option) \<Rightarrow> bool \<Rightarrow> consumer_options \<Rightarrow> cexn + string \<times> json dict" where
  "build_consumer getenv kafka_installed options =
     (let bootstrap_servers = csv_items (kc_bootstrap_servers options);
          topic = strip (kc_topic options); group_id = strip (kc_group_id options)
      in bindE (guardE (bootstrap_servers \<noteq> []) (CommandError ''At least one Kafka bootstrap server is required.'')) (\<lambda>_.
         bindE (guardE (topic \<noteq> []) (CommandError ''A Kafka topic is required.'')) (\<lambda>_.
         bindE (guardE (group_id \<noteq> []) (CommandError ''A Kafka group ID is required.'')) (\<lambda>_.
         bindE (guardE kafka_installed (CommandError ''kafka-python is required to consume DEALIoT Kafka topics.'')) (\<lambda>_.
         bindE (kafka_security_options getenv) (\<lambda>security.
         Inr (topic, [(''bootstrap_servers'', JList (map JStr bootstrap_servers)), (''group_id'', JStr group_id),
              (''enable_auto_commit'', JBool False),
              (''auto_offset_reset'', JStr (kc_auto_offset_reset options))] @ security)))))))"


section \<open>Messages\<close>

record 'c kafka_message =
  km_topic :: string
  km_partition :: int
  km_offset :: int
  km_value :: "string option"
  km_context :: 'c
  km_now :: int
  km_duration :: rat

definition decode_json :: "string option \<Rightarrow> cexn + json dict option" where
  "decode_json v = (case v of
     None \<Rightarrow> Inl AttributeError
   | Some bytes \<Rightarrow> Inr (case Option.bind (utf8_decode bytes) json_loads of Some (JObj d) \<Rightarrow> Some d | _ \<Rightarrow> None))"

definition iter_messages :: "(string \<times> 'm list) list \<Rightarrow> 'm list" where
  "iter_messages records = concat (map snd records)"

datatype ingest_outcome = Inserted | Duplicates | Rejected

text \<open>IntegrityError is a DatabaseError.\<close>

definition is_database_error :: "cexn \<Rightarrow> bool" where
  "is_database_error e \<longleftrightarrow> e = DatabaseError \<or> e = IntegrityError"

type_synonym ('c, 'e) ingestion = "'c \<Rightarrow> json dict \<Rightarrow> 'e list \<Rightarrow> 'e list \<times> (cexn + json dict \<times> int)"

definition recorded ::
  "'c kafka_message \<Rightarrow> string \<Rightarrow> json dict option \<Rightarrow> ingest_outcome \<Rightarrow> 'e list \<Rightarrow> consumer_metrics
   \<Rightarrow> ('e list \<times> consumer_metrics) \<times> (cexn + ingest_outcome)" where
  "recorded message result payload out rows m =
     (case record_event (km_now message) result payload (km_duration message) m of
        (m', Inl e) \<Rightarrow> ((rows, m'), Inl e)
      | (m', Inr _) \<Rightarrow> ((rows, m'), Inr out))"

definition process_message ::
  "('c, 'e) ingestion \<Rightarrow> 'c kafka_message \<Rightarrow> 'e list \<times> consumer_metrics
   \<Rightarrow> ('e list \<times> consumer_metrics) \<times> (cexn + ingest_outcome)" where
  "process_message ingest_event message st = (case st of (rows, m) \<Rightarrow>
     (case decode_json (km_value message) of
        Inl e \<Rightarrow> ((rows, m), Inl e)
      | Inr None \<Rightarrow> recorded message ''rejected'' None Rejected rows m
      | Inr (Some payload) \<Rightarrow>
          (case ingest_event (km_context message) payload rows of
             (rows', Inl e) \<Rightarrow> ((rows', if is_database_error e then record_database_error m else m), Inl e)
           | (rows', Inr (body, response_status)) \<Rightarrow>
               if response_status = 201 then recorded message ''inserted'' (Some payload) Inserted rows' m
               else if response_status = 200 \<and> truthy (dget body ''duplicate'') then
                 recorded message ''duplicate'' (Some payload) Duplicates rows' m
               else if response_status = 400 then recorded message ''rejected'' (Some payload) Rejected rows' m
               else ((rows', m), Inl (CommandError (''Unexpected ingestion response status='' @ str_int response_status))))))"

text \<open>The messages with what became of them; \<open>counts\<close> are the counters of the report line.\<close>

fun process_records ::
  "('c, 'e) ingestion \<Rightarrow> 'c kafka_message list \<Rightarrow> 'e list \<times> consumer_metrics
   \<Rightarrow> ('e list \<times> consumer_metrics) \<times> (cexn + ('c kafka_message \<times> ingest_outcome) list)" where
  "process_records ingest_event [] st = (st, Inr [])"
| "process_records ingest_event (message # messages) st =
     (case process_message ingest_event message st of
        (st1, Inl e) \<Rightarrow> (st1, Inl e)
      | (st1, Inr out) \<Rightarrow>
          (case process_records ingest_event messages st1 of
             (st2, Inl e) \<Rightarrow> (st2, Inl e)
           | (st2, Inr outs) \<Rightarrow> (st2, Inr ((message, out) # outs))))"

definition counts :: "('m \<times> ingest_outcome) list \<Rightarrow> ingest_outcome \<Rightarrow> nat" where
  "counts outs o' = length (filter (\<lambda>(_, out). out = o') outs)"


section \<open>The poll loop\<close>

record 'c turn =
  t_monotonic :: rat
  t_database_up :: bool
  t_records :: "cexn + (string \<times> 'c kafka_message list) list"
  t_assigned :: bool
  t_poll_monotonic :: rat
  t_poll_time :: rat
  t_commit :: "cexn option"

record ('c, 'e) consumer =
  co_rows :: "'e list"
  co_metrics :: consumer_metrics
  co_database_ready :: bool
  co_next_check :: rat
  co_committed :: "('c kafka_message \<times> ingest_outcome) list list"

datatype stop = Returned | Raised cexn | Polling

definition database_is_ready :: "bool \<Rightarrow> consumer_metrics \<Rightarrow> consumer_metrics \<times> bool" where
  "database_is_ready up m = (if up then (m, True) else (record_database_error m, False))"

definition check_database :: "consumer_options \<Rightarrow> 'c turn \<Rightarrow> ('c, 'e) consumer \<Rightarrow> ('c, 'e) consumer" where
  "check_database options t c =
     (if t_monotonic t \<ge> co_next_check c then
        (case database_is_ready (t_database_up t) (co_metrics c) of
           (m, up) \<Rightarrow> c\<lparr>co_metrics := m, co_database_ready := up,
                            co_next_check := t_monotonic t + kc_check_interval options\<rparr>)
      else c)"

text \<open>The body of the loop; \<open>None\<close> continues.\<close>

definition consume_turn ::
  "('c, 'e) ingestion \<Rightarrow> consumer_options \<Rightarrow> 'c turn \<Rightarrow> ('c, 'e) consumer \<Rightarrow> ('c, 'e) consumer \<times> stop option" where
  "consume_turn ingest_event options t c0 =
     (let c = check_database options t c0 in
      case t_records t of
        Inl e \<Rightarrow> (c\<lparr>co_metrics := record_poll_error (co_metrics c)\<rparr>, Some (Raised e))
      | Inr records \<Rightarrow>
          let m = record_poll (t_poll_monotonic t) (t_poll_time t) (t_assigned t) (co_database_ready c) (co_metrics c);
              next_stop = (if kc_once options then Some Returned else None)
          in if records = [] then (c\<lparr>co_metrics := m\<rparr>, next_stop)
             else (case process_records ingest_event (iter_messages records) (co_rows c, m) of
               ((rows, m1), Inl e) \<Rightarrow> (c\<lparr>co_rows := rows, co_metrics := m1\<rparr>, Some (Raised e))
             | ((rows, m1), Inr outs) \<Rightarrow>
                 (case t_commit t of
                    Some e \<Rightarrow>
                      (c\<lparr>co_rows := rows,
                         co_metrics := (case record_commit ''failure'' m1 of Inl _ \<Rightarrow> m1 | Inr m2 \<Rightarrow> m2)\<rparr>, Some (Raised e))
                  | None \<Rightarrow>
                      (c\<lparr>co_rows := rows, co_committed := co_committed c @ [outs],
                         co_metrics := (case record_commit ''success'' m1 of Inl _ \<Rightarrow> m1 | Inr m2 \<Rightarrow> m2)\<rparr>, next_stop))))"

fun consume_batches ::
  "('c, 'e) ingestion \<Rightarrow> consumer_options \<Rightarrow> 'c turn list \<Rightarrow> ('c, 'e) consumer \<Rightarrow> ('c, 'e) consumer \<times> stop" where
  "consume_batches ingest_event options [] c = (c, Polling)"
| "consume_batches ingest_event options (t # ts) c =
     (case consume_turn ingest_event options t c of
        (c', Some s) \<Rightarrow> (c', s)
      | (c', None) \<Rightarrow> consume_batches ingest_event options ts c')"

definition new_consumer :: "'e list \<Rightarrow> consumer_metrics \<Rightarrow> ('c, 'e) consumer" where
  "new_consumer rows m = \<lparr>co_rows = rows, co_metrics = m, co_database_ready = False, co_next_check = 0, co_committed = []\<rparr>"

text \<open>\<open>handle\<close>: the metrics are marked as not ready however the loop ends.\<close>

definition handle_command ::
  "(string \<Rightarrow> string option) \<Rightarrow> bool \<Rightarrow> ('c, 'e) ingestion \<Rightarrow> consumer_options \<Rightarrow> 'c turn list \<Rightarrow> 'e list \<Rightarrow> consumer_metrics
   \<Rightarrow> ('c, 'e) consumer \<times> stop" where
  "handle_command getenv kafka_installed ingest_event options turns rows m =
     (case build_consumer getenv kafka_installed options of
        Inl e \<Rightarrow> (new_consumer rows (mark_not_ready m), Raised e)
      | Inr _ \<Rightarrow>
          (case consume_batches ingest_event options turns (new_consumer rows m) of
             (c, Polling) \<Rightarrow> (c, Polling)
           | (c, s) \<Rightarrow> (c\<lparr>co_metrics := mark_not_ready (co_metrics c)\<rparr>, s)))"


section \<open>The two services\<close>

record 'e ingest_context =
  x_interference :: "'e interference"
  x_pk :: string

definition gps_ingestion ::
  "field_cleaning \<Rightarrow> (gps_fix list \<Rightarrow> gps_fix \<Rightarrow> json option) \<Rightarrow> (gps_fix ingest_context, gps_fix) ingestion" where
  "gps_ingestion clean full_clean x = ingest_dealiot_gps_event clean full_clean (x_interference x) (x_pk x)"

definition sensor_ingestion ::
  "field_cleaning \<Rightarrow> (decoded_sensor_event list \<Rightarrow> decoded_sensor_event \<Rightarrow> json option) \<Rightarrow> (decoded_sensor_event ingest_context, decoded_sensor_event) ingestion" where
  "sensor_ingestion clean full_clean x = ingest_dealiot_sensor_event clean full_clean (x_interference x) (x_pk x)"

end
