(* ===== verification/Consumer_Facts.thy ===== *)
theory Consumer_Facts
  imports Consumer "HOL-Library.Sublist"
begin

text \<open>
  What the poll loop of the consumers guarantees, proved once over the contract of an ingestion
  helper (locale \<open>ingestion_contract\<close>) and interpreted for the GPS and the sensor service.

  \<open>stored p rows\<close> says that the event of the payload \<open>p\<close> has a row with one of its idempotency keys,
  \<open>refused p\<close> that it can be answered with status 400, \<open>malformed p\<close> that it is, before the table is read.
\<close>

section \<open>The contract of an ingestion helper\<close>

locale ingestion_contract =
  fixes ingest_event :: "('c, 'e) ingestion"
    and stored :: "json dict \<Rightarrow> 'e list \<Rightarrow> bool"
    and refused :: "json dict \<Rightarrow> bool"
    and malformed :: "json dict \<Rightarrow> bool"
    and quiet :: "'c \<Rightarrow> bool"
    and table_ok :: "'e list \<Rightarrow> bool"
  assumes grows: "ingest_event c p rows = (rows', r) \<Longrightarrow> prefix rows rows'"
    and keeps: "ingest_event c p rows = (rows', r) \<Longrightarrow> table_ok rows \<Longrightarrow> table_ok rows'"
    and created: "ingest_event c p rows = (rows', Inr (b, 201)) \<Longrightarrow> stored p rows'"
    and found: "ingest_event c p rows = (rows', Inr (b, 200)) \<Longrightarrow> stored p rows'"
    and declined: "ingest_event c p rows = (rows', Inr (b, 400)) \<Longrightarrow> refused p"
    and stored_prefix: "stored p rows \<Longrightarrow> prefix rows rows' \<Longrightarrow> stored p rows'"
    and again: "stored p rows \<Longrightarrow> quiet c \<Longrightarrow>
      \<exists>b. ingest_event c p rows = (rows, Inr (b, 200)) \<and> truthy (dget b ''duplicate'')"
    and malformed_again: "malformed p \<Longrightarrow> \<exists>b. ingest_event c p rows = (rows, Inr (b, 400))"

text \<open>What became of a message, judged by the table.\<close>

definition settled :: "(json dict \<Rightarrow> 'e list \<Rightarrow> bool) \<Rightarrow> (json dict \<Rightarrow> bool) \<Rightarrow> 'e list \<Rightarrow> 'c kafka_message \<times> ingest_outcome \<Rightarrow> bool" where
  "settled stored refused rows mo = (case decode_json (km_value (fst mo)) of
     Inl _ \<Rightarrow> False
   | Inr None \<Rightarrow> snd mo = Rejected
   | Inr (Some p) \<Rightarrow> if snd mo = Rejected then refused p else stored p rows)"

text \<open>A committed batch is everything one poll returned.\<close>

definition whole_batch :: "'c turn \<Rightarrow> ('c kafka_message \<times> ingest_outcome) list \<Rightarrow> bool" where
  "whole_batch t outs = (case t_records t of Inl _ \<Rightarrow> False | Inr records \<Rightarrow> map fst outs = iter_messages records)"

text \<open>A message that is refused whatever the table holds.\<close>

definition unreadable :: "(json dict \<Rightarrow> bool) \<Rightarrow> 'c kafka_message \<Rightarrow> bool" where
  "unreadable malformed msg = (case decode_json (km_value msg) of
     Inl _ \<Rightarrow> False | Inr None \<Rightarrow> True | Inr (Some p) \<Rightarrow> malformed p)"

lemma recorded_rows: "recorded msg r p out rows m = ((rows', m'), x) \<Longrightarrow> rows' = rows \<and> (case x of Inl _ \<Rightarrow> True | Inr out' \<Rightarrow> out' = out)"
  by (auto simp: recorded_def split: prod.splits sum.splits)

lemma recorded_other:
  "r \<in> {''duplicate'', ''rejected''} \<Longrightarrow> \<exists>m'. recorded msg r p out rows m = ((rows, m'), Inr out)"
  by (auto simp: recorded_def record_event_def Let_def)

lemma check_database_simps [simp]:
  "co_rows (check_database options t c) = co_rows c"
  "co_committed (check_database options t c) = co_committed c"
  by (simp_all add: check_database_def split: prod.split)

context ingestion_contract
begin

lemma message_step:
  assumes "process_message ingest_event msg (rows, m) = ((rows', m'), x)"
  shows "prefix rows rows'" "table_ok rows \<Longrightarrow> table_ok rows'"
    and "x = Inr out \<Longrightarrow> settled stored refused rows' (msg, out)"
proof -
  have "prefix rows rows' \<and> (table_ok rows \<longrightarrow> table_ok rows') \<and> (\<forall>out. x = Inr out \<longrightarrow> settled stored refused rows' (msg, out))"
  proof (cases "decode_json (km_value msg)")
    case (Inl e)
    then show ?thesis using assms by (auto simp: process_message_def)
  next
    case (Inr d)
    show ?thesis
    proof (cases d)
      case None
      then show ?thesis using assms Inr
        by (auto simp: process_message_def settled_def dest!: recorded_rows split: sum.splits)
    next
      case (Some p)
      obtain rows1 r where i: "ingest_event (km_context msg) p rows = (rows1, r)" by (cases "ingest_event (km_context msg) p rows")
      have "rows' = rows1" and "\<forall>out. x = Inr out \<longrightarrow> (\<exists>b s. r = Inr (b, s)
          \<and> (s = 201 \<and> out = Inserted \<or> s = 200 \<and> out = Duplicates \<or> s = 400 \<and> out = Rejected))"
        using assms i Inr Some
        by (auto simp: process_message_def dest!: recorded_rows split: sum.splits prod.splits if_splits)
      then show ?thesis using grows [OF i] keeps [OF i] i created found declined Inr Some
        by (auto simp: settled_def)
    qed
  qed
  then show "prefix rows rows'" "table_ok rows \<Longrightarrow> table_ok rows'" "x = Inr out \<Longrightarrow> settled stored refused rows' (msg, out)"
    by auto
qed

lemma settled_prefix: "settled stored refused rows mo \<Longrightarrow> prefix rows rows' \<Longrightarrow> settled stored refused rows' mo"
  using stored_prefix by (auto simp: settled_def split: sum.splits option.splits if_splits)

lemma records_step:
  "process_records ingest_event msgs (rows, m) = ((rows', m'), x) \<Longrightarrow>
   prefix rows rows' \<and> (table_ok rows \<longrightarrow> table_ok rows')
   \<and> (\<forall>outs. x = Inr outs \<longrightarrow> map fst outs = msgs \<and> list_all (settled stored refused rows') outs)"
proof (induction msgs arbitrary: rows m x)
  case Nil
  then show ?case by auto
next
  case (Cons msg msgs)
  obtain rows1 m1 y where p: "process_message ingest_event msg (rows, m) = ((rows1, m1), y)"
    by (cases "process_message ingest_event msg (rows, m)") auto
  note step = message_step [OF p]
  show ?case
  proof (cases y)
    case (Inl e)
    then show ?thesis using Cons.prems p step(1,2) by auto
  next
    case (Inr out)
    obtain z where z: "process_records ingest_event msgs (rows1, m1) = ((rows', m'), z)"
      using Cons.prems p Inr by (auto split: prod.splits sum.splits)
    note ih = Cons.IH [OF z]
    have "settled stored refused rows' (msg, out)" using settled_prefix [OF step(3) [OF Inr]] ih by blast
    then show ?thesis using Cons.prems p Inr z ih step(1,2) by (auto intro: prefix_order.trans split: sum.splits)
  qed
qed

lemma turn_step:
  assumes "consume_turn ingest_event options t c = (c', s)"
  shows "prefix (co_rows c) (co_rows c') \<and> (table_ok (co_rows c) \<longrightarrow> table_ok (co_rows c'))
    \<and> (co_committed c' = co_committed c
       \<or> (\<exists>outs. co_committed c' = co_committed c @ [outs] \<and> whole_batch t outs
             \<and> list_all (settled stored refused (co_rows c')) outs))"
proof (cases "t_records t")
  case (Inl e)
  then show ?thesis using assms by (auto simp: consume_turn_def Let_def)
next
  case (Inr records)
  show ?thesis
  proof (cases "records = []")
    case True
    then show ?thesis using assms Inr by (auto simp: consume_turn_def Let_def)
  next
    case False
    define m where "m = record_poll (t_poll_monotonic t) (t_poll_time t) (t_assigned t)
      (co_database_ready (check_database options t c)) (co_metrics (check_database options t c))"
    obtain rows1 m1 x where p: "process_records ingest_event (iter_messages records) (co_rows c, m) = ((rows1, m1), x)"
      by (cases "process_records ingest_event (iter_messages records) (co_rows c, m)") auto
    note step = records_step [OF p]
    show ?thesis
    proof (cases x)
      case (Inl e)
      then show ?thesis using assms Inr False p step by (auto simp: consume_turn_def Let_def m_def [symmetric])
    next
      case (Inr outs)
      have "co_rows c' = rows1 \<and> (co_committed c' = co_committed c \<or> co_committed c' = co_committed c @ [outs])"
        using assms \<open>t_records t = Inr records\<close> False p Inr
        by (auto simp: consume_turn_def Let_def m_def [symmetric] split: option.splits)
      then show ?thesis using step Inr \<open>t_records t = Inr records\<close> by (auto simp: whole_batch_def)
    qed
  qed
qed

lemma run_step:
  "consume_batches ingest_event options ts c = (c', s) \<Longrightarrow>
   prefix (co_rows c) (co_rows c') \<and> (table_ok (co_rows c) \<longrightarrow> table_ok (co_rows c'))
   \<and> (\<exists>new. co_committed c' = co_committed c @ new
        \<and> list_all (\<lambda>outs. list_ex (\<lambda>t. whole_batch t outs) ts \<and> list_all (settled stored refused (co_rows c')) outs) new)"
proof (induction ts arbitrary: c)
  case Nil
  then show ?case by auto
next
  case (Cons t ts)
  obtain c1 r where t: "consume_turn ingest_event options t c = (c1, r)" by (cases "consume_turn ingest_event options t c")
  note step = turn_step [OF t]
  show ?case
  proof (cases r)
    case (Some y)
    then show ?thesis using Cons.prems t step by auto
  next
    case None
    then have rest: "consume_batches ingest_event options ts c1 = (c', s)" using Cons.prems t by simp
    note ih = Cons.IH [OF rest]
    from ih obtain new where new: "co_committed c' = co_committed c1 @ new"
      "list_all (\<lambda>outs. list_ex (\<lambda>t. whole_batch t outs) ts \<and> list_all (settled stored refused (co_rows c')) outs) new"
      by blast
    have "\<exists>first. co_committed c1 = co_committed c @ first
      \<and> list_all (\<lambda>outs. whole_batch t outs \<and> list_all (settled stored refused (co_rows c')) outs) first"
    proof (cases "co_committed c1 = co_committed c")
      case True
      then show ?thesis by simp
    next
      case False
      then obtain outs where outs: "co_committed c1 = co_committed c @ [outs]" "whole_batch t outs"
        "list_all (settled stored refused (co_rows c1)) outs" using step by blast
      have "list_all (settled stored refused (co_rows c')) outs"
        using outs(3) settled_prefix ih by (metis (no_types, lifting) list_all_iff)
      then show ?thesis using outs by simp
    qed
    then obtain first where "co_committed c1 = co_committed c @ first"
      "list_all (\<lambda>outs. whole_batch t outs \<and> list_all (settled stored refused (co_rows c')) outs) first" by blast
    then have "co_committed c' = co_committed c @ (first @ new)
      \<and> list_all (\<lambda>outs. list_ex (\<lambda>t. whole_batch t outs) (t # ts) \<and> list_all (settled stored refused (co_rows c')) outs) (first @ new)"
      using new by (auto simp: list_all_iff)
    then show ?thesis using step ih by (auto intro: prefix_order.trans)
  qed
qed

lemma committed_settled:
  "case consume_batches ingest_event options ts (new_consumer rows m) of (c, s) \<Rightarrow>
     prefix rows (co_rows c)
     \<and> list_all (\<lambda>outs. list_ex (\<lambda>t. whole_batch t outs) ts \<and> list_all (settled stored refused (co_rows c)) outs) (co_committed c)"
  using run_step [of options ts "new_consumer rows m"] by (fastforce simp: new_consumer_def split: prod.split)

lemma run_keeps:
  "table_ok rows \<Longrightarrow> table_ok (co_rows (fst (consume_batches ingest_event options ts (new_consumer rows m))))"
  using run_step [of options ts "new_consumer rows m"]
  by (cases "consume_batches ingest_event options ts (new_consumer rows m)") (simp add: new_consumer_def)


text \<open>Redelivery.\<close>

lemma message_again:
  assumes "settled stored refused rows (msg, out)" "out \<noteq> Rejected \<or> unreadable malformed msg"
    and "km_value msg' = km_value msg" "quiet (km_context msg')"
  shows "\<exists>m' out'. process_message ingest_event msg' (rows, m) = ((rows, m'), Inr out') \<and> out' \<noteq> Inserted"
proof (cases "decode_json (km_value msg)")
  case (Inl e)
  then show ?thesis using assms(1) by (simp add: settled_def)
next
  case (Inr d)
  show ?thesis
  proof (cases d)
    case None
    obtain m' where "recorded msg' ''rejected'' None Rejected rows m = ((rows, m'), Inr Rejected)"
      using recorded_other [of "''rejected''"] by blast
    then show ?thesis using Inr None assms(3) by (simp add: process_message_def)
  next
    case (Some p)
    show ?thesis
    proof (cases "malformed p")
      case True
      obtain b where b: "ingest_event (km_context msg') p rows = (rows, Inr (b, 400))" using malformed_again [OF True] by blast
      obtain m' where "recorded msg' ''rejected'' (Some p) Rejected rows m = ((rows, m'), Inr Rejected)"
        using recorded_other [of "''rejected''"] by blast
      then show ?thesis using Inr Some b assms(3) by (simp add: process_message_def)
    next
      case False
      then have "stored p rows" using assms(1,2) Inr Some by (auto simp: settled_def unreadable_def split: if_splits)
      then obtain b where b: "ingest_event (km_context msg') p rows = (rows, Inr (b, 200))" "truthy (dget b ''duplicate'')"
        using again [OF _ assms(4)] by blast
      obtain m' where "recorded msg' ''duplicate'' (Some p) Duplicates rows m = ((rows, m'), Inr Duplicates)"
        using recorded_other [of "''duplicate''"] by blast
      then show ?thesis using Inr Some b assms(3) by (simp add: process_message_def)
    qed
  qed
qed

lemma records_again:
  assumes "list_all (\<lambda>mo. settled stored refused rows mo \<and> (snd mo \<noteq> Rejected \<or> unreadable malformed (fst mo))) outs"
    and "list_all2 (\<lambda>mo msg'. km_value msg' = km_value (fst mo) \<and> quiet (km_context msg')) outs msgs'"
  shows "\<exists>m' outs'. process_records ingest_event msgs' (rows, m) = ((rows, m'), Inr outs') \<and> counts outs' Inserted = 0"
  using assms(2,1)
proof (induction arbitrary: m rule: list_all2_induct)
  case Nil
  then show ?case by (simp add: counts_def)
next
  case (Cons mo outs msg' msgs')
  obtain m1 out' where p: "process_message ingest_event msg' (rows, m) = ((rows, m1), Inr out')" "out' \<noteq> Inserted"
    using message_again [of rows "fst mo" "snd mo" msg' m] Cons.hyps(1) Cons.prems by auto
  obtain m2 outs' where "process_records ingest_event msgs' (rows, m1) = ((rows, m2), Inr outs')" "counts outs' Inserted = 0"
    using Cons.IH [of m1] Cons.prems by auto
  then show ?case using p by (simp add: counts_def)
qed

lemma redelivered:
  assumes "process_records ingest_event msgs (rows, m) = ((rows', m'), Inr outs)"
    and "list_all (\<lambda>(msg, out). out \<noteq> Rejected \<or> unreadable malformed msg) outs"
    and "list_all2 (\<lambda>msg msg'. km_value msg' = km_value msg \<and> quiet (km_context msg')) msgs msgs'"
    and "prefix rows' later"
  shows "\<exists>m2 outs'. process_records ingest_event msgs' (later, m1) = ((later, m2), Inr outs') \<and> counts outs' Inserted = 0"
proof (rule records_again)
  from records_step [OF assms(1)] have s: "map fst outs = msgs" "list_all (settled stored refused rows') outs" by auto
  then show "list_all (\<lambda>mo. settled stored refused later mo \<and> (snd mo \<noteq> Rejected \<or> unreadable malformed (fst mo))) outs"
    using assms(2) settled_prefix [OF _ assms(4)] by (auto simp: list_all_iff)
  show "list_all2 (\<lambda>mo msg'. km_value msg' = km_value (fst mo) \<and> quiet (km_context msg')) outs msgs'"
    using assms(3) s(1) by (auto simp: list.rel_map(1))
qed

end

end
