(* ===== verification/Consumer_Services.thy ===== *)
theory Consumer_Services
  imports Consumer_Facts
begin

text \<open>
  The GPS and the sensor ingestion satisfy \<open>ingestion_contract\<close>: the table only grows, whatever
  other processes insert meanwhile; a reply 200 or 201 means that the event has a row; an event
  that has a row is answered as a duplicate. The table invariants are \<open>keys_unique\<close> and, for GPS,
  \<open>positions_ok\<close>.
\<close>

section \<open>What the contract says of a service\<close>

type_synonym 'e building = "json dict \<Rightarrow> json + (cexn + 'e)"

definition stored_by :: "'a wildfi_event_scheme building \<Rightarrow> json dict \<Rightarrow> 'a wildfi_event_scheme list \<Rightarrow> bool" where
  "stored_by build p rows = (case build p of Inr (Inr e) \<Rightarrow> find_existing e rows \<noteq> None | _ \<Rightarrow> False)"

definition malformed_by :: "'e building \<Rightarrow> json dict \<Rightarrow> bool" where
  "malformed_by build p = (case build p of Inl _ \<Rightarrow> True | _ \<Rightarrow> False)"

text \<open>Refused before the table is read, or by the model validation over some state of the table.\<close>

definition refused_by ::
  "'a wildfi_event_scheme building \<Rightarrow> ('a wildfi_event_scheme list \<Rightarrow> 'a wildfi_event_scheme \<Rightarrow> json option) \<Rightarrow> json dict \<Rightarrow> bool" where
  "refused_by build full_clean p = (case build p of
     Inl _ \<Rightarrow> True
   | Inr (Inl _) \<Rightarrow> False
   | Inr (Inr e) \<Rightarrow> \<exists>rows pk. full_clean rows (e\<lparr>w_pk := pk\<rparr>) \<noteq> None)"

definition gps_build :: "field_cleaning \<Rightarrow> gps_fix building" where
  "gps_build clean = built_event (gps_serializer clean) (gps_from_event [])"

definition sensor_build :: "field_cleaning \<Rightarrow> decoded_sensor_event building" where
  "sensor_build clean = built_event (sensor_serializer clean) (sensor_from_event [])"

text \<open>No failure, and nobody else inserts before the lookup.\<close>

definition undisturbed :: "'e ingest_context \<Rightarrow> bool" where
  "undisturbed x \<longleftrightarrow> i_before (x_interference x) = [] \<and> \<not> i_lookup_fails (x_interference x)"

definition keys_unique :: "'a wildfi_event_scheme list \<Rightarrow> bool" where
  "keys_unique rows \<longleftrightarrow>
     distinct (map (\<lambda>r. (w_source r, w_event_id r)) (filter (\<lambda>r. w_event_id r \<noteq> []) rows))
     \<and> distinct (map (\<lambda>r. (w_source r, w_payload_hash r)) (filter (\<lambda>r. w_payload_hash r \<noteq> []) rows))"

definition positions_ok :: "gps_fix list \<Rightarrow> bool" where
  "positions_ok rows \<longleftrightarrow> list_all (\<lambda>r. \<bar>gf_latitude r\<bar> \<le> 90 \<and> \<bar>gf_longitude r\<bar> \<le> 180) rows"


section \<open>Lookups\<close>

lemma same_pk [simp]:
  "same_event_id (w_pk_update f e) = same_event_id e" "same_hash (w_pk_update f e) = same_hash e"
  by (simp_all add: fun_eq_iff same_event_id_def same_hash_def)

lemma find_existing_pk [simp]: "find_existing (w_pk_update f e) rows = find_existing e rows"
  by (simp add: find_existing_def cong: option.case_cong)

lemma find_Some_ex: "find P xs \<noteq> None \<longleftrightarrow> list_ex P xs"
  by (auto simp: find_None_iff list_ex_iff)

lemma find_existing_iff:
  "find_existing e rows \<noteq> None \<longleftrightarrow>
   w_event_id e \<noteq> [] \<and> list_ex (same_event_id e) rows \<or> w_payload_hash e \<noteq> [] \<and> list_ex (same_hash e) rows"
  unfolding find_existing_def find_Some_ex [symmetric]
  by (cases "w_event_id e \<noteq> []"; cases "find (same_event_id e) rows") auto

lemma find_existing_prefix: "find_existing e rows \<noteq> None \<Longrightarrow> prefix rows rows' \<Longrightarrow> find_existing e rows' \<noteq> None"
  unfolding find_existing_iff by (auto simp: prefix_def)

lemma find_existing_self: "w_payload_hash e \<noteq> [] \<Longrightarrow> find_existing e (rows @ [e]) \<noteq> None"
  unfolding find_existing_iff by (simp add: same_hash_def)


section \<open>Persistence\<close>

lemma others_prefix: "prefix rows (inserted_by_others constraints es rows)"
  unfolding inserted_by_others_def
proof (induction es arbitrary: rows)
  case (Cons e es)
  have "prefix rows (if constraints rows e then rows @ [e] else rows)" by simp
  then show ?case using Cons [of "if constraints rows e then rows @ [e] else rows"] by (auto intro: prefix_order.trans)
qed simp

lemma others_Nil [simp]: "inserted_by_others constraints [] rows = rows"
  by (simp add: inserted_by_others_def)

lemma others_keep:
  assumes "P rows" "\<And>rows e. P rows \<Longrightarrow> constraints rows e \<Longrightarrow> P (rows @ [e])"
  shows "P (inserted_by_others constraints es rows)"
  using assms(1) unfolding inserted_by_others_def by (induction es arbitrary: rows) (simp_all add: assms(2))

lemma persist_result:
  assumes "persist_idempotent_event find_existing serialize full_clean constraints ifc e rows = (rows', r)"
  shows "prefix rows rows'"
    and "\<lbrakk>P rows; \<And>rows e. P rows \<Longrightarrow> constraints rows e \<Longrightarrow> P (rows @ [e])\<rbrakk> \<Longrightarrow> P rows'"
    and "case r of Inl _ \<Rightarrow> True | Inr (b, s) \<Rightarrow>
       s = 201 \<and> e \<in> set rows' \<or> s = 200 \<and> find_existing e rows' \<noteq> None \<or> s = 400 \<and> (\<exists>rs. full_clean rs e \<noteq> None)"
proof -
  let ?r1 = "inserted_by_others constraints (i_before ifc) rows"
  let ?r2 = "inserted_by_others constraints (i_between ifc) ?r1"
  let ?r3 = "inserted_by_others constraints (i_saving ifc) ?r2"
  have p: "prefix rows ?r1" "prefix rows ?r2" "prefix rows ?r3"
    by (blast intro: others_prefix prefix_order.trans)+
  have rows': "rows' = ?r1 \<or> rows' = ?r2 \<or> rows' = ?r3 \<or> rows' = ?r3 @ [e] \<and> constraints ?r3 e"
    using assms by (auto simp: persist_idempotent_event_def Let_def split: if_splits option.splits)
  then show "prefix rows rows'" using p by (auto intro: prefix_order.trans)
  show "P rows'" if "P rows" "\<And>rows e. P rows \<Longrightarrow> constraints rows e \<Longrightarrow> P (rows @ [e])"
  proof -
    have "P ?r1" using that by (rule others_keep)
    then have "P ?r2" using that(2) by (rule others_keep)
    then have "P ?r3" using that(2) by (rule others_keep)
    then show ?thesis using rows' that(2) \<open>P ?r1\<close> \<open>P ?r2\<close> by auto
  qed
  show "case r of Inl _ \<Rightarrow> True | Inr (b, s) \<Rightarrow>
      s = 201 \<and> e \<in> set rows' \<or> s = 200 \<and> find_existing e rows' \<noteq> None \<or> s = 400 \<and> (\<exists>rs. full_clean rs e \<noteq> None)"
    using assms by (auto simp: persist_idempotent_event_def Let_def split: if_splits option.splits) blast
qed

lemma persist_again:
  assumes "find_existing e rows \<noteq> None" "i_before ifc = []" "\<not> i_lookup_fails ifc"
  shows "\<exists>x. persist_idempotent_event find_existing serialize full_clean constraints ifc e rows = (rows, Inr (serialize x True, 200))"
  using assms by (auto simp: persist_idempotent_event_def)


section \<open>Rows\<close>

lemma hash_not_Nil [simp]: "stable_event_hash d \<noteq> []"
  using sha256_hexdigest_shape(1) [of "ascii_dumps (jsort (JObj d))"] by (auto simp: stable_event_hash_def)

lemma gps_from_event_pk: "gps_from_event pk d = map_sum id (w_pk_update (\<lambda>_. pk)) (gps_from_event [] d)"
  by (simp add: gps_from_event_def Let_def bindE_def guardE_def split: sum.split)

lemma sensor_from_event_pk: "sensor_from_event pk d = map_sum id (w_pk_update (\<lambda>_. pk)) (sensor_from_event [] d)"
  by (simp add: sensor_from_event_def Let_def bindE_def guardE_def split: sum.split)

lemma built_event_pk:
  "(\<And>d. from_event d = map_sum id f (from_event' d)) \<Longrightarrow>
   built_event ser from_event p = map_sum id (map_sum id f) (built_event ser from_event' p)"
  by (auto simp: built_event_def split: sum.splits cexn.splits)

lemma gps_built: "built_event (gps_serializer clean) (gps_from_event pk) p = map_sum id (map_sum id (w_pk_update (\<lambda>_. pk))) (gps_build clean p)"
  unfolding gps_build_def by (rule built_event_pk) (rule gps_from_event_pk)

lemma sensor_built: "built_event (sensor_serializer clean) (sensor_from_event pk) p = map_sum id (map_sum id (w_pk_update (\<lambda>_. pk))) (sensor_build clean p)"
  unfolding sensor_build_def by (rule built_event_pk) (rule sensor_from_event_pk)

lemma gps_hash: "gps_from_event pk d = Inr e \<Longrightarrow> w_payload_hash e \<noteq> []"
  by (auto simp: gps_from_event_def Let_def res_iff)

lemma sensor_hash: "sensor_from_event pk d = Inr e \<Longrightarrow> w_payload_hash e \<noteq> []"
  by (auto simp: sensor_from_event_def Let_def res_iff)

lemma built_from: "built_event ser from_event p = Inr (Inr e) \<Longrightarrow> \<exists>d. from_event d = Inr e"
  by (auto simp: built_event_def split: sum.splits cexn.splits)

lemma gps_build_hash: "gps_build clean p = Inr (Inr e) \<Longrightarrow> w_payload_hash e \<noteq> []"
  unfolding gps_build_def by (drule built_from) (auto dest: gps_hash)

lemma sensor_build_hash: "sensor_build clean p = Inr (Inr e) \<Longrightarrow> w_payload_hash e \<noteq> []"
  unfolding sensor_build_def by (drule built_from) (auto dest: sensor_hash)

lemma keys_unique_insert: "keys_unique rows \<Longrightarrow> unique_constraints rows e \<Longrightarrow> keys_unique (rows @ [e])"
  by (auto simp: keys_unique_def unique_constraints_def same_event_id_def same_hash_def list_ex_iff)

lemma positions_insert: "positions_ok rows \<Longrightarrow> gps_constraints rows e \<Longrightarrow> positions_ok (rows @ [e])"
  by (simp add: positions_ok_def gps_constraints_def abs_le_iff)


section \<open>The interpretations\<close>

text \<open>The shape both helpers share: \<open>run\<close> is the helper over what was built from the payload.\<close>

definition ingest_built ::
  "'a wildfi_event_scheme building \<Rightarrow> ('a wildfi_event_scheme \<Rightarrow> bool \<Rightarrow> json dict)
   \<Rightarrow> ('a wildfi_event_scheme list \<Rightarrow> 'a wildfi_event_scheme \<Rightarrow> json option)
   \<Rightarrow> ('a wildfi_event_scheme list \<Rightarrow> 'a wildfi_event_scheme \<Rightarrow> bool)
   \<Rightarrow> ('a wildfi_event_scheme ingest_context, 'a wildfi_event_scheme) ingestion" where
  "ingest_built build serialize full_clean constraints x p rows = (case build p of
     Inl detail \<Rightarrow> (rows, Inr ([(''detail'', detail)], 400))
   | Inr (Inl e) \<Rightarrow> (rows, Inl e)
   | Inr (Inr e) \<Rightarrow> persist_idempotent_event find_existing serialize full_clean constraints (x_interference x) (e\<lparr>w_pk := x_pk x\<rparr>) rows)"

lemma gps_ingestion_built:
  "gps_ingestion clean full_clean = ingest_built (gps_build clean) serialize_gps full_clean gps_constraints"
  by (simp add: fun_eq_iff gps_ingestion_def ingest_dealiot_gps_event_def ingest_built_def gps_built split: sum.split)

lemma sensor_ingestion_built:
  "sensor_ingestion clean full_clean = ingest_built (sensor_build clean) serialize_sensor full_clean sensor_constraints"
  by (simp add: fun_eq_iff sensor_ingestion_def ingest_dealiot_sensor_event_def ingest_built_def sensor_built split: sum.split)

lemma ingest_built_contract:
  assumes hash: "\<And>p e. build p = Inr (Inr e) \<Longrightarrow> w_payload_hash e \<noteq> []"
    and table: "\<And>rows e. table_ok rows \<Longrightarrow> constraints rows e \<Longrightarrow> table_ok (rows @ [e])"
    and mark: "\<And>e. truthy (dget (serialize e True) ''duplicate'')"
  shows "ingestion_contract (ingest_built build serialize full_clean constraints)
    (stored_by build) (refused_by build full_clean) (malformed_by build) undisturbed table_ok"
proof
  fix c p rows rows' r
  assume i: "ingest_built build serialize full_clean constraints c p rows = (rows', r)"
  show "prefix rows rows'"
    using i persist_result(1) by (auto simp: ingest_built_def split: sum.splits)
  show "table_ok rows \<Longrightarrow> table_ok rows'"
    using i persist_result(2) [where P = table_ok] table by (fastforce simp: ingest_built_def split: sum.splits)
next
  fix c p rows rows' b
  assume i: "ingest_built build serialize full_clean constraints c p rows = (rows', Inr (b, 201))"
  then obtain e where e: "build p = Inr (Inr e)"
    and "persist_idempotent_event find_existing serialize full_clean constraints (x_interference c) (e\<lparr>w_pk := x_pk c\<rparr>) rows = (rows', Inr (b, 201))"
    by (auto simp: ingest_built_def split: sum.splits)
  from persist_result(3) [OF this(2)] have "e\<lparr>w_pk := x_pk c\<rparr> \<in> set rows'" by simp
  then have "list_ex (same_hash e) rows'" unfolding list_ex_iff by (rule bexI [rotated]) (simp add: same_hash_def)
  then show "stored_by build p rows'" using e hash [OF e] by (simp add: stored_by_def find_existing_iff del: not_None_eq)
next
  fix c p rows rows' b
  assume i: "ingest_built build serialize full_clean constraints c p rows = (rows', Inr (b, 200))"
  then obtain e where e: "build p = Inr (Inr e)"
    and "persist_idempotent_event find_existing serialize full_clean constraints (x_interference c) (e\<lparr>w_pk := x_pk c\<rparr>) rows = (rows', Inr (b, 200))"
    by (auto simp: ingest_built_def split: sum.splits)
  from persist_result(3) [OF this(2)] show "stored_by build p rows'" using e by (simp add: stored_by_def)
next
  fix c p rows rows' b
  assume i: "ingest_built build serialize full_clean constraints c p rows = (rows', Inr (b, 400))"
  show "refused_by build full_clean p"
  proof (cases "malformed_by build p")
    case True
    then show ?thesis by (auto simp: malformed_by_def refused_by_def split: sum.splits)
  next
    case False
    then obtain e where e: "build p = Inr (Inr e)"
      and "persist_idempotent_event find_existing serialize full_clean constraints (x_interference c) (e\<lparr>w_pk := x_pk c\<rparr>) rows = (rows', Inr (b, 400))"
      using i by (auto simp: ingest_built_def malformed_by_def split: sum.splits)
    from persist_result(3) [OF this(2)] have "\<exists>rs. full_clean rs (e\<lparr>w_pk := x_pk c\<rparr>) \<noteq> None" by simp
    then show ?thesis using e by (auto simp: refused_by_def)
  qed
next
  fix p rows rows'
  assume "stored_by build p rows" "prefix rows rows'"
  then show "stored_by build p rows'"
    using find_existing_prefix [of _ rows rows'] by (auto simp: stored_by_def split: sum.splits)
next
  fix p rows and c :: "'a wildfi_event_scheme ingest_context"
  assume s: "stored_by build p rows" and u: "undisturbed c"
  from s obtain e where e: "build p = Inr (Inr e)" "find_existing (e\<lparr>w_pk := x_pk c\<rparr>) rows \<noteq> None"
    by (auto simp: stored_by_def split: sum.splits)
  obtain x where "persist_idempotent_event find_existing serialize full_clean constraints (x_interference c) (e\<lparr>w_pk := x_pk c\<rparr>) rows
      = (rows, Inr (serialize x True, 200))"
    using persist_again [OF e(2), of "x_interference c"] u unfolding undisturbed_def by blast
  then show "\<exists>b. ingest_built build serialize full_clean constraints c p rows = (rows, Inr (b, 200)) \<and> truthy (dget b ''duplicate'')"
    using e(1) mark by (simp add: ingest_built_def)
next
  fix p rows and c :: "'a wildfi_event_scheme ingest_context"
  assume "malformed_by build p"
  then show "\<exists>b. ingest_built build serialize full_clean constraints c p rows = (rows, Inr (b, 400))"
    by (auto simp: malformed_by_def ingest_built_def split: sum.splits)
qed

definition gps_table :: "gps_fix list \<Rightarrow> bool" where
  "gps_table rows \<longleftrightarrow> keys_unique rows \<and> positions_ok rows"

interpretation gps: ingestion_contract "gps_ingestion clean full_clean" "stored_by (gps_build clean)"
  "refused_by (gps_build clean) full_clean" "malformed_by (gps_build clean)" undisturbed gps_table
  for clean full_clean
  unfolding gps_ingestion_built
  by (rule ingest_built_contract)
    (simp_all add: gps_build_hash gps_table_def keys_unique_insert positions_insert gps_constraints_def serialize_gps_def)

interpretation sensor: ingestion_contract "sensor_ingestion clean full_clean" "stored_by (sensor_build clean)"
  "refused_by (sensor_build clean) full_clean" "malformed_by (sensor_build clean)" undisturbed keys_unique
  for clean full_clean
  unfolding sensor_ingestion_built
  by (rule ingest_built_contract)
    (simp_all add: sensor_build_hash keys_unique_insert sensor_constraints_def serialize_sensor_def)


section \<open>Numbers that do not fit\<close>

lemma floor_le_round_half_even: "\<lfloor>x\<rfloor> \<le> round_half_even x"
  by (simp add: round_half_even_def Let_def)

lemma bit_length_ge: "2 ^ k \<le> n \<Longrightarrow> Suc k \<le> bit_length n"
proof -
  assume n: "2 ^ k \<le> n"
  then have "0 < n" using less_le_trans [of 0 "2 ^ k" n] by simp
  then have "(2::nat) ^ k < 2 ^ bit_length n" using bit_length_bounds [of n] n by linarith
  then show ?thesis by simp
qed

lemma rounded_ge:
  assumes "2 ^ K \<le> n" "52 \<le> K" "k = bit_length (nat n) - 1"
  shows "(2::rat) ^ K \<le> of_int (round_half_even (of_int n / 2 ^ (k - 52))) * 2 ^ (k - 52)"
proof -
  have n: "0 < n" using assms(1) less_le_trans [of 0 "2 ^ K" n] by simp
  have "2 ^ K \<le> nat n" using assms(1) n by (simp add: le_nat_iff)
  then have K: "K \<le> k" using bit_length_ge [of K "nat n"] assms(3) by simp
  have "2 ^ k \<le> nat n" using bit_length_bounds [of "nat n"] n assms(3) by simp
  then have "(2::int) ^ k \<le> n" using n by (simp add: le_nat_iff)
  then have "(2::rat) ^ k \<le> of_int n" by (metis of_int_le_iff of_int_numeral of_int_power)
  moreover have k: "(2::rat) ^ k = 2 ^ 52 * 2 ^ (k - 52)"
    using K assms(2) by (simp del: power_numeral flip: power_add)
  ultimately have "(2::rat) ^ 52 \<le> of_int n / 2 ^ (k - 52)" by (simp add: le_divide_eq del: power_numeral)
  then have "(2::int) ^ 52 \<le> \<lfloor>of_int n / (2::rat) ^ (k - 52)\<rfloor>" by (simp add: le_floor_iff del: power_numeral)
  then have "(2::int) ^ 52 \<le> round_half_even (of_int n / (2::rat) ^ (k - 52))"
    using floor_le_round_half_even by (rule order_trans)
  then have "(2::rat) ^ 52 \<le> of_int (round_half_even (of_int n / (2::rat) ^ (k - 52)))"
    by (metis of_int_le_iff of_int_numeral of_int_power)
  then have "(2::rat) ^ k \<le> of_int (round_half_even (of_int n / (2::rat) ^ (k - 52))) * 2 ^ (k - 52)"
    unfolding k by (rule mult_right_mono) simp
  moreover have "(2::rat) ^ K \<le> 2 ^ k" using K by (simp add: power_increasing)
  ultimately show ?thesis by (rule order_trans [rotated])
qed

lemma float64_too_large:
  assumes "2 ^ nat 1024 \<le> \<bar>n\<bar>"
  shows "float64 (of_int n) \<in> {PosInf, NegInf}"
proof -
  define K :: nat where "K = nat 1024"
  have K: "52 \<le> K" "2 ^ K \<le> \<bar>n\<bar>" using assms by (simp_all only: K_def)
  have pos: "0 < \<bar>n\<bar>" using K(2) less_le_trans [of 0 "2 ^ K" "\<bar>n\<bar>"] by simp
  define k where "k = bit_length (nat \<bar>n\<bar>) - 1"
  have "2 ^ K \<le> nat \<bar>n\<bar>" using K(2) by (simp add: le_nat_iff)
  then have Kk: "K \<le> k" "0 < bit_length (nat \<bar>n\<bar>)" using bit_length_ge [of K "nat \<bar>n\<bar>"] by (simp_all add: k_def)
  have "bin_exponent \<bar>of_int n :: rat\<bar> = int k" using bin_exponent_int [OF pos] Kk(2) by (simp add: k_def)
  then have e: "max (bin_exponent \<bar>of_int n :: rat\<bar> - 52) (-1074) = int (k - 52)" using Kk K(1) by simp
  have p: "pow2 (int j) = 2 ^ j" for j by (simp add: pow2_def)
  have "pow2 1024 = 2 ^ K" by (simp only: pow2_def K_def) simp
  then have "\<not> of_int (round_half_even (\<bar>of_int n :: rat\<bar> / pow2 (int (k - 52)))) * pow2 (int (k - 52)) < pow2 1024"
    using rounded_ge [OF K(2) K(1) k_def] by (simp only: p of_int_abs not_less)
  then show ?thesis using pos by (simp only: float64_def Let_def e) auto
qed

text \<open>Integers from here on have no binary64 value.\<close>

definition float_limit :: int where
  "float_limit = 2 ^ 1024"

lemma py_float_too_large: "float_limit \<le> \<bar>n\<bar> \<Longrightarrow> py_float (JInt n) = TooLarge"
  using float64_too_large [of n] by (auto simp: py_float_def float_limit_def nat_numeral simp del: power_numeral)

lemma required_float_too_large:
  assumes "blank (dget event f)" "dget payload f = JInt n" "float_limit \<le> \<bar>n\<bar>"
  shows "required_float event payload (f # fs) = Inl OverflowError"
  using assms py_float_too_large [OF assms(3)] by (auto simp: required_float_def event_value_def finite_value_def)

lemma gps_build_overflow:
  assumes "gps_serializer clean p = Inr attrs" "truthy (dget attrs ''device_id'')"
    and "parse_event_datetime (dget attrs ''timestamp'') ''timestamp'' = Inr t" "dget attrs ''ingested_at'' = JNull"
    and "dget attrs ''payload'' = JObj d" "blank (dget attrs ''latitude'')" "dget d ''latitude'' = JInt n" "float_limit \<le> \<bar>n\<bar>"
  shows "gps_build clean p = Inr (Inl OverflowError)"
proof -
  have "required_float attrs d [''latitude'', ''lat''] = Inl OverflowError"
    using assms(6-8) by (rule required_float_too_large)
  then have "gps_from_event [] attrs = Inl OverflowError" using assms(2-5)
    by (simp add: gps_from_event_def Let_def payload_dict_def py_or_def parse_optional_event_datetime_def)
  then show ?thesis using assms(1) by (simp add: gps_build_def built_event_def)
qed

lemma raising_message_stops:
  assumes "t_records t = Inr ((part, msg # rest) # others)" "decode_json (km_value msg) = Inr (Some p)"
    and "\<And>rows. ingest_event (km_context msg) p rows = (rows, Inl e)"
  shows "\<exists>c'. consume_batches ingest_event options (t # ts) c = (c', Raised e)
    \<and> co_committed c' = co_committed c \<and> co_rows c' = co_rows c"
proof -
  have p: "\<exists>m'. process_records ingest_event (iter_messages ((part, msg # rest) # others)) (rows, m) = ((rows, m'), Inl e)" for rows m
    using assms(2) assms(3) [of rows] by (simp add: iter_messages_def process_message_def)
  let ?c = "check_database options t c"
  obtain m' where "process_records ingest_event (iter_messages ((part, msg # rest) # others)) (co_rows ?c,
      record_poll (t_poll_monotonic t) (t_poll_time t) (t_assigned t) (co_database_ready ?c) (co_metrics ?c)) = ((co_rows ?c, m'), Inl e)"
    using p by blast
  then have "consume_turn ingest_event options t c = (?c\<lparr>co_rows := co_rows ?c, co_metrics := m'\<rparr>, Some (Raised e))"
    using assms(1) by (simp add: consume_turn_def Let_def)
  then show ?thesis by simp
qed


section \<open>Concurrent duplicates\<close>

lemma validated_duplicate:
  assumes "\<And>rows e. \<not> constraints rows e \<Longrightarrow> full_clean rows e \<noteq> None"
    and "find_existing e (inserted_by_others constraints (i_before ifc) rows) = None"
    and "\<not> constraints (inserted_by_others constraints (i_between ifc) (inserted_by_others constraints (i_before ifc) rows)) e"
    and "\<not> i_lookup_fails ifc" "\<not> i_save_fails ifc"
  shows "\<exists>rows' b. persist_idempotent_event find_existing serialize full_clean constraints ifc e rows = (rows', Inr (b, 400))"
proof -
  let ?r2 = "inserted_by_others constraints (i_between ifc) (inserted_by_others constraints (i_before ifc) rows)"
  obtain messages where "full_clean ?r2 e = Some messages" using assms(1) [OF assms(3)] by blast
  then show ?thesis using assms(2,4,5) by (simp add: persist_idempotent_event_def Let_def)
qed

end
