(* ===== verification/Consumer_Counters.thy ===== *)
theory Consumer_Counters
  imports Consumer
begin

text \<open>
  The counters of the consumer, for every ingestion helper: while the loop does not raise, the
  records counted by result are the outcomes of the committed batches, and the histograms stay
  well-formed.
\<close>

primrec result_name :: "ingest_outcome \<Rightarrow> string" where
  "result_name Inserted = ''inserted''"
| "result_name Duplicates = ''duplicate''"
| "result_name Rejected = ''rejected''"

definition tally :: "consumer_metrics \<Rightarrow> ingest_outcome \<Rightarrow> int" where
  "tally m out = lookup_zero (cm_records m) (result_name out)"

definition successes :: "consumer_metrics \<Rightarrow> int" where
  "successes m = lookup_zero (cm_commits m) ''success''"

definition histograms_ok :: "consumer_metrics \<Rightarrow> bool" where
  "histograms_ok m \<longleftrightarrow> histogram_ok (cm_persistence m) \<and> histogram_ok (cm_event_age m)"

definition outcomes :: "('m \<times> ingest_outcome) list list \<Rightarrow> ingest_outcome \<Rightarrow> int" where
  "outcomes batches out = sum_list (map (\<lambda>outs. int (counts outs out)) batches)"

text \<open>What one step leaves as it is.\<close>

definition same_counters :: "consumer_metrics \<Rightarrow> consumer_metrics \<Rightarrow> bool" where
  "same_counters m m' \<longleftrightarrow> cm_records m' = cm_records m \<and> cm_commits m' = cm_commits m
     \<and> cm_persistence m' = cm_persistence m \<and> cm_event_age m' = cm_event_age m"

lemma same_counters_steps:
  "same_counters m (record_poll a b assigned ok m)" "same_counters m (record_poll_error m)"
  "same_counters m (record_database_error m)" "same_counters m (mark_not_ready m)"
  "same_counters (co_metrics c) (co_metrics (check_database options t c))"
  by (simp_all add: same_counters_def record_poll_def record_poll_error_def record_database_error_def mark_not_ready_def
      check_database_def database_is_ready_def)

lemma same_counters_facts:
  assumes "same_counters m m'"
  shows "tally m' = tally m" "successes m' = successes m" "histograms_ok m' = histograms_ok m"
  using assms by (simp_all add: same_counters_def tally_def fun_eq_iff successes_def histograms_ok_def)

lemma result_name_inject: "result_name a = result_name b \<longleftrightarrow> a = b"
  by (cases a; cases b) simp_all

lemma record_event_counters:
  assumes "record_event now (result_name out) payload d m = (m', r)" "histograms_ok m"
  shows "tally m' out' = tally m out' + (if out' = out then 1 else 0) \<and> successes m' = successes m \<and> histograms_ok m'"
proof -
  have "result_name out \<in> {''inserted'', ''duplicate'', ''rejected''}" by (cases out) simp_all
  then have "cm_records m' = increment (result_name out) 1 (cm_records m) \<and> cm_commits m' = cm_commits m
      \<and> cm_persistence m' = observe_value d (cm_persistence m)
      \<and> (cm_event_age m' = cm_event_age m \<or> (\<exists>a. cm_event_age m' = observe_value a (cm_event_age m)))"
    using assms(1) by (auto simp: record_event_def Let_def split: if_splits sum.splits option.splits)
  then show ?thesis using assms(2)
    by (auto simp: tally_def successes_def histograms_ok_def lookup_increment result_name_inject intro: histogram_ok_observe)
qed

lemma recorded_counters:
  assumes "recorded msg (result_name out) payload out rows m = ((rows', m'), x)" "histograms_ok m"
  shows "successes m' = successes m \<and> histograms_ok m'
    \<and> (\<forall>out'. x = Inr out' \<longrightarrow> (\<forall>k. tally m' k = tally m k + (if k = out' then 1 else 0)))"
proof -
  obtain m1 r where "record_event (km_now msg) (result_name out) payload (km_duration msg) m = (m1, r)"
    by (cases "record_event (km_now msg) (result_name out) payload (km_duration msg) m")
  note r = this record_event_counters [OF this assms(2)]
  then show ?thesis using assms(1) by (auto simp: recorded_def split: sum.splits)
qed

lemma message_counters:
  assumes "process_message ingest_event msg (rows, m) = ((rows', m'), x)" "histograms_ok m"
  shows "successes m' = successes m \<and> histograms_ok m'
    \<and> (\<forall>out. x = Inr out \<longrightarrow> (\<forall>k. tally m' k = tally m k + (if k = out then 1 else 0)))"
proof -
  note rec = recorded_counters [where out = Inserted, unfolded result_name.simps]
    recorded_counters [where out = Duplicates, unfolded result_name.simps]
    recorded_counters [where out = Rejected, unfolded result_name.simps]
  show ?thesis
  proof (cases "decode_json (km_value msg)")
    case (Inl e)
    then show ?thesis using assms by (auto simp: process_message_def)
  next
    case (Inr d)
    show ?thesis
    proof (cases d)
      case None
      then have "recorded msg ''rejected'' None Rejected rows m = ((rows', m'), x)"
        using assms(1) Inr by (simp add: process_message_def)
      then show ?thesis by (rule rec(3)) (rule assms(2))
    next
      case (Some p)
      obtain rows1 r where i: "ingest_event (km_context msg) p rows = (rows1, r)" by (cases "ingest_event (km_context msg) p rows")
      show ?thesis
      proof (cases r)
        case (Inl e)
        then have "m' = (if is_database_error e then record_database_error m else m) \<and> x = Inl e"
          using assms(1) i Inr Some by (simp add: process_message_def)
        then show ?thesis using assms(2) same_counters_facts [OF same_counters_steps(3)] by simp
      next
        case (Inr a)
        obtain b st where a: "a = (b, st)" by (cases a)
        note q = assms(1) [unfolded process_message_def prod.case \<open>decode_json (km_value msg) = Inr d\<close> Some sum.case option.case i Inr a]
        show ?thesis
        proof (cases "st = 201")
          case True
          then have "recorded msg ''inserted'' (Some p) Inserted rows1 m = ((rows', m'), x)" using q by simp
            then show ?thesis by (rule rec(1)) (rule assms(2))
        next
          case 1: False
          show ?thesis
          proof (cases "st = 200 \<and> truthy (dget b ''duplicate'')")
            case True
            then have "recorded msg ''duplicate'' (Some p) Duplicates rows1 m = ((rows', m'), x)" using q 1 by simp
            then show ?thesis by (rule rec(2)) (rule assms(2))
          next
            case 2: False
            show ?thesis
            proof (cases "st = 400")
              case True
              then have "recorded msg ''rejected'' (Some p) Rejected rows1 m = ((rows', m'), x)" using q 1 2 by simp
            then show ?thesis by (rule rec(3)) (rule assms(2))
            next
              case False
              then show ?thesis using q 1 2 assms(2) by auto
            qed
          qed
        qed
      qed
    qed
  qed
qed

lemma records_counters:
  "process_records ingest_event msgs (rows, m) = ((rows', m'), x) \<Longrightarrow> histograms_ok m \<Longrightarrow>
   successes m' = successes m \<and> histograms_ok m'
   \<and> (\<forall>outs. x = Inr outs \<longrightarrow> (\<forall>k. tally m' k = tally m k + int (counts outs k)))"
proof (induction msgs arbitrary: rows m x)
  case Nil
  then show ?case by (auto simp: counts_def)
next
  case (Cons msg msgs)
  obtain rows1 m1 y where p: "process_message ingest_event msg (rows, m) = ((rows1, m1), y)"
    by (cases "process_message ingest_event msg (rows, m)") auto
  note step = message_counters [OF p Cons.prems(2)]
  show ?case
  proof (cases y)
    case (Inl e)
    then show ?thesis using Cons.prems(1) p step by auto
  next
    case (Inr out)
    obtain z where z: "process_records ingest_event msgs (rows1, m1) = ((rows', m'), z)"
      using Cons.prems(1) p Inr by (auto split: prod.splits sum.splits)
    note ih = Cons.IH [OF z]
    show ?thesis using Cons.prems(1) p Inr z ih step by (auto simp: counts_def split: sum.splits)
  qed
qed


section \<open>The loop\<close>

definition counters_agree :: "('c, 'e) consumer \<Rightarrow> bool" where
  "counters_agree c \<longleftrightarrow> tally (co_metrics c) = outcomes (co_committed c)"

definition counters_ok :: "('c, 'e) consumer \<Rightarrow> bool" where
  "counters_ok c \<longleftrightarrow> histograms_ok (co_metrics c) \<and> successes (co_metrics c) = int (length (co_committed c))"

lemma commit_counters:
  assumes "record_commit result m = Inr m'"
  shows "tally m' = tally m" "histograms_ok m' = histograms_ok m"
    "successes m' = successes m + (if result = ''success'' then 1 else 0)"
  using assms by (auto simp: record_commit_def tally_def fun_eq_iff histograms_ok_def successes_def lookup_increment split: if_splits)

lemma commit_results: "\<exists>m'. record_commit ''success'' m = Inr m'" "\<exists>m'. record_commit ''failure'' m = Inr m'"
  by (simp_all add: record_commit_def)

lemma turn_counters:
  assumes "consume_turn ingest_event options t c = (c', s)" "counters_ok c"
  shows "counters_ok c' \<and> (counters_agree c \<longrightarrow> (case s of Some (Raised _) \<Rightarrow> True | _ \<Rightarrow> counters_agree c'))"
proof -
  let ?c = "check_database options t c"
  define m where "m = record_poll (t_poll_monotonic t) (t_poll_time t) (t_assigned t) (co_database_ready ?c) (co_metrics ?c)"
  have c: "tally (co_metrics ?c) = tally (co_metrics c)" "successes (co_metrics ?c) = successes (co_metrics c)"
    "histograms_ok (co_metrics ?c) = histograms_ok (co_metrics c)"
    by (rule same_counters_facts [OF same_counters_steps(5)])+
  have m: "tally m = tally (co_metrics c)" "successes m = successes (co_metrics c)" "histograms_ok m = histograms_ok (co_metrics c)"
    using same_counters_facts [OF same_counters_steps(1)] c by (simp_all add: m_def)
  have k: "co_committed ?c = co_committed c" by (simp add: check_database_def split: prod.split)
  show ?thesis
  proof (cases "t_records t")
    case (Inl e)
    then show ?thesis using assms same_counters_facts [OF same_counters_steps(2)] c k
      by (auto simp: consume_turn_def Let_def counters_ok_def)
  next
    case (Inr records)
    show ?thesis
    proof (cases "records = []")
      case True
      then show ?thesis using assms Inr m k
        by (auto simp: consume_turn_def Let_def m_def [symmetric] counters_ok_def counters_agree_def)
    next
      case False
      obtain rows1 m1 x where p: "process_records ingest_event (iter_messages records) (co_rows ?c, m) = ((rows1, m1), x)"
        by (cases "process_records ingest_event (iter_messages records) (co_rows ?c, m)") auto
      have "histograms_ok m" using assms(2) m by (simp add: counters_ok_def)
      note r = records_counters [OF p this]
      obtain ms mf where cm: "record_commit ''success'' m1 = Inr ms" "record_commit ''failure'' m1 = Inr mf"
        using commit_results by blast
      show ?thesis using assms Inr False p r m k commit_counters [OF cm(1)] commit_counters [OF cm(2)] cm
        by (auto simp: consume_turn_def Let_def m_def [symmetric] counters_ok_def counters_agree_def outcomes_def fun_eq_iff
            split: sum.splits option.splits stop.splits if_splits)
    qed
  qed
qed

lemma run_counters:
  "consume_batches ingest_event options ts c = (c', s) \<Longrightarrow> counters_ok c \<Longrightarrow>
   counters_ok c' \<and> (counters_agree c \<longrightarrow> (case s of Raised _ \<Rightarrow> True | _ \<Rightarrow> counters_agree c'))"
proof (induction ts arbitrary: c)
  case Nil
  then show ?case by (auto split: stop.split)
next
  case (Cons t ts)
  obtain c1 r where t: "consume_turn ingest_event options t c = (c1, r)" by (cases "consume_turn ingest_event options t c")
  note step = turn_counters [OF t Cons.prems(2)]
  show ?case
  proof (cases r)
    case None
    then show ?thesis using Cons.prems(1) t step Cons.IH [of c1] by (auto split: stop.splits)
  next
    case (Some y)
    then show ?thesis using Cons.prems(1) t step by (auto split: stop.splits)
  qed
qed

lemma new_counters:
  assumes "new_consumer_metrics service stale now = Inr m"
  shows "counters_ok (new_consumer rows m)" "counters_agree (new_consumer rows m)"
  using assms
  by (auto simp: new_consumer_metrics_def res_iff counters_ok_def counters_agree_def new_consumer_def histograms_ok_def
      histogram_ok_new successes_def tally_def outcomes_def lookup_zero_def fun_eq_iff)

end
