(* ===== verification/Consumer_Samples.thy ===== *)
theory Consumer_Samples
  imports Consumer_Services Consumer_Counters Json_Roundtrip
begin

text \<open>
  A GPS message and the frameworks' validations at concrete functions, for the witnesses: the field
  validation hands the data on, the model validation checks the constraints of the table.
\<close>

definition sample_clean :: field_cleaning where
  "sample_clean payload_validator data = Inr data"

definition sample_full_clean :: "gps_fix list \<Rightarrow> gps_fix \<Rightarrow> json option" where
  "sample_full_clean rows e = (if gps_constraints rows e then None else Some (JObj []))"

definition fix_payload :: "int \<Rightarrow> json dict" where
  "fix_payload latitude =
     [(''device_id'', JStr ''WF-7''), (''timestamp'', JStr ''2026-01-01 00:00:00+00:00''),
      (''payload'', JObj [(''latitude'', JInt latitude), (''longitude'', JInt 4)])]"

definition calm :: "gps_fix ingest_context" where
  "calm = \<lparr>x_interference = \<lparr>i_before = [], i_between = [], i_saving = [], i_lookup_fails = False, i_save_fails = False\<rparr>,
           x_pk = ''1''\<rparr>"

definition fix_message :: "int \<Rightarrow> gps_fix ingest_context kafka_message" where
  "fix_message latitude = \<lparr>km_topic = ''raw.gps'', km_partition = 0, km_offset = 7,
     km_value = Some (utf8_encode (json_dumps (JObj (fix_payload latitude)))), km_context = calm, km_now = 1800000000000000,
     km_duration = 1 / 100\<rparr>"

lemma fix_decoded: "decode_json (km_value (fix_message latitude)) = Inr (Some (fix_payload latitude))"
proof -
  have "json_wf (JObj (fix_payload latitude))" by (simp add: fix_payload_def)
  then show ?thesis by (simp add: fix_message_def decode_json_def json_loads_dumps del: json_dumps.simps)
qed

lemma fix_instant: "fromisoformat ''2026-01-01 00:00:00+00:00'' = Some (1767225600000000, Some 0)"
  by code_simp

lemma fix_time: "parse_event_datetime (dget (fix_payload latitude) ''timestamp'') ''timestamp'' = Inr 1767225600000000"
  by (simp add: fix_payload_def parse_event_datetime_def fix_instant)

lemma fix_serialized: "gps_serializer sample_clean (fix_payload latitude) = Inr (fix_payload latitude)"
  by (simp add: gps_serializer_def sample_clean_def validate_gps_def py_or_def fix_payload_def)

lemma calm_undisturbed: "undisturbed calm"
  by (simp add: undisturbed_def calm_def)

lemma fix_float: "\<bar>n\<bar> < 2 ^ 53 \<Longrightarrow> finite_value f (JInt n) = Inr (of_int n)"
  using float64_int [of n] by (simp add: finite_value_def py_float_def)

lemma fix_built:
  "\<exists>e. gps_build sample_clean (fix_payload 50) = Inr (Inr e) \<and> gf_latitude e = 50 \<and> gf_longitude e = 4"
proof -
  have "fix_payload 50 = [(''device_id'', JStr ''WF-7''), (''timestamp'', JStr ''2026-01-01 00:00:00+00:00''),
      (''payload'', JObj [(''latitude'', JInt 50), (''longitude'', JInt 4)])]" by (simp add: fix_payload_def)
  then have "\<exists>e. gps_from_event [] (fix_payload 50) = Inr e \<and> gf_latitude e = 50 \<and> gf_longitude e = 4"
    using fix_time [of 50]
    by (simp add: gps_from_event_def Let_def payload_dict_def py_or_def parse_optional_event_datetime_def required_float_def event_float_def
        event_value_def fix_float)
  then show ?thesis using fix_serialized [of 50] by (auto simp: gps_build_def built_event_def)
qed


lemma fix_accepted: "gf_latitude e = 50 \<Longrightarrow> gf_longitude e = 4 \<Longrightarrow> gps_constraints [] e"
  by (simp add: gps_constraints_def unique_constraints_def)

lemma fix_inserted:
  "\<exists>rows m'. process_records (gps_ingestion sample_clean sample_full_clean) [fix_message 50] ([], m)
     = ((rows, m'), Inr [(fix_message 50, Inserted)])"
proof -
  obtain e where e: "gps_build sample_clean (fix_payload 50) = Inr (Inr e)" "gf_latitude e = 50" "gf_longitude e = 4"
    using fix_built by blast
  let ?e = "e\<lparr>w_pk := ''1''\<rparr>"
  have ok: "gps_constraints [] ?e" using e by (simp add: fix_accepted)
  have "gps_ingestion sample_clean sample_full_clean calm (fix_payload 50) [] = ([?e], Inr (serialize_gps ?e False, 201))"
    using e(1) ok
    by (simp add: gps_ingestion_built ingest_built_def persist_idempotent_event_def calm_def find_existing_def sample_full_clean_def)
  moreover have "km_context (fix_message 50) = calm" by (simp add: fix_message_def)
  moreover have "\<exists>m'. record_event (km_now (fix_message 50)) ''inserted'' (Some (fix_payload 50)) (km_duration (fix_message 50)) m = (m', Inr ())"
  proof -
    have "parse_event_time (Some (fix_payload 50)) = Inr (Some 1767225600000000)" by code_simp
    then show ?thesis by (simp add: record_event_def Let_def)
  qed
  ultimately show ?thesis by (auto simp: process_message_def fix_decoded recorded_def)
qed

end
