(* ===== verification/Spec2Isabelle.thy ===== *)
theory Spec2Isabelle
  imports Samples Runtime_Views Reconciler_Observe Lease_Protocol Runtime_Samples Remote_Samples Bridge_Samples Consumer_Samples
begin

text \<open>
  A verification development of ArchiDEAL: the runtime management of DEALHost (the API that accepts
  deployments, the worker that executes them, and the controller that reconciles them with
  Kubernetes) and the path of an event from a device into the tables of DEALData (the bridge from
  MQTT to Kafka of DEALIoT, the consumers and the idempotent ingestion of DEALData).

  \<^bold>\<open>The program.\<close> A client calls the runtime API (\<open>apps/hosting/runtime_views.py\<close>), whose
  handlers change the runtime tables (\<open>models.py\<close>) and queue an operation. A worker
  (\<open>runtime_worker.py\<close>) claims operations, calls the controller through its HTTP client
  (\<open>runtime_controller.py\<close>) and records the outcome. The controller
  (\<open>dealhost/runtime_controller_service/\<close>) authenticates the request (\<open>asgi.py\<close>), parses the
  payload (\<open>contract.py\<close>), takes the Lease of the deployment (\<open>lease.py\<close>) and writes Kubernetes
  objects (\<open>resources.py\<close>, \<open>service.py\<close>, \<open>kubernetes.py\<close>).

  Independently, devices publish over MQTT; the bridge (\<open>DEALIoT/mqtt-kafka-bridge/bridge.py\<close>) turns
  each message into an event, checks it (\<open>dealiot_contracts/events.py\<close>) and sends it to its Kafka
  topic or to the dead letters. A consumer per topic (\<open>DEALData/dealdata_common/kafka.py\<close>) polls
  batches, stores each event at most once (\<open>ingestion.py\<close>, \<open>models.py\<close> and the GPS and sensor
  services) and commits the offsets, with metrics from \<open>consumer_observability.py\<close>.

  \<^bold>\<open>Theories.\<close> Paths are below \<open>src/components/DEALHost/\<close> unless they name another component.

  \<^item> \<open>Prelude\<close>: the error monad (\<open>bindE\<close>, \<open>guardE\<close>, \<open>mapE\<close>, \<open>foldE\<close>), dictionaries as association
    lists in insertion order, and the contracts shared by the components: the locales \<open>codec\<close> (what
    is printed reads back) and \<open>inductive_invariant\<close>.
  \<^item> \<open>PyStr\<close>, \<open>Json\<close>, \<open>Json_Roundtrip\<close>, \<open>Sha256\<close>, \<open>Timestamps\<close>, \<open>Urls\<close>: what the source uses of
    Python's library: string methods, UTF-8, \<open>json\<close>, \<open>hashlib.sha256\<close>, \<open>datetime\<close>, \<open>urllib\<close>. The
    round trips of \<open>json\<close>, of the canonical form, of timestamps and of path segments interpret \<open>codec\<close>.
  \<^item> \<open>Settings\<close>, \<open>Config\<close>: the controller's settings, \<open>ControllerSettings.from_env\<close> and \<open>validate\<close>.
  \<^item> \<open>Contract\<close>, \<open>Uuid_Facts\<close>, \<open>Contract_Facts\<close>, \<open>Contract_Canonical\<close>: \<open>contract.py\<close>; a
    characterisation of every successful parse, and that the stored canonical form parses back.
  \<^item> \<open>Resources\<close>: \<open>resources.py\<close>. \<open>Kube_Monad\<close>, \<open>Kubernetes\<close>, \<open>Kubernetes_Facts\<close>: a computation
    reads an environment (clock, token, the API server as a function of the requests so far) and
    extends the history of its requests; \<open>kubernetes.py\<close>.
  \<^item> \<open>Lease\<close>, \<open>Lease_Requests\<close>, \<open>Lease_Protocol\<close>: \<open>lease.py\<close> and the protocol of several replicas
    as a step relation over one API server with optimistic concurrency. \<open>Lease_Timeout\<close>: the
    acquisition loop ends.
  \<^item> \<open>Reconciler\<close>, \<open>Reconciler_Facts\<close>, \<open>Reconciler_Plans\<close>, \<open>Reconciler_State\<close>,
    \<open>Reconciler_Observe\<close>: \<open>service.py\<close>: confinement to the namespace, the plan of the writes, the
    stored state and the meaning of an observation.
  \<^item> \<open>Metrics\<close>, \<open>Asgi\<close>: \<open>metrics.py\<close>, \<open>asgi.py\<close>. \<open>Asgi_Facts\<close>: the shape of every reply, refusals before
    anything reaches Kubernetes, and the request counters.
  \<^item> \<open>Client\<close>, \<open>Runtime_Models\<close>, \<open>Worker\<close>, \<open>Release\<close>, \<open>Serializers\<close>, \<open>Runtime_Views\<close>, \<open>Provision\<close>:
    \<open>runtime_controller.py\<close>, the tables, \<open>runtime_worker.py\<close>, \<open>runtime_release.py\<close>, the runtime part
    of \<open>serializers.py\<close>, \<open>runtime_views.py\<close>, and the provisioning command.
  \<^item> \<open>Runtime_System\<close>, \<open>Runtime_Facts\<close>: API and workers over one database as the step relation
    \<open>runtime_step\<close>, its invariant \<open>db_ok\<close>, fencing, idempotency and progress.
  \<^item> \<open>Json_Size\<close>, \<open>Remote_Calls\<close>: client and controller composed over an HTTP transport; a call of the
    client refines the operation of the controller, and every observation fits and is readable.
  \<^item> \<open>Pyfloat\<close>: binary64 numbers. \<open>Events\<close>, \<open>Bridge\<close>, \<open>Bridge_Facts\<close>: the event contracts and the bridge
    of DEALIoT; every message becomes one valid event or one dead letter.
  \<^item> \<open>Consumer_Metrics\<close>, \<open>Ingestion\<close>, \<open>Consumer\<close>: the metrics, the ingestion helpers with the tables they
    fill, and the poll loop of DEALData. \<open>Consumer_Facts\<close>: the loop over the contract of an ingestion
    helper; \<open>Consumer_Services\<close>: that both services satisfy it; \<open>Consumer_Counters\<close>: the counters.
  \<^item> \<open>Samples\<close>, \<open>Runtime_Samples\<close>, \<open>Controller_Samples\<close>, \<open>Remote_Samples\<close>, \<open>Bridge_Samples\<close>,
    \<open>Consumer_Samples\<close>: concrete inputs for the witnesses.

  \<^bold>\<open>Interfaces.\<close> \<open>codec\<close> is interpreted on \<open>json_dumps\<close> / \<open>json_loads\<close>, on the canonical form, on
  timestamps and on quoted path segments; \<open>inductive_invariant\<close> on the Lease protocol and on the
  runtime tables; \<open>table\<close> (a keyed table: what is read after a save) on operations, deployments and
  environments; \<open>ingestion_contract\<close> (the table only grows, an accepted event has a row, a stored one
  is a duplicate) on the GPS and the sensor ingestion.

  \<^bold>\<open>Parameters.\<close> The API server, the HTTP library, the clock, random identifiers, files and
  environment variables are arguments. A property over the API server holds for every one of them,
  except mutual exclusion, which needs optimistic concurrency (\<open>optimistic\<close>): a write that names
  a resourceVersion applies only to that version and versions are not reissued; \<open>store_api\<close> is
  such a server. For DEALData the field validation of the REST framework and Django's model
  validation are arguments; Kafka, the database and the clocks answer through the \<open>turns\<close> of the poll
  loop, and other processes insert rows at every point of an ingestion.

  \<^bold>\<open>Bounds and fuel.\<close> The JSON parser runs with the length of its text plus one as fuel, which is
  enough for every printed value. \<open>acquire\<close> runs with ten rounds per second of its timeout plus
  two, since each round but the last sleeps a tenth of a second. The poll loop of a consumer, which
  may run forever, is a recursion over the answers it receives.

  \<^bold>\<open>Limits of the model.\<close> Characters are code points below 256. A float keeps the text it was read
  from. The recursion limit and the digit limit of Python's JSON reader are not modelled, and
  \<open>fromisoformat\<close> reads the extended format only. A database transaction is one step. Column
  lengths are not enforced.

  \<^bold>\<open>Not modelled.\<close> The deployment scripts under \<open>src/deploy\<close> and \<open>src/scripts\<close>
  (\<open>render.py\<close>, \<open>verify-release.py\<close>, \<open>validate-release-coherence.py\<close> and others) transform YAML
  files with a third-party parser. \<open>apps/hosting/views.py\<close>, \<open>apps/gateway\<close> and \<open>apps/iam\<close> are
  classes over the REST framework and calls to APISIX and to the identity provider. The management
  console of DEALIoT is a static catalogue and web-service calls, and its device registry is SQL
  executed by PostgreSQL. The monitoring of the runtime worker only reads aggregates of the runtime
  tables. The views and metadata models of DEALData declare fields for the frameworks. The Flink, Beam and Airflow jobs are
  topologies those systems execute. DEALInterface is a browser front end.
\<close>

section \<open>The contract\<close>

text \<open>
  C23. A payload that \<open>parse_desired_deployment\<close> accepts gives a well-formed deployment.
\<close>

theorem accepted_payload_well_formed:
  "json_wf v \<Longrightarrow> parse_desired_deployment v settings a = Inr d \<Longrightarrow> desired_ok settings a d"
  by (rule parse_desired_deployment_ok)

theorem accepted_payload_well_formed_witness:
  "desired_ok sample_settings False (sample_desired ''running'')"
  using accepted_payload_well_formed [OF sample_json_wf(2) sample_parses, of "''running''" False] by simp

section \<open>The reconciler\<close>

text \<open>
  C1. Mutual exclusion. For every API server that applies a write only at the
  resourceVersion it names and never reissues a version, in every interleaving of the reads and
  writes of \<open>try_acquire\<close>, \<open>renew\<close> and \<open>release_lease\<close> of any number of replicas, lost answers
  included, two replicas never hold the Lease of a deployment at the same time.
\<close>

theorem lease_mutual_exclusion:
  assumes "optimistic api" "lease_start sys0" "(lease_step settings name did skew api)\<^sup>*\<^sup>* sys0 sys" "p \<noteq> q"
  shows "\<not> (holds_lease settings skew sys p \<and> holds_lease settings skew sys q)"
  using lease_exclusive [OF assms(1-3)] assms(4) by blast

theorem lease_mutual_exclusion_witness:
  "holds_lease sample_settings 1000 sample_lease_held ''replica-a''
   \<and> \<not> (holds_lease sample_settings 1000 sample_lease_held ''replica-a''
        \<and> holds_lease sample_settings 1000 sample_lease_held ''replica-b'')"
proof -
  have "lease_start sample_lease_start" by (simp add: lease_start_def sample_lease_start_def)
  from lease_mutual_exclusion [OF store_optimistic this sample_lease_run, of "''replica-a''" "''replica-b''"]
  show ?thesis using sample_lease_holds by simp
qed

text \<open>
  C2. The writes of a deployment. Whatever the API server answers, a run of \<open>deploy\<close>
  either sends requests on the Lease only and raises, or writes, after an accepted write of the
  Lease, first the removal of tombstones, then exactly the plan (state object reconciling, the
  objects of every component in order, state object active or stopped), then at most the removal
  of its own finished state object; a run that raises has performed a prefix of this.
\<close>

theorem deploy_follows_plan:
  "case deploy settings d request_id require_existing restart_request env h of (r, h') \<Rightarrow>
     \<exists>es. h' = es @ h \<and> (not_acquired settings (lease_name (d_deployment_id d)) r es
       \<or> under_lease settings (lease_name (d_deployment_id d)) env
           (\<lambda>rb _. follows (deploy_language settings d request_id restart_request) rb) r h es)"
  by (cases "deploy settings d request_id require_existing restart_request env h") (simp add: deploy_under_lease)

text \<open>
  C3. Nothing is patched unchecked. In a run of \<open>deploy\<close>, for every API server,
  every PATCH comes after the state object was read in the same run and the request was admitted
  over it, and after every target object was read as absent or as carrying the labels, name and
  namespace of this deployment.
\<close>

theorem deploy_checks_before_patch:
  "case deploy settings d request_id require_existing restart_request env h of (r, h') \<Rightarrow>
     \<exists>es. h' = es @ h \<and> (not_acquired settings (lease_name (d_deployment_id d)) r es
       \<or> under_lease settings (lease_name (d_deployment_id d)) env
           (\<lambda>_. checked_first env settings d require_existing) r h es)"
  by (cases "deploy settings d request_id require_existing restart_request env h") (simp add: deploy_checked)


text \<open>
  C7. Confinement. Every request of every operation, for every API server, has a path
  inside the controller's own namespace, except the read of the secret catalog in the namespace
  the settings give for it; names cannot escape their path segment.
\<close>

theorem operations_confined:
  "does (confined settings) (deploy settings d request_id require_existing restart_request)
   \<and> does (confined settings) (action settings d act request_id)
   \<and> does (confined settings) (undeploy settings did request_id desired)
   \<and> does (confined settings) (observe settings did)
   \<and> does (confined settings) (logs settings did component_slug tail_lines since_seconds)"
  by (intro conjI confined_operations)

text \<open>
  C8. The state object is faithful. The deployment stored in the state ConfigMap is
  read back as the same deployment with its dictionaries in sorted order: same identity,
  generation, release digest, components and payload digest.
\<close>

theorem state_object_reads_back:
  "storable settings d \<Longrightarrow>
   desired_from_state settings (state_config_map d settings phase request_id) = Inr (canonical_desired d)
   \<and> payload_digest (JObj (d_normalized_payload (canonical_desired d))) = payload_digest (JObj (d_normalized_payload d))"
  by (simp add: desired_from_written canonical_desired_digest)

theorem state_object_reads_back_witness:
  "desired_from_state sample_settings (state_config_map (sample_desired ''running'') sample_settings ''active'' ''request-1'')
   = Inr (canonical_desired (sample_desired ''running''))"
  using state_object_reads_back [OF sample_storable, of "''running''" "''active''" "''request-1''"] by simp

text \<open>
  C4. Admission by generation. Over the state object the controller wrote for \<open>cur\<close>, a
  deployment request is refused when the runtime is being deleted, when its generation is older,
  or when it has the same generation with another payload, and admitted in every other case; a
  retry of the same request is admitted.
\<close>

theorem admission_decision:
  "storable settings cur \<Longrightarrow> phase \<in> set phases \<Longrightarrow>
   admit_over settings d (state_config_map cur settings phase request_id) =
    (if phase \<in> {''deleting'', ''deleted''} then Inl (RuntimeConflict ''A deleted runtime identifier cannot be reused.'')
     else if d_generation d < d_generation cur then Inl stale_generation
     else if d_generation d = d_generation cur
        \<and> payload_digest (JObj (d_normalized_payload d)) \<noteq> payload_digest (JObj (d_normalized_payload cur))
       then Inl (RuntimeConflict ''The runtime generation was already used for another desired state.'')
     else Inr ())"
  by (rule admit_over_written)

theorem admission_decision_witness:
  "admit_over sample_settings (sample_desired ''running'')
     (state_config_map (sample_desired ''running'') sample_settings ''active'' ''request-1'') = Inr ()"
  using admission_decision [OF sample_storable, of "''running''" "''active''" "sample_desired ''running''" "''request-1''"]
  by (simp add: phases_def)





text \<open>
  C11. Bounds of an observation. Every component of an observation has replica counts
  between 0 and 65535, a restart count between 0 and 100000, a known state, a known health and
  one of four fixed error texts; apart from the image, no text of the API server reaches the report.
\<close>

theorem observation_bounds:
  "case observe settings did env h of
     (Inl _, _) \<Rightarrow> True
   | (Inr r, h') \<Rightarrow> \<exists>d h1 phase. observed_state env settings did h1 d phase \<and> rr_observed_generation r = d_generation d
       \<and> rr_state r \<in> {''running'', ''stopped'', ''degraded'', ''reconciling'', ''deleting'', ''deleted''}
       \<and> list_all2 reported (d_components d) (rr_components r)"
  using observe_reported [of settings did env h] by (fastforce split: prod.splits sum.splits)


section \<open>The HTTP surface of the controller\<close>

text \<open>
  C27. The Lease loop ends. With a monotonic clock that advances at least by the times
  slept, \<open>acquire\<close> returns the Lease or raises after finitely many rounds, whatever the API
  server answers: the rounds the model allows (ten per second of the timeout) are enough.
\<close>

theorem acquire_terminates:
  assumes "steady env"
  shows "fst (acquire settings name did holder env h) \<noteq> Inl OutOfFuel"
  using assms by (rule acquire_ends)

theorem acquire_terminates_witness:
  "steady sample_env \<and> fst (acquire sample_settings ''lease'' sample_id ''replica-a'' sample_env []) \<noteq> Inl OutOfFuel"
  using acquire_terminates sample_env_steady by blast


text \<open>
  C25. No token, no effect. A request on any route but liveness, readiness and
  metrics whose headers are malformed or do not carry the controller's token is answered with
  400 or 401, and no request is sent to Kubernetes.
\<close>

theorem unauthenticated_requests_refused:
  assumes "\<not> open_route sc" "\<not> authorized settings sc"
  shows "\<exists>r m'. handle_http is_file settings m sc msgs env h = (Inr (r, m'), h) \<and> p_status r \<in> {400, 401}"
  using assms by (rule unauthorized_reply)

theorem unauthenticated_requests_refused_witness:
  "\<not> open_route (sample_scope ''DELETE'' ''/v1/deployments/x'' ''guess'')
   \<and> \<not> authorized sample_settings (sample_scope ''DELETE'' ''/v1/deployments/x'' ''guess'')
   \<and> (\<exists>r m'. handle_http (\<lambda>_. True) sample_settings (new_metrics 0) (sample_scope ''DELETE'' ''/v1/deployments/x'' ''guess'')
         [] sample_env [] = (Inr (r, m'), []) \<and> p_status r \<in> {400, 401})"
proof -
  have o: "\<not> open_route (sample_scope ''DELETE'' ''/v1/deployments/x'' ''guess'')"
    by (simp add: open_route_def sample_scope_def)
  have a: "\<not> authorized sample_settings (sample_scope ''DELETE'' ''/v1/deployments/x'' ''guess'')"
    by code_simp
  show ?thesis
    using o a unauthenticated_requests_refused [OF o a, of "\<lambda>_. True" "new_metrics 0" "[]" sample_env "[]"] by blast
qed

text \<open>
  C26. The body is read first. When the body of an API request is over 256 KiB, is
  not a body, or never arrives, the reply is a client error and no request is sent to Kubernetes,
  on every route and for every method.
\<close>

theorem unreadable_body_reaches_nothing:
  assumes "\<not> open_route sc" "isl (body_of_request msgs)"
  shows "\<exists>r m'. handle_http is_file settings m sc msgs env h = (Inr (r, m'), h) \<and> 400 \<le> p_status r \<and> p_status r < 500"
  using assms by (rule unreadable_reply)

theorem unreadable_body_reaches_nothing_witness:
  "isl (body_of_request [HttpRequest (Some (replicate 200000 CHR ''x'')) True, HttpRequest (Some (replicate 200000 CHR ''x'')) False])
   \<and> (\<exists>r m'. handle_http (\<lambda>_. True) sample_settings (new_metrics 0)
         (sample_scope ''POST'' ''/v1/deployments'' (s_auth_token sample_settings))
         [HttpRequest (Some (replicate 200000 CHR ''x'')) True, HttpRequest (Some (replicate 200000 CHR ''x'')) False]
         sample_env [] = (Inr (r, m'), []) \<and> 400 \<le> p_status r \<and> p_status r < 500)"
proof -
  have o: "\<not> open_route (sample_scope ''POST'' ''/v1/deployments'' (s_auth_token sample_settings))"
    by (simp add: open_route_def sample_scope_def)
  have b: "isl (body_of_request [HttpRequest (Some (replicate 200000 CHR ''x'')) True, HttpRequest (Some (replicate 200000 CHR ''x'')) False])"
    by (simp add: body_of_request_def MAX_REQUEST_BYTES_def)
  show ?thesis
    using b unreadable_body_reaches_nothing [OF o b, of "\<lambda>_. True" sample_settings "new_metrics 0" sample_env "[]"] by blast
qed

text \<open>
  C28. The metrics. After any sequence of requests the request counters sum to the number of
  replies, each table has one row per label, the two duration tables agree on their labels, and
  there are at most 55 pairs of a method and a route, whatever paths and methods were requested.
\<close>

theorem replies_counted_once:
  assumes "served n m"
  shows "metrics_ok m \<and> sum_list (map snd (m_requests m)) = int n \<and> length (m_duration_count m) \<le> 55"
  using served_metrics [OF assms] served_bounded [OF assms] by blast

theorem replies_counted_once_witness:
  "\<exists>m. served 1 m \<and> metrics_ok m \<and> sum_list (map snd (m_requests m)) = 1 \<and> length (m_duration_count m) \<le> 55"
proof -
  have u: "upper ''GET'' = ''GET''" by code_simp
  obtain r m' where h: "handle_http (\<lambda>_. True) sample_settings (new_metrics 0) (sample_scope ''GET'' ''/health/live'' [])
      [] sample_env [] = (Inr (r, m'), [])"
    by (simp add: handle_http_def answer_def sample_scope_def u Let_def bindK_def)
  have "served (Suc 0) m'" using served_one [OF served_none h] .
  from replies_counted_once [OF this] this show ?thesis by (intro exI [of _ m']) simp
qed

section \<open>The client against the controller\<close>

text \<open>
  C29. A remote call is the local operation. Over every transport that hands requests and
  replies over unchanged, for every API server, when a deploy, update, action, undeploy or status
  call of the DEALHost client returns a snapshot, the controller ran that operation on that
  payload under that request identifier, and the snapshot is exactly the result the operation
  returned: identifier, state, message, observed generation and every component. An error reply
  is never read as a snapshot.
\<close>

theorem remote_calls_refined:
  assumes "transport wire deliver" "\<And>j. call_payload c = Some j \<Longrightarrow> json_wf j"
    "client_call cfg (exchange wire deliver is_file settings m env h) c rid = Inr n"
  shows "\<exists>r h'. local_call settings c (strip rid) env h = (Inr r, h') \<and> n = snapshot_of r
    \<and> (call_target c = [] \<or> rr_deployment_id r = call_target c)"
  using assms by (rule remote_call_sound)

theorem remote_calls_refined_witness:
  "transport sample_wire sample_deliver
   \<and> (\<exists>r h' n. client_call sample_client (exchange sample_wire sample_deliver (\<lambda>_. True) sample_settings (new_metrics 0)
          sample_remote_env []) (Status sample_id) ''request-0001'' = Inr n
        \<and> local_call sample_settings (Status sample_id) (strip ''request-0001'') sample_remote_env [] = (Inr r, h')
        \<and> n = snapshot_of r)"
proof -
  have call: "client_call sample_client (exchange sample_wire sample_deliver (\<lambda>_. True) sample_settings (new_metrics 0)
      sample_remote_env []) (Status sample_id) ''request-0001''
    = Inr (snapshot_of (deleted_result (canonical_desired (sample_desired ''absent''))))"
    using sample_status by simp
  show ?thesis using remote_calls_refined [OF sample_transport _ call] call sample_transport by auto
qed

text \<open>
  C30. A status arrives. Over a transport that loses nothing, with the same token on both
  sides, every observation of the controller whose images fit 255 characters is read by the client
  as the snapshot of that observation: no reply the controller sends for it is too large, malformed
  or refused.
\<close>

theorem status_delivered:
  assumes "transport wire deliver" "reliable wire deliver"
    "configured cfg" "cc_token cfg = s_auth_token settings" "token_valid (s_auth_token settings)"
    "is_request_id (strip rid)" "plain_value rid" "is_canonical_uuid did"
    "observe settings did env h = (Inr r, h')" "rr_deployment_id r = did" "readable r"
  shows "client_status cfg (exchange wire deliver is_file settings m env h) did rid = Inr (snapshot_of r)"
  using assms by (rule status_complete)

theorem status_delivered_witness:
  "\<exists>r h'. observe sample_settings sample_id sample_remote_env [] = (Inr r, h') \<and> readable r
     \<and> client_status sample_client (exchange sample_wire sample_deliver (\<lambda>_. True) sample_settings (new_metrics 0)
          sample_remote_env []) sample_id ''request-0001'' = Inr (snapshot_of r)"
proof -
  let ?r = "deleted_result (canonical_desired (sample_desired ''absent''))"
  obtain h' where run: "observe sample_settings sample_id sample_remote_env [] = (Inr ?r, h')" using sample_observed by blast
  have cfg: "configured sample_client" "cc_token sample_client = s_auth_token sample_settings"
    "token_valid (s_auth_token sample_settings)" "is_request_id (strip ''request-0001'')" "plain_value ''request-0001''"
    by code_simp+
  have r: "rr_deployment_id ?r = sample_id" "readable ?r"
    by (simp_all add: readable_def deleted_result_def sample_desired_def make_component_result_def sample_component_def sample_image_def)
  show ?thesis
    using status_delivered [OF sample_transport sample_reliable cfg sample_id_ok run r] run r(2) by blast
qed

section \<open>The runtime API and its workers\<close>

text \<open>
  C13. The invariant of the runtime tables. However the transactions of the API
  handlers and of any number of workers interleave, with whatever they read before their
  transaction, whatever the controller answered, and worker writes that come late: every operation
  belongs to a deployment; an active mutation carries the generation its deployment has; a
  deployment has at most one active mutation and at most one active log request; a lease is held
  only while running; an operation has at most five controller failures and is finished at the
  fifth; an application has at most one live deployment in an environment.
\<close>

theorem runtime_tables_consistent:
  assumes "empty_runtime start" "runtime_step\<^sup>*\<^sup>* start db"
  shows "(\<forall>op \<in> set (db_operations db).
       (\<exists>d \<in> set (db_deployments db). dp_id d = o_deployment op \<and> o_target_generation op \<le> dp_generation d
          \<and> (is_active op \<and> o_type op \<noteq> ''log_snapshot'' \<longrightarrow> o_target_generation op = dp_generation d))
       \<and> (o_lease_token op \<noteq> None \<longrightarrow> o_status op = RUNNING)
       \<and> o_controller_failures op \<le> 5 \<and> (is_active op \<longrightarrow> o_controller_failures op < 5))
     \<and> (\<forall>x \<in> set (db_operations db). \<forall>y \<in> set (db_operations db).
          is_active x \<and> is_active y \<and> o_deployment x = o_deployment y
          \<and> (o_type x = ''log_snapshot'') = (o_type y = ''log_snapshot'') \<longrightarrow> x = y)
     \<and> (\<forall>x \<in> set (db_deployments db). \<forall>y \<in> set (db_deployments db).
          dp_deleted_at x = None \<and> dp_deleted_at y = None \<and> dp_application x = dp_application y
          \<and> dp_environment x = dp_environment y \<longrightarrow> x = y)"
proof (intro conjI ballI impI)
  note ok = runtime.reachable_inv [OF assms] and D = db_okD [OF runtime.reachable_inv [OF assms]]
  fix op assume op: "op \<in> set (db_operations db)"
  show "\<exists>d \<in> set (db_deployments db). dp_id d = o_deployment op \<and> o_target_generation op \<le> dp_generation d
          \<and> (is_active op \<and> o_type op \<noteq> ''log_snapshot'' \<longrightarrow> o_target_generation op = dp_generation d)"
    using D(6) [OF op] by (simp add: belongs_def mutating_def)
  show "o_lease_token op \<noteq> None \<Longrightarrow> o_status op = RUNNING" "o_controller_failures op \<le> 5"
    "is_active op \<Longrightarrow> o_controller_failures op < 5"
    using D(4) [OF op] by (simp_all add: operation_ok_def MAX_CONTROLLER_FAILURES_def)
  fix y assume y: "y \<in> set (db_operations db)"
    and h: "is_active op \<and> is_active y \<and> o_deployment op = o_deployment y
      \<and> (o_type op = ''log_snapshot'') = (o_type y = ''log_snapshot'')"
  then have "mutating op \<and> mutating y \<or> reading op \<and> reading y" by (auto simp: mutating_def reading_def)
  then have "o_id op = o_id y" using D(7,8) op y h unfolding one_each_def by blast
  then show "op = y" by (rule same_id [OF D(1) op y])
next
  note D = db_okD [OF runtime.reachable_inv [OF assms]]
  fix x y assume x: "x \<in> set (db_deployments db)" and y: "y \<in> set (db_deployments db)"
    and "dp_deleted_at x = None \<and> dp_deleted_at y = None \<and> dp_application x = dp_application y \<and> dp_environment x = dp_environment y"
  then have "dp_id x = dp_id y" using D(9) unfolding one_live_def by blast
  then show "x = y" by (rule same_id [OF D(3) x y])
qed

theorem runtime_tables_consistent_witness:
  "set (db_operations sample_claimed) = {sample_leased} \<and> is_active sample_leased
   \<and> (\<exists>d \<in> set (db_deployments sample_claimed). dp_id d = o_deployment sample_leased
        \<and> o_target_generation sample_leased = dp_generation d)"
proof -
  have "is_active sample_leased" by (simp add: is_active_def)
  then show ?thesis
    using runtime_tables_consistent [OF sample_start_empty sample_steps(4)] by simp
qed



text \<open>
  C15. A finished operation is never changed again: no later transaction, and no
  worker that still works on it, alters a row whose status is succeeded or failed.
\<close>

theorem finished_operations_final:
  assumes "empty_runtime start" "runtime_step\<^sup>*\<^sup>* start db" "runtime_step\<^sup>*\<^sup>* db db'"
    and "op \<in> set (db_operations db)" "\<not> is_active op"
  shows "op \<in> set (db_operations db')"
proof -
  obtain op' where "op' \<in> set (db_operations db')" "op_after op op'"
    by (rule operation_later [OF assms(3) runtime.reachable_inv [OF assms(1,2)] assms(4)])
  then show ?thesis using assms(5) by (simp add: op_after_def evolves_def)
qed

theorem finished_operations_final_witness:
  "o_status sample_failed_op = FAILED \<and> sample_failed_op \<in> set (db_operations (snd (destroy True (sample_request ''2'') sample_id
     ''7d444840-9dc0-41d1-b245-5ffdce74fad2'' 4000 sample_failed sample_failed)))"
proof -
  have f: "o_status sample_failed_op = FAILED" "\<not> is_active sample_failed_op" "sample_failed_op \<in> set (db_operations sample_failed)"
    by (simp_all add: sample_failed_op_def finish_keeping_attempt_def unlease_def is_active_def sample_failed_def)
  have "runtime_step\<^sup>*\<^sup>* sample_failed (snd (destroy True (sample_request ''2'') sample_id
     ''7d444840-9dc0-41d1-b245-5ffdce74fad2'' 4000 sample_failed sample_failed))"
    by (rule r_into_rtranclp [where r = runtime_step, OF runtime_step.destroyed])
  from finished_operations_final [OF sample_start_empty sample_steps(5) this f(3,2)] show ?thesis using f(1) by simp
qed

text \<open>
  C16. Fencing. A worker whose lease token is no longer the one in the row records
  nothing, whatever it brings (a snapshot, logs, a failure): the transaction succeeds and leaves
  every table as it is; only a log result may touch the log cache.
\<close>

theorem stale_worker_fenced:
  assumes "get_operation db (o_id stale) = Some op" "o_lease_token op \<noteq> Some token"
  shows "\<exists>c. record_outcome now stale token outcome db = Inr (db\<lparr>db_cache := c\<rparr>)
     \<and> ((\<forall>l. outcome \<noteq> Inr (GotLogs l)) \<longrightarrow> c = db_cache db)"
proof -
  note f = fenced_out [OF assms]
  have self: "db\<lparr>db_cache := db_cache db\<rparr> = db" by simp
  show ?thesis
  proof (cases outcome)
    case (Inl e)
    then have "record_outcome now stale token outcome db = Inr db"
      by (simp add: record_outcome_def record_result_def f split: wexn.split)
    then show ?thesis using self by metis
  next
    case (Inr x)
    show ?thesis
    proof (cases x)
      case (GotSnapshot s)
      then have "record_outcome now stale token outcome db = Inr db"
        using Inr by (simp add: record_outcome_def record_result_def f)
      then show ?thesis using self by metis
    next
      case (GotLogs l)
      have "record_outcome now stale token outcome db = Inr db
          \<or> record_outcome now stale token outcome db = Inr (db\<lparr>db_cache := AList.delete (log_key stale) (db_cache db)\<rparr>)"
        using Inr GotLogs by (simp add: record_outcome_def record_result_def f the_row_def split: option.split)
      then show ?thesis using self Inr GotLogs by metis
    qed
  qed
qed

theorem stale_worker_fenced_witness:
  "\<exists>c. record_outcome 5000 sample_leased ''another-token'' (Inl sample_refusal) sample_claimed = Inr (sample_claimed\<lparr>db_cache := c\<rparr>)
     \<and> c = db_cache sample_claimed"
proof -
  have "get_operation sample_claimed (o_id sample_leased) = Some sample_leased" "o_lease_token sample_leased \<noteq> Some ''another-token''"
    by (simp_all add: get_operation_def sample_token_def)
  from stale_worker_fenced [OF this, of 5000 "Inl sample_refusal"] show ?thesis by simp
qed

text \<open>
  C17. Lost updates are prevented. Once a change of a deployment was accepted, no
  later change of it, whatever happened in between, is accepted with the same If-Match header.
\<close>

theorem lost_updates_prevented:
  assumes "empty_runtime start" "runtime_step\<^sup>*\<^sup>* start db"
    and "mutate enabled rq pk m new_id now db0 db = (MutationReply d op 202 False, db1)" "runtime_step\<^sup>*\<^sup>* db1 db2"
    and "rq_if_match rq' = rq_if_match rq"
  shows "fst (mutate enabled' rq' pk m' new_id' now' db0' db2) \<noteq> MutationReply d' op' 202 False"
proof
  assume "fst (mutate enabled' rq' pk m' new_id' now' db0' db2) = MutationReply d' op' 202 False"
  then obtain db3 where "mutate enabled' rq' pk m' new_id' now' db0' db2 = (MutationReply d' op' 202 False, db3)"
    by (metis prod.collapse)
  note a2 = mutate_accepted [OF this] and a1 = mutate_accepted [OF assms(3)]
  have ok: "db_ok db" by (rule runtime.reachable_inv [OF assms(1,2)])
  have "db_ok db1" using sound_ok [OF runtime_step_sound [OF mutate_step ok]] assms(3) by (metis snd_conv)
  from second_edit_rejected [OF ok a1 assms(4) this assms(5)] a2 show False by blast
qed

theorem lost_updates_prevented_witness:
  "fst (mutate True sample_removal_request sample_id Remove sample_removal_id 6000 sample_failed sample_failed)
     = MutationReply sample_removed_dp sample_removal 202 False
   \<and> fst (mutate True (sample_removal_request\<lparr>rq_idempotency_key := Some ''another-removal-''\<rparr>) sample_id Remove
       ''1b4e28ba-2fa1-41d2-883f-0016d3cca427'' 7000 sample_failed sample_removing)
     \<noteq> MutationReply sample_removed_dp sample_removal 202 False"
  using lost_updates_prevented [OF sample_start_empty sample_steps(5) sample_removes rtranclp.rtrancl_refl,
      of "sample_removal_request\<lparr>rq_idempotency_key := Some ''another-removal-''\<rparr>" True Remove
        "''1b4e28ba-2fa1-41d2-883f-0016d3cca427''" 7000 sample_failed sample_removed_dp sample_removal] sample_removes
  by simp

text \<open>
  C18. An idempotency key is used once. When some operation has the key of a
  request, no handler changes anything, now or in any later database, whatever it had read
  before; the key stays used for ever.
\<close>

theorem idempotency_key_used_once:
  assumes "empty_runtime start" "runtime_step\<^sup>*\<^sup>* start db" "runtime_step\<^sup>*\<^sup>* db db'"
    and "op \<in> set (db_operations db)" "idempotency_key rq = Some (o_idempotency_key op)"
  shows "snd (handle enabled rq call new_id now db0 db') = db'"
proof -
  have "key_used rq db" using assms(4,5) by (simp add: key_used_def)
  then have "key_used rq db'" by (rule key_used_later [OF _ assms(3) runtime.reachable_inv [OF assms(1,2)]])
  then show ?thesis by (rule handle_used)
qed

theorem idempotency_key_used_once_witness:
  "snd (handle True (sample_request ''1'') (Mutation sample_id Remove) ''7d444840-9dc0-41d1-b245-5ffdce74fad2'' 4000
     sample_start sample_failed) = sample_failed"
proof -
  have "runtime_step\<^sup>*\<^sup>* sample_claimed sample_failed"
    by (rule r_into_rtranclp [where r = runtime_step, OF sample_steps(2)])
  from idempotency_key_used_once [OF sample_start_empty sample_steps(4) this, of sample_leased "sample_request ''1''" True
      "Mutation sample_id Remove" "''7d444840-9dc0-41d1-b245-5ffdce74fad2''" 4000 sample_start]
  show ?thesis by (simp add: sample_request_ok)
qed

text \<open>
  C19. A deployment never goes back: in every later database the row is there with
  the same application, environment and release, a generation and a revision that are not
  smaller, the same desired state when the generation is the same, and once deleted it stays so.
\<close>

theorem deployments_only_advance:
  assumes "empty_runtime start" "runtime_step\<^sup>*\<^sup>* start db" "runtime_step\<^sup>*\<^sup>* db db'" "d \<in> set (db_deployments db)"
  shows "\<exists>d' \<in> set (db_deployments db'). dp_id d' = dp_id d \<and> dp_application d' = dp_application d
     \<and> dp_environment d' = dp_environment d \<and> dp_release d' = dp_release d
     \<and> dp_generation d \<le> dp_generation d' \<and> dp_revision d \<le> dp_revision d'
     \<and> (dp_generation d' = dp_generation d \<longrightarrow> dp_desired_state d' = dp_desired_state d)
     \<and> (dp_deleted_at d \<noteq> None \<longrightarrow> dp_deleted_at d' \<noteq> None)"
proof -
  obtain d' where "d' \<in> set (db_deployments db')" "dep_after d d'"
    by (rule deployment_later [OF assms(3) runtime.reachable_inv [OF assms(1,2)] assms(4)])
  then show ?thesis unfolding dep_after_def by (intro bexI [of _ d'] conjI) auto
qed

theorem deployments_only_advance_witness:
  "\<exists>d' \<in> set (db_deployments sample_failed). dp_id d' = sample_id \<and> dp_release d' = dp_release sample_dp
     \<and> 1 \<le> dp_generation d' \<and> 1 \<le> dp_revision d'"
proof -
  have "runtime_step\<^sup>*\<^sup>* sample_claimed sample_failed"
    by (rule r_into_rtranclp [where r = runtime_step, OF sample_steps(2)])
  from deployments_only_advance [OF sample_start_empty sample_steps(4) this, of sample_dp] show ?thesis by auto
qed

text \<open>
  C20. Progress when the controller is down. If the controller cannot be reached
  and the worker loop gets as many iterations, a minute apart, as the active operations have
  controller failures left, the loop returns and no operation is active any more.
\<close>

theorem unreachable_controller_drains:
  assumes "empty_runtime start" "runtime_step\<^sup>*\<^sup>* start db" "waiting_until t db"
    and "spaced t its" "list_all unreachable its" "work db \<le> length its"
  shows "\<exists>db'. run cfg worker_id False its db = Inr db' \<and> (\<forall>op \<in> set (db_operations db'). \<not> is_active op)"
  using unreachable_drains [OF runtime.reachable_inv [OF assms(1,2)] assms(3-6)] work_zero by metis

theorem unreachable_controller_drains_witness:
  "work sample_created = 5
   \<and> (\<exists>db'. run sample_config ''worker-a'' False (map sample_iteration [0, 1, 2, 3, 4]) sample_created = Inr db'
        \<and> (\<forall>op \<in> set (db_operations db'). \<not> is_active op))"
proof -
  have w: "work sample_created = 5" by (simp add: work_def weight_def is_active_def MAX_CONTROLLER_FAILURES_def)
  have u: "waiting_until 2000 sample_created" by (simp add: waiting_until_def claimable_def)
  have sp: "spaced 2000 (map sample_iteration [0, 1, 2, 3, 4])" by (simp add: sample_iteration_def seconds_def)
  have un: "list_all unreachable (map sample_iteration [0, 1, 2, 3, 4])"
    by (simp add: unreachable_def sample_iteration_def)
  have "work sample_created \<le> length (map sample_iteration [0, 1, 2, 3, 4])" using w by simp
  from unreachable_controller_drains [OF sample_start_empty sample_steps(3) u sp un this, of sample_config "''worker-a''"] w
  show ?thesis by (rule conjI [rotated])
qed

text \<open>
  C21. A worker that lost its lease while it captured logs removes the cached
  snapshot of the worker that took the operation over: after its transaction the cache has no
  entry under the key that the operation's result points to.
\<close>

theorem stale_log_worker_drops_snapshot:
  assumes "get_operation db (o_id stale) = Some op" "o_lease_token op \<noteq> Some token"
    and "map_of (db_cache db) (log_key op) = Some captured"
  shows "\<exists>db'. complete_logs now capabilities stale token l db = Inr db' \<and> map_of (db_cache db') (log_key op) = None"
proof -
  have "log_key stale = log_key op" using ops.get_SomeD [OF assms(1)] by (simp add: log_key_def)
  then show ?thesis using fenced_out(4) [OF assms(1,2)] by (simp add: AList.delete_conv')
qed

theorem stale_log_worker_drops_snapshot_witness:
  "\<exists>db'. complete_logs 9000 JNull sample_leased ''another-token'' \<lparr>g_lines = [], g_cursor = [], g_truncated = False\<rparr>
       (sample_claimed\<lparr>db_cache := [(log_key sample_leased, JStr ''captured'')]\<rparr>) = Inr db'
     \<and> map_of (db_cache db') (log_key sample_leased) = None"
  by (rule stale_log_worker_drops_snapshot [of _ _ _ _ "JStr ''captured''"])
    (simp_all add: get_operation_def sample_token_def)

text \<open>
  C22. Provisioning is idempotent: the command run a second time with the same options
  reports that nothing changed and leaves the database as it is.
\<close>

theorem provisioning_idempotent:
  assumes "provision refs clear db = Inr (act, db1)"
  shows "provision refs clear db1 = Inr (''unchanged'', db1)"
  using assms by (rule provision_again)

theorem provisioning_idempotent_witness:
  "provision (Some [''portal-db'']) False sample_start = Inr (''unchanged'', sample_start)"
proof -
  have "provision (Some [''portal-db'']) False (sample_start\<lparr>db_environments := []\<rparr>) = Inr (''created'', sample_start)"
    by (simp add: provision_def guardE_def valid_secret_refs_def sample_atoms get_environment_def sample_start_def Let_def)
  from provisioning_idempotent [OF this] show ?thesis .
qed

section \<open>The event bridge\<close>


text \<open>
  C32. Sensor messages. An MQTT message on a sensor topic never becomes a dead letter: the record
  is a valid \<open>raw.sensor\<close> event that carries the decoded payload, and a payload that is not JSON is
  carried as a base64 text from which the bytes are recovered.
\<close>

theorem sensor_messages_delivered:
  assumes "pick_kafka_topic cfg (mq_topic msg) = RAW_SENSOR_TOPIC" "on_message cfg now now' msg = Inr (t, k, e)"
  shows "t = RAW_SENSOR_TOPIC \<and> validate_event t e = []
    \<and> (case Option.bind (utf8_decode (mq_payload msg)) json_loads of
         Some v \<Rightarrow> dget e ''payload'' = JObj (dict_or [(''value'', v)] v)
       | None \<Rightarrow> (\<exists>s. dget e ''payload'' = JObj [(''payload_b64'', JStr s)] \<and> b64decode s = mq_payload msg))"
  using assms(2)
proof (cases rule: on_messageE)
  case valid
  show ?thesis
    using build_event_sensor [OF assms(1) valid(1)] build_event_topic [OF valid(1)] assms(1)
    by (cases "Option.bind (utf8_decode (mq_payload msg)) json_loads")
      (simp_all add: decode_payload_def dict_or_def b64_roundtrip)
next
  case (dead t0 e0)
  then show ?thesis using build_event_sensor [OF assms(1) dead(1)] by simp
qed

theorem sensor_messages_delivered_witness:
  "\<exists>k e s. on_message sample_bridge 0 0 (sample_message ''devices/a1/telemetry'' [CHR 0x01, CHR 0xFF]) = Inr (RAW_SENSOR_TOPIC, k, e)
     \<and> dget e ''payload'' = JObj [(''payload_b64'', JStr s)] \<and> b64decode s = [CHR 0x01, CHR 0xFF]"
proof -
  let ?m = "sample_message ''devices/a1/telemetry'' [CHR 0x01, CHR 0xFF]"
  have topic: "pick_kafka_topic sample_bridge (mq_topic ?m) = RAW_SENSOR_TOPIC" using sample_topics by (simp add: sample_message_def)
  have none: "Option.bind (utf8_decode (mq_payload ?m)) json_loads = None" using sample_undecodable by (simp add: sample_message_def)
  have "\<not> isl (on_message sample_bridge 0 0 ?m)"
  proof
    assume "isl (on_message sample_bridge 0 0 ?m)"
    then obtain x where "on_message sample_bridge 0 0 ?m = Inl x" by (auto simp: isl_def)
    from on_message_raises [OF this] show False
      using none by (auto simp: decode_payload_def TIMESTAMP_FIELDS_def dget_or_def number_of_def)
  qed
  then obtain t k e where run: "on_message sample_bridge 0 0 ?m = Inr (t, k, e)"
    by (cases "on_message sample_bridge 0 0 ?m") auto
  from sensor_messages_delivered [OF topic run] none run show ?thesis by (auto simp: sample_message_def)
qed

text \<open>
  C33. Positions. Every event the bridge sends to \<open>raw.gps\<close> has a device, a time, a finite
  latitude between -90 and 90 and a finite longitude between -180 and 180 (as binary64 numbers).
\<close>

theorem gps_positions_in_range:
  "case on_message cfg now now' msg of
     Inl _ \<Rightarrow> True
   | Inr (t, _, e) \<Rightarrow> if t = RAW_GPS_TOPIC then position_ok e else True"
proof (cases "on_message cfg now now' msg")
  case (Inr y)
  obtain t k e where y: "y = (t, k, e)" by (cases y)
  from Inr y have "on_message cfg now now' msg = Inr (t, k, e)" by simp
  then show ?thesis
  proof (cases rule: on_messageE)
    case valid
    then show ?thesis using Inr y gps_valid_position by auto
  next
    case (dead t0 e0)
    have "DLQ_TOPIC \<noteq> RAW_GPS_TOPIC" by code_simp
    then show ?thesis using Inr y dead by simp
  qed
qed simp

text \<open>
  C34. A position nobody sent. A message on a GPS topic whose payload cannot be
  decoded is not a dead letter: it is published on \<open>raw.gps\<close> as a valid event at latitude 0.0 and
  longitude 0.0.
\<close>

theorem undecodable_position_published:
  assumes "pick_kafka_topic cfg (mq_topic msg) = RAW_GPS_TOPIC" "Option.bind (utf8_decode (mq_payload msg)) json_loads = None"
  shows "\<exists>e. on_message cfg now now' msg = Inr (RAW_GPS_TOPIC, pick_key cfg (mq_topic msg), e)
    \<and> dget e ''latitude'' = JFloat ''0.0'' \<and> dget e ''longitude'' = JFloat ''0.0''"
  using assms by (rule undecodable_position)

theorem undecodable_position_published_witness:
  "\<exists>k e. on_message sample_bridge 0 0 (sample_message ''wildfi/tags/WF-001/gps'' [CHR 0x01, CHR 0xFF]) = Inr (RAW_GPS_TOPIC, k, e)
     \<and> dget e ''latitude'' = JFloat ''0.0''"
  using undecodable_position_published [of sample_bridge "sample_message ''wildfi/tags/WF-001/gps'' [CHR 0x01, CHR 0xFF]" 0 0]
    sample_topics sample_undecodable by (auto simp: sample_message_def)

section \<open>The Kafka consumers\<close>

text \<open>
  C35. Offsets are committed only for what was dealt with. For every sequence of
  answers of Kafka and the database, and whatever other processes insert meanwhile, each batch a
  consumer committed is everything one poll returned, and each of its messages is settled: an
  inserted or duplicate event has a row in the table at the end of the run, and a rejected one
  is not a JSON object or was refused by the validation of the event. The table only grows.
\<close>

theorem committed_batches_persisted:
  "(case consume_batches (gps_ingestion clean full_clean) options turns (new_consumer rows m) of (c, s) \<Rightarrow>
      prefix rows (co_rows c)
      \<and> list_all (\<lambda>outs. list_ex (\<lambda>t. whole_batch t outs) turns
          \<and> list_all (settled (stored_by (gps_build clean)) (refused_by (gps_build clean) full_clean) (co_rows c)) outs) (co_committed c))
   \<and> (case consume_batches (sensor_ingestion clean' full_clean') options turns' (new_consumer rows' m) of (c, s) \<Rightarrow>
      prefix rows' (co_rows c)
      \<and> list_all (\<lambda>outs. list_ex (\<lambda>t. whole_batch t outs) turns'
          \<and> list_all (settled (stored_by (sensor_build clean')) (refused_by (sensor_build clean') full_clean') (co_rows c)) outs) (co_committed c))"
  by (rule conjI [OF gps.committed_settled sensor.committed_settled])

text \<open>
  C36. At-least-once delivery becomes exactly-once storage. When a batch was
  processed without an exception and every rejected message was refused before the table was read,
  then delivering the same values again, now or over any later table, changes no row and inserts
  nothing, provided the database answers and no other process inserts in between.
\<close>

theorem redelivery_inserts_nothing:
  assumes "process_records (gps_ingestion clean full_clean) msgs (rows, m) = ((rows', m'), Inr outs)"
    and "list_all (\<lambda>(msg, out). out \<noteq> Rejected \<or> unreadable (malformed_by (gps_build clean)) msg) outs"
    and "list_all2 (\<lambda>msg msg'. km_value msg' = km_value msg \<and> undisturbed (km_context msg')) msgs msgs'"
    and "prefix rows' later"
  shows "\<exists>m2 outs'. process_records (gps_ingestion clean full_clean) msgs' (later, m1) = ((later, m2), Inr outs')
    \<and> counts outs' Inserted = 0"
  using assms by (rule gps.redelivered)

theorem redelivery_inserts_nothing_witness:
  "\<forall>m0. \<exists>rows m' m2 outs'. process_records (gps_ingestion sample_clean sample_full_clean) [fix_message 50] ([], m0)
       = ((rows, m'), Inr [(fix_message 50, Inserted)])
     \<and> process_records (gps_ingestion sample_clean sample_full_clean) [fix_message 50] (rows, m') = ((rows, m2), Inr outs')
     \<and> counts outs' Inserted = 0"
proof
  fix m0
  obtain rows m' where run: "process_records (gps_ingestion sample_clean sample_full_clean) [fix_message 50] ([], m0)
      = ((rows, m'), Inr [(fix_message 50, Inserted)])" using fix_inserted by blast
  have "\<exists>m2 outs'. process_records (gps_ingestion sample_clean sample_full_clean) [fix_message 50] (rows, m') = ((rows, m2), Inr outs')
      \<and> counts outs' Inserted = 0"
    by (rule redelivery_inserts_nothing [OF run]) (simp_all add: fix_message_def calm_undisturbed)
  with run show "\<exists>rows m' m2 outs'. process_records (gps_ingestion sample_clean sample_full_clean) [fix_message 50] ([], m0)
       = ((rows, m'), Inr [(fix_message 50, Inserted)])
     \<and> process_records (gps_ingestion sample_clean sample_full_clean) [fix_message 50] (rows, m') = ((rows, m2), Inr outs')
     \<and> counts outs' Inserted = 0" by blast
qed


text \<open>
  C38. The metrics tell the truth. For every ingestion helper and every sequence of answers:
  the commit counter is the number of committed batches, both histograms have cumulative buckets
  bounded by their count, and unless an exception ended the loop the record counters are the
  inserted, duplicate and rejected messages of the committed batches. Once the command has ended,
  the consumer never reports itself ready.
\<close>

theorem consumer_counters_consistent:
  "case new_consumer_metrics service stale now of
     Inl _ \<Rightarrow> True
   | Inr m \<Rightarrow> (case handle_command getenv installed ingest_event options turns rows m of (c, s) \<Rightarrow>
       successes (co_metrics c) = int (length (co_committed c)) \<and> histograms_ok (co_metrics c)
       \<and> (case s of Raised _ \<Rightarrow> True | _ \<Rightarrow> tally (co_metrics c) = outcomes (co_committed c))
       \<and> (case s of Polling \<Rightarrow> True | _ \<Rightarrow> \<not> is_ready later (co_metrics c)))"
proof (cases "new_consumer_metrics service stale now")
  case (Inr m)
  obtain c s where run: "consume_batches ingest_event options turns (new_consumer rows m) = (c, s)"
    by (cases "consume_batches ingest_event options turns (new_consumer rows m)")
  have start: "counters_ok (new_consumer rows m :: ('a, 'b) consumer)" by (rule new_counters(1) [OF Inr])
  have finish: "counters_ok c" "case s of Raised _ \<Rightarrow> True | _ \<Rightarrow> counters_agree c"
    using run_counters [OF run new_counters(1) [OF Inr]] mp [OF _ new_counters(2) [OF Inr]] by blast+
  note keep = same_counters_facts [OF same_counters_steps(4)]
  have down: "\<not> is_ready later (mark_not_ready m')" for m' by (simp add: is_ready_def mark_not_ready_def)
  show ?thesis
  proof (cases "build_consumer getenv installed options")
    case (Inl e)
    then show ?thesis using Inr start keep down by (simp add: handle_command_def counters_ok_def new_consumer_def)
  next
    case (Inr b)
    then show ?thesis using \<open>new_consumer_metrics service stale now = Inr m\<close> run finish keep down
      by (cases s) (simp_all add: handle_command_def counters_ok_def counters_agree_def)
  qed
qed simp

text \<open>
  C39. One number stops the consumer. A GPS message whose payload gives the latitude as an
  integer of at least \<open>2 ^ 1024\<close>, with a valid device and time, raises OverflowError out of the loop
  of every consumer that polls it first: nothing is stored or committed, so a restarted consumer is
  delivered the same message again.
\<close>

theorem oversized_number_stops_consumer:
  assumes "decode_json (km_value msg) = Inr (Some p)" "gps_serializer clean p = Inr attrs"
    and "truthy (dget attrs ''device_id'')" "parse_event_datetime (dget attrs ''timestamp'') ''timestamp'' = Inr t0"
    and "dget attrs ''ingested_at'' = JNull" "dget attrs ''payload'' = JObj d" "dget attrs ''latitude'' = JNull"
    and "dget d ''latitude'' = JInt n" "float_limit \<le> \<bar>n\<bar>"
    and "t_records t = Inr ((part, msg # rest) # others)"
  shows "\<exists>c'. consume_batches (gps_ingestion clean full_clean) options (t # turns) c = (c', Raised OverflowError)
    \<and> co_committed c' = co_committed c \<and> co_rows c' = co_rows c"
proof -
  have "gps_build clean p = Inr (Inl OverflowError)"
    using assms(2-6) disjI1 [OF assms(7)] assms(8,9) by (rule gps_build_overflow)
  then show ?thesis by (intro raising_message_stops [OF assms(10,1)]) (simp add: gps_ingestion_built ingest_built_def)
qed

theorem oversized_number_stops_consumer_witness:
  "\<forall>options turns c. \<exists>c'. consume_batches (gps_ingestion sample_clean sample_full_clean) options
       (\<lparr>t_monotonic = 0, t_database_up = True, t_records = Inr [(''raw.gps-0'', [fix_message float_limit])], t_assigned = True,
         t_poll_monotonic = 0, t_poll_time = 0, t_commit = None\<rparr> # turns) c = (c', Raised OverflowError)
     \<and> co_committed c' = co_committed c \<and> co_rows c' = co_rows c"
proof (intro allI)
  fix options turns and c :: "(gps_fix ingest_context, gps_fix) consumer"
  let ?t = "\<lparr>t_monotonic = 0, t_database_up = True, t_records = Inr [(''raw.gps-0'', [fix_message float_limit])], t_assigned = True,
    t_poll_monotonic = 0, t_poll_time = 0, t_commit = None\<rparr> :: gps_fix ingest_context turn"
  show "\<exists>c'. consume_batches (gps_ingestion sample_clean sample_full_clean) options (?t # turns) c = (c', Raised OverflowError)
     \<and> co_committed c' = co_committed c \<and> co_rows c' = co_rows c"
    by (rule oversized_number_stops_consumer [OF fix_decoded fix_serialized _ fix_time, where part = "''raw.gps-0''" and rest = "[]"
          and others = "[]" and n = float_limit and d = "[(''latitude'', JInt float_limit), (''longitude'', JInt 4)]"])
      (simp_all add: fix_payload_def)
qed

text \<open>
  C40. The race between two workers. When the model validation checks the constraints of
  the table, as Django's does, an event that another worker inserts between the lookup and the
  validation is answered with status 400 and counted as rejected, not as the duplicate it is: the
  handler of IntegrityError is not reached.
\<close>

theorem concurrent_duplicate_rejected:
  assumes "\<And>rows e. \<not> gps_constraints rows e \<Longrightarrow> full_clean rows e \<noteq> None"
    and "gps_build clean p = Inr (Inr e)" "find_existing e rows = None"
    and "gps_constraints rows (e\<lparr>w_pk := k\<rparr>)"
    and "x_interference x = \<lparr>i_before = [], i_between = [e\<lparr>w_pk := k\<rparr>], i_saving = [], i_lookup_fails = False, i_save_fails = False\<rparr>"
  shows "\<exists>rows' b. gps_ingestion clean full_clean x p rows = (rows', Inr (b, 400))"
proof -
  let ?e = "e\<lparr>w_pk := x_pk x\<rparr>"
  have "same_hash ?e (e\<lparr>w_pk := k\<rparr>)" by (simp add: same_hash_def)
  then have "\<not> gps_constraints (rows @ [e\<lparr>w_pk := k\<rparr>]) ?e"
    using gps_build_hash [OF assms(2)] by (simp add: gps_constraints_def unique_constraints_def)
  then have "\<not> gps_constraints (inserted_by_others gps_constraints (i_between (x_interference x))
      (inserted_by_others gps_constraints (i_before (x_interference x)) rows)) ?e"
    using assms(4,5) by (simp add: inserted_by_others_def)
  then show ?thesis
    using validated_duplicate [of gps_constraints full_clean ?e "x_interference x" rows serialize_gps] assms
    by (simp add: gps_ingestion_built ingest_built_def)
qed

theorem concurrent_duplicate_rejected_witness:
  "\<exists>x rows' b. gps_ingestion sample_clean sample_full_clean x (fix_payload 50) [] = (rows', Inr (b, 400))"
proof -
  obtain e where e: "gps_build sample_clean (fix_payload 50) = Inr (Inr e)" "gf_latitude e = 50" "gf_longitude e = 4"
    using fix_built by blast
  let ?x = "\<lparr>x_interference = \<lparr>i_before = [], i_between = [e\<lparr>w_pk := ''2''\<rparr>], i_saving = [], i_lookup_fails = False, i_save_fails = False\<rparr>,
    x_pk = ''1''\<rparr>"
  have "\<exists>rows' b. gps_ingestion sample_clean sample_full_clean ?x (fix_payload 50) [] = (rows', Inr (b, 400))"
    by (rule concurrent_duplicate_rejected [OF _ e(1), where k = "''2''"])
      (simp_all add: sample_full_clean_def find_existing_def fix_accepted e split: if_splits)
  then show ?thesis by blast
qed

end
